theory Spec2Isabelle
  imports Complex_Main "HOL-Library.Word"
begin

section \<open>Life Simulator: the simulation engine of simLogic.ts\<close>

text \<open>
  Conventions of the embedding.
  \<^item> A JavaScript number that holds a measurement (energy, hydration, a trait, a random
    draw) is a \<open>real\<close>: no rounding to binary64 or to the 32-bit floats of a
    \<open>Float32Array\<close>, no NaN. A number that holds a count, an index, a coordinate or a
    tick is an \<open>int\<close>.
  \<^item> The string enums of types.ts are datatypes. The engine stores them as small integers
    (\<open>lifeTypeA\<close>, \<open>dietA\<close>, \<open>classA\<close>, \<open>activityA\<close>, \<open>prefBiomeA\<close>,
    \<open>reproStateA\<close>, \<open>biomeMap\<close>); the constructors are listed in the order of these
    codes, so the first constructor is the value a freshly allocated (zeroed) array holds.
  \<^item> The module-level variables are the fields of the record \<open>sim\<close>; every function
    that writes one takes the state and returns the new one.
  \<^item> The parallel entity arrays (\<open>xA\<close>, \<open>energyA\<close>, ...) are the fields of the record
    \<open>entity\<close>, and \<open>ent s i\<close> is row \<open>i\<close> across them; the twenty-four allele arrays
    \<open>hostG1A\<close> ... \<open>maxAgeG2A\<close> are the field \<open>genesA\<close>, an \<open>EggGenes\<close> value.
  \<^item> The tile-indexed arrays that the code reads with an index it has not checked
    (\<open>occ\<close>, \<open>waterMap\<close>) are partial maps whose domain is the allocated range: a read
    outside gives \<open>None\<close> (JavaScript's \<open>undefined\<close>) and a write outside is dropped, as
    a typed array does.
\<close>

subsection \<open>Enumerations (types.ts)\<close>

datatype LifeType = Plant | Animal
datatype Diet = Photosynthesis | Herbivore | Carnivore | Omnivore
datatype Reproduction = Asexual | Sexual
datatype ActivityCycle = Diurnal | Nocturnal | Cathemeral
datatype SpeciesClass = Fish | Mammal | Bird | Reptile | Amphibian | Insect
datatype Biome = Grassland | Forest | Desert | Tundra | Wetlands | Ocean
datatype ReproductionState = Ready | Gestating | Cooldown | Incubating

subsection \<open>Constants\<close>

definition MAX_ENTITIES :: int where "MAX_ENTITIES = 120000"
definition SPECIES_MAX :: int where "SPECIES_MAX = 2048"
definition ALLELE_MAX :: int where "ALLELE_MAX = 255"
definition MATURITY_MIN :: int where "MATURITY_MIN = 500"
definition MATURITY_MAX :: int where "MATURITY_MAX = 6000"
definition MAX_AGE_MIN :: int where "MAX_AGE_MIN = 12000"
definition MAX_AGE_MAX :: int where "MAX_AGE_MAX = 52000"
definition CHILD_ENERGY_START :: real where "CHILD_ENERGY_START = 48 / 100"
definition DIET_SHIFT_PENALTY_TICKS :: int where "DIET_SHIFT_PENALTY_TICKS = 1800"
definition MUT_GLW_TICKS :: int where "MUT_GLW_TICKS = 600"
definition MAX_EGGS :: nat where "MAX_EGGS = 10000"
definition DAY_LENGTH :: int where "DAY_LENGTH = 2400"

subsection \<open>Number helpers\<close>

definition clamp01 :: "real \<Rightarrow> real" where
  "clamp01 n = (if n < 0 then 0 else if n > 1 then 1 else n)"

text \<open>\<open>Math.round\<close>: the nearest integer, a half rounded up.\<close>

definition js_round :: "real \<Rightarrow> int" where
  "js_round v = \<lfloor>v + 1 / 2\<rfloor>"

text \<open>\<open>v | 0\<close>: truncation towards zero, then reduction to a signed 32-bit integer.\<close>

definition js_or0 :: "real \<Rightarrow> int" where
  "js_or0 v = (let t = (if v < 0 then \<lceil>v\<rceil> else \<lfloor>v\<rfloor>)
               in (t + 2147483648) mod 4294967296 - 2147483648)"

text \<open>\<open>a % b\<close> on integers: the remainder has the sign of the dividend.\<close>

definition js_rem :: "int \<Rightarrow> int \<Rightarrow> int" where
  "js_rem a b = (if a < 0 then - (\<bar>a\<bar> mod \<bar>b\<bar>) else a mod \<bar>b\<bar>)"

text \<open>The coercions of a store into an \<open>Int16Array\<close> and a \<open>Uint8Array\<close>.\<close>

definition to_int16 :: "int \<Rightarrow> int" where
  "to_int16 v = (v + 32768) mod 65536 - 32768"

definition to_uint8 :: "int \<Rightarrow> int" where
  "to_uint8 v = v mod 256"

subsection \<open>The seeded generator\<close>

text \<open>
  \<open>RNG_S = (RNG_S * 1664525 + 1013904223) >>> 0; return RNG_S / 0xffffffff\<close>.
  The product stays below \<open>2^53\<close>, so the double arithmetic is exact and the update is
  the 32-bit one. The draw lies in \<open>[0, 1]\<close>, both ends included.
\<close>

definition rng :: "32 word \<Rightarrow> real \<times> 32 word" where
  "rng g = (let g' = g * 1664525 + 1013904223 in (real (unat g') / 4294967295, g'))"

text \<open>\<open>(seed >>> 0) || 1\<close> for an integral seed.\<close>

definition seed_u32 :: "int \<Rightarrow> 32 word" where
  "seed_u32 seed = (if (word_of_int seed :: 32 word) = 0 then 1 else word_of_int seed)"

subsection \<open>Alleles\<close>

definition clampU8 :: "real \<Rightarrow> int" where
  "clampU8 v = max 0 (min ALLELE_MAX (js_round v))"

definition encodeAllele01 :: "real \<Rightarrow> int" where
  "encodeAllele01 v = clampU8 (clamp01 v * real_of_int ALLELE_MAX)"

definition decodeAllele01 :: "int \<Rightarrow> real" where
  "decodeAllele01 a = real_of_int a / real_of_int ALLELE_MAX"

definition decodeTrait :: "int \<Rightarrow> int \<Rightarrow> real" where
  "decodeTrait a1 a2 = (decodeAllele01 a1 + decodeAllele01 a2) * (1 / 2)"

definition decodeAgeTrait :: "int \<Rightarrow> int \<Rightarrow> int \<Rightarrow> int \<Rightarrow> int" where
  "decodeAgeTrait a1 a2 mn mx =
     js_round (real_of_int mn + decodeTrait a1 a2 * real_of_int (mx - mn))"

definition mutateAllele :: "int \<Rightarrow> real \<Rightarrow> 32 word \<Rightarrow> int \<times> 32 word" where
  "mutateAllele a rate g =
     (let (r1, g1) = rng g in
      if r1 < rate
      then (let (r2, g2) = rng g1 in (clampU8 (real_of_int a + (r2 - 1 / 2) * 18 * 2), g2))
      else (a, g1))"

definition pickAllele :: "int \<Rightarrow> int \<Rightarrow> 32 word \<Rightarrow> int \<times> 32 word" where
  "pickAllele a1 a2 g = (let (r, g1) = rng g in (if r < 1 / 2 then a1 else a2, g1))"

subsection \<open>Genome, genes, entity rows\<close>

record Genome =
  speciesId :: int
  lifeType :: LifeType
  speciesClass :: SpeciesClass
  diet :: Diet
  reproduction :: Reproduction
  hostility :: real
  speed :: real
  sizeT :: real
  vision :: real
  fertility :: real
  maturityAge :: real
  maxAge :: real
  camouflage :: real
  sociality :: real
  activity :: ActivityCycle
  temperatureTolerance :: real
  preferredBiome :: Biome
  seedSpread :: real
  mutationRate :: real
  supplementalCarnivory :: bool

text \<open>\<open>EggGenes\<close>: for each quantitative trait the pair of its alleles.\<close>

record EggGenes =
  hostility_al :: "int \<times> int"
  speed_al :: "int \<times> int"
  size_al :: "int \<times> int"
  vision_al :: "int \<times> int"
  fertility_al :: "int \<times> int"
  camouflage_al :: "int \<times> int"
  sociality_al :: "int \<times> int"
  temperatureTolerance_al :: "int \<times> int"
  seedSpread_al :: "int \<times> int"
  mutationRate_al :: "int \<times> int"
  maturityAge_al :: "int \<times> int"
  maxAge_al :: "int \<times> int"

record entity =
  idA :: int
  xA :: int
  yA :: int
  energyA :: real
  hydrationA :: real
  ageA :: int
  aliveA :: bool
  adultA :: bool
  speciesA :: int
  lifeTypeA :: LifeType
  classA :: SpeciesClass
  dietA :: Diet
  reproA :: Reproduction
  hostilityA :: real
  speedA :: real
  sizeA :: real
  visionA :: real
  fertilityA :: real
  maturityA :: int
  maxAgeA :: int
  camoA :: real
  socialA :: real
  activityA :: ActivityCycle
  tempTolA :: real
  prefBiomeA :: Biome
  seedSpreadA :: real
  mutRateA :: real
  supplementalCarnA :: bool
  plantFeedHistoryA :: real
  preyFeedHistoryA :: real
  starvationStressA :: real
  dietShiftPenaltyA :: int
  plantTrapCooldownA :: int
  reproStateA :: ReproductionState
  reproTimerA :: int
  gestationTimeA :: int
  breedingReadinessA :: real
  lastReproTickA :: int
  glowUntil :: int
  genesA :: EggGenes


text \<open>\<open>EntitySnapshot\<close>, what \<open>inspect\<close> returns.\<close>

record EntitySnapshot =
  snapId :: int
  snapX :: int
  snapY :: int
  snapGenome :: Genome
  energy :: real
  hydration :: real
  age :: int
  alive :: bool
  isAdult :: bool
  reproductionState :: ReproductionState
  reproductionTimer :: int
  breedingReadiness :: real

text \<open>
  \<open>EggData\<close>. \<open>parentId2\<close> is \<open>None\<close> for JavaScript's \<open>null\<close>.
\<close>

record EggData =
  eggSpeciesId :: int
  parentId1 :: int
  parentId2 :: "int option"
  eggGenome :: Genome
  eggGenes :: EggGenes
  shiftedDiet :: bool
  incubationTime :: int
  maxIncubationTime :: int
  eggX :: int
  eggY :: int
  viability :: real

text \<open>
  \<open>MutationEvent\<close>, without the two descriptive fields \<open>deltas\<close> and
  \<open>ecologicalContext\<close> (a table of rounded differences and a label string, computed by
  \<open>genomeDeltas\<close> and \<open>inferEcologicalContext\<close> from values that are read only).
\<close>

record MutationEvent =
  evTick :: int
  parentSpeciesId :: int
  newSpeciesId :: int
  entityId :: int
  evLifeType :: LifeType
  countBorn :: int

record BehaviorTuning =
  thirstWeight :: real
  hungerWeight :: real
  mateWeight :: real
  fearWeight :: real
  motiveMoveBoostMax :: real
  opportunisticFeedChance :: real
  reproductionReadinessThreshold :: real
  animalMetabolismMultiplier :: real
  plantBiteAmount :: real
  attackEnergyGain :: real

record DailyPopulationStats =
  dsDay :: int
  births :: int
  birthsPlants :: int
  birthsAnimals :: int
  deaths :: int
  deathsPlants :: int
  deathsAnimals :: int
  startPopulation :: int
  startPlants :: int
  startAnimals :: int

subsection \<open>The module state\<close>

text \<open>
  The module-level variables of simLogic.ts that the simulation reads or writes. Left out:
  the render caches, the trail history, the species-statistics table and the
  cause-of-death tallies (written for display, read by no rule of the simulation), and
  \<open>running\<close>, \<open>simRate\<close> of \<open>stepTime\<close>.
\<close>

record sim =
  gridW :: int
  gridH :: int
  RNG_S :: "32 word"
  weatherSeed :: "32 word"
  tick :: int
  acc :: real
  count :: int
  total :: int
  animals :: int
  plants :: int
  occ :: "int \<rightharpoonup> int"
  ent :: "int \<Rightarrow> entity"
  biomeMap :: "int \<Rightarrow> Biome"
  waterMap :: "int \<rightharpoonup> bool"
  waterDistanceMap :: "int \<Rightarrow> real"
  moistureMap :: "int \<Rightarrow> real"
  fireTTLMap :: "int \<Rightarrow> int"
  activeFires :: "int list"
  activeFireCount :: int
  lastLightningTick :: int
  rainCoverageNow :: real
  MUTATION_LOG :: "MutationEvent list"
  eggs :: "EggData list"
  behaviorTuning :: BehaviorTuning
  currentDayStats :: "DailyPopulationStats option"
  lastDayStats :: "DailyPopulationStats option"

subsection \<open>Typed arrays indexed by tile\<close>

definition ta_new :: "int \<Rightarrow> 'a \<Rightarrow> (int \<rightharpoonup> 'a)" where
  "ta_new n v = (\<lambda>k. if 0 \<le> k \<and> k < n then Some v else None)"

definition ta_set :: "(int \<rightharpoonup> 'a) \<Rightarrow> int \<Rightarrow> 'a \<Rightarrow> (int \<rightharpoonup> 'a)" where
  "ta_set a k v = (if a k = None then a else a(k \<mapsto> v))"

definition idx :: "sim \<Rightarrow> int \<Rightarrow> int \<Rightarrow> int" where
  "idx s x y = y * gridW s + x"

text \<open>Row \<open>i\<close> of the entity arrays, updated by \<open>f\<close>.\<close>

definition upd :: "int \<Rightarrow> (entity \<Rightarrow> entity) \<Rightarrow> sim \<Rightarrow> sim" where
  "upd i f s = s\<lparr>ent := (ent s)(i := f (ent s i))\<rparr>"

text \<open>One draw from the module's generator.\<close>

definition rngS :: "sim \<Rightarrow> real \<times> sim" where
  "rngS s = (let (r, g) = rng (RNG_S s) in (r, s\<lparr>RNG_S := g\<rparr>))"

subsection \<open>Occupancy: placeAt, removeAt, moveEntity\<close>

definition placeAt :: "int \<Rightarrow> int \<Rightarrow> int \<Rightarrow> sim \<Rightarrow> bool \<times> sim" where
  "placeAt i x y s =
     (let k = idx s x y in
      if occ s k \<noteq> Some (- 1) then (False, s)
      else (True, (upd i (\<lambda>e. e\<lparr>xA := x, yA := y\<rparr>) s)\<lparr>occ := ta_set (occ s) k i\<rparr>))"

definition removeAt :: "int \<Rightarrow> sim \<Rightarrow> sim" where
  "removeAt i s =
     (if \<not> aliveA (ent s i) then s
      else
        let s1 = upd i (\<lambda>e. e\<lparr>aliveA := False\<rparr>) s;
            k = idx s1 (xA (ent s1 i)) (yA (ent s1 i));
            s2 = (if occ s1 k = Some i then s1\<lparr>occ := ta_set (occ s1) k (- 1)\<rparr> else s1);
            s3 = s2\<lparr>total := total s2 - 1\<rparr>
        in if lifeTypeA (ent s3 i) = Animal then s3\<lparr>animals := animals s3 - 1\<rparr>
           else s3\<lparr>plants := plants s3 - 1\<rparr>)"

text \<open>
  \<open>moveEntity\<close>; the call of \<open>updateEntityTrail\<close> writes the trail history only.
\<close>

definition moveEntity :: "int \<Rightarrow> int \<Rightarrow> int \<Rightarrow> sim \<Rightarrow> bool \<times> sim" where
  "moveEntity i nx ny s =
     (if nx < 0 \<or> ny < 0 \<or> nx \<ge> gridW s \<or> ny \<ge> gridH s then (False, s)
      else
        let to = idx s nx ny in
        if occ s to \<noteq> Some (- 1) then (False, s)
        else
          let from = idx s (xA (ent s i)) (yA (ent s i));
              s1 = s\<lparr>occ := ta_set (ta_set (occ s) from (- 1)) to i\<rparr>
          in (True, upd i (\<lambda>e. e\<lparr>xA := nx, yA := ny\<rparr>) s1))"

subsection \<open>Genes and phenotype\<close>

definition u8pair :: "int \<times> int \<Rightarrow> int \<times> int" where
  "u8pair p = (to_uint8 (fst p), to_uint8 (snd p))"

definition setTraitAlleles :: "int \<Rightarrow> EggGenes \<Rightarrow> sim \<Rightarrow> sim" where
  "setTraitAlleles i g s =
     upd i (\<lambda>e. e\<lparr>genesA :=
       \<lparr> hostility_al = u8pair (hostility_al g),
         speed_al = u8pair (speed_al g),
         size_al = u8pair (size_al g),
         vision_al = u8pair (vision_al g),
         fertility_al = u8pair (fertility_al g),
         camouflage_al = u8pair (camouflage_al g),
         sociality_al = u8pair (sociality_al g),
         temperatureTolerance_al = u8pair (temperatureTolerance_al g),
         seedSpread_al = u8pair (seedSpread_al g),
         mutationRate_al = u8pair (mutationRate_al g),
         maturityAge_al = u8pair (maturityAge_al g),
         maxAge_al = u8pair (maxAge_al g) \<rparr>\<rparr>) s"

text \<open>\<open>encodeAllele01(jitter(v, r))\<close> twice, left to right: one allele pair.\<close>

definition jitter :: "real \<Rightarrow> real \<Rightarrow> 32 word \<Rightarrow> real \<times> 32 word" where
  "jitter v r g = (let (d, g1) = rng g in (clamp01 (v + (d - 1 / 2) * r), g1))"

definition jitterPair :: "real \<Rightarrow> real \<Rightarrow> 32 word \<Rightarrow> (int \<times> int) \<times> 32 word" where
  "jitterPair v r g =
     (let (j1, g1) = jitter v r g; (j2, g2) = jitter v r g1
      in ((encodeAllele01 j1, encodeAllele01 j2), g2))"

definition genesFromGenome :: "Genome \<Rightarrow> 32 word \<Rightarrow> EggGenes \<times> 32 word" where
  "genesFromGenome g g0 =
     (let maturityNorm = clamp01 ((maturityAge g - real_of_int MATURITY_MIN)
                                   / real_of_int (MATURITY_MAX - MATURITY_MIN));
          maxAgeNorm = clamp01 ((maxAge g - real_of_int MAX_AGE_MIN)
                                 / real_of_int (MAX_AGE_MAX - MAX_AGE_MIN));
          (ho, g1) = jitterPair (hostility g) (8 / 100) g0;
          (sp, g2) = jitterPair (if lifeType g = Plant then 0 else speed g) (8 / 100) g1;
          (sz, g3) = jitterPair (sizeT g) (8 / 100) g2;
          (vi, g4) = jitterPair (if lifeType g = Plant then 0 else vision g) (8 / 100) g3;
          (fe, g5) = jitterPair (fertility g) (8 / 100) g4;
          (ca, g6) = jitterPair (camouflage g) (8 / 100) g5;
          (so, g7) = jitterPair (sociality g) (8 / 100) g6;
          (te, g8) = jitterPair (temperatureTolerance g) (8 / 100) g7;
          (se, g9) = jitterPair (if lifeType g = Plant then seedSpread g else 0) (8 / 100) g8;
          (mu, g10) = jitterPair (mutationRate g) (3 / 100) g9;
          (ma, g11) = jitterPair maturityNorm (4 / 100) g10;
          (mx, g12) = jitterPair maxAgeNorm (4 / 100) g11
      in (\<lparr> hostility_al = ho, speed_al = sp, size_al = sz, vision_al = vi,
            fertility_al = fe, camouflage_al = ca, sociality_al = so,
            temperatureTolerance_al = te, seedSpread_al = se, mutationRate_al = mu,
            maturityAge_al = ma, maxAge_al = mx \<rparr>, g12))"

definition dt :: "int \<times> int \<Rightarrow> real" where
  "dt p = decodeTrait (fst p) (snd p)"

definition applyPhenotypeFromGenes :: "int \<Rightarrow> sim \<Rightarrow> sim" where
  "applyPhenotypeFromGenes i s =
     upd i (\<lambda>e.
       let a = genesA e;
           mat = decodeAgeTrait (fst (maturityAge_al a)) (snd (maturityAge_al a))
                   MATURITY_MIN MATURITY_MAX
       in e\<lparr> hostilityA := dt (hostility_al a),
             speedA := (if lifeTypeA e = Plant then 0 else dt (speed_al a)),
             sizeA := dt (size_al a),
             visionA := (if lifeTypeA e = Plant then 0 else dt (vision_al a)),
             fertilityA := dt (fertility_al a),
             camoA := dt (camouflage_al a),
             socialA := dt (sociality_al a),
             tempTolA := dt (temperatureTolerance_al a),
             seedSpreadA := (if lifeTypeA e = Plant then dt (seedSpread_al a) else 0),
             mutRateA := dt (mutationRate_al a),
             maturityA := mat,
             maxAgeA := max (mat + 200)
                          (decodeAgeTrait (fst (maxAge_al a)) (snd (maxAge_al a))
                             MAX_AGE_MIN MAX_AGE_MAX) \<rparr>) s"

definition normalizeDiet :: "LifeType \<Rightarrow> Diet \<Rightarrow> Diet" where
  "normalizeDiet lt d =
     (if lt = Plant then Photosynthesis else (if d = Photosynthesis then Herbivore else d))"

definition normalizeSpeciesClass :: "LifeType \<Rightarrow> SpeciesClass \<Rightarrow> SpeciesClass" where
  "normalizeSpeciesClass lt c = (if lt = Plant then Insect else c)"

definition applyGenome :: "int \<Rightarrow> Genome \<Rightarrow> sim \<Rightarrow> sim" where
  "applyGenome i g s =
     (let s1 = upd i (\<lambda>e. e\<lparr> speciesA := to_int16 (speciesId g),
                              lifeTypeA := lifeType g,
                              classA := normalizeSpeciesClass (lifeType g) (speciesClass g),
                              dietA := normalizeDiet (lifeType g) (diet g),
                              reproA := reproduction g,
                              activityA := activity g,
                              tempTolA := temperatureTolerance g,
                              prefBiomeA := preferredBiome g \<rparr>) s;
          (genes, g1) = genesFromGenome g (RNG_S s1);
          s2 = setTraitAlleles i genes (s1\<lparr>RNG_S := g1\<rparr>);
          s3 = upd i (\<lambda>e. e\<lparr> supplementalCarnA := (lifeType g = Plant \<and> supplementalCarnivory g),
                              plantFeedHistoryA := 0,
                              preyFeedHistoryA := 0,
                              starvationStressA := 0,
                              dietShiftPenaltyA := 0,
                              plantTrapCooldownA := 0 \<rparr>) s2
      in applyPhenotypeFromGenes i s3)"

definition genomeOf :: "entity \<Rightarrow> Genome" where
  "genomeOf e =
     \<lparr> speciesId = speciesA e, lifeType = lifeTypeA e, speciesClass = classA e,
       diet = dietA e, reproduction = reproA e, hostility = hostilityA e, speed = speedA e,
       sizeT = sizeA e, vision = visionA e, fertility = fertilityA e,
       maturityAge = real_of_int (maturityA e), maxAge = real_of_int (maxAgeA e),
       camouflage = camoA e, sociality = socialA e, activity = activityA e,
       temperatureTolerance = tempTolA e, preferredBiome = prefBiomeA e,
       seedSpread = seedSpreadA e, mutationRate = mutRateA e,
       supplementalCarnivory = (lifeTypeA e = Plant \<and> supplementalCarnA e) \<rparr>"

definition encodeEntity :: "sim \<Rightarrow> int \<Rightarrow> EntitySnapshot" where
  "encodeEntity s i =
     (let e = ent s i in
      \<lparr> snapId = idA e, snapX = xA e, snapY = yA e, snapGenome = genomeOf e,
        energy = energyA e, hydration = hydrationA e, age = ageA e, alive = aliveA e,
        isAdult = adultA e, reproductionState = reproStateA e,
        reproductionTimer = reproTimerA e, breedingReadiness = breedingReadinessA e \<rparr>)"


subsection \<open>Random genomes and world seeding\<close>

text \<open>
  \<open>classes[(rng() * 6) | 0]\<close> and \<open>BIOMES[(rng() * 6) | 0]\<close>. The index is 6 when the
  draw is exactly 1; the lookup is then \<open>undefined\<close>, which \<open>applyGenome\<close> stores as
  code 0.
\<close>

definition classOfIndex :: "int \<Rightarrow> SpeciesClass" where
  "classOfIndex k =
     (if k = 1 then Mammal else if k = 2 then Bird else if k = 3 then Reptile
      else if k = 4 then Amphibian else if k = 5 then Insect else Fish)"

definition biomeOfIndex :: "int \<Rightarrow> Biome" where
  "biomeOfIndex k =
     (if k = 1 then Forest else if k = 2 then Desert else if k = 3 then Tundra
      else if k = 4 then Wetlands else if k = 5 then Ocean else Grassland)"

text \<open>A draw that is made only under a condition.\<close>

definition draw_if :: "bool \<Rightarrow> 32 word \<Rightarrow> real \<times> 32 word" where
  "draw_if c g = (if c then rng g else (0, g))"

definition randomDiet :: "bool \<Rightarrow> 32 word \<Rightarrow> Diet \<times> 32 word" where
  "randomDiet isPlant g =
     (if isPlant then (Photosynthesis, g)
      else let (r1, g1) = rng g in
           if r1 < 55 / 100 then (Herbivore, g1)
           else let (r2, g2) = rng g1 in (if r2 < 1 / 2 then Carnivore else Omnivore, g2))"

definition randomActivity :: "32 word \<Rightarrow> ActivityCycle \<times> 32 word" where
  "randomActivity g =
     (let (r1, g1) = rng g in
      if r1 < 6 / 10 then (Diurnal, g1)
      else let (r2, g2) = rng g1 in (if r2 < 8 / 10 then Nocturnal else Cathemeral, g2))"

definition randomGenome :: "LifeType \<Rightarrow> 32 word \<Rightarrow> Genome \<times> 32 word" where
  "randomGenome life g0 =
     (let isPlant = (life = Plant);
          (rc, g1) = draw_if (\<not> isPlant) g0;
          cls = (if isPlant then Insect else classOfIndex (js_or0 (rc * 6)));
          (di, g2) = randomDiet isPlant g1;
          (act, g3) = randomActivity g2;
          (rb, g4) = rng g3;
          (rs, g5) = rng g4;
          (rr, g6) = rng g5;
          (rh, g7) = draw_if (\<not> isPlant) g6;
          (rv, g8) = draw_if (\<not> isPlant) g7;
          (rz, g9) = rng g8;
          (ri, g10) = draw_if (\<not> isPlant) g9;
          (rf, g11) = rng g10;
          (rm, g12) = rng g11;
          (rx, g13) = rng g12;
          (rca, g14) = rng g13;
          (rso, g15) = rng g14;
          (rt, g16) = rng g15;
          (rsd, g17) = draw_if isPlant g16;
          (rmu, g18) = rng g17;
          (rsc, g19) = draw_if isPlant g18
      in (\<lparr> speciesId = js_or0 (rs * real_of_int SPECIES_MAX),
            lifeType = life,
            speciesClass = cls,
            diet = di,
            reproduction = (if isPlant then (if rr < 6 / 10 then Asexual else Sexual)
                            else (if rr < 8 / 10 then Sexual else Asexual)),
            hostility = (if isPlant then 0 else rh * rh),
            speed = (if isPlant then 0 else rv),
            sizeT = (if isPlant then rz * (6 / 10) else rz),
            vision = (if isPlant then 0 else ri),
            fertility = clamp01 (3 / 10 + rf * (5 / 10)),
            maturityAge = real_of_int \<lfloor>real_of_int MATURITY_MIN
                            + rm * real_of_int (MATURITY_MAX - MATURITY_MIN)\<rfloor>,
            maxAge = real_of_int \<lfloor>real_of_int MAX_AGE_MIN
                       + rx * real_of_int (MAX_AGE_MAX - MAX_AGE_MIN)\<rfloor>,
            camouflage = (if isPlant then clamp01 (4 / 10 + rca * (5 / 10)) else rca),
            sociality = rso,
            activity = act,
            temperatureTolerance = clamp01 (3 / 10 + rt * (6 / 10)),
            preferredBiome = biomeOfIndex (js_or0 (rb * 6)),
            seedSpread = (if isPlant then rsd else 0),
            mutationRate = clamp01 (4 / 100 + rmu * (12 / 100)),
            supplementalCarnivory = (isPlant \<and> rsc < 2 / 100) \<rparr>, g19))"

text \<open>
  The placement loop of \<open>addEntity\<close>: up to \<open>n\<close> random tiles are tried; a fish skips
  a tile that is not water.
\<close>

primrec addEntity_place :: "nat \<Rightarrow> int \<Rightarrow> sim \<Rightarrow> sim" where
  "addEntity_place 0 i s = s"
| "addEntity_place (Suc n) i s =
     (let (rx, s1) = rngS s;
          x = js_or0 (rx * real_of_int (gridW s));
          (ry, s2) = rngS s1;
          y = js_or0 (ry * real_of_int (gridH s))
      in if lifeTypeA (ent s2 i) = Animal \<and> classA (ent s2 i) = Fish
            \<and> waterMap s2 (idx s2 x y) \<noteq> Some True
         then addEntity_place n i s2
         else (let (ok, s3) = placeAt i x y s2 in
               if ok then s3 else addEntity_place n i s3))"

definition countLife :: "int \<Rightarrow> sim \<Rightarrow> sim" where
  "countLife i s =
     (let s1 = s\<lparr>total := total s + 1\<rparr> in
      if lifeTypeA (ent s1 i) = Animal then s1\<lparr>animals := animals s1 + 1\<rparr>
      else s1\<lparr>plants := plants s1 + 1\<rparr>)"

definition addEntity :: "Genome \<Rightarrow> real \<Rightarrow> int \<Rightarrow> sim \<Rightarrow> sim" where
  "addEntity g en ag s =
     (if count s \<ge> MAX_ENTITIES then s
      else
        let i = count s;
            s1 = s\<lparr>count := count s + 1\<rparr>;
            s2 = upd i (\<lambda>e. e\<lparr>idA := i + 1\<rparr>) s1;
            s3 = applyGenome i g s2;
            s4 = upd i (\<lambda>e. e\<lparr>aliveA := True, adultA := False, energyA := en,
                                hydrationA := 1, ageA := ag\<rparr>) s3;
            s5 = addEntity_place 20 i s4
        in countLife i s5)"

text \<open>
  One iteration of a loop of \<open>seedWorld\<close>: the arguments of \<open>addEntity\<close> are
  evaluated left to right (genome, energy, age).
\<close>

definition seedOne :: "LifeType \<Rightarrow> sim \<Rightarrow> sim" where
  "seedOne life s =
     (let (g, g1) = randomGenome life (RNG_S s);
          (re, g2) = rng g1;
          (ra, g3) = rng g2;
          s1 = s\<lparr>RNG_S := g3\<rparr>
      in if life = Plant
         then addEntity g (62 / 100 + re * (28 / 100)) (js_or0 (ra * 40)) s1
         else addEntity g (58 / 100 + re * (32 / 100)) (js_or0 (ra * 60)) s1)"

primrec seedLoop :: "LifeType \<Rightarrow> nat \<Rightarrow> sim \<Rightarrow> sim" where
  "seedLoop life 0 s = s"
| "seedLoop life (Suc n) s = seedLoop life n (seedOne life s)"

definition seedWorld :: "int \<Rightarrow> int \<Rightarrow> sim \<Rightarrow> sim" where
  "seedWorld plantCount animalCount s =
     seedLoop Animal (nat animalCount) (seedLoop Plant (nat plantCount) s)"

subsection \<open>alloc, init, reseed\<close>

definition zeroGenes :: EggGenes where
  "zeroGenes =
     \<lparr> hostility_al = (0, 0), speed_al = (0, 0), size_al = (0, 0), vision_al = (0, 0),
       fertility_al = (0, 0), camouflage_al = (0, 0), sociality_al = (0, 0),
       temperatureTolerance_al = (0, 0), seedSpread_al = (0, 0), mutationRate_al = (0, 0),
       maturityAge_al = (0, 0), maxAge_al = (0, 0) \<rparr>"

text \<open>A row of freshly allocated arrays: every element is zero.\<close>

definition zeroEntity :: entity where
  "zeroEntity =
     \<lparr> idA = 0, xA = 0, yA = 0, energyA = 0, hydrationA = 0, ageA = 0, aliveA = False,
       adultA = False, speciesA = 0, lifeTypeA = Plant, classA = Fish,
       dietA = Photosynthesis, reproA = Asexual, hostilityA = 0, speedA = 0, sizeA = 0,
       visionA = 0, fertilityA = 0, maturityA = 0, maxAgeA = 0, camoA = 0, socialA = 0,
       activityA = Diurnal, tempTolA = 0, prefBiomeA = Grassland, seedSpreadA = 0,
       mutRateA = 0, supplementalCarnA = False, plantFeedHistoryA = 0,
       preyFeedHistoryA = 0, starvationStressA = 0, dietShiftPenaltyA = 0,
       plantTrapCooldownA = 0, reproStateA = Ready, reproTimerA = 0, gestationTimeA = 0,
       breedingReadinessA = 0, lastReproTickA = 0, glowUntil = 0, genesA = zeroGenes \<rparr>"

definition alloc :: "sim \<Rightarrow> sim" where
  "alloc s =
     s\<lparr> occ := ta_new (gridW s * gridH s) (- 1),
        ent := (\<lambda>_. zeroEntity),
        biomeMap := (\<lambda>_. Grassland),
        waterMap := ta_new (gridW s * gridH s) False,
        waterDistanceMap := (\<lambda>_. 0),
        moistureMap := (\<lambda>_. 0),
        fireTTLMap := (\<lambda>_. 0) \<rparr>"

definition normalizeWorldSize :: "int \<Rightarrow> int" where
  "normalizeWorldSize v = max 120 (min 2048 v)"

definition setWorldSize :: "int \<Rightarrow> int \<Rightarrow> sim \<Rightarrow> sim" where
  "setWorldSize width height s =
     s\<lparr>gridW := normalizeWorldSize width, gridH := normalizeWorldSize height\<rparr>"

definition makeDayStats :: "int \<Rightarrow> int \<Rightarrow> int \<Rightarrow> int \<Rightarrow> DailyPopulationStats" where
  "makeDayStats d sp spl san =
     \<lparr> dsDay = d, births = 0, birthsPlants = 0, birthsAnimals = 0, deaths = 0,
       deathsPlants = 0, deathsAnimals = 0, startPopulation = sp, startPlants = spl,
       startAnimals = san \<rparr>"

definition resetPopulationDiagnostics :: "sim \<Rightarrow> sim" where
  "resetPopulationDiagnostics s =
     s\<lparr> currentDayStats :=
          Some (makeDayStats (tick s div DAY_LENGTH + 1) (total s) (plants s) (animals s)),
        lastDayStats := None \<rparr>"

text \<open>
  What \<open>buildEnv(seed)\<close> leaves behind: the four environment maps and the generator.
  Its noise fields hash coordinates with \<open>Math.sin\<close>; the function reads \<open>seed\<close>,
  \<open>W\<close>, \<open>H\<close> and the generator, and writes nothing else, so \<open>init\<close> and \<open>reseed\<close> take
  it as a parameter of this type. Its last stage, \<open>precomputeHydrology\<close>, is modelled
  below on its own.
\<close>

record envmaps =
  env_biomeMap :: "int \<Rightarrow> Biome"
  env_waterMap :: "int \<rightharpoonup> bool"
  env_waterDistanceMap :: "int \<Rightarrow> real"
  env_moistureMap :: "int \<Rightarrow> real"

type_synonym envbuilder = "int \<Rightarrow> int \<Rightarrow> int \<Rightarrow> 32 word \<Rightarrow> envmaps \<times> 32 word"

definition buildEnv :: "envbuilder \<Rightarrow> int \<Rightarrow> sim \<Rightarrow> sim" where
  "buildEnv eb seed s =
     (let (m, g) = eb seed (gridW s) (gridH s) (RNG_S s) in
      s\<lparr> biomeMap := env_biomeMap m, waterMap := env_waterMap m,
         waterDistanceMap := env_waterDistanceMap m, moistureMap := env_moistureMap m,
         RNG_S := g \<rparr>)"

definition init :: "envbuilder \<Rightarrow> int \<Rightarrow> int \<Rightarrow> int \<Rightarrow> int \<Rightarrow> int \<Rightarrow> sim \<Rightarrow> sim" where
  "init eb seed startPlantsN startAnimalsN worldWidth worldHeight s =
     (let s1 = setWorldSize worldWidth worldHeight s;
          s2 = s1\<lparr> RNG_S := seed_u32 seed, weatherSeed := seed_u32 seed,
                  lastLightningTick := - 1, activeFires := [], activeFireCount := 0 \<rparr>;
          s3 = alloc s2;
          s4 = buildEnv eb seed s3;
          s5 = seedWorld startPlantsN startAnimalsN s4
      in resetPopulationDiagnostics s5)"

definition reseed :: "envbuilder \<Rightarrow> int \<Rightarrow> int \<Rightarrow> int \<Rightarrow> int \<Rightarrow> int \<Rightarrow> sim \<Rightarrow> sim" where
  "reseed eb seed startPlantsN startAnimalsN worldWidth worldHeight s =
     (let s1 = setWorldSize worldWidth worldHeight s;
          s2 = s1\<lparr> RNG_S := seed_u32 seed, weatherSeed := seed_u32 seed,
                  lastLightningTick := - 1, activeFires := [], activeFireCount := 0,
                  tick := 0, acc := 0, count := 0, total := 0, animals := 0, plants := 0,
                  MUTATION_LOG := [], eggs := [] \<rparr>;
          s3 = alloc s2;
          s4 = buildEnv eb seed s3;
          s5 = seedWorld startPlantsN startAnimalsN s4
      in resetPopulationDiagnostics s5)"

subsection \<open>The commands place and inspect\<close>

definition place :: "int \<Rightarrow> int \<Rightarrow> Genome \<Rightarrow> real \<Rightarrow> sim \<Rightarrow> bool \<times> sim" where
  "place x y g en s =
     (if count s \<ge> MAX_ENTITIES then (False, s)
      else if x < 0 \<or> y < 0 \<or> x \<ge> gridW s \<or> y \<ge> gridH s then (False, s)
      else if occ s (idx s x y) \<noteq> Some (- 1) then (False, s)
      else
        let k = count s;
            s1 = s\<lparr>count := count s + 1\<rparr>;
            s2 = applyGenome k g s1;
            s3 = upd k (\<lambda>e. e\<lparr>idA := k + 1, energyA := clamp01 en, hydrationA := 1,
                                ageA := 0, aliveA := True, adultA := False\<rparr>) s2;
            s4 = upd k (\<lambda>e. e\<lparr>speciesA := to_int16 (js_rem (speciesA e) SPECIES_MAX)\<rparr>) s3;
            (ok, s5) = placeAt k x y s4
        in if \<not> ok then (False, s5\<lparr>count := count s5 - 1\<rparr>)
           else (True, countLife k s5))"

text \<open>
  \<open>inspect\<close>: \<open>None\<close> is JavaScript's \<open>null\<close>. For a tile outside the grid the code
  builds a snapshot of undefined fields; the model answers \<open>None\<close> there as well.
\<close>

definition inspect :: "int \<Rightarrow> int \<Rightarrow> sim \<Rightarrow> EntitySnapshot option" where
  "inspect x y s =
     (case occ s (idx s x y) of
        None \<Rightarrow> None
      | Some i \<Rightarrow> if i = - 1 then None else Some (encodeEntity s i))"

definition getCounts :: "sim \<Rightarrow> int \<times> int \<times> int" where
  "getCounts s = (total s, animals s, plants s)"


subsection \<open>Neighbourhood queries\<close>

definition N8 :: "(int \<times> int) list" where
  "N8 = [(0, - 1), (1, 0), (0, 1), (- 1, 0), (1, - 1), (1, 1), (- 1, 1), (- 1, - 1)]"

definition inGrid :: "sim \<Rightarrow> int \<Rightarrow> int \<Rightarrow> bool" where
  "inGrid s nx ny = (\<not> (nx < 0 \<or> ny < 0 \<or> nx \<ge> gridW s \<or> ny \<ge> gridH s))"

text \<open>The offsets of \<open>for dy = -r..r, for dx = -r..r\<close>, in the order of the loops.\<close>

definition squareOffsets :: "int \<Rightarrow> (int \<times> int) list" where
  "squareOffsets r = concat (map (\<lambda>dy. map (\<lambda>dx. (dx, dy)) [- r..r]) [- r..r])"

text \<open>
  \<open>findAllNeighbors(i, radius, pred)\<close>; every caller passes an integral radius.
\<close>

definition findAllNeighbors :: "sim \<Rightarrow> int \<Rightarrow> int \<Rightarrow> (int \<Rightarrow> bool) \<Rightarrow> int list" where
  "findAllNeighbors s i radius pred =
     (let r = max 1 radius; cx = xA (ent s i); cy = yA (ent s i) in
      List.map_filter
        (\<lambda>(dx, dy).
           if dx = 0 \<and> dy = 0 then None
           else if \<not> inGrid s (cx + dx) (cy + dy) then None
           else (case occ s (idx s (cx + dx) (cy + dy)) of
                   None \<Rightarrow> None
                 | Some j \<Rightarrow> if j \<noteq> - 1 \<and> pred j then Some j else None))
        (squareOffsets r))"

text \<open>
  The rings of \<open>findNearbyWater\<close> and \<open>findNearbyEmpty\<close>: for \<open>r = 1..radius\<close> the
  offsets of the square of radius \<open>r\<close> that lie on its border.
\<close>

definition ringOffsets :: "int \<Rightarrow> (int \<times> int) list" where
  "ringOffsets radius =
     concat (map (\<lambda>r. filter (\<lambda>(dx, dy). \<not> (\<bar>dx\<bar> \<noteq> r \<and> \<bar>dy\<bar> \<noteq> r)) (squareOffsets r))
                 [1..radius])"

definition findNearbyWater :: "sim \<Rightarrow> int \<Rightarrow> int \<Rightarrow> int \<Rightarrow> (int \<times> int) option" where
  "findNearbyWater s x y radius =
     List.find (\<lambda>(nx, ny). inGrid s nx ny
                  \<and> waterMap s (idx s nx ny) = Some True \<and> occ s (idx s nx ny) = Some (- 1))
       (map (\<lambda>(dx, dy). (x + dx, y + dy)) (ringOffsets radius))"

definition findNearbyEmpty :: "sim \<Rightarrow> int \<Rightarrow> int \<Rightarrow> int \<Rightarrow> (int \<times> int) option" where
  "findNearbyEmpty s x y radius =
     List.find (\<lambda>(nx, ny). inGrid s nx ny \<and> occ s (idx s nx ny) = Some (- 1))
       (map (\<lambda>(dx, dy). (x + dx, y + dy)) (ringOffsets radius))"

subsection \<open>Genetic distance\<close>

definition geneticDistanceEntities :: "sim \<Rightarrow> int \<Rightarrow> int \<Rightarrow> real" where
  "geneticDistanceEntities s i j =
     (let a = genesA (ent s i); b = genesA (ent s j) in
      (\<bar>dt (hostility_al a) - dt (hostility_al b)\<bar>
       + \<bar>dt (speed_al a) - dt (speed_al b)\<bar>
       + \<bar>dt (size_al a) - dt (size_al b)\<bar>
       + \<bar>dt (vision_al a) - dt (vision_al b)\<bar>
       + \<bar>dt (fertility_al a) - dt (fertility_al b)\<bar>
       + \<bar>dt (temperatureTolerance_al a) - dt (temperatureTolerance_al b)\<bar>
       + (if classA (ent s i) = classA (ent s j) then 0 else 12 / 100)
       + (if activityA (ent s i) = activityA (ent s j) then 0 else 8 / 100)
       + (if dietA (ent s i) = dietA (ent s j) then 0 else 8 / 100)
       + (if prefBiomeA (ent s i) = prefBiomeA (ent s j) then 0 else 5 / 100)) / 10)"

definition geneticCompatibility :: "sim \<Rightarrow> int \<Rightarrow> int \<Rightarrow> real" where
  "geneticCompatibility s i j = clamp01 (1 - geneticDistanceEntities s i j)"

definition genomeDistance :: "Genome \<Rightarrow> Genome \<Rightarrow> real" where
  "genomeDistance a b =
     (\<bar>hostility a - hostility b\<bar>
      + \<bar>speed a - speed b\<bar>
      + \<bar>sizeT a - sizeT b\<bar>
      + \<bar>vision a - vision b\<bar>
      + \<bar>fertility a - fertility b\<bar>
      + \<bar>maturityAge a / 10000 - maturityAge b / 10000\<bar>
      + \<bar>maxAge a / 20000 - maxAge b / 20000\<bar>
      + \<bar>camouflage a - camouflage b\<bar>
      + \<bar>sociality a - sociality b\<bar>
      + \<bar>temperatureTolerance a - temperatureTolerance b\<bar>
      + \<bar>seedSpread a - seedSpread b\<bar>
      + \<bar>mutationRate a * 5 - mutationRate b * 5\<bar>
      + (if activity a = activity b then 0 else 2 / 10)
      + (if diet a = diet b then 0 else 2 / 10)
      + (if speciesClass a = speciesClass b then 0 else 2 / 10)
      + (if preferredBiome a = preferredBiome b then 0 else 2 / 10)) / 16"

subsection \<open>Offspring: recombination and diet drift\<close>

text \<open>
  \<open>from(a1, a2)\<close> of \<open>recombineGenesFromParents\<close>. \<open>a\<close> holds the two alleles of the
  first parent, \<open>b\<close> those of the second parent (of the first again when there is none).
  The allele of the second side is picked first, then the allele of the first side, then
  each is mutated.
\<close>

definition fromPair ::
  "real \<Rightarrow> int \<times> int \<Rightarrow> int \<times> int \<Rightarrow> 32 word \<Rightarrow> (int \<times> int) \<times> 32 word" where
  "fromPair rate a b g =
     (let (p2g1, g1) = pickAllele (fst b) (snd b) g;
          (p1g, g2) = pickAllele (fst a) (snd a) g1;
          (m1, g3) = mutateAllele p1g rate g2;
          (m2, g4) = mutateAllele p2g1 rate g3
      in ((m1, m2), g4))"

definition recombineGenesFromParents ::
  "sim \<Rightarrow> int \<Rightarrow> int option \<Rightarrow> LifeType \<Rightarrow> 32 word \<Rightarrow> EggGenes \<times> 32 word" where
  "recombineGenesFromParents s p1 p2 lt g0 =
     (let rate = (case p2 of None \<Rightarrow> mutRateA (ent s p1)
                  | Some q \<Rightarrow> clamp01 ((mutRateA (ent s p1) + mutRateA (ent s q)) * (1 / 2)));
          a = genesA (ent s p1);
          b = (case p2 of None \<Rightarrow> a | Some q \<Rightarrow> genesA (ent s q));
          (ho, g1) = fromPair rate (hostility_al a) (hostility_al b) g0;
          (sp, g2) = fromPair rate (speed_al a) (speed_al b) g1;
          (sz, g3) = fromPair rate (size_al a) (size_al b) g2;
          (vi, g4) = fromPair rate (vision_al a) (vision_al b) g3;
          (fe, g5) = fromPair rate (fertility_al a) (fertility_al b) g4;
          (ca, g6) = fromPair rate (camouflage_al a) (camouflage_al b) g5;
          (so, g7) = fromPair rate (sociality_al a) (sociality_al b) g6;
          (te, g8) = fromPair rate (temperatureTolerance_al a) (temperatureTolerance_al b) g7;
          (se, g9) = fromPair rate (seedSpread_al a) (seedSpread_al b) g8;
          (mu, g10) = fromPair rate (mutationRate_al a) (mutationRate_al b) g9;
          (ma, g11) = fromPair rate (maturityAge_al a) (maturityAge_al b) g10;
          (mx, g12) = fromPair rate (maxAge_al a) (maxAge_al b) g11
      in (\<lparr> hostility_al = ho,
            speed_al = (if lt = Plant then (0, 0) else sp),
            size_al = sz,
            vision_al = (if lt = Plant then (0, 0) else vi),
            fertility_al = fe, camouflage_al = ca, sociality_al = so,
            temperatureTolerance_al = te,
            seedSpread_al = (if lt = Plant then se else (0, 0)),
            mutationRate_al = mu, maturityAge_al = ma, maxAge_al = mx \<rparr>, g12))"

definition canAdoptCarnivory :: "SpeciesClass \<Rightarrow> real \<Rightarrow> real \<Rightarrow> real \<Rightarrow> bool" where
  "canAdoptCarnivory c sz vi ho =
     (case c of
        Fish \<Rightarrow> sz \<ge> 28 / 100 \<and> vi \<ge> 18 / 100 \<and> ho \<ge> 22 / 100
      | Bird \<Rightarrow> sz \<ge> 25 / 100 \<and> vi \<ge> 34 / 100 \<and> ho \<ge> 22 / 100
      | Mammal \<Rightarrow> sz \<ge> 30 / 100 \<and> vi \<ge> 28 / 100 \<and> ho \<ge> 25 / 100
      | Reptile \<Rightarrow> sz \<ge> 28 / 100 \<and> vi \<ge> 24 / 100 \<and> ho \<ge> 30 / 100
      | Amphibian \<Rightarrow> sz \<ge> 22 / 100 \<and> vi \<ge> 16 / 100 \<and> ho \<ge> 22 / 100
      | Insect \<Rightarrow> sz \<ge> 14 / 100 \<and> vi \<ge> 10 / 100 \<and> ho \<ge> 14 / 100)"

text \<open>\<open>getDietShiftContext\<close>: starvation pressure, plant and prey opportunity.\<close>

definition getDietShiftContext :: "sim \<Rightarrow> int \<Rightarrow> real \<times> real \<times> real" where
  "getDietShiftContext s parentId =
     (let cls = classA (ent s parentId);
          nearbyPlants = length (findAllNeighbors s parentId 3
                                   (\<lambda>j. lifeTypeA (ent s j) = Plant));
          nearbyPrey = length (findAllNeighbors s parentId 3
                                 (\<lambda>j. lifeTypeA (ent s j) = Animal \<and> j \<noteq> parentId
                                    \<and> sizeA (ent s j) < sizeA (ent s parentId) + 8 / 100
                                    \<and> \<not> (dietA (ent s parentId) = Omnivore
                                          \<and> dietA (ent s j) = Omnivore)));
          nearbyFish = length (findAllNeighbors s parentId 3
                                 (\<lambda>j. lifeTypeA (ent s j) = Animal \<and> classA (ent s j) = Fish));
          starvePressure = clamp01 (starvationStressA (ent s parentId));
          plantOpportunity = clamp01 (real nearbyPlants / 10
                                + plantFeedHistoryA (ent s parentId) * (55 / 100));
          preyOpportunity = clamp01 (real nearbyPrey / 8
                               + preyFeedHistoryA (ent s parentId) * (65 / 100)
                               + (if cls = Bird \<or> cls = Mammal then real nearbyFish / 12 else 0))
      in (starvePressure, plantOpportunity, preyOpportunity))"

text \<open>\<open>tryShift\<close> of \<open>maybeMutateAnimalDiet\<close>: one draw against a clamped chance.\<close>

definition tryShift :: "real \<Rightarrow> real \<Rightarrow> real \<Rightarrow> real \<Rightarrow> 32 word \<Rightarrow> bool \<times> 32 word" where
  "tryShift mr pressure baseChance opportunityBias g =
     (let (r, g1) = rng g in
      (r < clamp01 (baseChance * mr * (5 / 10 + pressure * (18 / 10) + opportunityBias)), g1))"

definition maybeMutateAnimalDiet ::
  "sim \<Rightarrow> int \<Rightarrow> Diet \<Rightarrow> real \<Rightarrow> SpeciesClass \<Rightarrow> real \<Rightarrow> real \<Rightarrow> real \<Rightarrow> 32 word
     \<Rightarrow> (Diet \<times> bool) \<times> 32 word" where
  "maybeMutateAnimalDiet s parentId inheritedDiet mr cls sz vi ho g =
     (let (starvePressure, plantOpportunity, preyOpportunity) = getDietShiftContext s parentId;
          pressure = clamp01 (starvePressure * (8 / 10)
                       + max 0 (28 / 100 - energyA (ent s parentId)) * (16 / 10));
          gateCarn = canAdoptCarnivory cls sz vi ho
      in case inheritedDiet of
           Herbivore \<Rightarrow>
             (let (t1, g1) = (if gateCarn
                              then tryShift mr pressure (15 / 1000)
                                     (preyOpportunity * (9 / 10) - plantOpportunity * (2 / 10)) g
                              else (False, g))
              in if t1 then ((Carnivore, True), g1)
                 else let (t2, g2) = tryShift mr pressure (12 / 100) (preyOpportunity * (7 / 10)) g1
                      in if t2 then ((Omnivore, True), g2) else ((Herbivore, False), g2))
         | Omnivore \<Rightarrow>
             (let (t1, g1) = (if gateCarn
                              then tryShift mr pressure (7 / 100)
                                     (preyOpportunity * (9 / 10) - plantOpportunity * (3 / 10)) g
                              else (False, g))
              in if t1 then ((Carnivore, True), g1)
                 else let (t2, g2) = tryShift mr pressure (3 / 100)
                                       (plantOpportunity * (7 / 10) - preyOpportunity * (3 / 10)) g1
                      in if t2 then ((Herbivore, True), g2) else ((Omnivore, False), g2))
         | Carnivore \<Rightarrow>
             (let (t1, g1) = tryShift mr pressure (8 / 100)
                               (plantOpportunity * (6 / 10)
                                + max 0 (5 / 10 - preyOpportunity) * (8 / 10)) g
              in if t1 then ((Omnivore, True), g1) else ((Carnivore, False), g1))
         | Photosynthesis \<Rightarrow> ((inheritedDiet, False), g))"

text \<open>\<open>pick(a, b)\<close> when there is a second parent, the first parent's value otherwise.\<close>

definition pickOr :: "'a \<Rightarrow> 'a option \<Rightarrow> 32 word \<Rightarrow> 'a \<times> 32 word" where
  "pickOr a b g =
     (case b of None \<Rightarrow> (a, g)
      | Some b' \<Rightarrow> (let (r, g1) = rng g in (if r < 1 / 2 then a else b', g1)))"

text \<open>
  The pieces of \<open>createOffspringData\<close> that branch on a draw: the inner functions
  \<open>mixSpeciesClass\<close> and \<open>mixBiome\<close>, and the expressions for the inherited diet, the
  diet mutation, the species id and the supplemental carnivory. \<open>ga\<close> is the genome of the
  first parent, \<open>gb\<close> that of the second (\<open>None\<close> when there is none). Where a class or
  biome is redrawn and the draw is exactly 1, the table lookup is \<open>undefined\<close>; the model
  takes code 0 there.
\<close>

definition mixSpeciesClass ::
  "LifeType \<Rightarrow> real \<Rightarrow> Genome \<Rightarrow> Genome option \<Rightarrow> 32 word \<Rightarrow> SpeciesClass \<times> 32 word" where
  "mixSpeciesClass lt mr ga gb g =
     (let (inherited, g1) = pickOr (speciesClass ga) (map_option speciesClass gb) g in
      if lt = Plant then (Insect, g1)
      else let (r2, g2) = rng g1 in
           if r2 < mr * (3 / 100)
           then (let (r3, g3) = rng g2 in (classOfIndex (js_or0 (r3 * 6)), g3))
           else (inherited, g2))"

definition mixBiome :: "real \<Rightarrow> Genome \<Rightarrow> Genome option \<Rightarrow> 32 word \<Rightarrow> Biome \<times> 32 word" where
  "mixBiome mr ga gb g =
     (let (inherited, g1) = pickOr (preferredBiome ga) (map_option preferredBiome gb) g;
          (r2, g2) = rng g1
      in if r2 < mr * (6 / 100)
         then (let (r3, g3) = rng g2 in (biomeOfIndex (js_or0 (r3 * 6)), g3))
         else (inherited, g2))"

definition inheritDiet :: "LifeType \<Rightarrow> Genome \<Rightarrow> Genome option \<Rightarrow> 32 word \<Rightarrow> Diet \<times> 32 word" where
  "inheritDiet lt ga gb g =
     (if lt = Plant then (Photosynthesis, g)
      else let (d, g1) = pickOr (diet ga) (map_option diet gb) g
           in (normalizeDiet Animal d, g1))"

definition dietMutation ::
  "sim \<Rightarrow> int \<Rightarrow> LifeType \<Rightarrow> Diet \<Rightarrow> real \<Rightarrow> SpeciesClass \<Rightarrow> EggGenes \<Rightarrow> 32 word
     \<Rightarrow> (Diet \<times> bool) \<times> 32 word" where
  "dietMutation s p1 lt inheritedDiet mr cls genes g =
     (let derivedSize = dt (size_al genes);
          derivedVision = (if lt = Plant then 0 else dt (vision_al genes));
          derivedHostility = dt (hostility_al genes)
      in if lt = Animal
         then maybeMutateAnimalDiet s p1 inheritedDiet mr cls derivedSize derivedVision
                derivedHostility g
         else ((Photosynthesis, False), g))"

definition mixSpeciesId :: "sim \<Rightarrow> int \<Rightarrow> int option \<Rightarrow> 32 word \<Rightarrow> int \<times> 32 word" where
  "mixSpeciesId s p1 p2 g =
     (case p2 of
        None \<Rightarrow> (speciesA (ent s p1), g)
      | Some q \<Rightarrow>
          if geneticCompatibility s p1 q \<ge> 8 / 10
          then pickOr (speciesA (ent s p1)) (Some (speciesA (ent s q))) g
          else (js_rem (max (speciesA (ent s p1)) (speciesA (ent s q)) + 1) SPECIES_MAX, g))"

definition mixSupplementalCarn ::
  "sim \<Rightarrow> int \<Rightarrow> LifeType \<Rightarrow> real \<Rightarrow> bool \<Rightarrow> 32 word \<Rightarrow> bool \<times> 32 word" where
  "mixSupplementalCarn s p1 lt mr inheritedSupplementalCarn g =
     (let plantNutritionStress =
            (if lt = Plant
             then clamp01 (max 0 (52 / 100 - energyA (ent s p1)) * (18 / 10)
                           + max 0 (45 / 100 - hydrationA (ent s p1)) * (12 / 10))
             else 0);
          nearbyInsects =
            (if lt = Plant
             then length (findAllNeighbors s p1 2
                            (\<lambda>j. lifeTypeA (ent s j) = Animal \<and> classA (ent s j) = Insect))
             else 0)
      in if lt = Plant
         then (if inheritedSupplementalCarn then (True, g)
               else let (r, g1) = rng g in
                    (r < clamp01 (mr * (18 / 100)
                                  * (2 / 10 + plantNutritionStress + real nearbyInsects / 7)),
                     g1))
         else (False, g))"

text \<open>
  \<open>createOffspringData\<close>. It reads the entity arrays and the occupancy grid and writes
  only the generator, so it takes the generator's state and returns the new one.
\<close>

definition createOffspringData ::
  "sim \<Rightarrow> int \<Rightarrow> int option \<Rightarrow> 32 word \<Rightarrow> (Genome \<times> EggGenes \<times> bool) \<times> 32 word" where
  "createOffspringData s p1 p2 g0 =
     (let ga = genomeOf (ent s p1);
          gb = map_option (\<lambda>q. genomeOf (ent s q)) p2;
          lt = lifeType ga;
          (genes, g1) = recombineGenesFromParents s p1 p2 lt g0;
          mr = max (12 / 1000) (dt (mutationRate_al genes));
          (cls, g2) = mixSpeciesClass lt mr ga gb g1;
          (pb, g3) = mixBiome mr ga gb g2;
          (inheritedDiet, g4) = inheritDiet lt ga gb g3;
          ((mdiet, shifted), g5) = dietMutation s p1 lt inheritedDiet mr cls genes g4;
          di = (if lt = Plant then Photosynthesis else mdiet);
          (rep, g6) = pickOr (reproduction ga) (map_option reproduction gb) g5;
          (act, g7) = pickOr (activity ga) (map_option activity gb) g6;
          (sid, g8) = mixSpeciesId s p1 p2 g7;
          (inhCarn, g9) = pickOr (supplementalCarnivory ga)
                            (map_option supplementalCarnivory gb) g8;
          (carn, g10) = mixSupplementalCarn s p1 lt mr inhCarn g9;
          genome =
            \<lparr> speciesId = sid, lifeType = lt, speciesClass = cls, diet = di,
              reproduction = rep,
              hostility = dt (hostility_al genes),
              speed = (if lt = Plant then 0 else dt (speed_al genes)),
              sizeT = dt (size_al genes),
              vision = (if lt = Plant then 0 else dt (vision_al genes)),
              fertility = dt (fertility_al genes),
              maturityAge = real_of_int (decodeAgeTrait (fst (maturityAge_al genes))
                              (snd (maturityAge_al genes)) MATURITY_MIN MATURITY_MAX),
              maxAge = real_of_int (decodeAgeTrait (fst (maxAge_al genes))
                         (snd (maxAge_al genes)) MAX_AGE_MIN MAX_AGE_MAX),
              camouflage = dt (camouflage_al genes),
              sociality = dt (sociality_al genes),
              activity = act,
              temperatureTolerance = dt (temperatureTolerance_al genes),
              preferredBiome = pb,
              seedSpread = (if lt = Plant then dt (seedSpread_al genes) else 0),
              mutationRate = dt (mutationRate_al genes),
              supplementalCarnivory = carn \<rparr>
      in ((genome, genes, shifted), g10))"

subsection \<open>Birth\<close>

definition recordBirth :: "LifeType \<Rightarrow> sim \<Rightarrow> sim" where
  "recordBirth lt s =
     (case currentDayStats s of
        None \<Rightarrow> s
      | Some d \<Rightarrow>
          s\<lparr>currentDayStats := Some
              (if lt = Animal
               then d\<lparr>births := births d + 1, birthsAnimals := birthsAnimals d + 1\<rparr>
               else d\<lparr>births := births d + 1, birthsPlants := birthsPlants d + 1\<rparr>)\<rparr>)"

text \<open>\<open>MUTATION_LOG.unshift(evt)\<close>, and the oldest entry dropped beyond 200.\<close>

definition pushMutationEvent :: "MutationEvent \<Rightarrow> sim \<Rightarrow> sim" where
  "pushMutationEvent evt s =
     (let l = evt # MUTATION_LOG s in
      s\<lparr>MUTATION_LOG := (if length l > 200 then butlast l else l)\<rparr>)"

text \<open>
  The new species id of a strongly mutated child:
  \<open>(speciesA[parent] + ((rng() * 97) | 0) + 1) % SPECIES_MAX\<close>.
\<close>

definition reassignSpecies :: "int \<Rightarrow> int \<Rightarrow> sim \<Rightarrow> sim" where
  "reassignSpecies p k s =
     (let (r, s1) = rngS s in
      upd k (\<lambda>e. e\<lparr>speciesA :=
        to_int16 (js_rem (speciesA (ent s1 p) + js_or0 (r * 97) + 1) SPECIES_MAX)\<rparr>) s1)"

definition mutationEvent :: "sim \<Rightarrow> Genome \<Rightarrow> int \<Rightarrow> MutationEvent" where
  "mutationEvent s parentG k =
     \<lparr> evTick = tick s, parentSpeciesId = speciesId parentG,
       newSpeciesId = speciesA (ent s k), entityId = idA (ent s k),
       evLifeType = lifeTypeA (ent s k), countBorn = 1 \<rparr>"

text \<open>
  \<open>birth(p1, p2, x, y)\<close>, in three parts. \<open>birth_row\<close> is the code from
  \<open>const k = count++\<close> to \<open>adultA[k] = 0\<close>: it fills row \<open>k\<close> and returns the
  \<open>shiftedDiet\<close> flag of the offspring data. \<open>birth_spawn\<close> adds the placement and
  returns whether the child was placed. \<open>birth_log\<close> is the code from \<open>// counters\<close>
  on: it counts the child and compares its genome with the parent's.
\<close>

definition birth_row :: "int \<Rightarrow> int option \<Rightarrow> sim \<Rightarrow> bool \<times> sim" where
  "birth_row p1 p2 s =
     (let k = count s;
          s1 = s\<lparr>count := count s + 1\<rparr>;
          ((genome, genes, shifted), g) = createOffspringData s1 p1 p2 (RNG_S s1);
          s2 = s1\<lparr>RNG_S := g\<rparr>;
          s3 = applyPhenotypeFromGenes k (setTraitAlleles k genes (applyGenome k genome s2))
      in (shifted,
          upd k (\<lambda>e. e\<lparr>idA := k + 1, energyA := CHILD_ENERGY_START, hydrationA := 1,
                         ageA := 0, aliveA := True, adultA := False\<rparr>) s3))"

definition birth_spawn :: "int \<Rightarrow> int option \<Rightarrow> int \<Rightarrow> int \<Rightarrow> sim \<Rightarrow> bool \<times> bool \<times> sim" where
  "birth_spawn p1 p2 x y s =
     (let k = count s;
          (shifted, s4) = birth_row p1 p2 s;
          (placed, s5) =
            (if lifeTypeA (ent s4 k) = Animal \<and> classA (ent s4 k) = Fish
                \<and> waterMap s4 (idx s4 x y) \<noteq> Some True
             then (case List.find (\<lambda>(nx, ny). inGrid s4 nx ny
                                     \<and> waterMap s4 (idx s4 nx ny) = Some True
                                     \<and> occ s4 (idx s4 nx ny) = Some (- 1))
                          (map (\<lambda>(dx, dy). (x + dx, y + dy)) N8) of
                     None \<Rightarrow> (False, s4)
                   | Some (nx, ny) \<Rightarrow> placeAt k nx ny s4)
             else placeAt k x y s4)
      in (placed, shifted, s5))"

definition birth_log :: "int \<Rightarrow> int \<Rightarrow> bool \<Rightarrow> sim \<Rightarrow> sim" where
  "birth_log p1 k shifted s5 =
     (let s6 = recordBirth (lifeTypeA (ent s5 k)) (countLife k s5);
          s7 = (if shifted
                then upd k (\<lambda>e. e\<lparr>dietShiftPenaltyA := DIET_SHIFT_PENALTY_TICKS\<rparr>) s6
                else s6);
          parentG = genomeOf (ent s7 p1);
          childG = genomeOf (ent s7 k);
          dist = genomeDistance parentG childG;
          forcedAdaptiveShift =
            (shifted \<or> supplementalCarnivory parentG \<noteq> supplementalCarnivory childG)
      in if \<not> (dist > 12 / 100 \<or> forcedAdaptiveShift) then s7
         else
           let s8 = (if dist > 12 / 100 then reassignSpecies p1 k s7 else s7);
               s9 = upd k (\<lambda>e. e\<lparr>glowUntil := tick s8 + MUT_GLW_TICKS\<rparr>) s8
           in pushMutationEvent (mutationEvent s9 parentG k) s9)"

definition birth :: "int \<Rightarrow> int option \<Rightarrow> int \<Rightarrow> int \<Rightarrow> sim \<Rightarrow> sim" where
  "birth p1 p2 x y s =
     (if count s \<ge> MAX_ENTITIES then s
      else
        let (placed, shifted, s5) = birth_spawn p1 p2 x y s in
        if \<not> placed then s5\<lparr>count := count s5 - 1\<rparr>
        else birth_log p1 (count s) shifted s5)"

subsection \<open>Eggs\<close>

text \<open>The columns \<open>temp\<close> and \<open>hydrationFactor\<close> of \<open>BIOME_PROPS\<close>.\<close>

definition biomeTemp :: "Biome \<Rightarrow> real" where
  "biomeTemp b =
     (case b of Grassland \<Rightarrow> 6 / 10 | Forest \<Rightarrow> 55 / 100 | Desert \<Rightarrow> 9 / 10
      | Tundra \<Rightarrow> 2 / 10 | Wetlands \<Rightarrow> 65 / 100 | Ocean \<Rightarrow> 5 / 10)"

definition biomeHydrationFactor :: "Biome \<Rightarrow> real" where
  "biomeHydrationFactor b =
     (case b of Grassland \<Rightarrow> 1 | Forest \<Rightarrow> 9 / 10 | Desert \<Rightarrow> 16 / 10
      | Tundra \<Rightarrow> 12 / 10 | Wetlands \<Rightarrow> 5 / 10 | Ocean \<Rightarrow> 3 / 10)"

definition calculateTemperatureStress :: "real \<Rightarrow> real \<Rightarrow> real" where
  "calculateTemperatureStress tolerance temp = max 0 (\<bar>temp - tolerance\<bar> - 3 / 10) * (2 / 1000)"

definition moistureNeeds :: "SpeciesClass \<Rightarrow> real" where
  "moistureNeeds c =
     (case c of Fish \<Rightarrow> 0 | Amphibian \<Rightarrow> 8 / 10 | Mammal \<Rightarrow> 4 / 10 | Bird \<Rightarrow> 3 / 10
      | Reptile \<Rightarrow> 2 / 10 | Insect \<Rightarrow> 3 / 10)"

definition calculateMoistureStress :: "sim \<Rightarrow> SpeciesClass \<Rightarrow> int \<Rightarrow> int \<Rightarrow> Biome \<Rightarrow> real" where
  "calculateMoistureStress s c x y b =
     (let need = moistureNeeds c;
          localMoisture = moistureMap s (idx s x y);
          biomeBaseline = 1 / biomeHydrationFactor b;
          available = clamp01 ((biomeBaseline + localMoisture) * (5 / 10))
      in max 0 (need - available) * (1 / 1000))"

definition countAdjacentPredators :: "sim \<Rightarrow> int \<Rightarrow> int \<Rightarrow> nat" where
  "countAdjacentPredators s x y =
     length (filter
       (\<lambda>(dx, dy). inGrid s (x + dx) (y + dy)
          \<and> (case occ s (idx s (x + dx) (y + dy)) of
                None \<Rightarrow> False
              | Some j \<Rightarrow> j \<noteq> - 1 \<and> lifeTypeA (ent s j) = Animal
                          \<and> (dietA (ent s j) = Carnivore \<or> dietA (ent s j) = Omnivore)
                          \<and> hostilityA (ent s j) > 4 / 10))
       N8)"

text \<open>
  \<open>hatchEgg(egg)\<close>, in three parts like \<open>birth\<close>: \<open>hatchEgg_row\<close> fills row \<open>k\<close>,
  \<open>hatchEgg_spawn\<close> adds the placement, \<open>hatchEgg_log\<close> is the code from \<open>total++\<close> on.
\<close>

definition hatchEgg_row :: "EggData \<Rightarrow> sim \<Rightarrow> sim" where
  "hatchEgg_row egg s =
     (let k = count s;
          s1 = s\<lparr>count := count s + 1\<rparr>;
          s2 = applyPhenotypeFromGenes k
                 (setTraitAlleles k (eggGenes egg) (applyGenome k (eggGenome egg) s1))
      in upd k (\<lambda>e. e\<lparr>idA := k + 1, energyA := CHILD_ENERGY_START * viability egg,
                        hydrationA := 8 / 10, ageA := 0, aliveA := True,
                        adultA := False, reproStateA := Ready, reproTimerA := 0,
                        lastReproTickA := tick s2\<rparr>) s2)"

definition hatchEgg_spawn :: "EggData \<Rightarrow> sim \<Rightarrow> bool \<times> sim" where
  "hatchEgg_spawn egg s =
     (let k = count s;
          s3 = hatchEgg_row egg s
      in if lifeTypeA (ent s3 k) = Animal \<and> classA (ent s3 k) = Fish
            \<and> waterMap s3 (idx s3 (eggX egg) (eggY egg)) \<noteq> Some True
         then (case findNearbyWater s3 (eggX egg) (eggY egg) 2 of
                 None \<Rightarrow> (False, s3)
               | Some (wx, wy) \<Rightarrow>
                   if occ s3 (idx s3 wx wy) = Some (- 1) then placeAt k wx wy s3
                   else (False, s3))
         else if occ s3 (idx s3 (eggX egg) (eggY egg)) = Some (- 1)
              then placeAt k (eggX egg) (eggY egg) s3
              else (False, s3))"

definition hatchEgg_log :: "EggData \<Rightarrow> int \<Rightarrow> sim \<Rightarrow> sim" where
  "hatchEgg_log egg k s4 =
     (let s5 = recordBirth (lifeTypeA (ent s4 k)) (countLife k s4);
          s6 = (if shiftedDiet egg
                then upd k (\<lambda>e. e\<lparr>dietShiftPenaltyA := DIET_SHIFT_PENALTY_TICKS\<rparr>) s5
                else s5);
          parentG = genomeOf (ent s6 (parentId1 egg));
          childG = genomeOf (ent s6 k);
          dist = genomeDistance parentG childG;
          forcedAdaptiveShift =
            (shiftedDiet egg
             \<or> supplementalCarnivory parentG \<noteq> supplementalCarnivory childG)
      in if \<not> (dist > 12 / 100 \<or> forcedAdaptiveShift) then s6
         else
           let s7 = (if dist > 12 / 100 \<or> parentId2 egg \<noteq> None
                     then reassignSpecies (parentId1 egg) k s6 else s6);
               s8 = upd k (\<lambda>e. e\<lparr>glowUntil := tick s7 + MUT_GLW_TICKS\<rparr>) s7
           in pushMutationEvent (mutationEvent s8 parentG k) s8)"

definition hatchEgg :: "EggData \<Rightarrow> sim \<Rightarrow> sim" where
  "hatchEgg egg s =
     (if count s \<ge> MAX_ENTITIES then s
      else
        let (placed, s4) = hatchEgg_spawn egg s in
        if \<not> placed then s4\<lparr>count := count s4 - 1\<rparr>
        else hatchEgg_log egg (count s) s4)"

definition remove_nth :: "nat \<Rightarrow> 'a list \<Rightarrow> 'a list" where
  "remove_nth e xs = take e xs @ drop (Suc e) xs"

text \<open>
  One iteration of the loop of \<open>updateEggs\<close>, for the egg at index \<open>e\<close>:
  \<open>stressEgg\<close> lowers the viability and advances the incubation time, then come the
  predation roll and, at term, the hatching roll. The second draw is made only when the
  viability exceeds 0.3.
\<close>

definition stressEgg :: "sim \<Rightarrow> EggData \<Rightarrow> EggData" where
  "stressEgg s egg =
     (let biome = biomeMap s (idx s (eggX egg) (eggY egg));
          tempStress = calculateTemperatureStress (temperatureTolerance (eggGenome egg))
                         (biomeTemp biome);
          moistureStress = calculateMoistureStress s (speciesClass (eggGenome egg))
                             (eggX egg) (eggY egg) biome
      in egg\<lparr> viability := clamp01 (viability egg - tempStress - moistureStress),
               incubationTime := incubationTime egg + 1 \<rparr>)"

definition updateEgg :: "nat \<Rightarrow> sim \<Rightarrow> sim" where
  "updateEgg e s =
     (let egg' = stressEgg s (eggs s ! e);
          s1 = s\<lparr>eggs := (eggs s)[e := egg']\<rparr>;
          predatorRisk = real (countAdjacentPredators s1 (eggX egg') (eggY egg')) * (5 / 100);
          (r1, s2) = rngS s1
      in if r1 < predatorRisk then s2\<lparr>eggs := remove_nth e (eggs s2)\<rparr>
         else if incubationTime egg' \<ge> maxIncubationTime egg'
         then (let s3 = (if viability egg' > 3 / 10
                         then (let (r2, s2') = rngS s2 in
                               if r2 < viability egg' then hatchEgg egg' s2' else s2')
                         else s2)
               in s3\<lparr>eggs := remove_nth e (eggs s3)\<rparr>)
         else s2)"

text \<open>The loop \<open>for (e = eggs.length - 1; e >= 0; e--)\<close>.\<close>

primrec updateEggs_from :: "nat \<Rightarrow> sim \<Rightarrow> sim" where
  "updateEggs_from 0 s = s"
| "updateEggs_from (Suc e) s = updateEggs_from e (updateEgg e s)"

definition updateEggs :: "sim \<Rightarrow> sim" where
  "updateEggs s = updateEggs_from (length (eggs s)) s"

subsection \<open>The module at load time, and sample inputs\<close>

definition DEFAULT_BEHAVIOR_TUNING :: BehaviorTuning where
  "DEFAULT_BEHAVIOR_TUNING =
     \<lparr> thirstWeight = 12 / 10, hungerWeight = 145 / 100, mateWeight = 14 / 10,
       fearWeight = 1, motiveMoveBoostMax = 42 / 100, opportunisticFeedChance = 8 / 100,
       reproductionReadinessThreshold = 3 / 10, animalMetabolismMultiplier = 44 / 100,
       plantBiteAmount = 72 / 100, attackEnergyGain = 58 / 100 \<rparr>"

text \<open>
  The values the module-level variables have when the module is loaded and no command
  has run: the counters are zero and the arrays are not allocated yet.
\<close>

definition moduleStart :: sim where
  "moduleStart =
     \<lparr> gridW = 500, gridH = 500, RNG_S = 1234567, weatherSeed = 1, tick = 0, acc = 0,
       count = 0, total = 0, animals = 0, plants = 0, occ = Map.empty,
       ent = (\<lambda>_. zeroEntity), biomeMap = (\<lambda>_. Grassland), waterMap = Map.empty,
       waterDistanceMap = (\<lambda>_. 0), moistureMap = (\<lambda>_. 0), fireTTLMap = (\<lambda>_. 0),
       activeFires = [], activeFireCount = 0, lastLightningTick = - 1,
       rainCoverageNow = 0, MUTATION_LOG = [], eggs = [],
       behaviorTuning = DEFAULT_BEHAVIOR_TUNING, currentDayStats = None,
       lastDayStats = None \<rparr>"

text \<open>
  A sample environment for concrete runs: grassland everywhere and no water, so the
  water distance of every tile is the fallback \<open>hypot(W, H)\<close> and the moisture is 0.
\<close>

definition plainEnv :: envbuilder where
  "plainEnv seed w h g =
     (\<lparr> env_biomeMap = (\<lambda>_. Grassland), env_waterMap = ta_new (w * h) False,
        env_waterDistanceMap = (\<lambda>_. sqrt (real_of_int (w * w + h * h))),
        env_moistureMap = (\<lambda>_. 0) \<rparr>, g)"

text \<open>A sample genome for \<open>place\<close>: a herbivorous mammal.\<close>

definition sampleGenome :: Genome where
  "sampleGenome =
     \<lparr> speciesId = 7, lifeType = Animal, speciesClass = Mammal, diet = Herbivore,
       reproduction = Sexual, hostility = 2 / 10, speed = 5 / 10, sizeT = 5 / 10,
       vision = 5 / 10, fertility = 5 / 10, maturityAge = 800, maxAge = 5000,
       camouflage = 3 / 10, sociality = 4 / 10, activity = Diurnal,
       temperatureTolerance = 6 / 10, preferredBiome = Grassland, seedSpread = 0,
       mutationRate = 1 / 10, supplementalCarnivory = False \<rparr>"

text \<open>An empty world of 120 by 120 tiles.\<close>

definition emptyWorld :: sim where
  "emptyWorld = reseed plainEnv 42 0 0 120 120 moduleStart"

subsection \<open>Predicates of the verification\<close>

text \<open>
  What the second half of a birth or a hatching leaves behind for a divergent child \<open>k\<close> of
  parent \<open>p\<close>, from the state \<open>s\<close> before the call to the state \<open>s'\<close> after it: the
  child's species id differs from the parent's, it is the parent's id plus an offset between
  1 and 98 reduced modulo \<open>SPECIES_MAX\<close>, and the newest entry of the mutation log
  describes the child.
\<close>

definition speciated :: "sim \<Rightarrow> sim \<Rightarrow> int \<Rightarrow> int \<Rightarrow> bool" where
  "speciated s s' p k \<longleftrightarrow>
     speciesA (ent s' k) \<noteq> speciesA (ent s' p)
     \<and> (\<exists>off. 1 \<le> off \<and> off \<le> 98
               \<and> speciesA (ent s' k) = js_rem (speciesA (ent s' p) + off) SPECIES_MAX)
     \<and> (\<exists>rest. MUTATION_LOG s' =
            \<lparr> evTick = tick s, parentSpeciesId = speciesA (ent s p),
              newSpeciesId = speciesA (ent s' k), entityId = k + 1,
              evLifeType = lifeTypeA (ent s' k), countBorn = 1 \<rparr> # rest)"


text \<open>
  The placement test of \<open>hatchEgg\<close>, read off the egg and the state: a fish egg that
  does not lie on water needs a free water tile within two tiles, every other egg needs its
  own tile to be free.
\<close>

definition hatchTileFree :: "EggData \<Rightarrow> sim \<Rightarrow> bool" where
  "hatchTileFree egg s =
     (if lifeType (eggGenome egg) = Animal \<and> speciesClass (eggGenome egg) = Fish
         \<and> waterMap s (idx s (eggX egg) (eggY egg)) \<noteq> Some True
      then findNearbyWater s (eggX egg) (eggY egg) 2 \<noteq> None
      else occ s (idx s (eggX egg) (eggY egg)) = Some (- 1))"

text \<open>
  The two draws of one iteration of \<open>updateEggs\<close> and the predation risk they are
  compared with.
\<close>

definition predationRoll :: "sim \<Rightarrow> real" where
  "predationRoll s = fst (rng (RNG_S s))"

definition hatchRoll :: "sim \<Rightarrow> real" where
  "hatchRoll s = fst (rng (snd (rng (RNG_S s))))"

definition predatorRisk :: "sim \<Rightarrow> EggData \<Rightarrow> real" where
  "predatorRisk s egg = real (countAdjacentPredators s (eggX egg) (eggY egg)) * (5 / 100)"

subsection \<open>Sample states for concrete runs\<close>

text \<open>
  An egg of a bird whose alleles are all 255, laid by the entity in slot 0 on tile (5, 5),
  one tick before term.
\<close>

definition fullGenes :: EggGenes where
  "fullGenes =
     \<lparr> hostility_al = (255, 255), speed_al = (255, 255), size_al = (255, 255),
       vision_al = (255, 255), fertility_al = (255, 255), camouflage_al = (255, 255),
       sociality_al = (255, 255), temperatureTolerance_al = (255, 255),
       seedSpread_al = (0, 0), mutationRate_al = (255, 255), maturityAge_al = (255, 255),
       maxAge_al = (255, 255) \<rparr>"

definition sampleEgg :: EggData where
  "sampleEgg =
     \<lparr> eggSpeciesId = 7, parentId1 = 0, parentId2 = None,
       eggGenome = sampleGenome\<lparr>speciesClass := Bird\<rparr>, eggGenes = fullGenes,
       shiftedDiet = False, incubationTime = 9, maxIncubationTime = 10,
       eggX = 5, eggY = 5, viability = 1 \<rparr>"

text \<open>
  The empty world with one row in use: slot 0 holds a plant whose alleles are all 0
  and whose stored hostility, size and fertility are 1.
\<close>

definition parentRow :: entity where
  "parentRow = zeroEntity\<lparr>idA := 1, aliveA := True, hostilityA := 1, sizeA := 1, fertilityA := 1\<rparr>"

definition parentWorld :: sim where
  "parentWorld = emptyWorld\<lparr>count := 1, ent := (\<lambda>_. zeroEntity)(0 := parentRow)\<rparr>"

text \<open>
  The empty world after \<open>place(5, 5, sampleGenome, 0.8)\<close>, with the sample egg lying on
  the tile of the placed animal.
\<close>

definition eggWorld :: sim where
  "eggWorld = (snd (place 5 5 sampleGenome (8 / 10) emptyWorld))\<lparr>eggs := [sampleEgg]\<rparr>"

text \<open>
  The world \<open>parentWorld\<close> with the sample egg on its free tile and the generator at 0.
\<close>

definition hatchWorld :: sim where
  "hatchWorld = parentWorld\<lparr>eggs := [sampleEgg], RNG_S := 0\<rparr>"

text \<open>
  The property of claim C10 for one row, and for every row that is marked alive.
\<close>

definition lifespan_ok :: "entity \<Rightarrow> bool" where
  "lifespan_ok e \<longleftrightarrow> maturityA e + 200 \<le> maxAgeA e"

definition lifespan_inv :: "sim \<Rightarrow> bool" where
  "lifespan_inv s \<longleftrightarrow> (\<forall>i. aliveA (ent s i) \<longrightarrow> lifespan_ok (ent s i))"

subsection \<open>Hydrology\<close>

text \<open>
  \<open>precomputeHydrology()\<close>, the last stage of \<open>buildEnv\<close>. The local arrays
  \<open>nearestWater\<close> and \<open>q\<close> and the distances written during the flood are the record
  \<open>hydro\<close>: \<open>wdist\<close> is \<open>waterDistanceMap\<close> while the flood runs, with \<open>None\<close> for
  \<open>Number.POSITIVE_INFINITY\<close>, and \<open>queue\<close> is the part \<open>q[qHead .. qTail)\<close> of the queue
  array. \<open>Math.hypot(a, b)\<close> is \<open>hypot a b\<close>.
\<close>

definition hypot :: "real \<Rightarrow> real \<Rightarrow> real" where
  "hypot a b = sqrt (a * a + b * b)"

text \<open>
  \<open>waterDistanceMap\<close> and \<open>moistureMap\<close> are \<open>Float32Array\<close>s: a store rounds the number
  to the nearest single-precision value, ties to the even significand. \<open>fround x\<close> is that
  value for a number in the range of the finite single-precision numbers: with \<open>e\<close> the
  binary exponent of \<open>x\<close>, not below \<open>- 126\<close>, the spacing of the values around \<open>x\<close> is
  \<open>2 powr (e - 23)\<close>, and \<open>x\<close> goes to the nearest multiple of it.
\<close>

definition round_even :: "real \<Rightarrow> int" where
  "round_even r =
     (let f = \<lfloor>r\<rfloor> in
      if r - real_of_int f < 1 / 2 then f
      else if r - real_of_int f > 1 / 2 then f + 1
      else if even f then f else f + 1)"

definition fround :: "real \<Rightarrow> real" where
  "fround x =
     (if x = 0 then 0
      else
        let e = max (- 126) \<lfloor>log 2 \<bar>x\<bar>\<rfloor>;
            u = 2 powr (real_of_int e - 23)
        in sgn x * (real_of_int (round_even (\<bar>x\<bar> / u)) * u))"

record hydro =
  nearestWater :: "int \<Rightarrow> int"
  wdist :: "int \<Rightarrow> real option"
  queue :: "int list"

text \<open>The tiles in the order of \<open>for y < H, for x < W\<close>.\<close>

definition scanTiles :: "sim \<Rightarrow> int list" where
  "scanTiles s = concat (map (\<lambda>y. map (\<lambda>x. idx s x y) [0..gridW s - 1]) [0..gridH s - 1])"

text \<open>The state after the first double loop: every water tile is its own source and queued.\<close>

definition hydroStart :: "sim \<Rightarrow> hydro" where
  "hydroStart s =
     \<lparr> nearestWater = (\<lambda>p. if p \<in> set (scanTiles s) \<and> waterMap s p = Some True then p else - 1),
       wdist = (\<lambda>p. if p \<in> set (scanTiles s) \<and> waterMap s p = Some True then Some 0 else None),
       queue = filter (\<lambda>p. waterMap s p = Some True) (scanTiles s) \<rparr>"

text \<open>
  One iteration of \<open>for (const [dx, dy] of N8)\<close> for the tile \<open>(px, py)\<close> taken from the
  queue, whose source is \<open>source\<close>.
\<close>

definition visit :: "sim \<Rightarrow> int \<Rightarrow> int \<Rightarrow> int \<Rightarrow> hydro \<Rightarrow> int \<times> int \<Rightarrow> hydro" where
  "visit s px py source h d =
     (let nx = px + fst d; ny = py + snd d in
      if nx < 0 \<or> ny < 0 \<or> nx \<ge> gridW s \<or> ny \<ge> gridH s then h
      else
        let np = idx s nx ny in
        if nearestWater h np \<noteq> - 1 then h
        else
          let sx = js_rem source (gridW s);
              sy = js_or0 (real_of_int source / real_of_int (gridW s))
          in h\<lparr> nearestWater := (nearestWater h)(np := source),
                wdist := (wdist h)(np \<mapsto> fround (hypot (real_of_int (nx - sx))
                                                      (real_of_int (ny - sy)))),
                queue := queue h @ [np] \<rparr>)"

text \<open>The body of \<open>while (qHead < qTail)\<close>: take the head of the queue, visit its neighbours.\<close>

definition floodStep :: "sim \<Rightarrow> hydro \<Rightarrow> hydro" where
  "floodStep s h =
     (let p = hd (queue h);
          px = js_rem p (gridW s);
          py = js_or0 (real_of_int p / real_of_int (gridW s));
          source = nearestWater h p
      in foldl (visit s px py source) (h\<lparr>queue := tl (queue h)\<rparr>) N8)"

partial_function (option) flood :: "sim \<Rightarrow> hydro \<Rightarrow> hydro option" where
  "flood s h = (if queue h = [] then Some h else flood s (floodStep s h))"

text \<open>
  The last loop, for the tiles \<open>p < total\<close>: a tile the flood did not reach gets
  \<open>hypot(W, H)\<close>, and the moisture is computed from the stored distance; both are stored
  in single precision.
\<close>

definition hydroFinish :: "sim \<Rightarrow> hydro \<Rightarrow> sim" where
  "hydroFinish s h =
     (let maxDist = hypot (real_of_int (gridW s)) (real_of_int (gridH s));
          total = gridW s * gridH s;
          dist = (\<lambda>p. if 0 \<le> p \<and> p < total
                       then (case wdist h p of None \<Rightarrow> fround maxDist | Some d \<Rightarrow> d)
                       else waterDistanceMap s p)
      in s\<lparr> waterDistanceMap := dist,
            moistureMap := (\<lambda>p. if 0 \<le> p \<and> p < total
                                 then fround (clamp01 (1 - dist p / 40))
                                 else moistureMap s p) \<rparr>)"

definition precomputeHydrology :: "sim \<Rightarrow> sim option" where
  "precomputeHydrology s = map_option (hydroFinish s) (flood s (hydroStart s))"

text \<open>
  For the comparison with the specification: the Euclidean distance between two tiles given
  by their indices, and the distance from a tile to the nearest water tile.
\<close>

definition tileDist :: "sim \<Rightarrow> int \<Rightarrow> int \<Rightarrow> real" where
  "tileDist s p q =
     hypot (real_of_int (p mod gridW s - q mod gridW s))
           (real_of_int (p div gridW s - q div gridW s))"

definition waterTiles :: "sim \<Rightarrow> int list" where
  "waterTiles s = filter (\<lambda>p. waterMap s p = Some True) (scanTiles s)"

definition nearestWaterDistance :: "sim \<Rightarrow> int \<Rightarrow> real" where
  "nearestWaterDistance s p = Min (set (map (tileDist s p) (waterTiles s)))"

text \<open>
  What holds of the state of the flood: every queued tile is a labelled tile of the grid; a
  water tile is its own source; an unlabelled tile has no distance yet, and the distance of
  a labelled tile is the Euclidean distance to its source, which is a water tile, in single
  precision.
\<close>

definition hydro_inv :: "sim \<Rightarrow> hydro \<Rightarrow> bool" where
  "hydro_inv s h \<longleftrightarrow>
     (\<forall>p \<in> set (queue h). 0 \<le> p \<and> p < gridW s * gridH s \<and> nearestWater h p \<noteq> - 1)
     \<and> (\<forall>p. 0 \<le> p \<and> p < gridW s * gridH s \<longrightarrow>
           (waterMap s p = Some True \<longrightarrow> nearestWater h p = p)
           \<and> (if nearestWater h p = - 1 then wdist h p = None
              else 0 \<le> nearestWater h p \<and> nearestWater h p < gridW s * gridH s
                   \<and> waterMap s (nearestWater h p) = Some True
                   \<and> wdist h p = Some (fround (tileDist s p (nearestWater h p)))))"

definition unlabelled :: "sim \<Rightarrow> hydro \<Rightarrow> int set" where
  "unlabelled s h = {p. 0 \<le> p \<and> p < gridW s * gridH s \<and> nearestWater h p = - 1}"

text \<open>
  The labelled tiles that have left the queue, other than those in \<open>X\<close>, have all their
  neighbours in the grid labelled.
\<close>

definition flood_closed :: "sim \<Rightarrow> hydro \<Rightarrow> int set \<Rightarrow> bool" where
  "flood_closed s h X \<longleftrightarrow>
     (\<forall>x y d. 0 \<le> x \<and> x < gridW s \<and> 0 \<le> y \<and> y < gridH s \<and> d \<in> set N8
        \<and> nearestWater h (idx s x y) \<noteq> - 1 \<and> idx s x y \<notin> set (queue h) \<and> idx s x y \<notin> X
        \<and> 0 \<le> x + fst d \<and> x + fst d < gridW s \<and> 0 \<le> y + snd d \<and> y + snd d < gridH s
        \<longrightarrow> nearestWater h (idx s (x + fst d) (y + snd d)) \<noteq> - 1)"

text \<open>A world of 120 by 120 tiles whose only water tiles are (0, 0) and (2, 1).\<close>

definition twoLakes :: sim where
  "twoLakes = emptyWorld\<lparr>waterMap := (ta_new 14400 False)(0 \<mapsto> True, 122 \<mapsto> True)\<rparr>"

section \<open>One tick: stepOnce\<close>

subsection \<open>Outcome of a call that can throw\<close>

text \<open>
  Four places of the tick index an array with \<open>(rng() * length) | 0\<close> or
  \<open>Math.floor(rng() * length)\<close> and then read a property of the element. When the draw
  is exactly 1 the index is the length, the element is \<open>undefined\<close>, and the read throws a
  \<open>TypeError\<close> that leaves \<open>stepOnce\<close>. \<open>Thrown t\<close> is such a call, with the state \<open>t\<close>
  at that moment; \<open>Done x\<close> is a normal return. The two loops of the tick that run up to
  the changing slot counter get a bound on their rounds; \<open>Unfinished\<close> is a loop that used
  it up.
\<close>

datatype 'a outcome = Done 'a | Thrown sim | Unfinished

definition andThen :: "'a outcome \<Rightarrow> ('a \<Rightarrow> 'b outcome) \<Rightarrow> 'b outcome" where
  "andThen r f = (case r of Done x \<Rightarrow> f x | Thrown t \<Rightarrow> Thrown t | Unfinished \<Rightarrow> Unfinished)"

subsection \<open>Constants and tables of the tick\<close>

definition TICK_ENERGY_DECAY :: real where "TICK_ENERGY_DECAY = 58 / 100000"
definition PLANT_PHOTOSYNTHESIS_RATE :: real where "PLANT_PHOTOSYNTHESIS_RATE = 54 / 10000"
definition MOVE_ENERGY_COST :: real where "MOVE_ENERGY_COST = 1 / 1000"
definition PLANT_REPRO_MIN_ENERGY :: real where "PLANT_REPRO_MIN_ENERGY = 66 / 100"
definition PLANT_REPRO_MIN_HYDRATION :: real where "PLANT_REPRO_MIN_HYDRATION = 45 / 100"
definition PLANT_REPRO_CROWD_LIMIT :: int where "PLANT_REPRO_CROWD_LIMIT = 7"
definition PLANT_REPRO_BASE_CHANCE :: real where "PLANT_REPRO_BASE_CHANCE = 2 / 1000"
definition PLANT_REPRO_OCEAN_BASE_CHANCE :: real where "PLANT_REPRO_OCEAN_BASE_CHANCE = 35 / 100000"
definition PLANT_REPRO_MIN_COOLDOWN :: int where "PLANT_REPRO_MIN_COOLDOWN = 650"
definition PLANT_DAILY_BIRTH_RATE_CAP :: real where "PLANT_DAILY_BIRTH_RATE_CAP = 3 / 10"
definition PLANT_DAILY_BIRTH_MIN_CAP :: int where "PLANT_DAILY_BIRTH_MIN_CAP = 2200"
definition PLANT_DIGESTION_EFFICIENCY_HERB :: real where "PLANT_DIGESTION_EFFICIENCY_HERB = 9 / 10"
definition PLANT_DIGESTION_EFFICIENCY_OMNI :: real where "PLANT_DIGESTION_EFFICIENCY_OMNI = 76 / 100"
definition MEAT_DIGESTION_EFFICIENCY_CARN :: real where "MEAT_DIGESTION_EFFICIENCY_CARN = 118 / 100"
definition MEAT_DIGESTION_EFFICIENCY_OMNI :: real where "MEAT_DIGESTION_EFFICIENCY_OMNI = 98 / 100"
definition SUPPLEMENTAL_PLANT_CARNIVORY_GAIN :: real where
  "SUPPLEMENTAL_PLANT_CARNIVORY_GAIN = 65 / 1000"
definition SUPPLEMENTAL_PLANT_TRAP_CHANCE :: real where "SUPPLEMENTAL_PLANT_TRAP_CHANCE = 13 / 100"
definition SUPPLEMENTAL_PLANT_TRAP_COOLDOWN :: int where "SUPPLEMENTAL_PLANT_TRAP_COOLDOWN = 16"
definition DIET_SHIFT_EXTRA_METABOLISM :: real where "DIET_SHIFT_EXTRA_METABOLISM = 113 / 100"
definition DIET_SHIFT_EXTRA_HYDRATION :: real where "DIET_SHIFT_EXTRA_HYDRATION = 109 / 100"
definition DIET_SHIFT_FERTILITY_FACTOR :: real where "DIET_SHIFT_FERTILITY_FACTOR = 62 / 100"
definition VISION_TILES_MAX :: real where "VISION_TILES_MAX = 8"
definition SIZE_BONUS_FACTOR :: real where "SIZE_BONUS_FACTOR = 5 / 10"
definition BASE_HYDRATION_DECAY :: real where "BASE_HYDRATION_DECAY = 34 / 100000"
definition DRINK_RATE :: real where "DRINK_RATE = 3 / 100"
definition RAIN_HYDRATION_GAIN :: real where "RAIN_HYDRATION_GAIN = 24 / 10000"
definition RAIN_PLANT_GROWTH_BONUS :: real where "RAIN_PLANT_GROWTH_BONUS = 45 / 100000"
definition MOISTURE_REHYDRATION_GAIN :: real where "MOISTURE_REHYDRATION_GAIN = 35 / 100000"
definition LIGHTNING_STRIKE_CHANCE :: real where "LIGHTNING_STRIKE_CHANCE = 35 / 100000"

text \<open>\<open>BIOME_PROPS\<close>, beside \<open>biomeTemp\<close> and \<open>biomeHydrationFactor\<close> above.\<close>

definition biomeFoodRegen :: "Biome \<Rightarrow> real" where
  "biomeFoodRegen b =
     (case b of Grassland \<Rightarrow> 1 | Forest \<Rightarrow> 11 / 10 | Desert \<Rightarrow> 6 / 10
      | Tundra \<Rightarrow> 7 / 10 | Wetlands \<Rightarrow> 12 / 10 | Ocean \<Rightarrow> 8 / 10)"

definition biomeMoveCost :: "Biome \<Rightarrow> real" where
  "biomeMoveCost b =
     (case b of Grassland \<Rightarrow> 1 | Forest \<Rightarrow> 11 / 10 | Desert \<Rightarrow> 1
      | Tundra \<Rightarrow> 11 / 10 | Wetlands \<Rightarrow> 12 / 10 | Ocean \<Rightarrow> 8 / 10)"

definition biomeTempRange :: "Biome \<Rightarrow> real" where
  "biomeTempRange b =
     (case b of Grassland \<Rightarrow> 15 / 100 | Forest \<Rightarrow> 12 / 100 | Desert \<Rightarrow> 25 / 100
      | Tundra \<Rightarrow> 18 / 100 | Wetlands \<Rightarrow> 10 / 100 | Ocean \<Rightarrow> 8 / 100)"

text \<open>\<open>CLASS_PROPS\<close>.\<close>

definition moveSpeedBonus :: "SpeciesClass \<Rightarrow> real" where
  "moveSpeedBonus c =
     (case c of Fish \<Rightarrow> 1 | Mammal \<Rightarrow> 1 | Bird \<Rightarrow> 14 / 10 | Reptile \<Rightarrow> 9 / 10
      | Amphibian \<Rightarrow> 9 / 10 | Insect \<Rightarrow> 12 / 10)"

definition visionBonus :: "SpeciesClass \<Rightarrow> real" where
  "visionBonus c =
     (case c of Fish \<Rightarrow> 0 | Mammal \<Rightarrow> 1 / 10 | Bird \<Rightarrow> 2 / 10 | Reptile \<Rightarrow> 0
      | Amphibian \<Rightarrow> 0 | Insect \<Rightarrow> 0)"

definition hydrationUse :: "SpeciesClass \<Rightarrow> real" where
  "hydrationUse c =
     (case c of Fish \<Rightarrow> 4 / 10 | Mammal \<Rightarrow> 88 / 100 | Bird \<Rightarrow> 95 / 100 | Reptile \<Rightarrow> 62 / 100
      | Amphibian \<Rightarrow> 54 / 100 | Insect \<Rightarrow> 62 / 100)"

definition mustStayOnWater :: "SpeciesClass \<Rightarrow> bool" where
  "mustStayOnWater c = (c = Fish)"

definition canUseWater :: "SpeciesClass \<Rightarrow> bool" where
  "canUseWater c = True"

definition isNight :: "int \<Rightarrow> bool" where
  "isNight t = (js_rem t DAY_LENGTH \<ge> 1600)"

definition getTemperatureStress :: "real \<Rightarrow> real \<Rightarrow> real \<Rightarrow> real" where
  "getTemperatureStress entityTemp biomeT biomeRange =
     (let distance = \<bar>entityTemp - biomeT\<bar> in
      if distance \<le> biomeRange then 0
      else min 1 ((distance - biomeRange) / (1 - biomeRange)))"

subsection \<open>Day statistics\<close>

text \<open>
  \<open>startNextDayIfNeeded\<close>. \<open>finalizeDayStats\<close> fills the end-of-day fields, which the
  record does not carry, so the finished day is stored as it is. \<open>recordDeath\<close> counts a
  death in the statistics of the day.
\<close>

definition startNextDayIfNeeded :: "sim \<Rightarrow> sim" where
  "startNextDayIfNeeded s =
     (let day = \<lfloor>real_of_int (tick s) / real_of_int DAY_LENGTH\<rfloor> + 1 in
      case currentDayStats s of
        None \<Rightarrow> s\<lparr>currentDayStats := Some (makeDayStats day (total s) (plants s) (animals s))\<rparr>
      | Some d \<Rightarrow>
          if day = dsDay d then s
          else s\<lparr> lastDayStats := Some d,
                  currentDayStats := Some (makeDayStats day (total s) (plants s) (animals s)) \<rparr>)"

definition recordDeath :: "int \<Rightarrow> sim \<Rightarrow> sim" where
  "recordDeath i s =
     (case currentDayStats s of
        None \<Rightarrow> s
      | Some d \<Rightarrow>
          s\<lparr>currentDayStats := Some
              (if lifeTypeA (ent s i) = Animal
               then d\<lparr>deaths := deaths d + 1, deathsAnimals := deathsAnimals d + 1\<rparr>
               else d\<lparr>deaths := deaths d + 1, deathsPlants := deathsPlants d + 1\<rparr>)\<rparr>)"
subsection \<open>Weather\<close>

record RainCell =
  rcX :: int
  rcY :: int
  rcRadius :: int
  rcIntensity :: real

text \<open>Cell \<open>i\<close> of \<open>getRainCells(t)\<close>.\<close>

definition rainCell :: "sim \<Rightarrow> int \<Rightarrow> int \<Rightarrow> RainCell" where
  "rainCell s t i =
     (let phase = real_of_int t * (35 / 10000);
          p = phase + real_of_int i * (21 / 10) + real (unat (weatherSeed s)) * (7 / 100000)
      in \<lparr> rcX = \<lfloor>((sin (p * (91 / 100)) * (5 / 10) + 5 / 10) * (82 / 100) + 9 / 100)
                     * real_of_int (gridW s - 1)\<rfloor>,
            rcY = \<lfloor>((cos (p * (113 / 100)) * (5 / 10) + 5 / 10) * (82 / 100) + 9 / 100)
                     * real_of_int (gridH s - 1)\<rfloor>,
            rcRadius = 34 + \<lfloor>(sin (p * (57 / 100)) * (5 / 10) + 5 / 10) * 22\<rfloor>,
            rcIntensity = 45 / 100 + (cos (p * (77 / 100)) * (5 / 10) + 5 / 10) * (55 / 100) \<rparr>)"

definition getRainCells :: "sim \<Rightarrow> int \<Rightarrow> RainCell list" where
  "getRainCells s t = map (rainCell s t) [0, 1, 2]"

definition getRainAmountAt :: "int \<Rightarrow> int \<Rightarrow> RainCell list \<Rightarrow> real" where
  "getRainAmountAt x y cells =
     clamp01 (foldl (\<lambda>amount c.
        let d = hypot (real_of_int (x - rcX c)) (real_of_int (y - rcY c)) in
        if d \<ge> real_of_int (rcRadius c) then amount
        else amount + rcIntensity c * (1 - d / real_of_int (rcRadius c))) 0 cells)"

text \<open>The value stored in \<open>rainCoverageNow\<close>.\<close>

definition rainCoverage :: "sim \<Rightarrow> RainCell list \<Rightarrow> real" where
  "rainCoverage s cells =
     min 1 (foldl (\<lambda>sum c. sum + pi * real_of_int (rcRadius c) * real_of_int (rcRadius c)) 0 cells
            / real_of_int (gridW s * gridH s))"

subsection \<open>Fire\<close>

definition isFlammableBiome :: "Biome \<Rightarrow> bool" where
  "isFlammableBiome b = (b = Grassland \<or> b = Forest \<or> b = Desert \<or> b = Wetlands)"

definition biomeDrynessFactor :: "Biome \<Rightarrow> real" where
  "biomeDrynessFactor b =
     (if b = Forest then 58 / 100 else if b = Grassland then 52 / 100
      else if b = Desert then 42 / 100 else if b = Wetlands then 22 / 100
      else if b = Tundra then 2 / 10 else 15 / 100)"

text \<open>Whether the entry \<open>j\<close> of the occupancy grid is a plant.\<close>

definition plantAt :: "sim \<Rightarrow> int \<Rightarrow> bool" where
  "plantAt s p = (case occ s p of None \<Rightarrow> False
                  | Some j \<Rightarrow> j \<noteq> - 1 \<and> lifeTypeA (ent s j) = Plant)"

definition hasPlantFuelNear :: "sim \<Rightarrow> int \<Rightarrow> bool" where
  "hasPlantFuelNear s tileIndex =
     (let x = js_rem tileIndex (gridW s);
          y = js_or0 (real_of_int tileIndex / real_of_int (gridW s))
      in plantAt s tileIndex
         \<or> (\<exists>d \<in> set N8. inGrid s (x + fst d) (y + snd d)
                           \<and> plantAt s (idx s (x + fst d) (y + snd d))))"

definition localDryness :: "sim \<Rightarrow> int \<Rightarrow> real \<Rightarrow> real" where
  "localDryness s tileIndex rainAmount =
     clamp01 ((1 - moistureMap s tileIndex) * (58 / 100)
              + biomeDrynessFactor (biomeMap s tileIndex) * (42 / 100)
              - rainAmount * (78 / 100))"

definition addFireAt :: "int \<Rightarrow> int \<Rightarrow> sim \<Rightarrow> sim" where
  "addFireAt tileIndex ttl s =
     (if waterMap s tileIndex = Some True then s
      else if \<not> isFlammableBiome (biomeMap s tileIndex) then s
      else
        let s1 = (if fireTTLMap s tileIndex = 0
                  then s\<lparr> activeFires := activeFires s @ [tileIndex],
                          activeFireCount := activeFireCount s + 1 \<rparr>
                  else s)
        in s1\<lparr>fireTTLMap := (fireTTLMap s1)(tileIndex := max (fireTTLMap s1 tileIndex) ttl)\<rparr>)"

text \<open>The loop \<open>for (tries < 20)\<close> of \<open>spawnLightning\<close>, for the chosen rain cell.\<close>

primrec lightningTries :: "nat \<Rightarrow> RainCell \<Rightarrow> RainCell list \<Rightarrow> sim \<Rightarrow> sim" where
  "lightningTries 0 cell cells s = s"
| "lightningTries (Suc n) cell cells s =
     (let (ra, s1) = rngS s;
          rx = \<lfloor>real_of_int (rcX cell)
                 + (ra - 5 / 10) * real_of_int (rcRadius cell) * (12 / 10)\<rfloor>;
          (rb, s2) = rngS s1;
          ry = \<lfloor>real_of_int (rcY cell)
                 + (rb - 5 / 10) * real_of_int (rcRadius cell) * (12 / 10)\<rfloor>;
          p = idx s2 rx ry
      in if \<not> inGrid s2 rx ry then lightningTries n cell cells s2
         else if waterMap s2 p = Some True then lightningTries n cell cells s2
         else if \<not> hasPlantFuelNear s2 p then lightningTries n cell cells s2
         else
           let b = biomeMap s2 p;
               dryness = localDryness s2 p (getRainAmountAt rx ry cells)
           in if dryness < 28 / 100 then lightningTries n cell cells s2
              else
                let strikeChance =
                      (if b = Forest then 52 / 100 else if b = Grassland then 33 / 100
                       else if b = Wetlands then 1 / 10 else 8 / 100)
                      * (6 / 10 + dryness * (7 / 10));
                    (rc, s3) = rngS s2
                in if rc < strikeChance
                   then (let (rd, s4) = rngS s3 in
                         (addFireAt p (70 + js_or0 (rd * 70)) s4)\<lparr>lastLightningTick := tick s4\<rparr>)
                   else lightningTries n cell cells s3)"

definition spawnLightning :: "RainCell list \<Rightarrow> sim \<Rightarrow> sim outcome" where
  "spawnLightning cells s =
     (let (r0, s1) = rngS s in
      if r0 > LIGHTNING_STRIKE_CHANCE then Done s1
      else
        let (r1, s2) = rngS s1;
            k = js_or0 (r1 * real (length cells))
        in if k < 0 \<or> k \<ge> int (length cells) then Thrown s2
           else Done (lightningTries 20 (cells ! nat k) cells s2))"
text \<open>
  \<open>updateFires\<close>. The state of its loop is the module state with the two local lists
  \<open>nextActive\<close> and \<open>newlyIgnited\<close>. \<open>fireSpreadRoll\<close> is one round of the inner loop
  \<open>for (s < spreadRolls)\<close> for the burning tile \<open>(x, y)\<close>; it throws when the draw for the
  direction is 1.
\<close>

record fireLoop =
  fsim :: sim
  nextActive :: "int list"
  newlyIgnited :: "int list"

definition fireSpreadRoll :: "int \<Rightarrow> int \<Rightarrow> real \<Rightarrow> fireLoop \<Rightarrow> fireLoop outcome" where
  "fireSpreadRoll x y rain fl =
     (let (r, s1) = rngS (fsim fl);
          k = js_or0 (r * real (length N8))
      in if k < 0 \<or> k \<ge> int (length N8) then Thrown s1
         else
           let dir = N8 ! nat k;
               nx = x + fst dir;
               ny = y + snd dir;
               np = idx s1 nx ny
           in if \<not> inGrid s1 nx ny then Done (fl\<lparr>fsim := s1\<rparr>)
              else if waterMap s1 np = Some True \<or> fireTTLMap s1 np > 0
                      \<or> \<not> isFlammableBiome (biomeMap s1 np) then Done (fl\<lparr>fsim := s1\<rparr>)
              else if \<not> hasPlantFuelNear s1 np then Done (fl\<lparr>fsim := s1\<rparr>)
              else
                let b = biomeMap s1 np;
                    dryness = localDryness s1 np rain;
                    baseSpread = (if b = Forest then 18 / 100 else if b = Grassland then 11 / 100
                                  else if b = Desert then 6 / 100 else 4 / 100);
                    dampedSpread = baseSpread * dryness * (1 - rain * (9 / 10));
                    (r2, s2) = rngS s1
                in if r2 < dampedSpread
                   then (let (r3, s3) = rngS s2;
                             ttlNew = 80 + js_or0 (r3 * 80)
                         in if fireTTLMap s3 np = 0
                            then Done (fl\<lparr> fsim := s3\<lparr> fireTTLMap := (fireTTLMap s3)(np := ttlNew),
                                                       activeFireCount := activeFireCount s3 + 1 \<rparr>,
                                           newlyIgnited := newlyIgnited fl @ [np] \<rparr>)
                            else Done (fl\<lparr> fsim := s3\<lparr> fireTTLMap :=
                                             (fireTTLMap s3)(np := max (fireTTLMap s3 np) ttlNew) \<rparr> \<rparr>))
                   else Done (fl\<lparr>fsim := s2\<rparr>))"

primrec fireSpreadRolls :: "nat \<Rightarrow> int \<Rightarrow> int \<Rightarrow> real \<Rightarrow> fireLoop \<Rightarrow> fireLoop outcome" where
  "fireSpreadRolls 0 x y rain fl = Done fl"
| "fireSpreadRolls (Suc n) x y rain fl =
     andThen (fireSpreadRoll x y rain fl) (fireSpreadRolls n x y rain)"

text \<open>The body of \<open>for (const p of activeFires)\<close>.\<close>

definition fireTile :: "RainCell list \<Rightarrow> int \<Rightarrow> fireLoop \<Rightarrow> fireLoop outcome" where
  "fireTile cells p fl =
     (let s = fsim fl;
          ttl0 = fireTTLMap s p
      in if ttl0 \<le> 0 then Done fl
         else
           let x = js_rem p (gridW s);
               y = js_or0 (real_of_int p / real_of_int (gridW s));
               rain = getRainAmountAt x y cells;
               ttl = max 0 (ttl0 - 1 - \<lfloor>rain * 2\<rfloor>);
               s1 = s\<lparr>fireTTLMap := (fireTTLMap s)(p := ttl)\<rparr>
           in if ttl > 0
              then fireSpreadRolls (if js_rem ttl 9 = 0 then 2 else 1) x y rain
                     (fl\<lparr>fsim := s1, nextActive := nextActive fl @ [p]\<rparr>)
              else if fireTTLMap s1 p \<noteq> 0
              then Done (fl\<lparr>fsim := s1\<lparr> fireTTLMap := (fireTTLMap s1)(p := 0),
                                         activeFireCount := max 0 (activeFireCount s1 - 1) \<rparr>\<rparr>)
              else Done (fl\<lparr>fsim := s1\<rparr>))"

primrec fireTiles :: "RainCell list \<Rightarrow> int list \<Rightarrow> fireLoop \<Rightarrow> fireLoop outcome" where
  "fireTiles cells [] fl = Done fl"
| "fireTiles cells (p # ps) fl = andThen (fireTile cells p fl) (fireTiles cells ps)"

definition updateFires :: "RainCell list \<Rightarrow> sim \<Rightarrow> sim outcome" where
  "updateFires cells s =
     (if activeFires s = [] then Done s
      else andThen (fireTiles cells (activeFires s)
                      \<lparr>fsim = s, nextActive = [], newlyIgnited = []\<rparr>)
             (\<lambda>fl. Done ((fsim fl)\<lparr>activeFires := nextActive fl @ newlyIgnited fl\<rparr>)))"
subsection \<open>Sensing the neighbourhood\<close>

text \<open>
  \<open>1 + Math.floor(clamp01(visionA[i] + CLASS_PROPS[cls].visionBonus) * VISION_TILES_MAX)\<close>,
  the value \<open>maxVis\<close> of \<open>stepOnce\<close>, \<open>findPotentialMates\<close> and \<open>findBestMate\<close> and
  \<open>maxT\<close> of \<open>canSee\<close>.
\<close>

definition maxVis :: "sim \<Rightarrow> int \<Rightarrow> int" where
  "maxVis s i =
     1 + \<lfloor>clamp01 (visionA (ent s i) + visionBonus (classA (ent s i))) * VISION_TILES_MAX\<rfloor>"

definition canSee :: "sim \<Rightarrow> int \<Rightarrow> int \<Rightarrow> int \<Rightarrow> bool" where
  "canSee s actor target dst =
     (real_of_int dst * (1 + camoA (ent s target) * (15 / 10)) \<le> real_of_int (maxVis s actor))"

text \<open>
  The list \<open>weighted\<close> of \<open>findBestNeighborByScore\<close>: the neighbours that pass \<open>pred\<close>
  and have a positive score, in the order of the two loops.
\<close>

definition neighborCandidates ::
  "sim \<Rightarrow> int \<Rightarrow> int \<Rightarrow> (int \<Rightarrow> bool) \<Rightarrow> (int \<Rightarrow> int \<Rightarrow> real) \<Rightarrow> (int \<times> real) list" where
  "neighborCandidates s i radius pred scoreFn =
     (let r = max 1 radius; cx = xA (ent s i); cy = yA (ent s i) in
      List.map_filter
        (\<lambda>(dx, dy).
           if dx = 0 \<and> dy = 0 then None
           else if \<not> inGrid s (cx + dx) (cy + dy) then None
           else (case occ s (idx s (cx + dx) (cy + dy)) of
                   None \<Rightarrow> None
                 | Some j \<Rightarrow>
                     if j = - 1 \<or> \<not> pred j then None
                     else (let score = scoreFn j (max \<bar>dx\<bar> \<bar>dy\<bar>) in
                           if score > 0 then Some (j, score) else None)))
        (squareOffsets r))"

text \<open>
  The loop \<open>rv -= c.weight; if (rv <= 0) return c.id\<close>; \<open>None\<close> when it runs to the end
  of the list.
\<close>

primrec pickWeighted :: "real \<Rightarrow> (int \<times> real) list \<Rightarrow> int option" where
  "pickWeighted rv [] = None"
| "pickWeighted rv (c # cs) =
     (if rv - snd c \<le> 0 then Some (fst c) else pickWeighted (rv - snd c) cs)"

definition findBestNeighborByScore ::
  "sim \<Rightarrow> int \<Rightarrow> int \<Rightarrow> (int \<Rightarrow> bool) \<Rightarrow> (int \<Rightarrow> int \<Rightarrow> real) \<Rightarrow> int \<times> sim" where
  "findBestNeighborByScore s i radius pred scoreFn =
     (let weighted = neighborCandidates s i radius pred scoreFn in
      if weighted = [] then (- 1, s)
      else
        let totalWeight = foldl (\<lambda>sum c. sum + snd c) 0 weighted;
            (r, s1) = rngS s
        in (case pickWeighted (r * totalWeight) weighted of
              Some j \<Rightarrow> (j, s1)
            | None \<Rightarrow> (fst (last weighted), s1)))"

definition countNearbyPredators :: "sim \<Rightarrow> int \<Rightarrow> int" where
  "countNearbyPredators s i =
     int (length (findAllNeighbors s i 3
       (\<lambda>j. lifeTypeA (ent s j) = Animal
            \<and> (dietA (ent s j) = Carnivore \<or> dietA (ent s j) = Omnivore)
            \<and> sizeA (ent s j) \<ge> sizeA (ent s i)
            \<and> hostilityA (ent s j) > 5 / 10)))"

definition getBiomeReproductionBonus :: "sim \<Rightarrow> int \<Rightarrow> real" where
  "getBiomeReproductionBonus s i =
     (let biome = biomeMap s (idx s (xA (ent s i)) (yA (ent s i)));
          bonus0 = (if biome = prefBiomeA (ent s i) then 12 / 10 else 1);
          bonus1 =
            (case classA (ent s i) of
               Fish \<Rightarrow> bonus0 * (if biome = Ocean \<or> biome = Wetlands then 13 / 10 else 7 / 10)
             | Amphibian \<Rightarrow> (if biome = Wetlands then bonus0 * (14 / 10)
                             else if biome = Desert then bonus0 * (4 / 10) else bonus0)
             | Bird \<Rightarrow> (if biome = Grassland \<or> biome = Tundra then bonus0 * (11 / 10) else bonus0)
             | Reptile \<Rightarrow> (if biome = Desert then bonus0 * (13 / 10)
                           else if biome = Tundra then bonus0 * (5 / 10) else bonus0)
             | Mammal \<Rightarrow> (if biome = Grassland \<or> biome = Forest then bonus0 * (11 / 10)
                          else if biome = Desert \<or> biome = Tundra then bonus0 * (8 / 10)
                          else bonus0)
             | Insect \<Rightarrow> (if biome = Forest \<or> biome = Grassland then bonus0 * (12 / 10)
                          else if biome = Tundra then bonus0 * (6 / 10) else bonus0));
          tempStress = getTemperatureStress (tempTolA (ent s i)) (biomeTemp biome)
                         (biomeTempRange biome)
      in bonus1 * max (3 / 10) (1 - tempStress * (7 / 10)))"

definition calculateBreedingReadiness :: "sim \<Rightarrow> int \<Rightarrow> real" where
  "calculateBreedingReadiness s i =
     (if \<not> adultA (ent s i) \<or> ageA (ent s i) < maturityA (ent s i) then 0
      else
        let energySurplus = max 0 (energyA (ent s i) - 42 / 100) * (172 / 100);
            hydrationGood = max 0 (hydrationA (ent s i) - 24 / 100) * (132 / 100);
            predatorStress = countNearbyPredators s i;
            lowStress = max 0 (1 - real_of_int predatorStress * (2 / 10));
            biomeBonus = getBiomeReproductionBonus s i;
            socialBonus = (if socialA (ent s i) > 6 / 10 then 116 / 100 else 1)
        in clamp01 (energySurplus * hydrationGood * lowStress * biomeBonus * socialBonus))"

definition findPotentialMates :: "sim \<Rightarrow> int \<Rightarrow> int \<Rightarrow> int list" where
  "findPotentialMates s i searchRadius =
     findAllNeighbors s i (min searchRadius (maxVis s i))
       (\<lambda>j. j \<noteq> i
            \<and> lifeTypeA (ent s j) = lifeTypeA (ent s i)
            \<and> classA (ent s j) = classA (ent s i)
            \<and> adultA (ent s j)
            \<and> reproStateA (ent s j) = Ready
            \<and> energyA (ent s j) > 34 / 100
            \<and> hydrationA (ent s j) > 26 / 100
            \<and> geneticCompatibility s i j \<ge> 45 / 100)"

definition calculateMateScore :: "sim \<Rightarrow> int \<Rightarrow> int \<Rightarrow> real" where
  "calculateMateScore s i j =
     (let sizePreference = 1 + \<bar>sizeA (ent s j) - sizeA (ent s i)\<bar> * (- (3 / 10));
          healthBonus = energyA (ent s j) * hydrationA (ent s j);
          activityMatch = (if activityA (ent s i) = activityA (ent s j) then 12 / 10 else 8 / 10);
          biomeMatch = (if prefBiomeA (ent s i) = prefBiomeA (ent s j) then 11 / 10 else 9 / 10);
          fertilityBonus = fertilityA (ent s j)
            * (if dietShiftPenaltyA (ent s j) > 0 then DIET_SHIFT_FERTILITY_FACTOR else 1);
          compatibility = 6 / 10 + geneticCompatibility s i j * (8 / 10);
          dst = max \<bar>xA (ent s j) - xA (ent s i)\<bar> \<bar>yA (ent s j) - yA (ent s i)\<bar>;
          distanceWeight = 1 / (real_of_int dst + 5 / 10)
      in sizePreference * healthBonus * activityMatch * biomeMatch * fertilityBonus
         * compatibility * distanceWeight)"

text \<open>
  \<open>weightedRandomSelect\<close>. With a total score that is not positive the candidate at
  \<open>Math.floor(rng() * length)\<close> is taken, and the read of its \<open>id\<close> throws when the draw
  is 1.
\<close>

definition weightedRandomSelect :: "(int \<times> real) list \<Rightarrow> sim \<Rightarrow> (int \<times> sim) outcome" where
  "weightedRandomSelect candidates s =
     (if candidates = [] then Done (- 1, s)
      else if length candidates = 1 then Done (fst (hd candidates), s)
      else
        let totalScore = foldl (\<lambda>sum c. sum + snd c) 0 candidates;
            (r, s1) = rngS s
        in if totalScore \<le> 0
           then (let k = \<lfloor>r * real (length candidates)\<rfloor> in
                 if k < 0 \<or> k \<ge> int (length candidates) then Thrown s1
                 else Done (fst (candidates ! nat k), s1))
           else (case pickWeighted (r * totalScore) candidates of
                   Some j \<Rightarrow> Done (j, s1)
                 | None \<Rightarrow> Done (fst (last candidates), s1)))"

definition findBestMate :: "sim \<Rightarrow> int \<Rightarrow> (int \<times> sim) outcome" where
  "findBestMate s i =
     (let candidates = findPotentialMates s i (maxVis s i) in
      if candidates = [] then Done (- 1, s)
      else weightedRandomSelect (map (\<lambda>j. (j, calculateMateScore s i j)) candidates) s)"
definition getEggCount :: "SpeciesClass \<Rightarrow> real \<Rightarrow> int" where
  "getEggCount c sz =
     (let baseCount = (case c of Fish \<Rightarrow> 8 | Mammal \<Rightarrow> 0 | Bird \<Rightarrow> 3 | Reptile \<Rightarrow> 6
                       | Amphibian \<Rightarrow> 12 | Insect \<Rightarrow> 15)
      in max 1 \<lfloor>baseCount * (5 / 10 + sz * (8 / 10))\<rfloor>)"

definition getIncubationTime :: "SpeciesClass \<Rightarrow> sim \<Rightarrow> int \<times> sim" where
  "getIncubationTime c s =
     (let baseTime = (case c of Fish \<Rightarrow> 300 | Mammal \<Rightarrow> 0 | Bird \<Rightarrow> 800 | Reptile \<Rightarrow> 1200
                      | Amphibian \<Rightarrow> 400 | Insect \<Rightarrow> 200);
          (r, s1) = rngS s
      in (baseTime + \<lfloor>r * 200 - 100\<rfloor>, s1))"

definition getCooldownTime :: "SpeciesClass \<Rightarrow> sim \<Rightarrow> int \<times> sim" where
  "getCooldownTime c s =
     (let baseCooldown = (case c of Fish \<Rightarrow> 600 | Mammal \<Rightarrow> 1200 | Bird \<Rightarrow> 900
                          | Reptile \<Rightarrow> 1800 | Amphibian \<Rightarrow> 800 | Insect \<Rightarrow> 400);
          (r, s1) = rngS s
      in (baseCooldown + \<lfloor>r * 400 - 200\<rfloor>, s1))"

text \<open>
  \<open>findNearestWater\<close>: the loops run \<open>dx\<close> outside and \<open>dy\<close> inside, and a tile replaces
  the best one only when its Manhattan distance is smaller. The accumulator is \<open>closest\<close>
  with \<open>closestDist\<close>, \<open>None\<close> while the distance is \<open>Infinity\<close>.
\<close>

definition findNearestWater :: "sim \<Rightarrow> int \<Rightarrow> int \<Rightarrow> int \<Rightarrow> (int \<times> int) option" where
  "findNearestWater s x y visionRange =
     map_option fst
       (foldl (\<lambda>best (dx, dy).
           if \<not> inGrid s (x + dx) (y + dy) then best
           else if waterMap s (idx s (x + dx) (y + dy)) = Some True
           then (let dst = \<bar>dx\<bar> + \<bar>dy\<bar> in
                 case best of
                   None \<Rightarrow> Some ((x + dx, y + dy), dst)
                 | Some (c, closestDist) \<Rightarrow>
                     if dst < closestDist then Some ((x + dx, y + dy), dst) else best)
           else best)
         None
         (concat (map (\<lambda>dx. map (\<lambda>dy. (dx, dy)) [- visionRange..visionRange])
                    [- visionRange..visionRange])))"

definition countPlantsAround :: "sim \<Rightarrow> int \<Rightarrow> int \<Rightarrow> int \<Rightarrow> int" where
  "countPlantsAround s x y radius =
     int (length (filter
       (\<lambda>(dx, dy). \<not> (dx = 0 \<and> dy = 0) \<and> inGrid s (x + dx) (y + dy)
          \<and> (case occ s (idx s (x + dx) (y + dy)) of
                None \<Rightarrow> False
              | Some j \<Rightarrow> j \<noteq> - 1 \<and> aliveA (ent s j) \<and> lifeTypeA (ent s j) = Plant))
       (squareOffsets radius)))"

definition findEggLayingSpot :: "sim \<Rightarrow> int \<Rightarrow> SpeciesClass \<Rightarrow> (int \<times> int) option" where
  "findEggLayingSpot s parentId c =
     (if c = Fish \<or> c = Amphibian
      then findNearbyWater s (xA (ent s parentId)) (yA (ent s parentId)) 2
      else findNearbyEmpty s (xA (ent s parentId)) (yA (ent s parentId)) 1)"

text \<open>
  \<open>pickWaterGradientStep\<close>: the accumulator of the loop is \<open>(bestScore, bestDx, bestDy)\<close>.
\<close>

definition pickWaterGradientStep :: "sim \<Rightarrow> int \<Rightarrow> (int \<times> int) option" where
  "pickWaterGradientStep s i =
     (let cx = xA (ent s i); cy = yA (ent s i);
          currentDist = waterDistanceMap s (idx s cx cy);
          (bestScore, best) =
            foldl (\<lambda>(bestScore, best) (dx, dy).
                if \<not> inGrid s (cx + dx) (cy + dy) then (bestScore, best)
                else let p = idx s (cx + dx) (cy + dy) in
                  if occ s p \<noteq> Some (- 1) then (bestScore, best)
                  else if fireTTLMap s p > 0 then (bestScore, best)
                  else if waterDistanceMap s p < bestScore
                  then (waterDistanceMap s p, (dx, dy))
                  else (bestScore, best))
              (currentDist, (0, 0)) N8
      in if bestScore < currentDist then Some best else None)"

definition habitatSuitabilityAt :: "sim \<Rightarrow> int \<Rightarrow> int \<Rightarrow> int \<Rightarrow> real" where
  "habitatSuitabilityAt s i x y =
     (let p = idx s x y in
      if fireTTLMap s p > 0 then - 1
      else if waterMap s p = Some True \<and> classA (ent s i) \<noteq> Fish then - (2 / 10)
      else
        let b = biomeMap s p;
            tempFit = 1 - getTemperatureStress (tempTolA (ent s i)) (biomeTemp b) (biomeTempRange b);
            biomeFit = (if prefBiomeA (ent s i) = b then 1 else 3 / 10);
            moisture = moistureMap s p;
            waterAccess = (if canUseWater (classA (ent s i))
                           then clamp01 (1 - waterDistanceMap s p / 90) else 45 / 100)
        in biomeFit * (34 / 100) + tempFit * (34 / 100) + moisture * (18 / 100)
           + waterAccess * (14 / 100))"

definition pickHabitatStep :: "sim \<Rightarrow> int \<Rightarrow> (int \<times> int) option" where
  "pickHabitatStep s i =
     (let cx = xA (ent s i); cy = yA (ent s i);
          currentScore = habitatSuitabilityAt s i cx cy;
          (bestScore, best) =
            foldl (\<lambda>(bestScore, best) (dx, dy).
                if \<not> inGrid s (cx + dx) (cy + dy) then (bestScore, best)
                else if occ s (idx s (cx + dx) (cy + dy)) \<noteq> Some (- 1) then (bestScore, best)
                else let sc = habitatSuitabilityAt s i (cx + dx) (cy + dy) in
                  if sc > bestScore + 15 / 1000 then (sc, (dx, dy)) else (bestScore, best))
              (currentScore, (0, 0)) N8
      in if fst best \<noteq> 0 \<or> snd best \<noteq> 0 then Some best else None)"
subsection \<open>Reproduction\<close>

definition startMammalGestation :: "int \<Rightarrow> sim \<Rightarrow> sim" where
  "startMammalGestation parentId s =
     upd parentId (\<lambda>e.
       let baseGestationTime = 800 + \<lfloor>sizeA e * 400\<rfloor> in
       e\<lparr> reproStateA := Gestating, gestationTimeA := baseGestationTime,
           reproTimerA := baseGestationTime, lastReproTickA := tick s \<rparr>) s"

text \<open>
  \<open>reproStateA[i] = 2; reproTimerA[i] = getCooldownTime(speciesClass); lastReproTickA[i] = tick\<close>,
  the three lines that \<open>layEggs\<close> runs for the parent and for the mate, and \<open>giveBirth\<close>
  for the parent.
\<close>

definition enterCooldown :: "int \<Rightarrow> SpeciesClass \<Rightarrow> sim \<Rightarrow> sim" where
  "enterCooldown i c s =
     (let s1 = upd i (\<lambda>e. e\<lparr>reproStateA := Cooldown\<rparr>) s;
          (cd, s2) = getCooldownTime c s1
      in upd i (\<lambda>e. e\<lparr>reproTimerA := cd, lastReproTickA := tick s2\<rparr>) s2)"

text \<open>One round of the loop \<open>for (e < eggCount)\<close> of \<open>layEggs\<close>.\<close>

definition layEgg :: "int \<Rightarrow> int option \<Rightarrow> SpeciesClass \<Rightarrow> int \<Rightarrow> sim \<Rightarrow> sim" where
  "layEgg parentId mateId c incTime s =
     (case findEggLayingSpot s parentId c of
        None \<Rightarrow> s
      | Some (ex, ey) \<Rightarrow>
          if \<not> length (eggs s) < MAX_EGGS then s
          else
            let ((genome, genes, shifted), g) = createOffspringData s parentId mateId (RNG_S s) in
            s\<lparr> RNG_S := g,
               eggs := eggs s @
                 [\<lparr> eggSpeciesId = speciesId genome, parentId1 = parentId, parentId2 = mateId,
                    eggGenome = genome, eggGenes = genes, shiftedDiet = shifted,
                    incubationTime = 0, maxIncubationTime = incTime,
                    eggX = ex, eggY = ey, viability = 1 \<rparr>] \<rparr>)"

primrec layEggs_loop :: "nat \<Rightarrow> int \<Rightarrow> int option \<Rightarrow> SpeciesClass \<Rightarrow> int \<Rightarrow> sim \<Rightarrow> sim" where
  "layEggs_loop 0 parentId mateId c incTime s = s"
| "layEggs_loop (Suc n) parentId mateId c incTime s =
     layEggs_loop n parentId mateId c incTime (layEgg parentId mateId c incTime s)"

definition layEggs :: "int \<Rightarrow> int option \<Rightarrow> sim \<Rightarrow> sim" where
  "layEggs parentId mateId s =
     (let c = classA (ent s parentId);
          eggCount = getEggCount c (sizeA (ent s parentId));
          (incTime, s1) = getIncubationTime c s;
          s2 = layEggs_loop (nat eggCount) parentId mateId c incTime s1;
          s3 = enterCooldown parentId c s2
      in case mateId of None \<Rightarrow> s3 | Some m \<Rightarrow> enterCooldown m c s3)"

text \<open>The branch \<open>if (isPlant)\<close> of \<open>tryReproduce\<close>: a plant spreading a seed.\<close>

definition plantSeed :: "int \<Rightarrow> sim \<Rightarrow> sim" where
  "plantSeed i s =
     (let e = ent s i;
          pIdx = idx s (xA e) (yA e);
          biomeAtParent = biomeMap s pIdx;
          capped = (case currentDayStats s of
                      None \<Rightarrow> False
                    | Some d \<Rightarrow>
                        birthsPlants d \<ge> max PLANT_DAILY_BIRTH_MIN_CAP
                              \<lfloor>real_of_int (plants s) * PLANT_DAILY_BIRTH_RATE_CAP\<rfloor>);
          nearbyPlants = int (length (findAllNeighbors s i 2 (\<lambda>j. lifeTypeA (ent s j) = Plant)));
          marineCrowdLimit = (if biomeAtParent = Ocean then 5
                              else if biomeAtParent = Wetlands then 6
                              else PLANT_REPRO_CROWD_LIMIT)
      in if capped then s
         else if isNight (tick s) then s
         else if energyA e < PLANT_REPRO_MIN_ENERGY \<or> hydrationA e < PLANT_REPRO_MIN_HYDRATION then s
         else if nearbyPlants \<ge> marineCrowdLimit then s
         else if biomeAtParent = Ocean \<and> energyA e < 74 / 100 then s
         else
           let localMoisture = moistureMap s pIdx;
               isOcean = (biomeAtParent = Ocean);
               baseChance = (if isOcean then PLANT_REPRO_OCEAN_BASE_CHANCE
                             else PLANT_REPRO_BASE_CHANCE);
               rainFactor = 55 / 100 + rainCoverageNow s * (9 / 10);
               moistureFactor = (if isOcean then 55 / 100 + localMoisture * (35 / 100)
                                 else 7 / 10 + localMoisture * (5 / 10));
               energyFactor = 72 / 100 + (energyA e - PLANT_REPRO_MIN_ENERGY) * (9 / 10);
               crowdFactor = max (15 / 100)
                               (1 - real_of_int nearbyPlants / real_of_int (marineCrowdLimit + 1));
               plantAnimalRatio = real_of_int (plants s) / real_of_int (max 1 (animals s));
               ecologicalBrake = (if plantAnimalRatio > 16 then 55 / 100
                                  else if plantAnimalRatio > 10 then 68 / 100
                                  else if plantAnimalRatio > 6 then 8 / 10 else 92 / 100);
               reproChance = clamp01 (baseChance * rainFactor * moistureFactor * energyFactor
                                      * crowdFactor * ecologicalBrake);
               (r, s1) = rngS s
           in if r > reproChance then s1
              else
                let rad = max 1 (1 + \<lfloor>seedSpreadA e * 3\<rfloor>);
                    (rx, s2) = rngS s1;
                    dx = js_or0 (rx * real_of_int (rad * 2 + 1)) - rad;
                    (ry, s3) = rngS s2;
                    dy = js_or0 (ry * real_of_int (rad * 2 + 1)) - rad;
                    nx = max 0 (min (gridW s3 - 1) (xA e + dx));
                    ny = max 0 (min (gridH s3 - 1) (yA e + dy))
                in if occ s3 (idx s3 nx ny) \<noteq> Some (- 1) then s3
                   else
                     let s4 = birth i None nx ny s3;
                         s5 = upd i (\<lambda>e. e\<lparr>energyA := energyA e * (68 / 100),
                                               reproStateA := Cooldown\<rparr>) s4;
                         (cd, s6) = getCooldownTime (classA (ent s5 i)) s5
                     in upd i (\<lambda>e. e\<lparr>reproTimerA := max PLANT_REPRO_MIN_COOLDOWN (cd + 280),
                                         lastReproTickA := tick s6\<rparr>) s6)"

text \<open>The sexual branch of \<open>tryReproduce\<close>, from \<open>findBestMate\<close> on.\<close>

definition mateAndReproduce :: "int \<Rightarrow> sim \<Rightarrow> sim outcome" where
  "mateAndReproduce i s =
     andThen (findBestMate s i) (\<lambda>(mate, s1).
       if mate = - 1 then Done s1
       else if reproStateA (ent s1 mate) \<noteq> Ready \<or> \<not> adultA (ent s1 mate) then Done s1
       else
         let (r, s2) = rngS s1 in
         if r > clamp01 (12 / 100 + fertilityA (ent s2 i) * fertilityA (ent s2 mate)) then Done s2
         else if classA (ent s2 i) = Mammal
         then Done (upd mate (\<lambda>e. e\<lparr>energyA := energyA e * (72 / 100)\<rparr>)
                     (upd i (\<lambda>e. e\<lparr>energyA := energyA e * (82 / 100)\<rparr>)
                        (startMammalGestation i s2)))
         else Done (upd mate (\<lambda>e. e\<lparr>energyA := energyA e * (74 / 100)\<rparr>)
                     (upd i (\<lambda>e. e\<lparr>energyA := energyA e * (82 / 100)\<rparr>)
                        (layEggs i (Some mate) s2))))"

definition tryReproduce :: "int \<Rightarrow> sim \<Rightarrow> sim outcome" where
  "tryReproduce i s =
     (if reproStateA (ent s i) \<noteq> Ready then Done s
      else
        let isPlant = (lifeTypeA (ent s i) = Plant);
            readiness = calculateBreedingReadiness s i;
            readinessWithDietPenalty =
              (if dietShiftPenaltyA (ent s i) > 0 then readiness * DIET_SHIFT_FERTILITY_FACTOR
               else readiness);
            s1 = upd i (\<lambda>e. e\<lparr>breedingReadinessA := readinessWithDietPenalty\<rparr>) s
        in if \<not> isPlant
              \<and> readinessWithDietPenalty < reproductionReadinessThreshold (behaviorTuning s1)
           then Done s1
           else if \<not> isPlant
                   \<and> (energyA (ent s1 i) < 54 / 100 \<or> hydrationA (ent s1 i) < 42 / 100)
           then Done s1
           else if count s1 \<ge> MAX_ENTITIES then Done s1
           else if reproA (ent s1 i) = Asexual \<or> isPlant
           then (if isPlant then Done (plantSeed i s1)
                 else if classA (ent s1 i) = Mammal
                 then Done (upd i (\<lambda>e. e\<lparr>energyA := energyA e * (6 / 10)\<rparr>)
                              (startMammalGestation i s1))
                 else Done (upd i (\<lambda>e. e\<lparr>energyA := energyA e * (6 / 10)\<rparr>)
                              (layEggs i None s1)))
           else mateAndReproduce i s1)"
text \<open>
  \<open>giveBirth\<close>. \<open>litterLoop\<close> is the loop \<open>for (b < litterSize && count < MAX_ENTITIES)\<close>;
  the read \<open>spot[0]\<close> throws when the draw for the spot is 1. The timer of a miscarriage,
  \<open>getCooldownTime(...) * 1.5\<close>, is truncated by the store into the \<open>Int32Array\<close>.
\<close>

primrec litterLoop :: "nat \<Rightarrow> int \<Rightarrow> (int \<times> int) list \<Rightarrow> sim \<Rightarrow> sim outcome" where
  "litterLoop 0 parentId spots s = Done s"
| "litterLoop (Suc n) parentId spots s =
     (if \<not> count s < MAX_ENTITIES then Done s
      else
        let (r, s1) = rngS s;
            k = \<lfloor>r * real (length spots)\<rfloor>
        in if k < 0 \<or> k \<ge> int (length spots) then Thrown s1
           else
             let spot = spots ! nat k;
                 s2 = (if occ s1 (idx s1 (fst spot) (snd spot)) = Some (- 1)
                       then birth parentId None (fst spot) (snd spot) s1 else s1)
             in litterLoop n parentId spots s2)"

definition giveBirth :: "int \<Rightarrow> sim \<Rightarrow> sim outcome" where
  "giveBirth parentId s =
     (let px = xA (ent s parentId); py = yA (ent s parentId);
          spots = filter (\<lambda>(nx, ny). nx \<ge> 0 \<and> ny \<ge> 0 \<and> nx < gridW s \<and> ny < gridH s
                                     \<and> occ s (idx s nx ny) = Some (- 1))
                    (map (\<lambda>(dx, dy). (px + dx, py + dy)) N8);
          c = classA (ent s parentId)
      in if spots = []
         then (let s1 = upd parentId (\<lambda>e. e\<lparr>reproStateA := Cooldown\<rparr>) s;
                   (cd, s2) = getCooldownTime c s1
               in Done (upd parentId
                          (\<lambda>e. e\<lparr>reproTimerA := js_or0 (real_of_int cd * (15 / 10)),
                                 energyA := energyA e * (8 / 10)\<rparr>) s2))
         else
           let (r, s1) = rngS s;
               litterSize = max 1 \<lfloor>sizeA (ent s1 parentId) * (25 / 10) + r\<rfloor>
           in andThen (litterLoop (nat litterSize) parentId spots s1)
                (\<lambda>s2. Done (enterCooldown parentId (classA (ent s2 parentId)) s2)))"

definition updateGestation :: "int \<Rightarrow> sim \<Rightarrow> sim outcome" where
  "updateGestation i s =
     (if reproStateA (ent s i) \<noteq> Gestating then Done s
      else
        let s1 = upd i (\<lambda>e. e\<lparr>energyA := clamp01 (energyA e - (1 / 1000 + sizeA e * (5 / 10000)))\<rparr>) s;
            s2 = upd i (\<lambda>e. e\<lparr>hydrationA := clamp01 (hydrationA e - 8 / 10000)\<rparr>) s1;
            s3 = upd i (\<lambda>e. e\<lparr>reproTimerA := reproTimerA e - 1\<rparr>) s2
        in if reproTimerA (ent s3 i) \<le> 0 then giveBirth i s3 else Done s3)"

subsection \<open>Parental care\<close>

definition getParentalCareLevel :: "SpeciesClass \<Rightarrow> real" where
  "getParentalCareLevel c =
     (case c of Mammal \<Rightarrow> 8 / 10 | Bird \<Rightarrow> 6 / 10 | Reptile \<Rightarrow> 2 / 10 | Amphibian \<Rightarrow> 1 / 10
      | Fish \<Rightarrow> 1 / 10 | Insect \<Rightarrow> 0)"

definition findNearbyOffspring :: "sim \<Rightarrow> int \<Rightarrow> int \<Rightarrow> int list" where
  "findNearbyOffspring s i radius =
     findAllNeighbors s i radius
       (\<lambda>j. j \<noteq> i
            \<and> speciesA (ent s j) = speciesA (ent s i)
            \<and> lifeTypeA (ent s j) = lifeTypeA (ent s i)
            \<and> \<not> adultA (ent s j)
            \<and> real_of_int (ageA (ent s j)) < real_of_int (maturityA (ent s j)) * (3 / 10))"

definition careFor :: "sim \<Rightarrow> int \<Rightarrow> sim" where
  "careFor s childId =
     upd childId (\<lambda>e. e\<lparr>hydrationA := clamp01 (hydrationA e + 8 / 10000)\<rparr>)
       (upd childId (\<lambda>e. e\<lparr>energyA := clamp01 (energyA e + 8 / 10000)\<rparr>) s)"

definition updateParentalCare :: "int \<Rightarrow> sim \<Rightarrow> sim" where
  "updateParentalCare i s =
     (if reproStateA (ent s i) \<noteq> Cooldown then s
      else
        let careIntensity = getParentalCareLevel (classA (ent s i)) in
        if \<not> careIntensity > 0 then s
        else
          let offspring = findNearbyOffspring s i 3 in
          if offspring = [] then s
          else foldl careFor
                 (upd i (\<lambda>e. e\<lparr>energyA := clamp01 (energyA e - careIntensity * (1 / 1000))\<rparr>) s)
                 offspring)"

subsection \<open>The reproduction states after the sweep\<close>

text \<open>
  The body of the loop of \<open>updateReproductionStates\<close>, and the loop itself, which runs
  while \<open>i < count\<close> with the slot counter of the moment; the first argument bounds its
  rounds.
\<close>

definition reproStateStep :: "int \<Rightarrow> sim \<Rightarrow> sim outcome" where
  "reproStateStep i s =
     (if \<not> aliveA (ent s i) then Done s
      else if reproStateA (ent s i) = Gestating then updateGestation i s
      else if reproStateA (ent s i) = Cooldown
      then (let s1 = upd i (\<lambda>e. e\<lparr>reproTimerA := reproTimerA e - 1\<rparr>) s in
            if reproTimerA (ent s1 i) \<le> 0
            then Done (upd i (\<lambda>e. e\<lparr>reproStateA := Ready\<rparr>) s1)
            else Done s1)
      else Done s)"

primrec reproStateLoop :: "nat \<Rightarrow> int \<Rightarrow> sim \<Rightarrow> sim outcome" where
  "reproStateLoop 0 i s = (if i < count s then Unfinished else Done s)"
| "reproStateLoop (Suc k) i s =
     (if i < count s then andThen (reproStateStep i s) (reproStateLoop k (i + 1)) else Done s)"

definition updateReproductionStates :: "sim \<Rightarrow> sim outcome" where
  "updateReproductionStates s =
     reproStateLoop (nat (max (count s) MAX_ENTITIES)) 0 s"
subsection \<open>The tick of one entity\<close>

text \<open>
  The body of the sweep of \<open>stepOnce\<close> for the live entity \<open>i\<close>, cut into its stages.
  The values the code computes once and uses in later stages are parameters: \<open>b\<close>, the
  biome of the tile the entity stood on at the start of its turn, \<open>onWater\<close>,
  \<open>rainAmount\<close>, \<open>tempStress\<close> and \<open>stressFactor\<close>, and the drives.
\<close>

definition ageStep :: "int \<Rightarrow> sim \<Rightarrow> sim" where
  "ageStep i s =
     (let s1 = upd i (\<lambda>e. e\<lparr>ageA := ageA e + 1\<rparr>) s;
          s2 = upd i (\<lambda>e. e\<lparr>adultA := (ageA e \<ge> maturityA e)\<rparr>) s1;
          s3 = upd i (\<lambda>e. if dietShiftPenaltyA e > 0
                            then e\<lparr>dietShiftPenaltyA := dietShiftPenaltyA e - 1\<rparr> else e) s2;
          s4 = upd i (\<lambda>e. if plantTrapCooldownA e > 0
                            then e\<lparr>plantTrapCooldownA := plantTrapCooldownA e - 1\<rparr> else e) s3
      in upd i (\<lambda>e. e\<lparr> plantFeedHistoryA := plantFeedHistoryA e * (992 / 1000),
                        preyFeedHistoryA := preyFeedHistoryA e * (992 / 1000),
                        starvationStressA := starvationStressA e * (994 / 1000) \<rparr>) s4)"

definition hydrationStep :: "int \<Rightarrow> Biome \<Rightarrow> bool \<Rightarrow> real \<Rightarrow> sim \<Rightarrow> sim" where
  "hydrationStep i b onWater rainAmount s =
     (let c = classA (ent s i);
          hydUse = BASE_HYDRATION_DECAY * biomeHydrationFactor b * hydrationUse c
                   * (1 - rainAmount * (35 / 100));
          s1 = upd i (\<lambda>e. e\<lparr>hydrationA := clamp01 (hydrationA e - hydUse)\<rparr>) s;
          s2 = (if onWater \<and> canUseWater c
                then upd i (\<lambda>e. e\<lparr>hydrationA := clamp01 (hydrationA e + DRINK_RATE)\<rparr>) s1
                else if canUseWater c
                then upd i (\<lambda>e. e\<lparr>hydrationA := clamp01 (hydrationA e
                        + moistureMap s1 (idx s1 (xA e) (yA e)) * MOISTURE_REHYDRATION_GAIN)\<rparr>) s1
                else s1);
          s3 = (if rainAmount > 0
                then upd i (\<lambda>e. e\<lparr>hydrationA :=
                        clamp01 (hydrationA e + RAIN_HYDRATION_GAIN * rainAmount)\<rparr>) s2
                else s2);
          s4 = (if mustStayOnWater c \<and> \<not> onWater
                then upd i (\<lambda>e. e\<lparr>hydrationA := clamp01 (hydrationA e - 2 / 100)\<rparr>) s3
                else s3)
      in if energyA (ent s4 i) < 22 / 100
         then upd i (\<lambda>e. e\<lparr>starvationStressA := clamp01 (starvationStressA e + 16 / 1000)\<rparr>) s4
         else s4)"

text \<open>The plant branch of \<open>// Metabolism / Photosynthesis\<close>, up to the new energy.\<close>

definition photosynthesis :: "int \<Rightarrow> Biome \<Rightarrow> bool \<Rightarrow> real \<Rightarrow> real \<Rightarrow> sim \<Rightarrow> sim" where
  "photosynthesis i b night rainAmount stressFactor s =
     (let e0 = ent s i;
          pIdx = idx s (xA e0) (yA e0);
          nearbyPlants = countPlantsAround s (xA e0) (yA e0) 2;
          light0 = (if night then 12 / 100 else 1);
          lightModifier = (if b = Grassland then light0 * (11 / 10)
                           else if b = Forest \<and> \<not> night then light0 * (9 / 10)
                           else if b = Desert then light0 * (115 / 100)
                           else if b = Tundra then light0 * (8 / 10)
                           else light0);
          crowdPenalty = (if b = Ocean then 6 / 100 else if b = Wetlands then 55 / 1000
                          else 4 / 100);
          crowdFactor = max (24 / 100) (1 - real_of_int nearbyPlants * crowdPenalty);
          coastNutrient = clamp01 (1 - waterDistanceMap s pIdx / 26);
          nutrientFactor = (if b = Ocean then 34 / 100 + coastNutrient * (66 / 100)
                            else if waterMap s pIdx = Some True
                            then 55 / 100 + coastNutrient * (45 / 100)
                            else 1);
          rate = PLANT_PHOTOSYNTHESIS_RATE * lightModifier * biomeFoodRegen b * crowdFactor
                 * nutrientFactor;
          plantUpkeep = TICK_ENERGY_DECAY * (5 / 10) * stressFactor;
          bloomStress = real_of_int (max 0 (nearbyPlants - (if b = Ocean then 7 else 10)))
                        * (5 / 100000)
      in upd i (\<lambda>e. e\<lparr>energyA := clamp01 (energyA e + rate - plantUpkeep - bloomStress
                                              + rainAmount * RAIN_PLANT_GROWTH_BONUS)\<rparr>) s)"

text \<open>The trap of a plant with supplemental carnivory.\<close>

definition plantTrap :: "int \<Rightarrow> sim \<Rightarrow> sim" where
  "plantTrap i s =
     (if \<not> (supplementalCarnA (ent s i) \<and> plantTrapCooldownA (ent s i) \<le> 0) then s
      else
        let (insectPrey, s1) =
              findBestNeighborByScore s i 1
                (\<lambda>j. lifeTypeA (ent s j) = Animal \<and> classA (ent s j) = Insect
                     \<and> sizeA (ent s j) \<le> max (45 / 100) (sizeA (ent s i) + 25 / 100))
                (\<lambda>j dst. 4 / 10 + energyA (ent s j) * (6 / 10));
            trapDrive = clamp01 (35 / 100 + starvationStressA (ent s1 i)
                                 + max 0 (7 / 10 - energyA (ent s1 i)))
        in if insectPrey = - 1 then s1
           else
             let (r, s2) = rngS s1 in
             if \<not> r < SUPPLEMENTAL_PLANT_TRAP_CHANCE * trapDrive then s2
             else
               let s3 = upd i (\<lambda>e. e\<lparr>energyA := clamp01 (energyA e
                            + energyA (ent s2 insectPrey) * SUPPLEMENTAL_PLANT_CARNIVORY_GAIN)\<rparr>) s2;
                   s4 = removeAt insectPrey (recordDeath insectPrey s3)
               in upd i (\<lambda>e. e\<lparr>plantTrapCooldownA := SUPPLEMENTAL_PLANT_TRAP_COOLDOWN\<rparr>) s4)"

definition animalMetabolism :: "int \<Rightarrow> real \<Rightarrow> sim \<Rightarrow> sim" where
  "animalMetabolism i stressFactor s =
     (let e0 = ent s i;
          baseUpkeep = TICK_ENERGY_DECAY
                       * (1 + sizeA e0 * SIZE_BONUS_FACTOR + speedA e0 * (5 / 10));
          shiftPenalty = (if dietShiftPenaltyA e0 > 0 then DIET_SHIFT_EXTRA_METABOLISM else 1);
          animalUpkeep = baseUpkeep * stressFactor
                         * animalMetabolismMultiplier (behaviorTuning s) * shiftPenalty;
          s1 = upd i (\<lambda>e. e\<lparr>energyA := clamp01 (energyA e - animalUpkeep)\<rparr>) s
      in if dietShiftPenaltyA (ent s1 i) > 0
         then upd i (\<lambda>e. e\<lparr>hydrationA := clamp01 (hydrationA e
                 - BASE_HYDRATION_DECAY * (DIET_SHIFT_EXTRA_HYDRATION - 1))\<rparr>) s1
         else s1)"

definition metabolism :: "int \<Rightarrow> Biome \<Rightarrow> bool \<Rightarrow> real \<Rightarrow> real \<Rightarrow> sim \<Rightarrow> sim" where
  "metabolism i b night rainAmount stressFactor s =
     (if lifeTypeA (ent s i) = Plant
      then plantTrap i (photosynthesis i b night rainAmount stressFactor s)
      else animalMetabolism i stressFactor s)"
text \<open>The motives of an active animal.\<close>

record drives =
  thirstDrive :: real
  hungerDrive :: real
  mateDrive :: real
  fearDrive :: real
  habitatDrive :: real

definition readinessStep :: "int \<Rightarrow> sim \<Rightarrow> sim" where
  "readinessStep i s =
     (if reproStateA (ent s i) = Ready \<and> adultA (ent s i)
      then upd i (\<lambda>e. e\<lparr>breedingReadinessA := calculateBreedingReadiness s i\<rparr>) s
      else s)"

definition computeDrives :: "int \<Rightarrow> Biome \<Rightarrow> real \<Rightarrow> sim \<Rightarrow> drives" where
  "computeDrives i b tempStress s =
     (let e = ent s i;
          t = behaviorTuning s;
          readinessNow = breedingReadinessA e;
          predatorPressure = countNearbyPredators s i;
          habitatMismatch = (if prefBiomeA e = b then 0 else 35 / 100);
          waterStress = (if canUseWater (classA e)
                         then max 0 (waterDistanceMap s (idx s (xA e) (yA e)) / 95 - 14 / 100)
                         else 0)
      in \<lparr> thirstDrive = clamp01 ((8 / 10 - hydrationA e) * (16 / 10)) * thirstWeight t,
            hungerDrive = clamp01 ((82 / 100 - energyA e) * (155 / 100)) * hungerWeight t,
            mateDrive = (if reproStateA e = Ready \<and> adultA e
                         then clamp01 (max 0 (readinessNow * (12 / 10)
                                              + (energyA e - 45 / 100) * (6 / 10))) * mateWeight t
                         else 0),
            fearDrive = clamp01 (real_of_int predatorPressure * (18 / 100)
                                 + max 0 (45 / 100 - energyA e) * (25 / 100)
                                 - hostilityA e * (12 / 100)) * fearWeight t,
            habitatDrive = clamp01 (habitatMismatch + tempStress * (9 / 10) + waterStress) \<rparr>)"

text \<open>The Chebyshev distance between two entities, the third argument of \<open>canSee\<close>.\<close>

definition cheb :: "sim \<Rightarrow> int \<Rightarrow> int \<Rightarrow> int" where
  "cheb s i j = max \<bar>xA (ent s j) - xA (ent s i)\<bar> \<bar>yA (ent s j) - yA (ent s i)\<bar>"

text \<open>
  The predicate for prey, which \<open>stepOnce\<close> uses for the food target and, without the
  sight test, for the adjacent prey.
\<close>

definition preyPred :: "sim \<Rightarrow> int \<Rightarrow> real \<Rightarrow> int \<Rightarrow> bool" where
  "preyPred s i hunger j =
     (lifeTypeA (ent s j) = Animal \<and> j \<noteq> i \<and> sizeA (ent s j) < sizeA (ent s i)
      \<and> ((dietA (ent s j) \<noteq> Carnivore
           \<and> \<not> (dietA (ent s i) = Omnivore \<and> dietA (ent s j) = Omnivore))
          \<or> (hunger > 92 / 100 \<and> energyA (ent s i) < 18 / 100 \<and> hostilityA (ent s i) > 85 / 100)))"

record targets =
  waterTarget :: "(int \<times> int) option"
  foodTarget :: int
  mateTarget :: int
  threatTarget :: int

definition findFood :: "int \<Rightarrow> real \<Rightarrow> sim \<Rightarrow> int \<times> sim" where
  "findFood i hunger s =
     (if \<not> hunger > 8 / 100 then (- 1, s)
      else
        let (f1, s1) =
              (if dietA (ent s i) = Herbivore \<or> dietA (ent s i) = Omnivore
               then findBestNeighborByScore s i (maxVis s i)
                      (\<lambda>j. lifeTypeA (ent s j) = Plant \<and> canSee s i j (cheb s i j))
                      (\<lambda>j dst. hunger * (25 / 100 + energyA (ent s j) * (75 / 100))
                                * (1 / (real_of_int dst + 5 / 10)))
               else (- 1, s))
        in if f1 = - 1 \<and> (dietA (ent s1 i) = Carnivore \<or> dietA (ent s1 i) = Omnivore)
           then findBestNeighborByScore s1 i (maxVis s1 i)
                  (\<lambda>j. preyPred s1 i hunger j \<and> canSee s1 i j (cheb s1 i j))
                  (\<lambda>j dst.
                     let preyValue = max (1 / 10) (energyA (ent s1 j));
                         risk = max (2 / 10)
                                  (1 - max 0 (sizeA (ent s1 j) - sizeA (ent s1 i)) * 2)
                     in hunger * preyValue * risk * (1 / (real_of_int dst + 5 / 10)))
           else (f1, s1))"

definition findThreat :: "int \<Rightarrow> real \<Rightarrow> sim \<Rightarrow> int \<times> sim" where
  "findThreat i fear s =
     (if \<not> fear > 15 / 100 then (- 1, s)
      else findBestNeighborByScore s i (min 4 (maxVis s i))
             (\<lambda>j. lifeTypeA (ent s j) = Animal \<and> j \<noteq> i
                  \<and> (dietA (ent s j) = Carnivore \<or> dietA (ent s j) = Omnivore)
                  \<and> sizeA (ent s j) \<ge> sizeA (ent s i)
                  \<and> hostilityA (ent s j) > 35 / 100)
             (\<lambda>j dst. fear * (1 / (real_of_int dst + 5 / 10))))"

definition findTargets :: "int \<Rightarrow> drives \<Rightarrow> sim \<Rightarrow> (targets \<times> sim) outcome" where
  "findTargets i dr s =
     (let wt = (if thirstDrive dr > 6 / 100 \<and> canUseWater (classA (ent s i))
                then findNearestWater s (xA (ent s i)) (yA (ent s i)) (maxVis s i) else None);
          (ft, s1) = findFood i (hungerDrive dr) s
      in andThen (if mateDrive dr > 32 / 100 then findBestMate s1 i else Done (- 1, s1))
           (\<lambda>(mt, s2).
              let (tt, s3) = findThreat i (fearDrive dr) s2 in
              Done (\<lparr> waterTarget = wt, foodTarget = ft, mateTarget = mt, threatTarget = tt \<rparr>,
                    s3)))"

text \<open>
  The direction of the move, \<open>(dx, dy)\<close>; the last case draws it. \<open>Math.sign\<close> is \<open>sgn\<close>.
\<close>

definition chooseDirection :: "int \<Rightarrow> drives \<Rightarrow> targets \<Rightarrow> sim \<Rightarrow> (int \<times> int) \<times> sim" where
  "chooseDirection i dr tg s =
     (let e = ent s i in
      if threatTarget tg \<noteq> - 1
         \<and> fearDrive dr \<ge> max (thirstDrive dr) (max (hungerDrive dr) (mateDrive dr))
      then ((sgn (xA e - xA (ent s (threatTarget tg))),
             sgn (yA e - yA (ent s (threatTarget tg)))), s)
      else if waterTarget tg \<noteq> None \<and> thirstDrive dr \<ge> max (hungerDrive dr) (mateDrive dr)
      then ((sgn (fst (the (waterTarget tg)) - xA e), sgn (snd (the (waterTarget tg)) - yA e)), s)
      else if thirstDrive dr > 12 / 100 \<and> canUseWater (classA e)
      then (case pickWaterGradientStep s i of None \<Rightarrow> ((0, 0), s) | Some d \<Rightarrow> (d, s))
      else if habitatDrive dr > 18 / 100
      then (case pickHabitatStep s i of None \<Rightarrow> ((0, 0), s) | Some d \<Rightarrow> (d, s))
      else if foodTarget tg \<noteq> - 1
      then ((sgn (xA (ent s (foodTarget tg)) - xA e),
             sgn (yA (ent s (foodTarget tg)) - yA e)), s)
      else if mateTarget tg \<noteq> - 1
      then ((sgn (xA (ent s (mateTarget tg)) - xA e),
             sgn (yA (ent s (mateTarget tg)) - yA e)), s)
      else
        let (r1, s1) = rngS s;
            (r2, s2) = rngS s1
        in ((if r1 - 5 / 10 > 0 then 1 else if r1 - 5 / 10 < 0 then - 1 else 0,
             if r2 - 5 / 10 > 0 then 1 else if r2 - 5 / 10 < 0 then - 1 else 0), s2))"

definition moveStep :: "int \<Rightarrow> Biome \<Rightarrow> drives \<Rightarrow> targets \<Rightarrow> sim \<Rightarrow> sim" where
  "moveStep i b dr tg s =
     (let e = ent s i;
          c = classA e;
          baseMove = clamp01 ((speedA e * moveSpeedBonus c) / biomeMoveCost b);
          strongestDrive = max (thirstDrive dr) (max (hungerDrive dr) (max (mateDrive dr)
                             (max (fearDrive dr) (habitatDrive dr))));
          motiveBoost = 12 / 100 + strongestDrive * motiveMoveBoostMax (behaviorTuning s);
          (r, s1) = rngS s
      in if \<not> r < clamp01 (baseMove + motiveBoost) then s1
         else
           let ((dx0, dy0), s2) = chooseDirection i dr tg s1;
               stay = (mustStayOnWater c
                       \<and> waterMap s2 (idx s2 (max 0 (min (gridW s2 - 1) (xA (ent s2 i) + dx0)))
                                              (max 0 (min (gridH s2 - 1) (yA (ent s2 i) + dy0))))
                          \<noteq> Some True);
               dx = (if stay then 0 else dx0);
               dy = (if stay then 0 else dy0)
           in if dx \<noteq> 0 \<or> dy \<noteq> 0
              then (let (moved, s3) =
                          moveEntity i (max 0 (min (gridW s2 - 1) (xA (ent s2 i) + dx)))
                                       (max 0 (min (gridH s2 - 1) (yA (ent s2 i) + dy))) s2
                    in if moved
                       then upd i (\<lambda>e. e\<lparr>energyA := clamp01 (energyA e
                               - MOVE_ENERGY_COST * (1 + sizeA e * (5 / 10)) * biomeMoveCost b)\<rparr>) s3
                       else s3)
              else s2)"
text \<open>
  \<open>// Interactions: feed from adjacent targets\<close>. The draw of
  \<open>hungerDrive > 0.16 || rng() < opportunisticFeedChance\<close> is made only when the hunger
  drive is at most 0.16.
\<close>

definition eatPlant :: "int \<Rightarrow> int \<Rightarrow> sim \<Rightarrow> sim" where
  "eatPlant i plantAdj s =
     (let bite = plantBiteAmount (behaviorTuning s);
          taken = min bite (energyA (ent s plantAdj));
          plantDigest = (if dietA (ent s i) = Herbivore then PLANT_DIGESTION_EFFICIENCY_HERB
                         else PLANT_DIGESTION_EFFICIENCY_OMNI);
          s1 = upd i (\<lambda>e. e\<lparr>energyA := clamp01 (energyA e + taken * plantDigest)\<rparr>) s;
          s2 = upd i (\<lambda>e. e\<lparr>plantFeedHistoryA :=
                               clamp01 (plantFeedHistoryA e + taken * (18 / 100))\<rparr>) s1;
          s3 = upd plantAdj (\<lambda>e. e\<lparr>energyA := energyA e - taken\<rparr>) s2
      in if energyA (ent s3 plantAdj) \<le> 5 / 100
         then removeAt plantAdj (recordDeath plantAdj s3)
         else s3)"

definition attackPrey :: "int \<Rightarrow> int \<Rightarrow> sim \<Rightarrow> sim" where
  "attackPrey i preyAdj s =
     (let sizeAdv = max 0 (sizeA (ent s i) - sizeA (ent s preyAdj));
          stealthPenalty = camoA (ent s preyAdj) * (35 / 100) + speedA (ent s preyAdj) * (25 / 100);
          chance = clamp01 (8 / 100 + hostilityA (ent s i) * (42 / 100) + sizeAdv * (32 / 100)
                            - stealthPenalty);
          (r, s1) = rngS s
      in if r < chance
         then (let meatDigest = (if dietA (ent s1 i) = Carnivore then MEAT_DIGESTION_EFFICIENCY_CARN
                                 else MEAT_DIGESTION_EFFICIENCY_OMNI);
                   s2 = upd i (\<lambda>e. e\<lparr>energyA := clamp01 (energyA e
                          + energyA (ent s1 preyAdj) * attackEnergyGain (behaviorTuning s1)
                            * meatDigest)\<rparr>) s1;
                   s3 = upd i (\<lambda>e. e\<lparr>preyFeedHistoryA :=
                                        clamp01 (preyFeedHistoryA e + 24 / 100)\<rparr>) s2
               in removeAt preyAdj (recordDeath preyAdj s3))
         else upd i (\<lambda>e. e\<lparr>energyA := clamp01 (energyA e - 3 / 100)\<rparr>) s1)"

definition feedStep :: "int \<Rightarrow> real \<Rightarrow> sim \<Rightarrow> sim" where
  "feedStep i hunger s =
     (let (plantAdj, s1) =
            (if dietA (ent s i) = Herbivore \<or> dietA (ent s i) = Omnivore
             then findBestNeighborByScore s i 1 (\<lambda>j. lifeTypeA (ent s j) = Plant)
                    (\<lambda>j dst. 5 / 10 + energyA (ent s j))
             else (- 1, s));
          (preyAdj, s2) =
            (if dietA (ent s1 i) = Carnivore \<or> dietA (ent s1 i) = Omnivore
             then findBestNeighborByScore s1 i 1 (preyPred s1 i hunger)
                    (\<lambda>j dst.
                       let sizeAdv = max (5 / 100) (sizeA (ent s1 i) - sizeA (ent s1 j) + 5 / 10)
                       in sizeAdv * (3 / 10 + energyA (ent s1 j) * (7 / 10)))
             else (- 1, s1));
          (feed, s3) =
            (if hunger > 16 / 100 then (True, s2)
             else let (r, s') = rngS s2 in
                  (r < opportunisticFeedChance (behaviorTuning s'), s'))
      in if \<not> feed then s3
         else if plantAdj \<noteq> - 1 then eatPlant i plantAdj s3
         else if preyAdj \<noteq> - 1 then attackPrey i preyAdj s3
         else s3)"

definition socialStep :: "int \<Rightarrow> sim \<Rightarrow> sim" where
  "socialStep i s =
     (if \<not> socialA (ent s i) > 6 / 10 then s
      else
        let (buddy, s1) =
              findBestNeighborByScore s i 2
                (\<lambda>j. j \<noteq> i \<and> lifeTypeA (ent s j) = lifeTypeA (ent s i)
                     \<and> geneticCompatibility s i j > 7 / 10)
                (\<lambda>j dst. geneticCompatibility s i j * (1 / (real_of_int dst + 5 / 10)))
        in if buddy \<noteq> - 1
           then upd i (\<lambda>e. e\<lparr>energyA := clamp01 (energyA e + 1 / 1000)\<rparr>) s1
           else s1)"

text \<open>\<open>// Behavior & movement (animals)\<close>, the block that an active animal runs.\<close>

definition behave :: "int \<Rightarrow> Biome \<Rightarrow> real \<Rightarrow> sim \<Rightarrow> sim outcome" where
  "behave i b tempStress s =
     (let s1 = readinessStep i s;
          dr = computeDrives i b tempStress s1
      in andThen (findTargets i dr s1)
           (\<lambda>(tg, s2).
              Done (updateParentalCare i
                      (socialStep i (feedStep i (hungerDrive dr) (moveStep i b dr tg s2))))))"

text \<open>
  \<open>// Fire damage and evacuation pressure\<close>. The result says whether the entity died
  of it, in which case the code goes on to the next entity.
\<close>

definition fireStep :: "int \<Rightarrow> sim \<Rightarrow> bool \<times> sim" where
  "fireStep i s =
     (if \<not> fireTTLMap s (idx s (xA (ent s i)) (yA (ent s i))) > 0 then (False, s)
      else
        let s1 = upd i (\<lambda>e. e\<lparr>hydrationA := clamp01 (hydrationA e - 14 / 1000)\<rparr>) s;
            s2 = upd i (\<lambda>e. e\<lparr>energyA := clamp01 (energyA e
                     - (if lifeTypeA e = Plant then 9 / 100 else 3 / 100))\<rparr>) s1;
            s3 = (if lifeTypeA (ent s2 i) = Animal
                  then (case pickWaterGradientStep s2 i of
                          None \<Rightarrow> s2
                        | Some (dx, dy) \<Rightarrow>
                            snd (moveEntity i
                                   (max 0 (min (gridW s2 - 1) (xA (ent s2 i) + dx)))
                                   (max 0 (min (gridH s2 - 1) (yA (ent s2 i) + dy))) s2))
                  else s2)
        in if energyA (ent s3 i) \<le> 0 \<or> hydrationA (ent s3 i) \<le> 0
           then (True, removeAt i (recordDeath i s3))
           else (False, s3))"

text \<open>
  \<open>// Death: starvation/dehydration/age + temperature stress\<close>. The result says whether
  the entity is still alive.
\<close>

definition deathStep :: "int \<Rightarrow> Biome \<Rightarrow> sim \<Rightarrow> bool \<times> sim" where
  "deathStep i b s =
     (let tol = tempTolA (ent s i);
          coldStress = max 0 (3 / 10 - biomeTemp b - (tol - 3 / 10));
          heatStress = max 0 (biomeTemp b - 7 / 10 - (tol - 3 / 10));
          tempPenalty = (1 / 1000) * (coldStress + heatStress);
          s1 = upd i (\<lambda>e. e\<lparr>energyA := clamp01 (energyA e - tempPenalty)\<rparr>) s;
          e1 = ent s1 i
      in if energyA e1 \<le> 0 \<or> hydrationA e1 \<le> 0 \<or> ageA e1 \<ge> maxAgeA e1
         then (False, removeAt i (recordDeath i s1))
         else (True, s1))"
text \<open>
  The state of the sweep: the module state and the two local counters \<open>liveAnimals\<close> and
  \<open>livePlants\<close>. \<open>entityTick\<close> is the body of the sweep from \<open>ageA[i] += 1\<close> on, for a
  live entity.
\<close>

record sweepState =
  ssim :: sim
  liveAnimals :: int
  livePlants :: int

definition entityTick :: "bool \<Rightarrow> RainCell list \<Rightarrow> int \<Rightarrow> sweepState \<Rightarrow> sweepState outcome" where
  "entityTick night cells i st =
     (let s1 = ageStep i (ssim st);
          p = idx s1 (xA (ent s1 i)) (yA (ent s1 i));
          b = biomeMap s1 p;
          onWater = (waterMap s1 p = Some True);
          rainAmount = getRainAmountAt (xA (ent s1 i)) (yA (ent s1 i)) cells;
          s2 = hydrationStep i b onWater rainAmount s1;
          tempStress = getTemperatureStress (tempTolA (ent s2 i)) (biomeTemp b) (biomeTempRange b);
          stressFactor = 1 + tempStress * 2;
          s3 = metabolism i b night rainAmount stressFactor s2;
          active = ((activityA (ent s3 i) = Diurnal \<and> \<not> night)
                    \<or> (activityA (ent s3 i) = Nocturnal \<and> night)
                    \<or> activityA (ent s3 i) = Cathemeral)
      in andThen (if lifeTypeA (ent s3 i) = Animal \<and> active then behave i b tempStress s3
                  else Done s3)
           (\<lambda>s4.
              let (burnt, s5) = fireStep i s4 in
              if burnt then Done (st\<lparr>ssim := s5\<rparr>)
              else
                andThen (if count s5 < MAX_ENTITIES then tryReproduce i s5 else Done s5)
                  (\<lambda>s6.
                     let (lives, s7) = deathStep i b s6 in
                     if \<not> lives then Done (st\<lparr>ssim := s7\<rparr>)
                     else if lifeTypeA (ent s7 i) = Animal
                     then Done (st\<lparr>ssim := s7, liveAnimals := liveAnimals st + 1\<rparr>)
                     else Done (st\<lparr>ssim := s7, livePlants := livePlants st + 1\<rparr>))))"

text \<open>
  The sweep \<open>for (let n = 0; n < count; n++)\<close>, with the slot counter of the moment in
  the test and in \<open>(start + n) % count\<close>; the first argument bounds its rounds.
\<close>

definition sweepStep ::
  "bool \<Rightarrow> RainCell list \<Rightarrow> int \<Rightarrow> int \<Rightarrow> sweepState \<Rightarrow> sweepState outcome" where
  "sweepStep night cells start n st =
     (let i = js_rem (start + n) (count (ssim st)) in
      if \<not> aliveA (ent (ssim st) i) then Done st
      else entityTick night cells i st)"

primrec sweep ::
  "nat \<Rightarrow> bool \<Rightarrow> RainCell list \<Rightarrow> int \<Rightarrow> int \<Rightarrow> sweepState \<Rightarrow> sweepState outcome" where
  "sweep 0 night cells start n st = (if n < count (ssim st) then Unfinished else Done st)"
| "sweep (Suc k) night cells start n st =
     (if n < count (ssim st)
      then andThen (sweepStep night cells start n st) (sweep k night cells start (n + 1))
      else Done st)"

text \<open>
  \<open>updateEggs\<close> and \<open>updateSpeciesStats\<close> end the tick; the latter writes the species
  statistics only.
\<close>

definition stepOnce :: "sim \<Rightarrow> sim outcome" where
  "stepOnce s =
     (let s1 = startNextDayIfNeeded (s\<lparr>tick := tick s + 1\<rparr>);
          night = isNight (tick s1);
          cells = getRainCells s1 (tick s1);
          s2 = s1\<lparr>rainCoverageNow := rainCoverage s1 cells\<rparr>
      in andThen (spawnLightning cells s2)
           (\<lambda>s3. andThen (updateFires cells s3)
              (\<lambda>s4.
                 let start = js_rem (tick s4 * 9973) (if count s4 = 0 then 1 else count s4) in
                 andThen (sweep (nat (max (count s4) MAX_ENTITIES)) night cells start 0
                            \<lparr>ssim = s4, liveAnimals = 0, livePlants = 0\<rparr>)
                   (\<lambda>st.
                      let s5 = (ssim st)\<lparr> animals := liveAnimals st, plants := livePlants st,
                                           total := liveAnimals st + livePlants st \<rparr>
                      in andThen (updateReproductionStates s5)
                           (\<lambda>s6. Done (updateEggs s6))))))"

subsection \<open>Predicates of the verification of the tick\<close>

text \<open>
  \<open>sat pj Q r\<close>: the state left by the call \<open>r\<close> satisfies \<open>Q\<close>, whether the call returned
  (then \<open>pj\<close> takes the state out of the result) or threw. \<open>finished r\<close>: the bound on
  the rounds of a loop was not used up.
\<close>

definition sat :: "('a \<Rightarrow> sim) \<Rightarrow> (sim \<Rightarrow> bool) \<Rightarrow> 'a outcome \<Rightarrow> bool" where
  "sat pj Q r = (case r of Done x \<Rightarrow> Q (pj x) | Thrown t \<Rightarrow> Q t | Unfinished \<Rightarrow> True)"

definition finished :: "'a outcome \<Rightarrow> bool" where
  "finished r = (case r of Unfinished \<Rightarrow> False | _ \<Rightarrow> True)"

text \<open>
  The slot counter of \<open>t\<close> is not below that of \<open>s\<close>, and not above it once that is
  \<open>MAX_ENTITIES\<close> or more.
\<close>

definition slots_grow :: "sim \<Rightarrow> sim \<Rightarrow> bool" where
  "slots_grow s t = (count s \<le> count t \<and> count t \<le> max (count s) MAX_ENTITIES)"

text \<open>
  The rule of C3 for one row, and for all rows. A row that was never written is a plant
  with speed 0, vision 0 and diet Photosynthesis, so the rule is stated for every row.
\<close>

definition diet_ok :: "entity \<Rightarrow> bool" where
  "diet_ok e =
     ((lifeTypeA e = Plant \<longrightarrow> speedA e = 0 \<and> visionA e = 0 \<and> dietA e = Photosynthesis)
      \<and> (lifeTypeA e = Animal \<longrightarrow> dietA e \<noteq> Photosynthesis))"

definition diet_inv :: "sim \<Rightarrow> bool" where
  "diet_inv s = (\<forall>i. diet_ok (ent s i))"

text \<open>
  The bounds of C4 for one row, and what the tick needs to keep them: the bounds in every
  row, a viability in \<open>[0, 1]\<close> for every egg, and a bite that is not negative.
\<close>

definition vit_ok :: "entity \<Rightarrow> bool" where
  "vit_ok e = (0 \<le> energyA e \<and> energyA e \<le> 1 \<and> 0 \<le> hydrationA e \<and> hydrationA e \<le> 1)"

definition egg_ok :: "EggData \<Rightarrow> bool" where
  "egg_ok g = (0 \<le> viability g \<and> viability g \<le> 1)"

definition vitals_inv :: "sim \<Rightarrow> bool" where
  "vitals_inv s = ((\<forall>i. vit_ok (ent s i)) \<and> list_all egg_ok (eggs s)
                   \<and> 0 \<le> plantBiteAmount (behaviorTuning s))"

text \<open>
  What every stage of the tick keeps, from a state \<open>s\<close> to a later state \<open>t\<close>; \<open>core\<close> is
  the part of the state that it depends on.
\<close>

definition tick_rel :: "sim \<Rightarrow> sim \<Rightarrow> bool" where
  "tick_rel s t = (slots_grow s t \<and> behaviorTuning t = behaviorTuning s
                   \<and> (diet_inv s \<longrightarrow> diet_inv t) \<and> (vitals_inv s \<longrightarrow> vitals_inv t))"

definition core :: "sim \<Rightarrow> (int \<Rightarrow> entity) \<times> int \<times> EggData list \<times> BehaviorTuning" where
  "core s = (ent s, count s, eggs s, behaviorTuning s)"

text \<open>
  The tile on which \<open>hatchEgg\<close> puts the hatchling, \<open>None\<close> when it gives up: for a fish
  egg that does not lie on water the free water tile that \<open>findNearbyWater\<close> finds within
  two tiles, for every other egg its own tile when that is free.
\<close>

definition hatchTile :: "EggData \<Rightarrow> sim \<Rightarrow> (int \<times> int) option" where
  "hatchTile egg s =
     (if lifeType (eggGenome egg) = Animal \<and> speciesClass (eggGenome egg) = Fish
         \<and> waterMap s (idx s (eggX egg) (eggY egg)) \<noteq> Some True
      then findNearbyWater s (eggX egg) (eggY egg) 2
      else if occ s (idx s (eggX egg) (eggY egg)) = Some (- 1)
      then Some (eggX egg, eggY egg) else None)"

text \<open>
  \<open>hatched egg s t\<close>: from the state \<open>s\<close> to the state \<open>t\<close> an entity was created from
  the egg. The slot counter and the population counters grew by one; the row of the new
  slot is a live juvenile of age 0 with the next id and the life type, class and diet of
  the egg's genome; it stands on the hatching tile, which was free and now holds its index,
  and no other entry of the occupancy grid and no other row changed.
  \<open>unhatched s t\<close>: no entity was created. The counters, the occupancy grid and the rows
  of all slots in use are as before.
\<close>

definition hatched :: "EggData \<Rightarrow> sim \<Rightarrow> sim \<Rightarrow> bool" where
  "hatched egg s t =
     (let k = count s; c = ent t k; lt = lifeType (eggGenome egg) in
      count t = k + 1 \<and> total t = total s + 1
      \<and> animals t = animals s + (if lt = Animal then 1 else 0)
      \<and> plants t = plants s + (if lt = Animal then 0 else 1)
      \<and> aliveA c \<and> idA c = k + 1 \<and> ageA c = 0 \<and> \<not> adultA c
      \<and> lifeTypeA c = lt
      \<and> classA c = normalizeSpeciesClass lt (speciesClass (eggGenome egg))
      \<and> dietA c = normalizeDiet lt (diet (eggGenome egg))
      \<and> hatchTile egg s = Some (xA c, yA c)
      \<and> occ s (idx s (xA c) (yA c)) = Some (- 1)
      \<and> occ t = ta_set (occ s) (idx s (xA c) (yA c)) k
      \<and> (\<forall>j. j \<noteq> k \<longrightarrow> ent t j = ent s j))"

definition unhatched :: "sim \<Rightarrow> sim \<Rightarrow> bool" where
  "unhatched s t =
     (count t = count s \<and> total t = total s \<and> animals t = animals s \<and> plants t = plants s
      \<and> occ t = occ s \<and> (\<forall>j. j < count s \<longrightarrow> ent t j = ent s j))"

subsection \<open>The behaviour tuning\<close>



subsection \<open>Predicates of the verification of a whole tick\<close>

text \<open>
  \<open>after_tick Q s\<close>: the call \<open>stepOnce()\<close> in the state \<open>s\<close> ends, and the state it leaves
  satisfies \<open>Q\<close>, whether it returns or throws.
\<close>

definition after_tick :: "(sim \<Rightarrow> bool) \<Rightarrow> sim \<Rightarrow> bool" where
  "after_tick Q s = (case stepOnce s of Done t \<Rightarrow> Q t | Thrown t \<Rightarrow> Q t | Unfinished \<Rightarrow> False)"

text \<open>The empty world after \<open>place(5, 5, sampleGenome, 0.8)\<close>: one live animal.\<close>

definition oneAnimal :: sim where
  "oneAnimal = snd (place 5 5 sampleGenome (8 / 10) emptyWorld)"

text \<open>
  The same world with the slot counter at its limit: one live animal, and every slot
  handed out.
\<close>

definition fullWorld :: sim where
  "fullWorld = oneAnimal\<lparr>count := MAX_ENTITIES\<rparr>"

section \<open>Verification\<close>

subsection \<open>Frame lemmas\<close>

lemma upd_simps [simp]:
  "occ (upd i f s) = occ s"
  "count (upd i f s) = count s"
  "total (upd i f s) = total s"
  "animals (upd i f s) = animals s"
  "plants (upd i f s) = plants s"
  "gridW (upd i f s) = gridW s"
  "gridH (upd i f s) = gridH s"
  "waterMap (upd i f s) = waterMap s"
  "biomeMap (upd i f s) = biomeMap s"
  "moistureMap (upd i f s) = moistureMap s"
  "waterDistanceMap (upd i f s) = waterDistanceMap s"
  "fireTTLMap (upd i f s) = fireTTLMap s"
  "RNG_S (upd i f s) = RNG_S s"
  "tick (upd i f s) = tick s"
  "eggs (upd i f s) = eggs s"
  "MUTATION_LOG (upd i f s) = MUTATION_LOG s"
  "currentDayStats (upd i f s) = currentDayStats s"
  "behaviorTuning (upd i f s) = behaviorTuning s"
  "ent (upd i f s) = (ent s)(i := f (ent s i))"
  by (simp_all add: upd_def)

lemma idx_cong: "gridW s' = gridW s \<Longrightarrow> idx s' x y = idx s x y"
  by (simp add: idx_def)

lemma idx_upd [simp]: "idx (upd i f s) x y = idx s x y"
  by (simp add: idx_def)

lemma aPFG_frame [simp]:
  "occ (applyPhenotypeFromGenes i s) = occ s"
  "count (applyPhenotypeFromGenes i s) = count s"
  "total (applyPhenotypeFromGenes i s) = total s"
  "animals (applyPhenotypeFromGenes i s) = animals s"
  "plants (applyPhenotypeFromGenes i s) = plants s"
  "gridW (applyPhenotypeFromGenes i s) = gridW s"
  "gridH (applyPhenotypeFromGenes i s) = gridH s"
  "waterMap (applyPhenotypeFromGenes i s) = waterMap s"
  "biomeMap (applyPhenotypeFromGenes i s) = biomeMap s"
  "moistureMap (applyPhenotypeFromGenes i s) = moistureMap s"
  "waterDistanceMap (applyPhenotypeFromGenes i s) = waterDistanceMap s"
  "fireTTLMap (applyPhenotypeFromGenes i s) = fireTTLMap s"
  "RNG_S (applyPhenotypeFromGenes i s) = RNG_S s"
  "tick (applyPhenotypeFromGenes i s) = tick s"
  "eggs (applyPhenotypeFromGenes i s) = eggs s"
  "MUTATION_LOG (applyPhenotypeFromGenes i s) = MUTATION_LOG s"
  "currentDayStats (applyPhenotypeFromGenes i s) = currentDayStats s"
  "behaviorTuning (applyPhenotypeFromGenes i s) = behaviorTuning s"
  by (simp_all add: applyPhenotypeFromGenes_def)

lemma setTA_frame [simp]:
  "occ (setTraitAlleles i g s) = occ s"
  "count (setTraitAlleles i g s) = count s"
  "total (setTraitAlleles i g s) = total s"
  "animals (setTraitAlleles i g s) = animals s"
  "plants (setTraitAlleles i g s) = plants s"
  "gridW (setTraitAlleles i g s) = gridW s"
  "gridH (setTraitAlleles i g s) = gridH s"
  "waterMap (setTraitAlleles i g s) = waterMap s"
  "biomeMap (setTraitAlleles i g s) = biomeMap s"
  "moistureMap (setTraitAlleles i g s) = moistureMap s"
  "waterDistanceMap (setTraitAlleles i g s) = waterDistanceMap s"
  "fireTTLMap (setTraitAlleles i g s) = fireTTLMap s"
  "RNG_S (setTraitAlleles i g s) = RNG_S s"
  "tick (setTraitAlleles i g s) = tick s"
  "eggs (setTraitAlleles i g s) = eggs s"
  "MUTATION_LOG (setTraitAlleles i g s) = MUTATION_LOG s"
  "currentDayStats (setTraitAlleles i g s) = currentDayStats s"
  "behaviorTuning (setTraitAlleles i g s) = behaviorTuning s"
  by (simp_all add: setTraitAlleles_def)

lemma applyGenome_frame [simp]:
  "occ (applyGenome i g s) = occ s"
  "count (applyGenome i g s) = count s"
  "total (applyGenome i g s) = total s"
  "animals (applyGenome i g s) = animals s"
  "plants (applyGenome i g s) = plants s"
  "gridW (applyGenome i g s) = gridW s"
  "gridH (applyGenome i g s) = gridH s"
  "waterMap (applyGenome i g s) = waterMap s"
  "biomeMap (applyGenome i g s) = biomeMap s"
  "moistureMap (applyGenome i g s) = moistureMap s"
  "waterDistanceMap (applyGenome i g s) = waterDistanceMap s"
  "fireTTLMap (applyGenome i g s) = fireTTLMap s"
  "tick (applyGenome i g s) = tick s"
  "eggs (applyGenome i g s) = eggs s"
  "MUTATION_LOG (applyGenome i g s) = MUTATION_LOG s"
  "currentDayStats (applyGenome i g s) = currentDayStats s"
  "behaviorTuning (applyGenome i g s) = behaviorTuning s"
  by (simp_all add: applyGenome_def Let_def split_beta)

lemma idx_frames [simp]:
  "idx (applyGenome i g s) x y = idx s x y"
  "idx (setTraitAlleles i ge s) x y = idx s x y"
  "idx (applyPhenotypeFromGenes i s) x y = idx s x y"
  by (simp_all add: idx_def)

lemma applyGenome_other [simp]:
  "j \<noteq> i \<Longrightarrow> ent (applyGenome i g s) j = ent s j"
  by (simp add: applyGenome_def Let_def applyPhenotypeFromGenes_def setTraitAlleles_def split: prod.splits)

lemma setTA_other [simp]: "j \<noteq> i \<Longrightarrow> ent (setTraitAlleles i g s) j = ent s j"
  by (simp add: setTraitAlleles_def)

lemma aPFG_other [simp]: "j \<noteq> i \<Longrightarrow> ent (applyPhenotypeFromGenes i s) j = ent s j"
  by (simp add: applyPhenotypeFromGenes_def)

lemma ta_set_same: "a k \<noteq> None \<Longrightarrow> ta_set a k v k = Some v"
  by (simp add: ta_set_def)

lemma ta_set_other: "j \<noteq> k \<Longrightarrow> ta_set a k v j = a j"
  by (simp add: ta_set_def)

lemma countLife_simps [simp]:
  "occ (countLife i s) = occ s"
  "count (countLife i s) = count s"
  "gridW (countLife i s) = gridW s"
  "gridH (countLife i s) = gridH s"
  "waterMap (countLife i s) = waterMap s"
  "biomeMap (countLife i s) = biomeMap s"
  "moistureMap (countLife i s) = moistureMap s"
  "waterDistanceMap (countLife i s) = waterDistanceMap s"
  "fireTTLMap (countLife i s) = fireTTLMap s"
  "RNG_S (countLife i s) = RNG_S s"
  "tick (countLife i s) = tick s"
  "eggs (countLife i s) = eggs s"
  "MUTATION_LOG (countLife i s) = MUTATION_LOG s"
  "currentDayStats (countLife i s) = currentDayStats s"
  "behaviorTuning (countLife i s) = behaviorTuning s"
  "ent (countLife i s) = ent s"
  "total (countLife i s) = total s + 1"
  by (simp_all add: countLife_def Let_def)

lemma placeAt_free:
  "occ s (idx s x y) = Some (- 1) \<Longrightarrow>
   placeAt i x y s = (True, (upd i (\<lambda>e. e\<lparr>xA := x, yA := y\<rparr>) s)\<lparr>occ := ta_set (occ s) (idx s x y) i\<rparr>)"
  by (simp add: placeAt_def Let_def)

lemma placeAt_taken:
  "occ s (idx s x y) \<noteq> Some (- 1) \<Longrightarrow> placeAt i x y s = (False, s)"
  by (simp add: placeAt_def Let_def)

lemma placeAt_frame [simp]:
  "count (snd (placeAt i x y s)) = count s"
  "total (snd (placeAt i x y s)) = total s"
  "animals (snd (placeAt i x y s)) = animals s"
  "plants (snd (placeAt i x y s)) = plants s"
  "gridW (snd (placeAt i x y s)) = gridW s"
  "gridH (snd (placeAt i x y s)) = gridH s"
  "waterMap (snd (placeAt i x y s)) = waterMap s"
  "biomeMap (snd (placeAt i x y s)) = biomeMap s"
  "moistureMap (snd (placeAt i x y s)) = moistureMap s"
  "waterDistanceMap (snd (placeAt i x y s)) = waterDistanceMap s"
  "fireTTLMap (snd (placeAt i x y s)) = fireTTLMap s"
  "RNG_S (snd (placeAt i x y s)) = RNG_S s"
  "tick (snd (placeAt i x y s)) = tick s"
  "eggs (snd (placeAt i x y s)) = eggs s"
  "MUTATION_LOG (snd (placeAt i x y s)) = MUTATION_LOG s"
  "currentDayStats (snd (placeAt i x y s)) = currentDayStats s"
  "behaviorTuning (snd (placeAt i x y s)) = behaviorTuning s"
  "j \<noteq> i \<Longrightarrow> ent (snd (placeAt i x y s)) j = ent s j"
  by (simp_all add: placeAt_def Let_def)

lemma placeAt_row:
  "ent (snd (placeAt i x y s)) i = ent s i
   \<or> ent (snd (placeAt i x y s)) i = (ent s i)\<lparr>xA := x, yA := y\<rparr>"
  by (simp add: placeAt_def Let_def)

lemma placeAt_keeps:
  assumes "\<And>e x y. P (e\<lparr>xA := x, yA := y\<rparr>) = P e"
  shows "P (ent (snd (placeAt i x y s)) j) = P (ent s j)"
  using assms by (simp add: placeAt_def Let_def)

lemma rngS_frame [simp]:
  "occ (snd (rngS s)) = occ s"
  "count (snd (rngS s)) = count s"
  "total (snd (rngS s)) = total s"
  "animals (snd (rngS s)) = animals s"
  "plants (snd (rngS s)) = plants s"
  "gridW (snd (rngS s)) = gridW s"
  "gridH (snd (rngS s)) = gridH s"
  "waterMap (snd (rngS s)) = waterMap s"
  "biomeMap (snd (rngS s)) = biomeMap s"
  "moistureMap (snd (rngS s)) = moistureMap s"
  "waterDistanceMap (snd (rngS s)) = waterDistanceMap s"
  "fireTTLMap (snd (rngS s)) = fireTTLMap s"
  "tick (snd (rngS s)) = tick s"
  "eggs (snd (rngS s)) = eggs s"
  "MUTATION_LOG (snd (rngS s)) = MUTATION_LOG s"
  "currentDayStats (snd (rngS s)) = currentDayStats s"
  "behaviorTuning (snd (rngS s)) = behaviorTuning s"
  "ent (snd (rngS s)) = ent s"
  "fst (rngS s) = fst (rng (RNG_S s))"
  "RNG_S (snd (rngS s)) = snd (rng (RNG_S s))"
  by (simp_all add: rngS_def split_beta)

lemma recordBirth_simps [simp]:
  "occ (recordBirth lt s) = occ s"
  "count (recordBirth lt s) = count s"
  "total (recordBirth lt s) = total s"
  "animals (recordBirth lt s) = animals s"
  "plants (recordBirth lt s) = plants s"
  "gridW (recordBirth lt s) = gridW s"
  "gridH (recordBirth lt s) = gridH s"
  "waterMap (recordBirth lt s) = waterMap s"
  "biomeMap (recordBirth lt s) = biomeMap s"
  "moistureMap (recordBirth lt s) = moistureMap s"
  "waterDistanceMap (recordBirth lt s) = waterDistanceMap s"
  "fireTTLMap (recordBirth lt s) = fireTTLMap s"
  "RNG_S (recordBirth lt s) = RNG_S s"
  "tick (recordBirth lt s) = tick s"
  "eggs (recordBirth lt s) = eggs s"
  "MUTATION_LOG (recordBirth lt s) = MUTATION_LOG s"
  "behaviorTuning (recordBirth lt s) = behaviorTuning s"
  "ent (recordBirth lt s) = ent s"
  by (simp_all add: recordBirth_def split: option.splits)

lemma pushMutationEvent_simps [simp]:
  "occ (pushMutationEvent evt s) = occ s"
  "count (pushMutationEvent evt s) = count s"
  "total (pushMutationEvent evt s) = total s"
  "animals (pushMutationEvent evt s) = animals s"
  "plants (pushMutationEvent evt s) = plants s"
  "gridW (pushMutationEvent evt s) = gridW s"
  "gridH (pushMutationEvent evt s) = gridH s"
  "waterMap (pushMutationEvent evt s) = waterMap s"
  "biomeMap (pushMutationEvent evt s) = biomeMap s"
  "moistureMap (pushMutationEvent evt s) = moistureMap s"
  "waterDistanceMap (pushMutationEvent evt s) = waterDistanceMap s"
  "fireTTLMap (pushMutationEvent evt s) = fireTTLMap s"
  "RNG_S (pushMutationEvent evt s) = RNG_S s"
  "tick (pushMutationEvent evt s) = tick s"
  "eggs (pushMutationEvent evt s) = eggs s"
  "currentDayStats (pushMutationEvent evt s) = currentDayStats s"
  "behaviorTuning (pushMutationEvent evt s) = behaviorTuning s"
  "ent (pushMutationEvent evt s) = ent s"
  by (simp_all add: pushMutationEvent_def Let_def)

lemma pushMutationEvent_log:
  "\<exists>rest. MUTATION_LOG (pushMutationEvent evt s) = evt # rest"
  by (simp add: pushMutationEvent_def Let_def)

subsection \<open>Entity fields after the genome functions\<close>

lemma aPFG_fields [simp]:
  "idA (ent (applyPhenotypeFromGenes i s) j) = idA (ent s j)"
  "xA (ent (applyPhenotypeFromGenes i s) j) = xA (ent s j)"
  "yA (ent (applyPhenotypeFromGenes i s) j) = yA (ent s j)"
  "energyA (ent (applyPhenotypeFromGenes i s) j) = energyA (ent s j)"
  "hydrationA (ent (applyPhenotypeFromGenes i s) j) = hydrationA (ent s j)"
  "ageA (ent (applyPhenotypeFromGenes i s) j) = ageA (ent s j)"
  "aliveA (ent (applyPhenotypeFromGenes i s) j) = aliveA (ent s j)"
  "speciesA (ent (applyPhenotypeFromGenes i s) j) = speciesA (ent s j)"
  "lifeTypeA (ent (applyPhenotypeFromGenes i s) j) = lifeTypeA (ent s j)"
  "classA (ent (applyPhenotypeFromGenes i s) j) = classA (ent s j)"
  "dietA (ent (applyPhenotypeFromGenes i s) j) = dietA (ent s j)"
  "genesA (ent (applyPhenotypeFromGenes i s) j) = genesA (ent s j)"
  by (simp_all add: applyPhenotypeFromGenes_def Let_def)

lemma aPFG_pheno:
  "mutRateA (ent (applyPhenotypeFromGenes i s) i) = dt (mutationRate_al (genesA (ent s i)))"
  "hostilityA (ent (applyPhenotypeFromGenes i s) i) = dt (hostility_al (genesA (ent s i)))"
  "sizeA (ent (applyPhenotypeFromGenes i s) i) = dt (size_al (genesA (ent s i)))"
  "fertilityA (ent (applyPhenotypeFromGenes i s) i) = dt (fertility_al (genesA (ent s i)))"
  "speedA (ent (applyPhenotypeFromGenes i s) i) =
     (if lifeTypeA (ent s i) = Plant then 0 else dt (speed_al (genesA (ent s i))))"
  "visionA (ent (applyPhenotypeFromGenes i s) i) =
     (if lifeTypeA (ent s i) = Plant then 0 else dt (vision_al (genesA (ent s i))))"
  by (simp_all add: applyPhenotypeFromGenes_def Let_def)

lemma setTA_fields [simp]:
  "idA (ent (setTraitAlleles i g s) j) = idA (ent s j)"
  "xA (ent (setTraitAlleles i g s) j) = xA (ent s j)"
  "yA (ent (setTraitAlleles i g s) j) = yA (ent s j)"
  "energyA (ent (setTraitAlleles i g s) j) = energyA (ent s j)"
  "hydrationA (ent (setTraitAlleles i g s) j) = hydrationA (ent s j)"
  "ageA (ent (setTraitAlleles i g s) j) = ageA (ent s j)"
  "aliveA (ent (setTraitAlleles i g s) j) = aliveA (ent s j)"
  "speciesA (ent (setTraitAlleles i g s) j) = speciesA (ent s j)"
  "lifeTypeA (ent (setTraitAlleles i g s) j) = lifeTypeA (ent s j)"
  "classA (ent (setTraitAlleles i g s) j) = classA (ent s j)"
  "dietA (ent (setTraitAlleles i g s) j) = dietA (ent s j)"
  "speedA (ent (setTraitAlleles i g s) j) = speedA (ent s j)"
  "visionA (ent (setTraitAlleles i g s) j) = visionA (ent s j)"
  "maturityA (ent (setTraitAlleles i g s) j) = maturityA (ent s j)"
  "maxAgeA (ent (setTraitAlleles i g s) j) = maxAgeA (ent s j)"
  by (simp_all add: setTraitAlleles_def)

lemma setTA_genes:
  "mutationRate_al (genesA (ent (setTraitAlleles i g s) i)) = u8pair (mutationRate_al g)"
  "hostility_al (genesA (ent (setTraitAlleles i g s) i)) = u8pair (hostility_al g)"
  "size_al (genesA (ent (setTraitAlleles i g s) i)) = u8pair (size_al g)"
  "fertility_al (genesA (ent (setTraitAlleles i g s) i)) = u8pair (fertility_al g)"
  by (simp_all add: setTraitAlleles_def)

lemma applyGenome_fields [simp]:
  "idA (ent (applyGenome i g s) j) = idA (ent s j)"
  "xA (ent (applyGenome i g s) j) = xA (ent s j)"
  "yA (ent (applyGenome i g s) j) = yA (ent s j)"
  "energyA (ent (applyGenome i g s) j) = energyA (ent s j)"
  "hydrationA (ent (applyGenome i g s) j) = hydrationA (ent s j)"
  "ageA (ent (applyGenome i g s) j) = ageA (ent s j)"
  "aliveA (ent (applyGenome i g s) j) = aliveA (ent s j)"
  by (simp_all add: applyGenome_def Let_def split_beta)

lemma applyGenome_kind:
  "lifeTypeA (ent (applyGenome i g s) i) = lifeType g"
  "classA (ent (applyGenome i g s) i) = normalizeSpeciesClass (lifeType g) (speciesClass g)"
  "dietA (ent (applyGenome i g s) i) = normalizeDiet (lifeType g) (diet g)"
  "speciesA (ent (applyGenome i g s) i) = to_int16 (speciesId g)"
  by (simp_all add: applyGenome_def Let_def split_beta)

subsection \<open>Arithmetic of the helpers\<close>

lemma rng_range: "0 \<le> fst (rng g) \<and> fst (rng g) \<le> 1"
proof -
  let ?w = "g * 1664525 + 1013904223"
  have "unat ?w < 2 ^ 32"
    using unsigned_less [of ?w, where 'a = nat] by simp
  then have "unat ?w \<le> 4294967295" by simp
  then have "real (unat ?w) \<le> real 4294967295" by (rule of_nat_mono)
  then have "real (unat ?w) / 4294967295 \<le> 1" by simp
  moreover have "0 \<le> real (unat ?w) / 4294967295"
    by (rule divide_nonneg_nonneg [OF of_nat_0_le_iff]) simp
  ultimately show ?thesis unfolding rng_def Let_def fst_conv by blast
qed

lemma rngS_range: "0 \<le> fst (rngS s) \<and> fst (rngS s) \<le> 1"
  using rng_range [of "RNG_S s"] by simp

lemma js_or0_small: "0 \<le> v \<Longrightarrow> v < 2147483648 \<Longrightarrow> js_or0 v = \<lfloor>v\<rfloor>"
proof -
  assume a: "0 \<le> v" "v < 2147483648"
  have "0 \<le> \<lfloor>v\<rfloor>" using a by simp
  moreover have "\<lfloor>v\<rfloor> < 2147483648" using a by (simp add: floor_less_iff)
  ultimately show ?thesis using a by (simp add: js_or0_def Let_def)
qed

lemma js_or0_97: "0 \<le> r \<Longrightarrow> r \<le> 1 \<Longrightarrow> 0 \<le> js_or0 (r * 97) \<and> js_or0 (r * 97) \<le> 97"
proof -
  assume a: "0 \<le> r" "r \<le> (1::real)"
  have b: "0 \<le> r * 97" "r * 97 \<le> 97" using a by simp_all
  then have "js_or0 (r * 97) = \<lfloor>r * 97\<rfloor>" by (intro js_or0_small) simp_all
  moreover have "\<lfloor>r * 97\<rfloor> \<le> 97" using b by (simp add: floor_le_iff)
  moreover have "0 \<le> \<lfloor>r * 97\<rfloor>" using b by simp
  ultimately show ?thesis by simp
qed

lemma mod_shift_ne:
  assumes "1 \<le> off" "off \<le> 98"
  shows "(c + off) mod 2048 \<noteq> c mod (2048::int)"
proof
  assume "(c + off) mod 2048 = c mod 2048"
  then have "(2048::int) dvd (c + off) - c" by (simp only: mod_eq_dvd_iff)
  then have "(2048::int) dvd off" by simp
  then have "2048 \<le> off" using assms by (intro zdvd_imp_le) simp_all
  then show False using assms by simp
qed

lemma js_rem_bounds: "- 2048 < js_rem b SPECIES_MAX \<and> js_rem b SPECIES_MAX < 2048"
proof -
  have "0 \<le> (- b) mod 2048" "(- b) mod 2048 < 2048" "0 \<le> b mod 2048" "b mod 2048 < 2048"
    by simp_all
  then show ?thesis unfolding js_rem_def SPECIES_MAX_def by (auto simp: abs_if)
qed

lemma js_rem_shift:
  assumes o: "1 \<le> off" "off \<le> 98"
  shows "js_rem (a + off) SPECIES_MAX \<noteq> a"
proof
  assume e: "js_rem (a + off) SPECIES_MAX = a"
  have bd: "- 2048 < a" "a < 2048" using js_rem_bounds [of "a + off"] e by simp_all
  show False
  proof (cases "a + off < 0")
    case True
    then have "a = - ((- (a + off)) mod 2048)"
      using e by (simp add: js_rem_def SPECIES_MAX_def)
    then have "(- (a + off)) mod 2048 = - a" by simp
    moreover have "(- a) mod 2048 = - a" using True o bd by simp
    ultimately have "(- a - off) mod 2048 = (- a - off + off) mod 2048" by simp
    then show False using mod_shift_ne [OF o, of "- a - off"] by simp
  next
    case False
    then have e2: "(a + off) mod 2048 = a"
      using e by (simp add: js_rem_def SPECIES_MAX_def)
    then have "0 \<le> a" using pos_mod_sign [of 2048 "a + off"] by simp
    then have "a mod 2048 = a" using bd by simp
    then show False using mod_shift_ne [OF o, of a] e2 by simp
  qed
qed

lemma to_int16_small: "- 32768 \<le> v \<Longrightarrow> v < 32768 \<Longrightarrow> to_int16 v = v"
  by (simp add: to_int16_def)

lemma dt_full: "dt (u8pair (255, 255)) = 1" "dt (u8pair (0, 0)) = 0"
  by (simp_all add: dt_def u8pair_def to_uint8_def decodeTrait_def decodeAllele01_def ALLELE_MAX_def)

subsection \<open>The sample worlds\<close>

lemma seedWorld_zero [simp]: "seedWorld 0 0 s = s"
  by (simp add: seedWorld_def)

lemma emptyWorld_simps:
  "count emptyWorld = 0"
  "total emptyWorld = 0"
  "gridW emptyWorld = 120"
  "gridH emptyWorld = 120"
  "occ emptyWorld = ta_new 14400 (- 1)"
  "waterMap emptyWorld = ta_new 14400 False"
  "eggs emptyWorld = []"
  "tick emptyWorld = 0"
  by (simp_all add: emptyWorld_def reseed_def Let_def resetPopulationDiagnostics_def
        buildEnv_def plainEnv_def alloc_def setWorldSize_def normalizeWorldSize_def)

lemma parentWorld_simps:
  "count parentWorld = 1"
  "gridW parentWorld = 120"
  "gridH parentWorld = 120"
  "occ parentWorld = ta_new 14400 (- 1)"
  "waterMap parentWorld = ta_new 14400 False"
  "ent parentWorld 0 = parentRow"
  "tick parentWorld = 0"
  by (simp_all add: parentWorld_def emptyWorld_simps)

subsection \<open>C5: the command place\<close>

text \<open>
  Claim C5. On a state whose slot counter is not negative, \<open>place(x, y, genome, energy)\<close>
  returns true exactly when the slot counter is below \<open>MAX_ENTITIES\<close>, the tile is in
  the grid and its occupancy entry is \<open>-1\<close>. When it returns true, \<open>getCounts().total\<close>
  has grown by one and \<open>inspect(x, y)\<close> returns a snapshot that is alive and has age 0.
  When it returns false the state is unchanged.
\<close>

theorem place_spec:
  assumes c0: "0 \<le> count s"
  shows "(fst (place x y g en s) \<longleftrightarrow>
            count s < MAX_ENTITIES \<and> 0 \<le> x \<and> x < gridW s \<and> 0 \<le> y \<and> y < gridH s
            \<and> occ s (idx s x y) = Some (- 1))
       \<and> (fst (place x y g en s) \<longrightarrow>
            fst (getCounts (snd (place x y g en s))) = fst (getCounts s) + 1
            \<and> (\<exists>snap. inspect x y (snd (place x y g en s)) = Some snap
                        \<and> alive snap \<and> age snap = 0))
       \<and> (\<not> fst (place x y g en s) \<longrightarrow> snd (place x y g en s) = s)"
proof (cases "count s < MAX_ENTITIES \<and> 0 \<le> x \<and> x < gridW s \<and> 0 \<le> y \<and> y < gridH s
            \<and> occ s (idx s x y) = Some (- 1)")
  case False
  then show ?thesis by (auto simp: place_def)
next
  case True
  let ?k = "count s"
  let ?s4 = "upd ?k (\<lambda>e. e\<lparr>speciesA := to_int16 (js_rem (speciesA e) SPECIES_MAX)\<rparr>)
              (upd ?k (\<lambda>e. e\<lparr>idA := ?k + 1, energyA := clamp01 en, hydrationA := 1,
                                ageA := 0, aliveA := True, adultA := False\<rparr>)
                 (applyGenome ?k g (s\<lparr>count := count s + 1\<rparr>)))"
  have occ4: "occ ?s4 (idx ?s4 x y) = Some (- 1)"
    using True by (simp add: idx_def)
  have pl: "place x y g en s =
     (True, countLife ?k ((upd ?k (\<lambda>e. e\<lparr>xA := x, yA := y\<rparr>) ?s4)\<lparr>occ := ta_set (occ ?s4) (idx ?s4 x y) ?k\<rparr>))"
    using True placeAt_free [OF occ4, of ?k]
    by (simp add: place_def Let_def)
  have k1: "?k \<noteq> - 1" using c0 by simp
  show ?thesis
    using True k1 unfolding pl
    by (simp add: getCounts_def inspect_def idx_def ta_set_def encodeEntity_def Let_def)
qed

theorem place_spec_witness:
  "0 \<le> count emptyWorld
   \<and> fst (place 5 5 sampleGenome (8 / 10) emptyWorld)
   \<and> fst (getCounts (snd (place 5 5 sampleGenome (8 / 10) emptyWorld))) = 1
   \<and> (\<exists>snap. inspect 5 5 (snd (place 5 5 sampleGenome (8 / 10) emptyWorld)) = Some snap
               \<and> alive snap \<and> age snap = 0)
   \<and> \<not> fst (place 500 5 sampleGenome (8 / 10) emptyWorld)
   \<and> snd (place 500 5 sampleGenome (8 / 10) emptyWorld) = emptyWorld"
  using place_spec [of emptyWorld 5 5 sampleGenome "8 / 10"]
        place_spec [of emptyWorld 500 5 sampleGenome "8 / 10"]
  by (simp add: emptyWorld_simps idx_def ta_new_def MAX_ENTITIES_def getCounts_def)

lemma find_holds: "List.find P xs = Some v \<Longrightarrow> P v"
  by (induction xs) (auto split: if_splits)

subsection \<open>Creating a row: birth and hatching\<close>

lemma mutateAllele_rate0: "fst (mutateAllele a 0 g) = a"
  using rng_range [of g] by (simp add: mutateAllele_def split_beta)

lemma pickAllele_same: "fst (pickAllele a a g) = a"
  by (simp add: pickAllele_def split_beta)

lemma fromPair_zero: "fst (fromPair 0 (a, a) (b, b) g) = (a, b)"
  by (simp add: fromPair_def split_beta mutateAllele_rate0 pickAllele_same)

lemma recombine_zero:
  assumes "genesA (ent s p) = zeroGenes" "mutRateA (ent s p) = 0"
  shows "hostility_al (fst (recombineGenesFromParents s p None lt g)) = (0, 0)"
    "size_al (fst (recombineGenesFromParents s p None lt g)) = (0, 0)"
    "fertility_al (fst (recombineGenesFromParents s p None lt g)) = (0, 0)"
  using assms
  by (simp_all add: recombineGenesFromParents_def Let_def split_beta zeroGenes_def fromPair_zero)

lemma createOffspringData_genes:
  "fst (snd (fst (createOffspringData s p1 p2 g))) =
     fst (recombineGenesFromParents s p1 p2 (lifeTypeA (ent s p1)) g)"
  by (simp add: createOffspringData_def Let_def genomeOf_def split_beta)

lemma createOffspringData_lifeType:
  "lifeType (fst (fst (createOffspringData s p1 p2 g))) = lifeTypeA (ent s p1)"
  by (simp add: createOffspringData_def Let_def genomeOf_def split_beta)

lemma birth_row_frame [simp]:
  "count (snd (birth_row p1 p2 s)) = count s + 1"
  "j \<noteq> count s \<Longrightarrow> ent (snd (birth_row p1 p2 s)) j = ent s j"
  "idA (ent (snd (birth_row p1 p2 s)) (count s)) = count s + 1"
  "aliveA (ent (snd (birth_row p1 p2 s)) (count s))"
  "ageA (ent (snd (birth_row p1 p2 s)) (count s)) = 0"
  "energyA (ent (snd (birth_row p1 p2 s)) (count s)) = CHILD_ENERGY_START"
  "hydrationA (ent (snd (birth_row p1 p2 s)) (count s)) = 1"
  "occ (snd (birth_row p1 p2 s)) = occ s"
  "total (snd (birth_row p1 p2 s)) = total s"
  "animals (snd (birth_row p1 p2 s)) = animals s"
  "plants (snd (birth_row p1 p2 s)) = plants s"
  "gridW (snd (birth_row p1 p2 s)) = gridW s"
  "gridH (snd (birth_row p1 p2 s)) = gridH s"
  "waterMap (snd (birth_row p1 p2 s)) = waterMap s"
  "biomeMap (snd (birth_row p1 p2 s)) = biomeMap s"
  "moistureMap (snd (birth_row p1 p2 s)) = moistureMap s"
  "waterDistanceMap (snd (birth_row p1 p2 s)) = waterDistanceMap s"
  "fireTTLMap (snd (birth_row p1 p2 s)) = fireTTLMap s"
  "tick (snd (birth_row p1 p2 s)) = tick s"
  "eggs (snd (birth_row p1 p2 s)) = eggs s"
  "MUTATION_LOG (snd (birth_row p1 p2 s)) = MUTATION_LOG s"
  "currentDayStats (snd (birth_row p1 p2 s)) = currentDayStats s"
  "behaviorTuning (snd (birth_row p1 p2 s)) = behaviorTuning s"
  by (simp_all add: birth_row_def Let_def split_beta)

lemma hatchEgg_row_frame [simp]:
  "count (hatchEgg_row egg s) = count s + 1"
  "j \<noteq> count s \<Longrightarrow> ent (hatchEgg_row egg s) j = ent s j"
  "idA (ent (hatchEgg_row egg s) (count s)) = count s + 1"
  "aliveA (ent (hatchEgg_row egg s) (count s))"
  "ageA (ent (hatchEgg_row egg s) (count s)) = 0"
  "energyA (ent (hatchEgg_row egg s) (count s)) = CHILD_ENERGY_START * viability egg"
  "hydrationA (ent (hatchEgg_row egg s) (count s)) = 8 / 10"
  "occ (hatchEgg_row egg s) = occ s"
  "total (hatchEgg_row egg s) = total s"
  "animals (hatchEgg_row egg s) = animals s"
  "plants (hatchEgg_row egg s) = plants s"
  "gridW (hatchEgg_row egg s) = gridW s"
  "gridH (hatchEgg_row egg s) = gridH s"
  "waterMap (hatchEgg_row egg s) = waterMap s"
  "biomeMap (hatchEgg_row egg s) = biomeMap s"
  "moistureMap (hatchEgg_row egg s) = moistureMap s"
  "waterDistanceMap (hatchEgg_row egg s) = waterDistanceMap s"
  "fireTTLMap (hatchEgg_row egg s) = fireTTLMap s"
  "tick (hatchEgg_row egg s) = tick s"
  "eggs (hatchEgg_row egg s) = eggs s"
  "MUTATION_LOG (hatchEgg_row egg s) = MUTATION_LOG s"
  "currentDayStats (hatchEgg_row egg s) = currentDayStats s"
  "behaviorTuning (hatchEgg_row egg s) = behaviorTuning s"
  by (simp_all add: hatchEgg_row_def Let_def)

lemma idx_rows [simp]:
  "idx (snd (birth_row p1 p2 s)) x y = idx s x y"
  "idx (hatchEgg_row egg s) x y = idx s x y"
  by (simp_all add: idx_def)

lemma hatchEgg_row_kind:
  "lifeTypeA (ent (hatchEgg_row egg s) (count s)) = lifeType (eggGenome egg)"
  "classA (ent (hatchEgg_row egg s) (count s)) =
     normalizeSpeciesClass (lifeType (eggGenome egg)) (speciesClass (eggGenome egg))"
  "dietA (ent (hatchEgg_row egg s) (count s)) =
     normalizeDiet (lifeType (eggGenome egg)) (diet (eggGenome egg))"
  "mutRateA (ent (hatchEgg_row egg s) (count s)) = dt (u8pair (mutationRate_al (eggGenes egg)))"
  by (simp_all add: hatchEgg_row_def Let_def applyGenome_kind aPFG_pheno setTA_genes)

lemma birth_row_kind:
  "lifeTypeA (ent (snd (birth_row p1 p2 s)) (count s)) = lifeTypeA (ent s p1)"
  "classA (ent (snd (birth_row p1 p2 s)) (count s)) =
     normalizeSpeciesClass (lifeTypeA (ent s p1))
       (speciesClass (fst (fst (createOffspringData (s\<lparr>count := count s + 1\<rparr>) p1 p2 (RNG_S s)))))"
  "hostilityA (ent (snd (birth_row p1 p2 s)) (count s)) =
     dt (u8pair (hostility_al (fst (recombineGenesFromParents (s\<lparr>count := count s + 1\<rparr>) p1 p2
                                      (lifeTypeA (ent s p1)) (RNG_S s)))))"
  "sizeA (ent (snd (birth_row p1 p2 s)) (count s)) =
     dt (u8pair (size_al (fst (recombineGenesFromParents (s\<lparr>count := count s + 1\<rparr>) p1 p2
                                 (lifeTypeA (ent s p1)) (RNG_S s)))))"
  "fertilityA (ent (snd (birth_row p1 p2 s)) (count s)) =
     dt (u8pair (fertility_al (fst (recombineGenesFromParents (s\<lparr>count := count s + 1\<rparr>) p1 p2
                                      (lifeTypeA (ent s p1)) (RNG_S s)))))"
  by (simp_all add: birth_row_def Let_def split_beta applyGenome_kind aPFG_pheno setTA_genes
        createOffspringData_lifeType createOffspringData_genes)

lemma birth_spawn_frame:
  "count (snd (snd (birth_spawn p1 p2 x y s))) = count s + 1"
  "tick (snd (snd (birth_spawn p1 p2 x y s))) = tick s"
  "MUTATION_LOG (snd (snd (birth_spawn p1 p2 x y s))) = MUTATION_LOG s"
  "eggs (snd (snd (birth_spawn p1 p2 x y s))) = eggs s"
  "gridW (snd (snd (birth_spawn p1 p2 x y s))) = gridW s"
  "gridH (snd (snd (birth_spawn p1 p2 x y s))) = gridH s"
  "total (snd (snd (birth_spawn p1 p2 x y s))) = total s"
  "behaviorTuning (snd (snd (birth_spawn p1 p2 x y s))) = behaviorTuning s"
  "j \<noteq> count s \<Longrightarrow> ent (snd (snd (birth_spawn p1 p2 x y s))) j = ent s j"
  by (simp_all add: birth_spawn_def Let_def split_beta split: option.splits)

lemma hatchEgg_spawn_frame:
  "count (snd (hatchEgg_spawn egg s)) = count s + 1"
  "tick (snd (hatchEgg_spawn egg s)) = tick s"
  "MUTATION_LOG (snd (hatchEgg_spawn egg s)) = MUTATION_LOG s"
  "eggs (snd (hatchEgg_spawn egg s)) = eggs s"
  "gridW (snd (hatchEgg_spawn egg s)) = gridW s"
  "gridH (snd (hatchEgg_spawn egg s)) = gridH s"
  "total (snd (hatchEgg_spawn egg s)) = total s"
  "behaviorTuning (snd (hatchEgg_spawn egg s)) = behaviorTuning s"
  "j \<noteq> count s \<Longrightarrow> ent (snd (hatchEgg_spawn egg s)) j = ent s j"
  by (simp_all add: hatchEgg_spawn_def Let_def split_beta split: option.splits)

lemma birth_spawn_keeps:
  assumes "\<And>e x y. P (e\<lparr>xA := x, yA := y\<rparr>) = P e"
  shows "P (ent (snd (snd (birth_spawn p1 p2 x y s))) j) = P (ent (snd (birth_row p1 p2 s)) j)"
  by (simp add: birth_spawn_def Let_def split_beta placeAt_keeps [of P, OF assms]
        split: option.splits)

lemma hatchEgg_spawn_keeps:
  assumes "\<And>e x y. P (e\<lparr>xA := x, yA := y\<rparr>) = P e"
  shows "P (ent (snd (hatchEgg_spawn egg s)) j) = P (ent (hatchEgg_row egg s) j)"
  by (simp add: hatchEgg_spawn_def Let_def placeAt_keeps [of P, OF assms]
        split: option.splits)

lemma birth_spawn_id:
  "idA (ent (snd (snd (birth_spawn p1 p2 x y s))) (count s)) = count s + 1"
  by (simp add: birth_spawn_keeps [of idA])

lemma hatchEgg_spawn_id:
  "idA (ent (snd (hatchEgg_spawn egg s)) (count s)) = count s + 1"
  by (simp add: hatchEgg_spawn_keeps [of idA])

lemma findNearbyWater_cong:
  "occ t = occ s \<Longrightarrow> waterMap t = waterMap s \<Longrightarrow> gridW t = gridW s \<Longrightarrow> gridH t = gridH s
   \<Longrightarrow> findNearbyWater t x y r = findNearbyWater s x y r"
  by (simp add: findNearbyWater_def idx_def inGrid_def)

lemma findNearbyWater_free:
  assumes "findNearbyWater s x y r = Some (wx, wy)"
  shows "occ s (idx s wx wy) = Some (- 1)"
  using find_holds [OF assms [unfolded findNearbyWater_def]] by simp

lemma hatchEgg_spawn_fst: "fst (hatchEgg_spawn egg s) = hatchTileFree egg s"
proof -
  let ?s3 = "hatchEgg_row egg s"
  have fw: "\<And>x y r. findNearbyWater ?s3 x y r = findNearbyWater s x y r"
    by (rule findNearbyWater_cong) simp_all
  show ?thesis
  proof (cases "findNearbyWater s (eggX egg) (eggY egg) 2")
    case None
    then show ?thesis
      by (simp add: hatchEgg_spawn_def hatchTileFree_def Let_def hatchEgg_row_kind fw
            normalizeSpeciesClass_def placeAt_def)
  next
    case (Some w)
    obtain wx wy where w: "w = (wx, wy)" by (cases w)
    have "occ s (idx s wx wy) = Some (- 1)"
      using Some w findNearbyWater_free by simp
    then show ?thesis using Some w
      by (simp add: hatchEgg_spawn_def hatchTileFree_def Let_def hatchEgg_row_kind fw
            normalizeSpeciesClass_def placeAt_def)
  qed
qed

lemma birth_spawn_placed:
  assumes "lifeTypeA (ent s p1) = Plant" "occ s (idx s x y) = Some (- 1)"
  shows "fst (birth_spawn p1 p2 x y s)"
  using assms by (simp add: birth_spawn_def Let_def split_beta birth_row_kind placeAt_def)

lemma reassignSpecies_simps [simp]:
  "occ (reassignSpecies p k s) = occ s"
  "count (reassignSpecies p k s) = count s"
  "total (reassignSpecies p k s) = total s"
  "gridW (reassignSpecies p k s) = gridW s"
  "gridH (reassignSpecies p k s) = gridH s"
  "waterMap (reassignSpecies p k s) = waterMap s"
  "tick (reassignSpecies p k s) = tick s"
  "eggs (reassignSpecies p k s) = eggs s"
  "MUTATION_LOG (reassignSpecies p k s) = MUTATION_LOG s"
  "currentDayStats (reassignSpecies p k s) = currentDayStats s"
  "j \<noteq> k \<Longrightarrow> ent (reassignSpecies p k s) j = ent s j"
  by (simp_all add: reassignSpecies_def split_beta)

lemma reassignSpecies_child:
  "ent (reassignSpecies p k s) k =
     (ent s k)\<lparr>speciesA := js_rem (speciesA (ent s p) + (js_or0 (fst (rngS s) * 97) + 1)) SPECIES_MAX\<rparr>"
proof -
  let ?v = "js_rem (speciesA (ent s p) + (js_or0 (fst (rngS s) * 97) + 1)) SPECIES_MAX"
  have "to_int16 ?v = ?v"
    using js_rem_bounds [of "speciesA (ent s p) + (js_or0 (fst (rngS s) * 97) + 1)"]
    by (intro to_int16_small) simp_all
  then show ?thesis
    by (simp add: reassignSpecies_def split_beta add.assoc)
qed

lemma offset_range:
  "1 \<le> js_or0 (fst (rngS s) * 97) + 1 \<and> js_or0 (fst (rngS s) * 97) + 1 \<le> 98"
  using js_or0_97 [of "fst (rngS s)"] rngS_range [of s] by simp

lemma genomeDistance_species [simp]:
  "genomeDistance (genomeOf (e\<lparr>speciesA := v\<rparr>)) g = genomeDistance (genomeOf e) g"
  "genomeDistance g (genomeOf (e\<lparr>speciesA := v\<rparr>)) = genomeDistance g (genomeOf e)"
  "genomeDistance (genomeOf (e\<lparr>glowUntil := w\<rparr>)) g = genomeDistance (genomeOf e) g"
  "genomeDistance g (genomeOf (e\<lparr>glowUntil := w\<rparr>)) = genomeDistance g (genomeOf e)"
  "genomeDistance (genomeOf (e\<lparr>dietShiftPenaltyA := w\<rparr>)) g = genomeDistance (genomeOf e) g"
  "genomeDistance g (genomeOf (e\<lparr>dietShiftPenaltyA := w\<rparr>)) = genomeDistance g (genomeOf e)"
  by (simp_all add: genomeDistance_def genomeOf_def)

lemma genomeDistance_ge_mut:
  "\<bar>mutationRate a * 5 - mutationRate b * 5\<bar> / 16 \<le> genomeDistance a b"
  unfolding genomeDistance_def by (intro divide_right_mono) auto

lemma genomeDistance_ge_three:
  "(\<bar>hostility a - hostility b\<bar> + \<bar>sizeT a - sizeT b\<bar> + \<bar>fertility a - fertility b\<bar>) / 16
     \<le> genomeDistance a b"
  unfolding genomeDistance_def by (intro divide_right_mono) auto

lemma hatchEgg_log_count [simp]: "count (hatchEgg_log egg k s) = count s"
  by (simp add: hatchEgg_log_def Let_def)

lemma birth_log_count [simp]: "count (birth_log p k sh s) = count s"
  by (simp add: birth_log_def Let_def)

lemma birth_log_dist:
  "p \<noteq> k \<Longrightarrow>
   genomeDistance (genomeOf (ent (birth_log p k sh s5) p)) (genomeOf (ent (birth_log p k sh s5) k))
     = genomeDistance (genomeOf (ent s5 p)) (genomeOf (ent s5 k))"
  by (simp add: birth_log_def Let_def reassignSpecies_child)

lemma birth_log_speciation:
  assumes pk: "p \<noteq> k"
    and d: "genomeDistance (genomeOf (ent s5 p)) (genomeOf (ent s5 k)) > 12 / 100"
    and idk: "idA (ent s5 k) = k + 1"
  shows "speciated s5 (birth_log p k sh s5) p k"
proof -
  let ?s6 = "recordBirth (lifeTypeA (ent s5 k)) (countLife k s5)"
  let ?s7 = "if sh then upd k (\<lambda>e. e\<lparr>dietShiftPenaltyA := DIET_SHIFT_PENALTY_TICKS\<rparr>) ?s6 else ?s6"
  let ?s8 = "reassignSpecies p k ?s7"
  let ?s9 = "upd k (\<lambda>e. e\<lparr>glowUntil := tick ?s8 + MUT_GLW_TICKS\<rparr>) ?s8"
  let ?off = "js_or0 (fst (rngS ?s7) * 97) + 1"
  have p7: "ent ?s7 p = ent s5 p" using pk by simp
  have d7: "genomeDistance (genomeOf (ent ?s7 p)) (genomeOf (ent ?s7 k)) > 12 / 100"
    using d pk by simp
  have bl: "birth_log p k sh s5 = pushMutationEvent (mutationEvent ?s9 (genomeOf (ent ?s7 p)) k) ?s9"
    using d7 by (simp add: birth_log_def Let_def)
  have sp: "speciesA (ent ?s9 k) = js_rem (speciesA (ent s5 p) + ?off) SPECIES_MAX"
    using p7 by (simp add: reassignSpecies_child)
  have pp: "ent ?s9 p = ent s5 p" using pk by simp
  have ne: "speciesA (ent ?s9 k) \<noteq> speciesA (ent ?s9 p)"
    unfolding sp pp using js_rem_shift [of ?off "speciesA (ent s5 p)"] offset_range [of ?s7]
    by simp
  have ev: "mutationEvent ?s9 (genomeOf (ent ?s7 p)) k =
        \<lparr> evTick = tick s5, parentSpeciesId = speciesA (ent s5 p),
          newSpeciesId = speciesA (ent ?s9 k), entityId = k + 1,
          evLifeType = lifeTypeA (ent ?s9 k), countBorn = 1 \<rparr>"
    using pk idk by (simp add: mutationEvent_def genomeOf_def reassignSpecies_child)
  show ?thesis
    unfolding speciated_def bl
    using ne sp pp offset_range [of ?s7] pushMutationEvent_log [of "mutationEvent ?s9 (genomeOf (ent ?s7 p)) k" ?s9]
    unfolding ev by (simp only: pushMutationEvent_simps) blast
qed

lemma hatchEgg_log_dist:
  "parentId1 egg \<noteq> k \<Longrightarrow>
   genomeDistance (genomeOf (ent (hatchEgg_log egg k s4) (parentId1 egg)))
                  (genomeOf (ent (hatchEgg_log egg k s4) k))
     = genomeDistance (genomeOf (ent s4 (parentId1 egg))) (genomeOf (ent s4 k))"
  by (simp add: hatchEgg_log_def Let_def reassignSpecies_child)

lemma hatchEgg_log_speciation:
  assumes pk: "parentId1 egg \<noteq> k"
    and d: "genomeDistance (genomeOf (ent s4 (parentId1 egg))) (genomeOf (ent s4 k)) > 12 / 100"
    and idk: "idA (ent s4 k) = k + 1"
  shows "speciated s4 (hatchEgg_log egg k s4) (parentId1 egg) k"
proof -
  let ?p = "parentId1 egg"
  let ?s5 = "recordBirth (lifeTypeA (ent s4 k)) (countLife k s4)"
  let ?s6 = "if shiftedDiet egg
             then upd k (\<lambda>e. e\<lparr>dietShiftPenaltyA := DIET_SHIFT_PENALTY_TICKS\<rparr>) ?s5 else ?s5"
  let ?s7 = "reassignSpecies ?p k ?s6"
  let ?s8 = "upd k (\<lambda>e. e\<lparr>glowUntil := tick ?s7 + MUT_GLW_TICKS\<rparr>) ?s7"
  let ?off = "js_or0 (fst (rngS ?s6) * 97) + 1"
  have p6: "ent ?s6 ?p = ent s4 ?p" using pk by simp
  have d6: "genomeDistance (genomeOf (ent ?s6 ?p)) (genomeOf (ent ?s6 k)) > 12 / 100"
    using d pk by simp
  have hl: "hatchEgg_log egg k s4 =
              pushMutationEvent (mutationEvent ?s8 (genomeOf (ent ?s6 ?p)) k) ?s8"
    using d6 by (simp add: hatchEgg_log_def Let_def)
  have sp: "speciesA (ent ?s8 k) = js_rem (speciesA (ent s4 ?p) + ?off) SPECIES_MAX"
    using p6 by (simp add: reassignSpecies_child)
  have pp: "ent ?s8 ?p = ent s4 ?p" using pk by simp
  have ne: "speciesA (ent ?s8 k) \<noteq> speciesA (ent ?s8 ?p)"
    unfolding sp pp using js_rem_shift [of ?off "speciesA (ent s4 ?p)"] offset_range [of ?s6]
    by simp
  have ev: "mutationEvent ?s8 (genomeOf (ent ?s6 ?p)) k =
        \<lparr> evTick = tick s4, parentSpeciesId = speciesA (ent s4 ?p),
          newSpeciesId = speciesA (ent ?s8 k), entityId = k + 1,
          evLifeType = lifeTypeA (ent ?s8 k), countBorn = 1 \<rparr>"
    using pk idk by (simp add: mutationEvent_def genomeOf_def reassignSpecies_child)
  show ?thesis
    unfolding speciated_def hl
    using ne sp pp offset_range [of ?s6]
      pushMutationEvent_log [of "mutationEvent ?s8 (genomeOf (ent ?s6 ?p)) k" ?s8]
    unfolding ev by (simp only: pushMutationEvent_simps) blast
qed

lemma speciated_cong:
  "ent s p = ent t p \<Longrightarrow> tick s = tick t \<Longrightarrow> speciated t s' p k \<Longrightarrow> speciated s s' p k"
  by (simp add: speciated_def)

lemma birth_cases:
  "birth p1 p2 x y s = s \<or>
   (count (birth p1 p2 x y s) = count s \<and> \<not> fst (birth_spawn p1 p2 x y s)) \<or>
   (fst (birth_spawn p1 p2 x y s) \<and> count s < MAX_ENTITIES \<and>
    birth p1 p2 x y s = birth_log p1 (count s) (fst (snd (birth_spawn p1 p2 x y s)))
                           (snd (snd (birth_spawn p1 p2 x y s))))"
  by (simp add: birth_def split_beta birth_spawn_frame)

lemma hatchEgg_cases:
  "hatchEgg egg s = s \<or>
   (count (hatchEgg egg s) = count s \<and> \<not> fst (hatchEgg_spawn egg s)) \<or>
   (fst (hatchEgg_spawn egg s) \<and> count s < MAX_ENTITIES \<and>
    hatchEgg egg s = hatchEgg_log egg (count s) (snd (hatchEgg_spawn egg s)))"
  by (simp add: hatchEgg_def split_beta hatchEgg_spawn_frame)

subsection \<open>C7: speciation of a divergent child\<close>

text \<open>
  Claim C7. For a birth and for a hatching from a parent that is an existing slot: when
  the call created the child (the slot counter grew by one) and the genome distance between
  the parent and the child exceeds 0.12, then the child's species id differs from the
  parent's, it equals the parent's id plus an offset between 1 and 98 reduced modulo
  \<open>SPECIES_MAX\<close>, and the newest entry of the mutation log records the child with that
  new species id.
\<close>

theorem divergent_offspring_speciates:
  "(p1 < count s \<and> count (birth p1 p2 x y s) = count s + 1
      \<and> genomeDistance (genomeOf (ent (birth p1 p2 x y s) p1))
                       (genomeOf (ent (birth p1 p2 x y s) (count s))) > 12 / 100
      \<longrightarrow> speciated s (birth p1 p2 x y s) p1 (count s))
   \<and> (parentId1 egg < count s \<and> count (hatchEgg egg s) = count s + 1
      \<and> genomeDistance (genomeOf (ent (hatchEgg egg s) (parentId1 egg)))
                       (genomeOf (ent (hatchEgg egg s) (count s))) > 12 / 100
      \<longrightarrow> speciated s (hatchEgg egg s) (parentId1 egg) (count s))"
proof (intro conjI impI)
  assume a: "p1 < count s \<and> count (birth p1 p2 x y s) = count s + 1
      \<and> genomeDistance (genomeOf (ent (birth p1 p2 x y s) p1))
                       (genomeOf (ent (birth p1 p2 x y s) (count s))) > 12 / 100"
  let ?sp = "birth_spawn p1 p2 x y s"
  let ?s5 = "snd (snd ?sp)"
  have pk: "p1 \<noteq> count s" using a by simp
  have b: "birth p1 p2 x y s = birth_log p1 (count s) (fst (snd ?sp)) ?s5"
    using birth_cases [of p1 p2 x y s] a by auto
  have d: "genomeDistance (genomeOf (ent ?s5 p1)) (genomeOf (ent ?s5 (count s))) > 12 / 100"
    using a pk unfolding b by (simp add: birth_log_dist)
  have "speciated ?s5 (birth_log p1 (count s) (fst (snd ?sp)) ?s5) p1 (count s)"
    using pk d birth_spawn_id by (rule birth_log_speciation)
  then show "speciated s (birth p1 p2 x y s) p1 (count s)"
    unfolding b using pk by (intro speciated_cong [of s p1 ?s5]) (simp_all add: birth_spawn_frame)
next
  assume a: "parentId1 egg < count s \<and> count (hatchEgg egg s) = count s + 1
      \<and> genomeDistance (genomeOf (ent (hatchEgg egg s) (parentId1 egg)))
                       (genomeOf (ent (hatchEgg egg s) (count s))) > 12 / 100"
  let ?s4 = "snd (hatchEgg_spawn egg s)"
  have pk: "parentId1 egg \<noteq> count s" using a by simp
  have b: "hatchEgg egg s = hatchEgg_log egg (count s) ?s4"
    using hatchEgg_cases [of egg s] a by auto
  have d: "genomeDistance (genomeOf (ent ?s4 (parentId1 egg))) (genomeOf (ent ?s4 (count s))) > 12 / 100"
    using a pk unfolding b by (simp add: hatchEgg_log_dist)
  have "speciated ?s4 (hatchEgg_log egg (count s) ?s4) (parentId1 egg) (count s)"
    using pk d hatchEgg_spawn_id by (rule hatchEgg_log_speciation)
  then show "speciated s (hatchEgg egg s) (parentId1 egg) (count s)"
    unfolding b using pk
    by (intro speciated_cong [of s "parentId1 egg" ?s4]) (simp_all add: hatchEgg_spawn_frame)
qed

lemma hatch_sample_placed: "fst (hatchEgg_spawn sampleEgg parentWorld)"
  by (simp add: hatchEgg_spawn_fst hatchTileFree_def sampleEgg_def sampleGenome_def
        parentWorld_simps idx_def ta_new_def)

lemma hatch_sample_count: "count (hatchEgg sampleEgg parentWorld) = 2"
  using hatch_sample_placed
  by (simp add: hatchEgg_def split_beta parentWorld_simps MAX_ENTITIES_def hatchEgg_spawn_frame)

lemma hatch_sample_parent:
  "ent (snd (hatchEgg_spawn sampleEgg parentWorld)) 0 = parentRow"
  by (simp add: hatchEgg_spawn_frame parentWorld_simps)

lemma hatch_sample_mut:
  "mutRateA (ent (snd (hatchEgg_spawn sampleEgg parentWorld)) 1) = 1"
  using hatchEgg_spawn_keeps [of mutRateA sampleEgg parentWorld 1]
        hatchEgg_row_kind(4) [of sampleEgg parentWorld]
  by (simp add: parentWorld_simps sampleEgg_def fullGenes_def dt_full)

lemma hatch_sample_dist:
  "genomeDistance (genomeOf (ent (hatchEgg sampleEgg parentWorld) 0))
                  (genomeOf (ent (hatchEgg sampleEgg parentWorld) 1)) > 12 / 100"
proof -
  let ?s4 = "snd (hatchEgg_spawn sampleEgg parentWorld)"
  have h: "hatchEgg sampleEgg parentWorld = hatchEgg_log sampleEgg 1 ?s4"
    using hatch_sample_placed
    by (simp add: hatchEgg_def split_beta parentWorld_simps MAX_ENTITIES_def)
  have p: "parentId1 sampleEgg = 0" by (simp add: sampleEgg_def)
  have "genomeDistance (genomeOf (ent (hatchEgg_log sampleEgg 1 ?s4) 0))
          (genomeOf (ent (hatchEgg_log sampleEgg 1 ?s4) 1))
        = genomeDistance (genomeOf (ent ?s4 0)) (genomeOf (ent ?s4 1))"
    using hatchEgg_log_dist [of sampleEgg 1 ?s4] p by simp
  moreover have "genomeDistance (genomeOf (ent ?s4 0)) (genomeOf (ent ?s4 1)) \<ge> 5 / 16"
    using genomeDistance_ge_mut [of "genomeOf (ent ?s4 0)" "genomeOf (ent ?s4 1)"]
    by (simp add: hatch_sample_parent hatch_sample_mut genomeOf_def parentRow_def zeroEntity_def)
  ultimately show ?thesis unfolding h by simp
qed

lemma birth_parent_placed: "fst (birth_spawn 0 None 6 6 parentWorld)"
  by (rule birth_spawn_placed)
     (simp_all add: parentWorld_simps parentRow_def zeroEntity_def idx_def ta_new_def)

lemma birth_parent_count: "count (birth 0 None 6 6 parentWorld) = 2"
  using birth_parent_placed
  by (simp add: birth_def split_beta parentWorld_simps MAX_ENTITIES_def birth_spawn_frame)

lemma birth_parent_child:
  "hostilityA (ent (snd (snd (birth_spawn 0 None 6 6 parentWorld))) 1) = 0"
  "sizeA (ent (snd (snd (birth_spawn 0 None 6 6 parentWorld))) 1) = 0"
  "fertilityA (ent (snd (snd (birth_spawn 0 None 6 6 parentWorld))) 1) = 0"
proof -
  have z: "genesA (ent (parentWorld\<lparr>count := 2\<rparr>) 0) = zeroGenes"
       "mutRateA (ent (parentWorld\<lparr>count := 2\<rparr>) 0) = 0"
    by (simp_all add: parentWorld_simps parentRow_def zeroEntity_def)
  note r = recombine_zero [OF z]
  note k = birth_row_kind [of 0 None parentWorld]
  show "hostilityA (ent (snd (snd (birth_spawn 0 None 6 6 parentWorld))) 1) = 0"
    using birth_spawn_keeps [of hostilityA 0 None 6 6 parentWorld 1] k(3)
    by (simp add: parentWorld_simps r dt_full)
  show "sizeA (ent (snd (snd (birth_spawn 0 None 6 6 parentWorld))) 1) = 0"
    using birth_spawn_keeps [of sizeA 0 None 6 6 parentWorld 1] k(4)
    by (simp add: parentWorld_simps r dt_full)
  show "fertilityA (ent (snd (snd (birth_spawn 0 None 6 6 parentWorld))) 1) = 0"
    using birth_spawn_keeps [of fertilityA 0 None 6 6 parentWorld 1] k(5)
    by (simp add: parentWorld_simps r dt_full)
qed

lemma birth_parent_dist:
  "genomeDistance (genomeOf (ent (birth 0 None 6 6 parentWorld) 0))
                  (genomeOf (ent (birth 0 None 6 6 parentWorld) 1)) > 12 / 100"
proof -
  let ?sp = "birth_spawn 0 None 6 6 parentWorld"
  let ?s5 = "snd (snd ?sp)"
  have h: "birth 0 None 6 6 parentWorld = birth_log 0 1 (fst (snd ?sp)) ?s5"
    using birth_parent_placed
    by (simp add: birth_def split_beta parentWorld_simps MAX_ENTITIES_def)
  have par: "ent ?s5 0 = parentRow"
    by (simp add: birth_spawn_frame parentWorld_simps)
  have "genomeDistance (genomeOf (ent (birth_log 0 1 (fst (snd ?sp)) ?s5) 0))
          (genomeOf (ent (birth_log 0 1 (fst (snd ?sp)) ?s5) 1))
        = genomeDistance (genomeOf (ent ?s5 0)) (genomeOf (ent ?s5 1))"
    by (simp add: birth_log_dist)
  moreover have "genomeDistance (genomeOf (ent ?s5 0)) (genomeOf (ent ?s5 1)) \<ge> 3 / 16"
    using genomeDistance_ge_three [of "genomeOf (ent ?s5 0)" "genomeOf (ent ?s5 1)"]
    by (simp add: par birth_parent_child genomeOf_def parentRow_def)
  ultimately show ?thesis unfolding h by simp
qed

theorem divergent_offspring_speciates_witness:
  "(0 < count parentWorld \<and> count (birth 0 None 6 6 parentWorld) = count parentWorld + 1
      \<and> genomeDistance (genomeOf (ent (birth 0 None 6 6 parentWorld) 0))
                       (genomeOf (ent (birth 0 None 6 6 parentWorld) (count parentWorld))) > 12 / 100
      \<and> speciated parentWorld (birth 0 None 6 6 parentWorld) 0 (count parentWorld))
   \<and> (parentId1 sampleEgg < count parentWorld
      \<and> count (hatchEgg sampleEgg parentWorld) = count parentWorld + 1
      \<and> genomeDistance (genomeOf (ent (hatchEgg sampleEgg parentWorld) (parentId1 sampleEgg)))
                       (genomeOf (ent (hatchEgg sampleEgg parentWorld) (count parentWorld))) > 12 / 100
      \<and> speciated parentWorld (hatchEgg sampleEgg parentWorld) (parentId1 sampleEgg)
           (count parentWorld))"
proof -
  have p: "parentId1 sampleEgg = 0" by (simp add: sampleEgg_def)
  show ?thesis
    using divergent_offspring_speciates [of 0 parentWorld None 6 6 sampleEgg]
      birth_parent_count birth_parent_dist hatch_sample_count hatch_sample_dist
    by (simp add: p parentWorld_simps)
qed

subsection \<open>C6: eggs at term\<close>

lemma hatchEgg_count:
  "count (hatchEgg egg s) =
     (if count s < MAX_ENTITIES \<and> hatchTileFree egg s then count s + 1 else count s)"
  by (simp add: hatchEgg_def split_beta hatchEgg_spawn_frame hatchEgg_spawn_fst)

lemma hatchEgg_log_eggs [simp]: "eggs (hatchEgg_log egg k s) = eggs s"
  by (simp add: hatchEgg_log_def Let_def)

lemma hatchEgg_eggs [simp]: "eggs (hatchEgg egg s) = eggs s"
  by (simp add: hatchEgg_def split_beta hatchEgg_spawn_frame)

lemma hatchTileFree_cong:
  "occ t = occ s \<Longrightarrow> waterMap t = waterMap s \<Longrightarrow> gridW t = gridW s \<Longrightarrow> gridH t = gridH s
   \<Longrightarrow> eggX f = eggX e \<Longrightarrow> eggY f = eggY e \<Longrightarrow> eggGenome f = eggGenome e
   \<Longrightarrow> hatchTileFree f t = hatchTileFree e s"
  by (simp add: hatchTileFree_def findNearbyWater_cong [of t s] idx_def)

lemma countAdjacentPredators_cong:
  "occ t = occ s \<Longrightarrow> ent t = ent s \<Longrightarrow> gridW t = gridW s \<Longrightarrow> gridH t = gridH s
   \<Longrightarrow> countAdjacentPredators t x y = countAdjacentPredators s x y"
  by (simp add: countAdjacentPredators_def idx_def inGrid_def cong: option.case_cong)

lemma countAdjacentPredators_eggs [simp]:
  "countAdjacentPredators (s\<lparr>eggs := es\<rparr>) x y = countAdjacentPredators s x y"
  by (rule countAdjacentPredators_cong) simp_all

lemma remove_nth_update: "remove_nth e (xs[e := v]) = remove_nth e xs"
  by (simp add: remove_nth_def)

lemma stressEgg_pos [simp]:
  "eggX (stressEgg s egg) = eggX egg" "eggY (stressEgg s egg) = eggY egg"
  "eggGenome (stressEgg s egg) = eggGenome egg"
  "maxIncubationTime (stressEgg s egg) = maxIncubationTime egg"
  "incubationTime (stressEgg s egg) = incubationTime egg + 1"
  by (simp_all add: stressEgg_def Let_def)

lemma updateEgg_term:
  assumes atterm: "maxIncubationTime (eggs s ! e) \<le> incubationTime (eggs s ! e) + 1"
  shows "eggs (updateEgg e s) = remove_nth e (eggs s)"
    and "count (updateEgg e s) =
         (if viability (stressEgg s (eggs s ! e)) > 3 / 10
             \<and> \<not> predationRoll s < predatorRisk s (eggs s ! e)
             \<and> hatchRoll s < viability (stressEgg s (eggs s ! e))
             \<and> count s < MAX_ENTITIES
             \<and> hatchTileFree (eggs s ! e) s
          then count s + 1 else count s)"
    and "viability (stressEgg s (eggs s ! e)) \<le> 3 / 10 \<Longrightarrow>
          updateEgg e s = s\<lparr>RNG_S := snd (rng (RNG_S s)), eggs := remove_nth e (eggs s)\<rparr>"
proof -
  let ?egg = "stressEgg s (eggs s ! e)"
  let ?s1 = "s\<lparr>eggs := (eggs s)[e := ?egg]\<rparr>"
  let ?s2 = "snd (rngS ?s1)"
  let ?s2' = "snd (rngS ?s2)"
  have r1: "fst (rngS ?s1) = predationRoll s" by (simp add: predationRoll_def)
  have r2: "fst (rngS ?s2) = hatchRoll s" by (simp add: hatchRoll_def)
  have htf: "hatchTileFree ?egg ?s2' = hatchTileFree (eggs s ! e) s"
    by (rule hatchTileFree_cong) simp_all
  have c2: "count ?s2' = count s" "count ?s2 = count s" "eggs ?s2' = (eggs s)[e := ?egg]"
    "eggs ?s2 = (eggs s)[e := ?egg]"
    by simp_all
  have s2: "?s2 = s\<lparr>RNG_S := snd (rng (RNG_S s)), eggs := (eggs s)[e := ?egg]\<rparr>"
    by (simp add: rngS_def split_beta)
  have ue: "updateEgg e s =
     (if predationRoll s < predatorRisk s (eggs s ! e) then ?s2\<lparr>eggs := remove_nth e (eggs ?s2)\<rparr>
      else (let s3 = (if viability ?egg > 3 / 10
                      then (if hatchRoll s < viability ?egg then hatchEgg ?egg ?s2' else ?s2')
                      else ?s2)
            in s3\<lparr>eggs := remove_nth e (eggs s3)\<rparr>))"
    using atterm
    by (simp add: updateEgg_def Let_def split_beta predatorRisk_def r1 r2 del: rngS_frame)
  show "eggs (updateEgg e s) = remove_nth e (eggs s)"
    unfolding ue by (simp add: Let_def remove_nth_update)
  show "count (updateEgg e s) =
         (if viability ?egg > 3 / 10
             \<and> \<not> predationRoll s < predatorRisk s (eggs s ! e)
             \<and> hatchRoll s < viability ?egg
             \<and> count s < MAX_ENTITIES
             \<and> hatchTileFree (eggs s ! e) s
          then count s + 1 else count s)"
    unfolding ue by (simp add: Let_def hatchEgg_count htf)
  show "updateEgg e s = s\<lparr>RNG_S := snd (rng (RNG_S s)), eggs := remove_nth e (eggs s)\<rparr>"
    if "viability ?egg \<le> 3 / 10"
    using that unfolding ue s2 by (simp add: Let_def remove_nth_update)
qed

lemma place_free:
  assumes "count s < MAX_ENTITIES" "0 \<le> x" "x < gridW s" "0 \<le> y" "y < gridH s"
    "occ s (idx s x y) = Some (- 1)"
  shows "count (snd (place x y g en s)) = count s + 1"
    "gridW (snd (place x y g en s)) = gridW s"
    "gridH (snd (place x y g en s)) = gridH s"
    "biomeMap (snd (place x y g en s)) = biomeMap s"
    "moistureMap (snd (place x y g en s)) = moistureMap s"
    "eggs (snd (place x y g en s)) = eggs s"
    "occ (snd (place x y g en s)) = ta_set (occ s) (idx s x y) (count s)"
    "fst (place x y g en s)"
proof -
  let ?k = "count s"
  let ?s4 = "upd ?k (\<lambda>e. e\<lparr>speciesA := to_int16 (js_rem (speciesA e) SPECIES_MAX)\<rparr>)
              (upd ?k (\<lambda>e. e\<lparr>idA := ?k + 1, energyA := clamp01 en, hydrationA := 1,
                                ageA := 0, aliveA := True, adultA := False\<rparr>)
                 (applyGenome ?k g (s\<lparr>count := count s + 1\<rparr>)))"
  have occ4: "occ ?s4 (idx ?s4 x y) = Some (- 1)"
    using assms by (simp add: idx_def)
  have pl: "place x y g en s =
     (True, countLife ?k ((upd ?k (\<lambda>e. e\<lparr>xA := x, yA := y\<rparr>) ?s4)\<lparr>occ := ta_set (occ ?s4) (idx ?s4 x y) ?k\<rparr>))"
    using assms placeAt_free [OF occ4, of ?k]
    by (simp add: place_def Let_def)
  show "count (snd (place x y g en s)) = count s + 1"
    "gridW (snd (place x y g en s)) = gridW s"
    "gridH (snd (place x y g en s)) = gridH s"
    "biomeMap (snd (place x y g en s)) = biomeMap s"
    "moistureMap (snd (place x y g en s)) = moistureMap s"
    "eggs (snd (place x y g en s)) = eggs s"
    "occ (snd (place x y g en s)) = ta_set (occ s) (idx s x y) (count s)"
    "fst (place x y g en s)"
    unfolding pl by (simp_all add: idx_def)
qed

lemma place_fail: "\<not> fst (place x y g en s) \<Longrightarrow> snd (place x y g en s) = s"
proof (cases "count s < MAX_ENTITIES \<and> 0 \<le> x \<and> x < gridW s \<and> 0 \<le> y \<and> y < gridH s
            \<and> occ s (idx s x y) = Some (- 1)")
  case True
  then show "\<not> fst (place x y g en s) \<Longrightarrow> snd (place x y g en s) = s"
    using place_free(8) [of s x y g en] by simp
next
  case False
  then show ?thesis by (auto simp: place_def)
qed

lemma stress_sample:
  "biomeMap s (idx s 5 5) = Grassland \<Longrightarrow> moistureMap s (idx s 5 5) = 0
   \<Longrightarrow> viability (stressEgg s sampleEgg) = 1"
  by (simp add: stressEgg_def Let_def sampleEgg_def sampleGenome_def calculateTemperatureStress_def
        calculateMoistureStress_def biomeTemp_def biomeHydrationFactor_def moistureNeeds_def
        clamp01_def)

lemma emptyWorld_env:
  "biomeMap emptyWorld = (\<lambda>_. Grassland)" "moistureMap emptyWorld = (\<lambda>_. 0)"
  by (simp_all add: emptyWorld_def reseed_def Let_def resetPopulationDiagnostics_def
        buildEnv_def plainEnv_def alloc_def setWorldSize_def normalizeWorldSize_def)

lemma eggWorld_simps:
  "count eggWorld = 1" "gridW eggWorld = 120" "gridH eggWorld = 120"
  "occ eggWorld (idx eggWorld 5 5) = Some 0"
  "biomeMap eggWorld = (\<lambda>_. Grassland)" "moistureMap eggWorld = (\<lambda>_. 0)"
  "eggs eggWorld = [sampleEgg]"
  "occ eggWorld = ta_set (ta_new 14400 (- 1)) 605 0"
  by (simp_all add: eggWorld_def place_free emptyWorld_simps emptyWorld_env idx_def ta_new_def
        ta_set_def MAX_ENTITIES_def)

lemma no_predators:
  "occ s = ta_set (ta_new 14400 (- 1)) 605 0 \<or> occ s = ta_new 14400 (- 1) \<Longrightarrow> gridW s = 120
   \<Longrightarrow> countAdjacentPredators s 5 5 = 0"
  by (auto simp: countAdjacentPredators_def N8_def inGrid_def idx_def ta_set_def ta_new_def)

lemma sampleEgg_simps:
  "eggX sampleEgg = 5" "eggY sampleEgg = 5" "viability sampleEgg = 1"
  "incubationTime sampleEgg = 9" "maxIncubationTime sampleEgg = 10"
  "lifeType (eggGenome sampleEgg) = Animal" "speciesClass (eggGenome sampleEgg) = Bird"
  by (simp_all add: sampleEgg_def sampleGenome_def)

lemma rolls0: "predationRoll (s\<lparr>RNG_S := 0\<rparr>) = 1013904223 / 4294967295"
  "hatchRoll (s\<lparr>RNG_S := 0\<rparr>) < 1"
  by (simp_all add: predationRoll_def hatchRoll_def rng_def Let_def)

lemma hatchWorld_simps:
  "count hatchWorld = 1" "gridW hatchWorld = 120" "gridH hatchWorld = 120"
  "occ hatchWorld = ta_new 14400 (- 1)"
  "biomeMap hatchWorld = (\<lambda>_. Grassland)" "moistureMap hatchWorld = (\<lambda>_. 0)"
  "eggs hatchWorld = [sampleEgg]"
  "predationRoll hatchWorld = 1013904223 / 4294967295"
  "hatchRoll hatchWorld < 1"
  by (simp_all add: hatchWorld_def parentWorld_simps rolls0) (simp_all add: parentWorld_def emptyWorld_env)

lemma hatchWorld_egg:
  "viability (stressEgg hatchWorld sampleEgg) = 1"
  "predatorRisk hatchWorld sampleEgg = 0"
  "hatchTileFree sampleEgg hatchWorld"
  by (simp_all add: stress_sample hatchWorld_simps predatorRisk_def sampleEgg_simps no_predators
        hatchTileFree_def idx_def ta_new_def)

subsection \<open>Rows written by the creating functions\<close>

lemma aPFG_ages:
  "maturityA (ent (applyPhenotypeFromGenes i s) i) + 200 \<le> maxAgeA (ent (applyPhenotypeFromGenes i s) i)"
  by (simp add: applyPhenotypeFromGenes_def Let_def)

lemma applyGenome_ages:
  "maturityA (ent (applyGenome i g s) i) + 200 \<le> maxAgeA (ent (applyGenome i g s) i)"
  by (simp add: applyGenome_def Let_def split_beta aPFG_ages)

lemma addEntity_place_frame [simp]:
  "count (addEntity_place n i s) = count s"
  "gridW (addEntity_place n i s) = gridW s"
  "gridH (addEntity_place n i s) = gridH s"
  "waterMap (addEntity_place n i s) = waterMap s"
  "total (addEntity_place n i s) = total s"
  "j \<noteq> i \<Longrightarrow> ent (addEntity_place n i s) j = ent s j"
  by (induction n arbitrary: s; simp add: Let_def split_beta)+

lemma addEntity_place_keeps:
  assumes "\<And>e x y. P (e\<lparr>xA := x, yA := y\<rparr>) = P e"
  shows "P (ent (addEntity_place n i s) j) = P (ent s j)"
  by (induction n arbitrary: s) (simp_all add: Let_def split_beta placeAt_keeps [of P, OF assms])

lemma birth_log_keeps:
  assumes "\<And>e v. P (e\<lparr>speciesA := v\<rparr>) = P e" "\<And>e v. P (e\<lparr>glowUntil := v\<rparr>) = P e"
    "\<And>e v. P (e\<lparr>dietShiftPenaltyA := v\<rparr>) = P e"
  shows "P (ent (birth_log p k sh s) j) = P (ent s j)"
  using assms by (simp add: birth_log_def Let_def reassignSpecies_def split_beta)

lemma hatchEgg_log_keeps:
  assumes "\<And>e v. P (e\<lparr>speciesA := v\<rparr>) = P e" "\<And>e v. P (e\<lparr>glowUntil := v\<rparr>) = P e"
    "\<And>e v. P (e\<lparr>dietShiftPenaltyA := v\<rparr>) = P e"
  shows "P (ent (hatchEgg_log egg k s) j) = P (ent s j)"
  using assms by (simp add: hatchEgg_log_def Let_def reassignSpecies_def split_beta)


lemma birth_keeps:
  assumes "\<And>e x y. P (e\<lparr>xA := x, yA := y\<rparr>) = P e"
    "\<And>e v. P (e\<lparr>speciesA := v\<rparr>) = P e" "\<And>e v. P (e\<lparr>glowUntil := v\<rparr>) = P e"
    "\<And>e v. P (e\<lparr>dietShiftPenaltyA := v\<rparr>) = P e"
    and "count s < MAX_ENTITIES"
  shows "P (ent (birth p1 p2 x y s) j) = P (ent (snd (birth_row p1 p2 s)) j)"
  using assms(5)
  by (simp add: birth_def split_beta birth_log_keeps [of P, OF assms(2-4)]
        birth_spawn_keeps [of P, OF assms(1)])

lemma hatchEgg_keeps:
  assumes "\<And>e x y. P (e\<lparr>xA := x, yA := y\<rparr>) = P e"
    "\<And>e v. P (e\<lparr>speciesA := v\<rparr>) = P e" "\<And>e v. P (e\<lparr>glowUntil := v\<rparr>) = P e"
    "\<And>e v. P (e\<lparr>dietShiftPenaltyA := v\<rparr>) = P e"
    and "count s < MAX_ENTITIES"
  shows "P (ent (hatchEgg egg s) j) = P (ent (hatchEgg_row egg s) j)"
  using assms(5)
  by (simp add: hatchEgg_def split_beta hatchEgg_log_keeps [of P, OF assms(2-4)]
        hatchEgg_spawn_keeps [of P, OF assms(1)])

lemma birth_row_other: "j \<noteq> count s \<Longrightarrow> ent (snd (birth_row p1 p2 s)) j = ent s j"
  by (simp add: birth_row_def Let_def split_beta)

lemma hatchEgg_row_other: "j \<noteq> count s \<Longrightarrow> ent (hatchEgg_row egg s) j = ent s j"
  by (simp add: hatchEgg_row_def Let_def)

lemma birth_other: "j \<noteq> count s \<Longrightarrow> ent (birth p1 p2 x y s) j = ent s j"
  by (simp add: birth_def split_beta birth_log_def Let_def reassignSpecies_def birth_spawn_frame)

lemma hatchEgg_other: "j \<noteq> count s \<Longrightarrow> ent (hatchEgg egg s) j = ent s j"
  by (simp add: hatchEgg_def split_beta hatchEgg_log_def Let_def reassignSpecies_def
        hatchEgg_spawn_frame)

lemma addEntity_other: "j \<noteq> count s \<Longrightarrow> ent (addEntity g en ag s) j = ent s j"
  by (simp add: addEntity_def Let_def)

lemma addEntity_keeps:
  assumes "\<And>e x y. P (e\<lparr>xA := x, yA := y\<rparr>) = P e" and "count s < MAX_ENTITIES"
  shows "P (ent (addEntity g en ag s) j) =
         P (ent (upd (count s) (\<lambda>e. e\<lparr>aliveA := True, adultA := False, energyA := en,
                                        hydrationA := 1, ageA := ag\<rparr>)
                   (applyGenome (count s) g
                      (upd (count s) (\<lambda>e. e\<lparr>idA := count s + 1\<rparr>) (s\<lparr>count := count s + 1\<rparr>)))) j)"
  using assms(2) by (simp add: addEntity_def Let_def addEntity_place_keeps [of P, OF assms(1)])

lemma place_other: "j \<noteq> count s \<Longrightarrow> ent (snd (place x y g en s)) j = ent s j"
  by (simp add: place_def Let_def split_beta)

lemma place_keeps:
  assumes "\<And>e x y. P (e\<lparr>xA := x, yA := y\<rparr>) = P e" "\<And>e v. P (e\<lparr>speciesA := v\<rparr>) = P e"
    and "fst (place x y g en s)"
  shows "P (ent (snd (place x y g en s)) j) =
         P (ent (upd (count s) (\<lambda>e. e\<lparr>idA := count s + 1, energyA := clamp01 en, hydrationA := 1,
                                ageA := 0, aliveA := True, adultA := False\<rparr>)
                   (applyGenome (count s) g (s\<lparr>count := count s + 1\<rparr>))) j)"
  using assms(3)
  by (simp add: place_def Let_def split_beta placeAt_keeps [of P, OF assms(1)] assms(2)
        split: if_splits)

subsection \<open>C10: the lifespan covers the maturity age\<close>

lemma lifespan_row:
  "lifespan_ok (ent (applyPhenotypeFromGenes i s) i)"
  "lifespan_ok (ent (applyGenome i g s) i)"
  "lifespan_ok (ent (snd (birth_row p1 p2 s)) (count s))"
  "lifespan_ok (ent (hatchEgg_row egg s) (count s))"
  using aPFG_ages applyGenome_ages
  by (simp_all add: lifespan_ok_def birth_row_def hatchEgg_row_def Let_def split_beta)

lemma lifespan_stable:
  "lifespan_ok (e\<lparr>xA := x, yA := y\<rparr>) = lifespan_ok e"
  "lifespan_ok (e\<lparr>speciesA := v\<rparr>) = lifespan_ok e"
  "lifespan_ok (e\<lparr>glowUntil := w\<rparr>) = lifespan_ok e"
  "lifespan_ok (e\<lparr>dietShiftPenaltyA := w\<rparr>) = lifespan_ok e"
  by (simp_all add: lifespan_ok_def)

lemma lifespan_new:
  "count s < MAX_ENTITIES \<Longrightarrow> lifespan_ok (ent (addEntity g en ag s) (count s))"
  "fst (place x y g en s) \<Longrightarrow> lifespan_ok (ent (snd (place x y g en s)) (count s))"
  "count s < MAX_ENTITIES \<Longrightarrow> lifespan_ok (ent (birth p1 p2 x y s) (count s))"
  "count s < MAX_ENTITIES \<Longrightarrow> lifespan_ok (ent (hatchEgg egg s) (count s))"
proof -
  show "count s < MAX_ENTITIES \<Longrightarrow> lifespan_ok (ent (addEntity g en ag s) (count s))"
    using applyGenome_ages
    by (simp add: addEntity_keeps [of lifespan_ok] lifespan_stable) (simp add: lifespan_ok_def)
  show "fst (place x y g en s) \<Longrightarrow> lifespan_ok (ent (snd (place x y g en s)) (count s))"
    using applyGenome_ages
    by (simp add: place_keeps [of lifespan_ok] lifespan_stable) (simp add: lifespan_ok_def)
  show "count s < MAX_ENTITIES \<Longrightarrow> lifespan_ok (ent (birth p1 p2 x y s) (count s))"
    by (simp add: birth_keeps [of lifespan_ok] lifespan_stable lifespan_row)
  show "count s < MAX_ENTITIES \<Longrightarrow> lifespan_ok (ent (hatchEgg egg s) (count s))"
    by (simp add: hatchEgg_keeps [of lifespan_ok] lifespan_stable lifespan_row)
qed

lemma lifespan_inv_step:
  assumes "lifespan_inv s" "\<And>j. j \<noteq> k \<Longrightarrow> ent t j = ent s j" "t = s \<or> lifespan_ok (ent t k)"
  shows "lifespan_inv t"
  using assms unfolding lifespan_inv_def by metis

lemma lifespan_inv_addEntity: "lifespan_inv s \<Longrightarrow> lifespan_inv (addEntity g en ag s)"
proof (rule lifespan_inv_step [where k = "count s"])
  show "addEntity g en ag s = s \<or> lifespan_ok (ent (addEntity g en ag s) (count s))"
    using lifespan_new(1) [of s g en ag] by (cases "count s < MAX_ENTITIES") (simp_all add: addEntity_def)
qed (simp_all add: addEntity_other)

lemma lifespan_inv_place: "lifespan_inv s \<Longrightarrow> lifespan_inv (snd (place x y g en s))"
proof (rule lifespan_inv_step [where k = "count s"])
  have "\<not> fst (place x y g en s) \<Longrightarrow> snd (place x y g en s) = s"
    by (rule place_fail)
  then show "snd (place x y g en s) = s \<or> lifespan_ok (ent (snd (place x y g en s)) (count s))"
    using lifespan_new(2) [of x y g en s] by blast
qed (simp_all add: place_other)

lemma lifespan_inv_birth: "lifespan_inv s \<Longrightarrow> lifespan_inv (birth p1 p2 x y s)"
proof (rule lifespan_inv_step [where k = "count s"])
  show "birth p1 p2 x y s = s \<or> lifespan_ok (ent (birth p1 p2 x y s) (count s))"
    using lifespan_new(3) [of s p1 p2 x y] by (cases "count s < MAX_ENTITIES") (simp_all add: birth_def)
qed (simp_all add: birth_other)

lemma lifespan_inv_hatchEgg: "lifespan_inv s \<Longrightarrow> lifespan_inv (hatchEgg egg s)"
proof (rule lifespan_inv_step [where k = "count s"])
  show "hatchEgg egg s = s \<or> lifespan_ok (ent (hatchEgg egg s) (count s))"
    using lifespan_new(4) [of s egg] by (cases "count s < MAX_ENTITIES") (simp_all add: hatchEgg_def)
qed (simp_all add: hatchEgg_other)

lemma lifespan_inv_rng: "lifespan_inv (s\<lparr>RNG_S := g\<rparr>) = lifespan_inv s"
  by (simp add: lifespan_inv_def)

lemma lifespan_inv_seedOne: "lifespan_inv s \<Longrightarrow> lifespan_inv (seedOne life s)"
  by (simp add: seedOne_def split_beta Let_def lifespan_inv_addEntity lifespan_inv_rng)

lemma lifespan_inv_seedLoop: "lifespan_inv s \<Longrightarrow> lifespan_inv (seedLoop life n s)"
  by (induction n arbitrary: s) (simp_all add: lifespan_inv_seedOne)

lemma lifespan_inv_seedWorld: "lifespan_inv s \<Longrightarrow> lifespan_inv (seedWorld pc ac s)"
  by (simp add: seedWorld_def lifespan_inv_seedLoop)

lemma buildEnv_ent [simp]: "ent (buildEnv eb seed s) = ent s"
  by (simp add: buildEnv_def Let_def split_beta)

lemma lifespan_inv_init:
  "lifespan_inv (init eb seed pc ac w h s)" "lifespan_inv (reseed eb seed pc ac w h s)"
proof -
  have a: "lifespan_inv (buildEnv eb seed (alloc t))" for t
    by (simp add: lifespan_inv_def alloc_def zeroEntity_def)
  have b: "lifespan_inv (resetPopulationDiagnostics t) = lifespan_inv t" for t
    by (simp add: lifespan_inv_def resetPopulationDiagnostics_def)
  show "lifespan_inv (init eb seed pc ac w h s)" "lifespan_inv (reseed eb seed pc ac w h s)"
    by (simp_all add: init_def reseed_def Let_def b lifespan_inv_seedWorld a)
qed


text \<open>
  Claim C10. \<open>applyPhenotypeFromGenes\<close> and \<open>applyGenome\<close> leave row \<open>i\<close> with a
  maximum age of at least the maturity age plus 200. The row created by \<open>addEntity\<close>
  (seeding), \<open>birth\<close>, \<open>hatchEgg\<close> and a successful \<open>place\<close> has this property, and
  so has every live row after \<open>init\<close> and \<open>reseed\<close>; the five creating functions keep
  it for every live row.
\<close>

theorem lifespan_covers_maturity:
  "lifespan_ok (ent (applyPhenotypeFromGenes i s) i)
   \<and> lifespan_ok (ent (applyGenome i g s) i)
   \<and> (count s < MAX_ENTITIES \<longrightarrow>
        lifespan_ok (ent (addEntity g en ag s) (count s))
        \<and> lifespan_ok (ent (birth p1 p2 x y s) (count s))
        \<and> lifespan_ok (ent (hatchEgg egg s) (count s)))
   \<and> (fst (place x y g en s) \<longrightarrow> lifespan_ok (ent (snd (place x y g en s)) (count s)))
   \<and> lifespan_inv (init eb seed pc ac w h s)
   \<and> lifespan_inv (reseed eb seed pc ac w h s)
   \<and> (lifespan_inv s \<longrightarrow>
        lifespan_inv (addEntity g en ag s) \<and> lifespan_inv (snd (place x y g en s))
        \<and> lifespan_inv (birth p1 p2 x y s) \<and> lifespan_inv (hatchEgg egg s)
        \<and> lifespan_inv (seedWorld pc ac s))"
  by (simp add: lifespan_row lifespan_new lifespan_inv_init lifespan_inv_addEntity
    lifespan_inv_place lifespan_inv_birth lifespan_inv_hatchEgg lifespan_inv_seedWorld)

theorem lifespan_covers_maturity_witness:
  "count emptyWorld < MAX_ENTITIES
   \<and> lifespan_ok (ent (addEntity sampleGenome (8 / 10) 0 emptyWorld) 0)
   \<and> lifespan_ok (ent (birth 0 None 6 6 emptyWorld) 0)
   \<and> lifespan_ok (ent (hatchEgg sampleEgg emptyWorld) 0)
   \<and> fst (place 5 5 sampleGenome (8 / 10) emptyWorld)
   \<and> lifespan_ok (ent (snd (place 5 5 sampleGenome (8 / 10) emptyWorld)) 0)
   \<and> lifespan_inv emptyWorld
   \<and> lifespan_inv (snd (place 5 5 sampleGenome (8 / 10) emptyWorld))
   \<and> lifespan_inv (seedWorld 3 2 emptyWorld)"
proof -
  have p: "fst (place 5 5 sampleGenome (8 / 10) emptyWorld)"
    by (rule place_free(8)) (simp_all add: emptyWorld_simps MAX_ENTITIES_def idx_def ta_new_def)
  have c: "count emptyWorld < MAX_ENTITIES" by (simp add: emptyWorld_simps MAX_ENTITIES_def)
  have e: "lifespan_inv emptyWorld"
    using lifespan_covers_maturity [of 0 moduleStart sampleGenome 0 0 0 None 0 0 sampleEgg
        plainEnv 42 0 0 120 120]
    by (simp add: emptyWorld_def)
  show ?thesis
    using lifespan_covers_maturity [of 0 emptyWorld sampleGenome "8 / 10" 0 0 None 6 6 sampleEgg
        plainEnv 42 3 2 120 120]
      lifespan_covers_maturity [of 0 emptyWorld sampleGenome "8 / 10" 0 0 None 5 5 sampleEgg
        plainEnv 42 3 2 120 120] p c e
    by (simp add: emptyWorld_simps)
qed

subsection \<open>C1: init on an engine that has run before\<close>

lemma addEntity_count:
  "count (addEntity g en ag s) = (if count s < MAX_ENTITIES then count s + 1 else count s)"
  by (simp add: addEntity_def Let_def)

lemma addEntity_id:
  "count s < MAX_ENTITIES \<Longrightarrow> idA (ent (addEntity g en ag s) (count s)) = count s + 1"
  by (simp add: addEntity_keeps [of idA])

lemma seedOne_count:
  "count (seedOne life s) = (if count s < MAX_ENTITIES then count s + 1 else count s)"
  by (simp add: seedOne_def split_beta Let_def addEntity_count)

lemma seedOne_id:
  "count s < MAX_ENTITIES \<Longrightarrow> idA (ent (seedOne life s) (count s)) = count s + 1"
  using addEntity_id [of "s\<lparr>RNG_S := g\<rparr>" for g]
  by (simp add: seedOne_def split_beta Let_def)

lemma seedOne_other: "j \<noteq> count s \<Longrightarrow> ent (seedOne life s) j = ent s j"
  by (simp add: seedOne_def split_beta Let_def addEntity_other)

lemma seedWorld_one: "seedWorld 1 0 s = seedOne Plant s"
  by (simp add: seedWorld_def)

lemma alloc_simps [simp]:
  "ent (alloc s) = (\<lambda>_. zeroEntity)" "count (alloc s) = count s"
  "gridW (alloc s) = gridW s" "gridH (alloc s) = gridH s"
  "occ (alloc s) = ta_new (gridW s * gridH s) (- 1)"
  by (simp_all add: alloc_def)

lemma buildEnv_simps [simp]:
  "count (buildEnv eb seed s) = count s" "occ (buildEnv eb seed s) = occ s"
  "gridW (buildEnv eb seed s) = gridW s" "gridH (buildEnv eb seed s) = gridH s"
  by (simp_all add: buildEnv_def split_beta)

lemma setWorldSize_simps [simp]:
  "count (setWorldSize w h s) = count s" "ent (setWorldSize w h s) = ent s"
  by (simp_all add: setWorldSize_def)

lemma init_count:
  "count (init eb seed 1 0 w h s) = (if count s < MAX_ENTITIES then count s + 1 else count s)"
  by (simp add: init_def Let_def seedWorld_one seedOne_count resetPopulationDiagnostics_def
        buildEnv_def split_beta alloc_def setWorldSize_def)

lemma init_row:
  "count s < MAX_ENTITIES \<Longrightarrow> idA (ent (init eb seed 1 0 w h s) (count s)) = count s + 1"
  "j \<noteq> count s \<Longrightarrow> ent (init eb seed 1 0 w h s) j = zeroEntity"
proof -
  let ?t = "buildEnv eb seed (alloc ((setWorldSize w h s)\<lparr> RNG_S := seed_u32 seed,
              weatherSeed := seed_u32 seed, lastLightningTick := - 1, activeFires := [],
              activeFireCount := 0 \<rparr>))"
  have c: "count ?t = count s" "ent ?t = (\<lambda>_. zeroEntity)"
    by (simp_all add: setWorldSize_def)
  have i: "init eb seed 1 0 w h s = resetPopulationDiagnostics (seedOne Plant ?t)"
    by (simp add: init_def Let_def seedWorld_one)
  show "count s < MAX_ENTITIES \<Longrightarrow> idA (ent (init eb seed 1 0 w h s) (count s)) = count s + 1"
    using seedOne_id [of ?t Plant] unfolding i by (simp add: resetPopulationDiagnostics_def)
  show "j \<noteq> count s \<Longrightarrow> ent (init eb seed 1 0 w h s) j = zeroEntity"
    using seedOne_other [of j ?t Plant] unfolding i
    by (simp add: resetPopulationDiagnostics_def)
qed

lemma reseed_row: "idA (ent (reseed eb seed 1 0 w h s) 0) = 1"
proof -
  let ?t = "buildEnv eb seed (alloc ((setWorldSize w h s)\<lparr> RNG_S := seed_u32 seed,
              weatherSeed := seed_u32 seed, lastLightningTick := - 1, activeFires := [],
              activeFireCount := 0, tick := 0, acc := 0, count := 0, total := 0, animals := 0,
              plants := 0, MUTATION_LOG := [], eggs := [] \<rparr>))"
  have c: "count ?t = 0"
    by (simp add: buildEnv_def split_beta alloc_def setWorldSize_def)
  have i: "reseed eb seed 1 0 w h s = resetPopulationDiagnostics (seedOne Plant ?t)"
    by (simp add: reseed_def Let_def seedWorld_one)
  show ?thesis
    using seedOne_id [of ?t Plant] unfolding i
    by (simp add: resetPopulationDiagnostics_def c MAX_ENTITIES_def)
qed

text \<open>
  Claim C1 fails for \<open>init\<close> on an engine that has been initialised before. Whatever the
  environment builder, the seed and the world size: \<open>init(seed, 1, 0, w, h)\<close> on the freshly
  loaded module puts the seeded plant into slot 0 with id 1; the same call repeated on the
  resulting state leaves slot 0 zeroed and puts the plant into slot 1 with id 2, because
  \<open>init\<close> does not reset the slot counter. So the entity arrays after the two calls differ
  (with N = 0 steps). \<open>reseed\<close> resets the counter and fills slot 0 on every state.
\<close>

theorem init_twice_differs:
  "idA (ent (init eb seed 1 0 w h moduleStart) 0) = 1
   \<and> idA (ent (init eb seed 1 0 w h (init eb seed 1 0 w h moduleStart)) 0) = 0
   \<and> idA (ent (init eb seed 1 0 w h (init eb seed 1 0 w h moduleStart)) 1) = 2
   \<and> ent (init eb seed 1 0 w h (init eb seed 1 0 w h moduleStart))
       \<noteq> ent (init eb seed 1 0 w h moduleStart)
   \<and> idA (ent (reseed eb seed 1 0 w h (reseed eb seed 1 0 w h moduleStart)) 0) = 1"
proof -
  let ?a = "init eb seed 1 0 w h moduleStart"
  have m: "count moduleStart = 0" by (simp add: moduleStart_def)
  have a: "count ?a = 1" by (simp add: init_count m MAX_ENTITIES_def)
  have 1: "idA (ent ?a 0) = 1" using init_row(1) [of moduleStart eb seed w h] by (simp add: m MAX_ENTITIES_def)
  have 2: "idA (ent (init eb seed 1 0 w h ?a) 0) = 0"
    using init_row(2) [of 0 ?a eb seed w h] by (simp add: a zeroEntity_def)
  have 3: "idA (ent (init eb seed 1 0 w h ?a) 1) = 2"
    using init_row(1) [of ?a eb seed w h] by (simp add: a MAX_ENTITIES_def)
  have 4: "ent (init eb seed 1 0 w h ?a) \<noteq> ent ?a"
  proof
    assume "ent (init eb seed 1 0 w h ?a) = ent ?a"
    then have "idA (ent (init eb seed 1 0 w h ?a) 0) = idA (ent ?a 0)" by simp
    with 1 2 show False by simp
  qed
  from 1 2 3 4 show ?thesis by (simp add: reseed_row)
qed

subsection \<open>C2: seeding more entities than tiles\<close>

lemma ta_set_dom [simp]: "dom (ta_set a k v) = dom a"
  by (auto simp: ta_set_def)

lemma ta_new_dom: "dom (ta_new n v) = {0..<n}"
  by (auto simp: ta_new_def split: if_splits)

lemma placeAt_dom [simp]: "dom (occ (snd (placeAt i x y s))) = dom (occ s)"
  by (simp add: placeAt_def Let_def)

lemma addEntity_place_dom [simp]: "dom (occ (addEntity_place n i s)) = dom (occ s)"
  by (induction n arbitrary: s) (simp_all add: Let_def split_beta)

lemma addEntity_dom [simp]: "dom (occ (addEntity g en ag s)) = dom (occ s)"
  by (simp add: addEntity_def Let_def)

lemma seedOne_dom [simp]: "dom (occ (seedOne life s)) = dom (occ s)"
  by (simp add: seedOne_def split_beta Let_def)

lemma seedLoop_dom [simp]: "dom (occ (seedLoop life n s)) = dom (occ s)"
  by (induction n arbitrary: s) simp_all

lemma addEntity_alive:
  "count s < MAX_ENTITIES \<Longrightarrow> aliveA (ent (addEntity g en ag s) (count s))"
  by (simp add: addEntity_keeps [of aliveA])

lemma seedOne_alive: "count s < MAX_ENTITIES \<Longrightarrow> aliveA (ent (seedOne life s) (count s))"
  using addEntity_alive [of "s\<lparr>RNG_S := g\<rparr>" for g]
  by (simp add: seedOne_def split_beta Let_def)

lemma seedLoop_count:
  "count s + int n \<le> MAX_ENTITIES \<Longrightarrow> count (seedLoop life n s) = count s + int n"
  by (induction n arbitrary: s) (simp_all add: seedOne_count)

lemma seedLoop_other: "j < count s \<Longrightarrow> ent (seedLoop life n s) j = ent s j"
proof (induction n arbitrary: s)
  case (Suc n)
  have "count s \<le> count (seedOne life s)" by (simp add: seedOne_count)
  with Suc show ?case by (simp add: seedOne_other)
qed simp

lemma seedLoop_alive:
  "count s + int n \<le> MAX_ENTITIES \<Longrightarrow> count s \<le> i \<Longrightarrow> i < count s + int n
   \<Longrightarrow> aliveA (ent (seedLoop life n s) i)"
proof (induction n arbitrary: s)
  case (Suc n)
  have c: "count (seedOne life s) = count s + 1" using Suc.prems by (simp add: seedOne_count)
  show ?case
  proof (cases "i = count s")
    case True
    then have "ent (seedLoop life n (seedOne life s)) i = ent (seedOne life s) i"
      by (simp add: seedLoop_other c)
    then show ?thesis using seedOne_alive [of s life] Suc.prems True by simp
  next
    case False
    then show ?thesis using Suc.IH [of "seedOne life s"] Suc.prems by (simp add: c)
  qed
qed simp

lemma seedLoop_grid [simp]:
  "gridW (seedLoop life n s) = gridW s" "gridH (seedLoop life n s) = gridH s"
  by (induction n arbitrary: s; simp add: seedOne_def split_beta Let_def addEntity_def)+

lemma more_rows_than_tiles:
  assumes d: "dom (occ s) = {0..<n}" and nm: "n < m" "0 < m"
  shows "\<exists>i. 0 \<le> i \<and> i < m \<and> occ s (idx s (xA (ent s i)) (yA (ent s i))) \<noteq> Some i"
proof (rule ccontr)
  assume "\<not> ?thesis"
  then have all: "\<And>i. 0 \<le> i \<Longrightarrow> i < m \<Longrightarrow> occ s (idx s (xA (ent s i)) (yA (ent s i))) = Some i"
    by blast
  define f where "f = (\<lambda>i. idx s (xA (ent s i)) (yA (ent s i)))"
  have fa: "occ s (f i) = Some i" if "i \<in> {0..<m}" for i
    using all [of i] that by (simp add: f_def)
  have inj: "inj_on f {0..<m}"
  proof (rule inj_onI)
    fix a b assume ab: "a \<in> {0..<m}" "b \<in> {0..<m}" and e: "f a = f b"
    have "Some a = occ s (f a)" using fa [OF ab(1)] by simp
    also have "\<dots> = occ s (f b)" unfolding e ..
    also have "\<dots> = Some b" using fa [OF ab(2)] .
    finally show "a = b" by simp
  qed
  have sub: "f ` {0..<m} \<subseteq> {0..<n}"
  proof
    fix k assume "k \<in> f ` {0..<m}"
    then obtain a where "a \<in> {0..<m}" "k = f a" by blast
    then have "occ s k = Some a" using fa [of a] by simp
    then have "k \<in> dom (occ s)" by blast
    then show "k \<in> {0..<n}" using d by simp
  qed
  have "card {0..<m} \<le> card {0..<n}"
    using card_inj_on_le [OF inj sub] by simp
  then show False using nm by simp
qed

lemma resetPopulationDiagnostics_simps [simp]:
  "count (resetPopulationDiagnostics s) = count s" "ent (resetPopulationDiagnostics s) = ent s"
  "occ (resetPopulationDiagnostics s) = occ s" "gridW (resetPopulationDiagnostics s) = gridW s"
  "gridH (resetPopulationDiagnostics s) = gridH s"
  by (simp_all add: resetPopulationDiagnostics_def)

lemma init_plants:
  assumes "count s + int n \<le> MAX_ENTITIES"
  shows "count (init eb seed (int n) 0 w h s) = count s + int n"
    and "count s \<le> i \<Longrightarrow> i < count s + int n \<Longrightarrow> aliveA (ent (init eb seed (int n) 0 w h s) i)"
    and "dom (occ (init eb seed (int n) 0 w h s)) = {0..<normalizeWorldSize w * normalizeWorldSize h}"
proof -
  let ?t = "buildEnv eb seed (alloc ((setWorldSize w h s)\<lparr> RNG_S := seed_u32 seed,
              weatherSeed := seed_u32 seed, lastLightningTick := - 1, activeFires := [],
              activeFireCount := 0 \<rparr>))"
  have i: "init eb seed (int n) 0 w h s = resetPopulationDiagnostics (seedLoop Plant n ?t)"
    by (simp add: init_def Let_def seedWorld_def)
  have ct: "count ?t = count s" by simp
  show "count (init eb seed (int n) 0 w h s) = count s + int n"
    unfolding i using seedLoop_count [of ?t n Plant] assms by simp
  show "count s \<le> i \<Longrightarrow> i < count s + int n \<Longrightarrow> aliveA (ent (init eb seed (int n) 0 w h s) i)"
    unfolding i using seedLoop_alive [of ?t n i Plant] assms by simp
  show "dom (occ (init eb seed (int n) 0 w h s)) = {0..<normalizeWorldSize w * normalizeWorldSize h}"
    unfolding i by (simp add: ta_new_dom) (simp add: setWorldSize_def)
qed

text \<open>
  Claim C2 fails after \<open>init\<close> with more plants than tiles. A world of 120 by 120 tiles has
  14400 tiles; \<open>init(seed, 14401, 0, 120, 120)\<close> creates 14401 rows, all alive, whatever the
  environment and the seed, because \<open>addEntity\<close> keeps an entity that found no tile in its
  20 tries. So some live entity does not own the occupancy entry of its stored position.
\<close>

theorem seeded_entity_without_tile:
  "count (init eb seed 14401 0 120 120 moduleStart) = 14401
   \<and> (\<exists>i. 0 \<le> i \<and> i < count (init eb seed 14401 0 120 120 moduleStart)
          \<and> aliveA (ent (init eb seed 14401 0 120 120 moduleStart) i)
          \<and> occ (init eb seed 14401 0 120 120 moduleStart)
               (idx (init eb seed 14401 0 120 120 moduleStart)
                  (xA (ent (init eb seed 14401 0 120 120 moduleStart) i))
                  (yA (ent (init eb seed 14401 0 120 120 moduleStart) i))) \<noteq> Some i)"
proof -
  define s where "s = init eb seed (int 14401) 0 120 120 moduleStart"
  have m: "count moduleStart + int 14401 \<le> MAX_ENTITIES"
    by (simp add: moduleStart_def MAX_ENTITIES_def)
  have m0: "count moduleStart = 0" by (simp add: moduleStart_def)
  have c: "count s = 14401"
    unfolding s_def init_plants(1) [OF m] m0 by simp
  have al: "aliveA (ent s i)" if "0 \<le> i" "i < 14401" for i
    unfolding s_def using init_plants(2) [OF m, of i] that unfolding m0 by simp
  have d: "dom (occ s) = {0..<14400}"
    unfolding s_def init_plants(3) [OF m] by (simp add: normalizeWorldSize_def)
  obtain i where i: "0 \<le> i" "i < 14401" "occ s (idx s (xA (ent s i)) (yA (ent s i))) \<noteq> Some i"
    using more_rows_than_tiles [OF d, of 14401] by auto
  have "count s = 14401
   \<and> (\<exists>i. 0 \<le> i \<and> i < count s \<and> aliveA (ent s i)
          \<and> occ s (idx s (xA (ent s i)) (yA (ent s i))) \<noteq> Some i)"
    using c al i by auto
  then show ?thesis unfolding s_def of_nat_numeral .
qed

subsection \<open>C8: the flood from the water tiles\<close>

lemma tile_coords:
  assumes "0 < w" "0 \<le> p" "p < 2147483648"
  shows "js_rem p w = p mod w" "js_or0 (real_of_int p / real_of_int w) = p div w"
proof -
  show "js_rem p w = p mod w" using assms by (simp add: js_rem_def)
  have f: "\<lfloor>real_of_int p / real_of_int w\<rfloor> = p div w" by (simp add: floor_divide_of_int_eq)
  have "0 \<le> real_of_int p / real_of_int w" using assms by simp
  moreover have "real_of_int p / real_of_int w \<le> real_of_int p"
    using assms by (simp add: pos_divide_le_eq mult_le_cancel_left1)
  then have "real_of_int p / real_of_int w < 2147483648"
    using assms by simp
  ultimately show "js_or0 (real_of_int p / real_of_int w) = p div w"
    using js_or0_small [of "real_of_int p / real_of_int w"] f by simp
qed

lemma idx_coords:
  assumes "0 \<le> x" "x < gridW s"
  shows "idx s x y mod gridW s = x" "idx s x y div gridW s = y"
  using assms by (simp_all add: idx_def)

lemma idx_range:
  assumes "0 \<le> x" "x < gridW s" "0 \<le> y" "y < gridH s"
  shows "0 \<le> idx s x y" "idx s x y < gridW s * gridH s"
proof -
  show "0 \<le> idx s x y" using assms by (simp add: idx_def)
  have "y + 1 \<le> gridH s" using assms by simp
  then have "(y + 1) * gridW s \<le> gridH s * gridW s"
    using assms by (intro mult_right_mono) simp_all
  then show "idx s x y < gridW s * gridH s"
    using assms by (simp add: idx_def algebra_simps)
qed

lemma scanTiles_set:
  assumes "0 < gridW s"
  shows "set (scanTiles s) = {p. 0 \<le> p \<and> p < gridW s * gridH s}"
proof (intro set_eqI iffI)
  fix p assume "p \<in> set (scanTiles s)"
  then obtain x y where "0 \<le> x" "x < gridW s" "0 \<le> y" "y < gridH s" "p = idx s x y"
    by (auto simp: scanTiles_def)
  then show "p \<in> {p. 0 \<le> p \<and> p < gridW s * gridH s}"
    using idx_range [of x s y] by simp
next
  fix p assume "p \<in> {p. 0 \<le> p \<and> p < gridW s * gridH s}"
  then have p: "0 \<le> p" "p < gridW s * gridH s" by simp_all
  have x: "0 \<le> p mod gridW s" "p mod gridW s < gridW s" using assms by simp_all
  have y0: "0 \<le> p div gridW s" using assms p by (simp add: pos_imp_zdiv_nonneg_iff)
  have y1: "p div gridW s < gridH s"
  proof (rule ccontr)
    assume "\<not> p div gridW s < gridH s"
    then have "gridW s * gridH s \<le> gridW s * (p div gridW s)"
      using assms by (intro mult_left_mono) simp_all
    moreover have "gridW s * (p div gridW s) \<le> p"
      using mult_div_mod_eq [of "gridW s" p] pos_mod_sign [OF assms, of p] by linarith
    ultimately show False using p by simp
  qed
  have "p = idx s (p mod gridW s) (p div gridW s)" by (simp add: idx_def)
  then show "p \<in> set (scanTiles s)"
    using x y0 y1 by (auto simp: scanTiles_def intro!: bexI [of _ "p div gridW s"])
qed


lemma hypot_zero [simp]: "hypot 0 0 = 0"
  by (simp add: hypot_def)

lemma tileDist_self [simp]: "tileDist s p p = 0"
  by (simp add: tileDist_def)

lemma fround_zero [simp]: "fround 0 = 0"
  by (simp add: fround_def)

lemma hydroStart_inv:
  assumes "0 < gridW s"
  shows "hydro_inv s (hydroStart s)"
  unfolding hydro_inv_def
  by (auto simp: hydroStart_def scanTiles_set [OF assms])

lemma unlabelled_finite [simp]: "finite (unlabelled s h)"
proof (rule finite_subset)
  show "unlabelled s h \<subseteq> {0..<gridW s * gridH s}" by (auto simp: unlabelled_def)
qed simp

lemma visit_cases:
  "visit s px py source h d = h
   \<or> (\<exists>nx ny. 0 \<le> nx \<and> nx < gridW s \<and> 0 \<le> ny \<and> ny < gridH s
        \<and> nearestWater h (idx s nx ny) = - 1
        \<and> visit s px py source h d =
            h\<lparr> nearestWater := (nearestWater h)(idx s nx ny := source),
               wdist := (wdist h)(idx s nx ny \<mapsto>
                  fround (hypot (real_of_int (nx - js_rem source (gridW s)))
                        (real_of_int (ny - js_or0 (real_of_int source / real_of_int (gridW s)))))),
               queue := queue h @ [idx s nx ny] \<rparr>)"
proof (cases "px + fst d < 0 \<or> py + snd d < 0 \<or> px + fst d \<ge> gridW s \<or> py + snd d \<ge> gridH s
              \<or> nearestWater h (idx s (px + fst d) (py + snd d)) \<noteq> - 1")
  case True
  then have "visit s px py source h d = h" by (auto simp: visit_def Let_def)
  then show ?thesis by simp
next
  case False
  then have "visit s px py source h d =
            h\<lparr> nearestWater := (nearestWater h)(idx s (px + fst d) (py + snd d) := source),
               wdist := (wdist h)(idx s (px + fst d) (py + snd d) \<mapsto>
                  fround (hypot (real_of_int ((px + fst d) - js_rem source (gridW s)))
                        (real_of_int ((py + snd d) - js_or0 (real_of_int source / real_of_int (gridW s)))))),
               queue := queue h @ [idx s (px + fst d) (py + snd d)] \<rparr>"
    by (simp add: visit_def Let_def)
  with False show ?thesis
    by (intro disjI2 exI [of _ "px + fst d"] exI [of _ "py + snd d"]) simp
qed

lemma visit_step:
  assumes w: "0 < gridW s" "gridW s * gridH s < 2147483648"
    and src: "0 \<le> source" "source < gridW s * gridH s" "waterMap s source = Some True"
    and inv: "hydro_inv s h"
  shows "hydro_inv s (visit s px py source h d)"
    and "2 * card (unlabelled s (visit s px py source h d)) + length (queue (visit s px py source h d))
         \<le> 2 * card (unlabelled s h) + length (queue h)"
    and "nearestWater h q \<noteq> - 1 \<Longrightarrow>
         nearestWater (visit s px py source h d) q = nearestWater h q
         \<and> wdist (visit s px py source h d) q = wdist h q"
proof -
  let ?v = "visit s px py source h d"
  consider (same) "?v = h"
    | (new) nx ny where "0 \<le> nx" "nx < gridW s" "0 \<le> ny" "ny < gridH s"
        "nearestWater h (idx s nx ny) = - 1"
        "?v = h\<lparr> nearestWater := (nearestWater h)(idx s nx ny := source),
               wdist := (wdist h)(idx s nx ny \<mapsto>
                  fround (hypot (real_of_int (nx - js_rem source (gridW s)))
                        (real_of_int (ny - js_or0 (real_of_int source / real_of_int (gridW s)))))),
               queue := queue h @ [idx s nx ny] \<rparr>"
    using visit_cases [of s px py source h d] by blast
  then have "hydro_inv s ?v
    \<and> 2 * card (unlabelled s ?v) + length (queue ?v) \<le> 2 * card (unlabelled s h) + length (queue h)
    \<and> (nearestWater h q \<noteq> - 1 \<longrightarrow> nearestWater ?v q = nearestWater h q \<and> wdist ?v q = wdist h q)"
  proof cases
    case same
    then show ?thesis using inv by simp
  next
    case new
    let ?np = "idx s nx ny"
    have r: "0 \<le> ?np" "?np < gridW s * gridH s" using idx_range [of nx s ny] new by simp_all
    have c: "js_rem source (gridW s) = source mod gridW s"
      "js_or0 (real_of_int source / real_of_int (gridW s)) = source div gridW s"
      using tile_coords [of "gridW s" source] w src by simp_all
    have d: "hypot (real_of_int (nx - js_rem source (gridW s)))
                   (real_of_int (ny - js_or0 (real_of_int source / real_of_int (gridW s))))
             = tileDist s ?np source"
      using idx_coords [of nx s ny] new by (simp add: c tileDist_def)
    have nw: "waterMap s ?np \<noteq> Some True"
      using inv r new(5) unfolding hydro_inv_def by force
    have s1: "source \<noteq> - 1" using src by simp
    have i: "hydro_inv s ?v"
      using inv r nw s1 src unfolding new(6) d hydro_inv_def by auto
    have u: "unlabelled s ?v = unlabelled s h - {?np}"
      using s1 unfolding new(6) by (auto simp: unlabelled_def)
    have "?np \<in> unlabelled s h" using r new(5) by (simp add: unlabelled_def)
    then have "card (unlabelled s ?v) + 1 = card (unlabelled s h)"
      unfolding u using card_Suc_Diff1 [of "unlabelled s h" ?np] by simp
    moreover have "length (queue ?v) = length (queue h) + 1" unfolding new(6) by simp
    ultimately have m: "2 * card (unlabelled s ?v) + length (queue ?v)
        \<le> 2 * card (unlabelled s h) + length (queue h)" by linarith
    have k: "nearestWater h q \<noteq> - 1 \<longrightarrow> nearestWater ?v q = nearestWater h q \<and> wdist ?v q = wdist h q"
      using new(5) unfolding new(6) by auto
    from i m k show ?thesis by blast
  qed
  then show "hydro_inv s ?v"
    and "2 * card (unlabelled s ?v) + length (queue ?v) \<le> 2 * card (unlabelled s h) + length (queue h)"
    and "nearestWater h q \<noteq> - 1 \<Longrightarrow> nearestWater ?v q = nearestWater h q \<and> wdist ?v q = wdist h q"
    by blast+
qed

lemma visits_step:
  assumes w: "0 < gridW s" "gridW s * gridH s < 2147483648"
    and src: "0 \<le> source" "source < gridW s * gridH s" "waterMap s source = Some True"
    and inv: "hydro_inv s h"
  shows "hydro_inv s (foldl (visit s px py source) h ds)
    \<and> 2 * card (unlabelled s (foldl (visit s px py source) h ds))
        + length (queue (foldl (visit s px py source) h ds))
       \<le> 2 * card (unlabelled s h) + length (queue h)
    \<and> (\<forall>q. nearestWater h q \<noteq> - 1 \<longrightarrow>
          nearestWater (foldl (visit s px py source) h ds) q = nearestWater h q
          \<and> wdist (foldl (visit s px py source) h ds) q = wdist h q)"
  using inv
proof (induction ds arbitrary: h)
  case Nil
  then show ?case by simp
next
  case (Cons d ds)
  let ?v = "visit s px py source h d"
  note v = visit_step [OF w src Cons.prems, where px = px and py = py and d = d]
  note ih = Cons.IH [OF v(1)]
  have k: "nearestWater h q \<noteq> - 1 \<longrightarrow>
          nearestWater (foldl (visit s px py source) ?v ds) q = nearestWater h q
          \<and> wdist (foldl (visit s px py source) ?v ds) q = wdist h q" for q
    using v(3) [where q = q] ih by metis
  show ?case using ih v(2) k by (simp del: One_nat_def)
qed


lemma floodStep_step:
  assumes w: "0 < gridW s" "gridW s * gridH s < 2147483648"
    and inv: "hydro_inv s h" and ne: "queue h \<noteq> []"
  shows "hydro_inv s (floodStep s h)"
    and "2 * card (unlabelled s (floodStep s h)) + length (queue (floodStep s h))
         < 2 * card (unlabelled s h) + length (queue h)"
    and "nearestWater h q \<noteq> - 1 \<Longrightarrow>
         nearestWater (floodStep s h) q = nearestWater h q \<and> wdist (floodStep s h) q = wdist h q"
proof -
  let ?p = "hd (queue h)"
  let ?h0 = "h\<lparr>queue := tl (queue h)\<rparr>"
  have pq: "?p \<in> set (queue h)" using ne by simp
  then have p: "0 \<le> ?p" "?p < gridW s * gridH s" "nearestWater h ?p \<noteq> - 1"
    using inv unfolding hydro_inv_def by blast+
  then have src: "0 \<le> nearestWater h ?p" "nearestWater h ?p < gridW s * gridH s"
    "waterMap s (nearestWater h ?p) = Some True"
    using inv unfolding hydro_inv_def by (metis (no_types, lifting))+
  have "set (tl (queue h)) \<subseteq> set (queue h)" using ne by (simp add: list.set_sel(2) subsetI)
  then have i0: "hydro_inv s ?h0" using inv unfolding hydro_inv_def by auto
  have u0: "unlabelled s ?h0 = unlabelled s h" by (simp add: unlabelled_def)
  have l0: "length (queue ?h0) + 1 = length (queue h)" using ne by simp
  note f = visits_step [OF w src i0, where px = "js_rem ?p (gridW s)"
      and py = "js_or0 (real_of_int ?p / real_of_int (gridW s))" and ds = N8]
  have e: "floodStep s h = foldl (visit s (js_rem ?p (gridW s))
      (js_or0 (real_of_int ?p / real_of_int (gridW s))) (nearestWater h ?p)) ?h0 N8"
    by (simp add: floodStep_def Let_def)
  show "hydro_inv s (floodStep s h)" unfolding e using f by blast
  show "2 * card (unlabelled s (floodStep s h)) + length (queue (floodStep s h))
         < 2 * card (unlabelled s h) + length (queue h)"
    unfolding e using f l0 unfolding u0 by linarith
  show "nearestWater h q \<noteq> - 1 \<Longrightarrow>
         nearestWater (floodStep s h) q = nearestWater h q \<and> wdist (floodStep s h) q = wdist h q"
    unfolding e using f by simp
qed

lemma hydroStart_closed: "flood_closed s (hydroStart s) {}"
  by (auto simp: flood_closed_def hydroStart_def)

lemma visit_labelled:
  assumes "source \<noteq> - 1" "nearestWater h q \<noteq> - 1"
  shows "nearestWater (visit s px py source h d) q \<noteq> - 1"
  using assms by (simp add: visit_def Let_def)

lemma visit_target:
  assumes "source \<noteq> - 1" "0 \<le> px + fst d" "px + fst d < gridW s" "0 \<le> py + snd d"
    "py + snd d < gridH s"
  shows "nearestWater (visit s px py source h d) (idx s (px + fst d) (py + snd d)) \<noteq> - 1"
  using assms by (simp add: visit_def Let_def)

lemma visits_labelled:
  assumes "source \<noteq> - 1"
  shows "nearestWater h q \<noteq> - 1 \<Longrightarrow> nearestWater (foldl (visit s px py source) h ds) q \<noteq> - 1"
  by (induction ds arbitrary: h) (simp_all add: visit_labelled [OF assms])

lemma visits_target:
  assumes "source \<noteq> - 1" "d \<in> set ds" "0 \<le> px + fst d" "px + fst d < gridW s"
    "0 \<le> py + snd d" "py + snd d < gridH s"
  shows "nearestWater (foldl (visit s px py source) h ds) (idx s (px + fst d) (py + snd d)) \<noteq> - 1"
  using assms(2)
proof (induction ds arbitrary: h)
  case (Cons e ds)
  show ?case
  proof (cases "d = e")
    case True
    have "nearestWater (visit s px py source h d) (idx s (px + fst d) (py + snd d)) \<noteq> - 1"
      by (rule visit_target [OF assms(1,3-6)])
    then show ?thesis using True by (simp add: visits_labelled [OF assms(1)])
  next
    case False
    then show ?thesis using Cons by simp
  qed
qed simp

lemma visit_closed:
  assumes "source \<noteq> - 1" "flood_closed s h X"
  shows "flood_closed s (visit s px py source h d) X"
proof -
  consider (same) "visit s px py source h d = h"
    | (new) np v where "nearestWater h np = - 1"
        "visit s px py source h d =
           h\<lparr>nearestWater := (nearestWater h)(np := source), wdist := (wdist h)(np \<mapsto> v),
             queue := queue h @ [np]\<rparr>"
    using visit_cases [of s px py source h d] by blast
  then show ?thesis
  proof cases
    case same
    then show ?thesis using assms by simp
  next
    case new
    show ?thesis
      unfolding new(2) flood_closed_def
    proof (intro allI impI)
      fix x y d
      assume a: "0 \<le> x \<and> x < gridW s \<and> 0 \<le> y \<and> y < gridH s \<and> d \<in> set N8
        \<and> nearestWater (h\<lparr>nearestWater := (nearestWater h)(np := source),
              wdist := (wdist h)(np \<mapsto> v), queue := queue h @ [np]\<rparr>) (idx s x y) \<noteq> - 1
        \<and> idx s x y \<notin> set (queue (h\<lparr>nearestWater := (nearestWater h)(np := source),
              wdist := (wdist h)(np \<mapsto> v), queue := queue h @ [np]\<rparr>))
        \<and> idx s x y \<notin> X
        \<and> 0 \<le> x + fst d \<and> x + fst d < gridW s \<and> 0 \<le> y + snd d \<and> y + snd d < gridH s"
      then have ne: "idx s x y \<noteq> np" by auto
      then have "nearestWater h (idx s x y) \<noteq> - 1" "idx s x y \<notin> set (queue h)"
        using a by auto
      then have "nearestWater h (idx s (x + fst d) (y + snd d)) \<noteq> - 1"
        using assms(2) a unfolding flood_closed_def by blast
      then show "nearestWater (h\<lparr>nearestWater := (nearestWater h)(np := source),
              wdist := (wdist h)(np \<mapsto> v), queue := queue h @ [np]\<rparr>)
              (idx s (x + fst d) (y + snd d)) \<noteq> - 1"
        using assms(1) by simp
    qed
  qed
qed

lemma visits_closed:
  assumes "source \<noteq> - 1"
  shows "flood_closed s h X \<Longrightarrow> flood_closed s (foldl (visit s px py source) h ds) X"
  by (induction ds arbitrary: h) (simp_all add: visit_closed [OF assms])

lemma floodStep_closed:
  assumes w: "0 < gridW s" "gridW s * gridH s < 2147483648"
    and inv: "hydro_inv s h" and ne: "queue h \<noteq> []" and cl: "flood_closed s h {}"
  shows "flood_closed s (floodStep s h) {}"
proof -
  let ?p = "hd (queue h)"
  let ?h0 = "h\<lparr>queue := tl (queue h)\<rparr>"
  let ?px = "?p mod gridW s" and ?py = "?p div gridW s"
  have pq: "?p \<in> set (queue h)" using ne by simp
  then have p: "0 \<le> ?p" "?p < gridW s * gridH s" "nearestWater h ?p \<noteq> - 1"
    using inv unfolding hydro_inv_def by blast+
  have c: "js_rem ?p (gridW s) = ?px" "js_or0 (real_of_int ?p / real_of_int (gridW s)) = ?py"
    using tile_coords [of "gridW s" ?p] w p by simp_all
  have e: "floodStep s h = foldl (visit s ?px ?py (nearestWater h ?p)) ?h0 N8"
    by (simp add: floodStep_def Let_def c)
  have q: "set (queue h) = insert ?p (set (tl (queue h)))"
    using ne by (cases "queue h") simp_all
  have c0: "flood_closed s ?h0 {?p}"
    using cl unfolding flood_closed_def q by simp
  have c1: "flood_closed s (floodStep s h) {?p}"
    unfolding e by (rule visits_closed [OF p(3) c0])
  show ?thesis
    unfolding flood_closed_def
  proof (intro allI impI)
    fix x y d
    assume a: "0 \<le> x \<and> x < gridW s \<and> 0 \<le> y \<and> y < gridH s \<and> d \<in> set N8
        \<and> nearestWater (floodStep s h) (idx s x y) \<noteq> - 1
        \<and> idx s x y \<notin> set (queue (floodStep s h)) \<and> idx s x y \<notin> {}
        \<and> 0 \<le> x + fst d \<and> x + fst d < gridW s \<and> 0 \<le> y + snd d \<and> y + snd d < gridH s"
    show "nearestWater (floodStep s h) (idx s (x + fst d) (y + snd d)) \<noteq> - 1"
    proof (cases "idx s x y = ?p")
      case True
      then have "x = ?px" "y = ?py" using idx_coords [of x s y] a by simp_all
      then show ?thesis
        unfolding e using visits_target [OF p(3), of d N8 ?px s ?py ?h0] a by simp
    next
      case False
      then show ?thesis using c1 a unfolding flood_closed_def by blast
    qed
  qed
qed

lemma flood_total:
  assumes w: "0 < gridW s" "gridW s * gridH s < 2147483648"
  shows "hydro_inv s h \<Longrightarrow> flood_closed s h {} \<Longrightarrow>
         \<exists>h'. flood s h = Some h' \<and> hydro_inv s h' \<and> queue h' = [] \<and> flood_closed s h' {}
              \<and> (\<forall>q. nearestWater h q \<noteq> - 1 \<longrightarrow>
                     nearestWater h' q = nearestWater h q \<and> wdist h' q = wdist h q)"
proof (induction h rule: measure_induct_rule
    [where f = "\<lambda>h. 2 * card (unlabelled s h) + length (queue h)"])
  case (less h)
  show ?case
  proof (cases "queue h = []")
    case True
    then have "flood s h = Some h" by (subst flood.simps) simp
    then show ?thesis using less.prems True by simp
  next
    case False
    note st = floodStep_step [OF w less.prems(1) False]
    note cl = floodStep_closed [OF w less.prems(1) False less.prems(2)]
    obtain h' where h': "flood s (floodStep s h) = Some h'" "hydro_inv s h'" "queue h' = []"
      "flood_closed s h' {}"
      "\<forall>q. nearestWater (floodStep s h) q \<noteq> - 1 \<longrightarrow>
           nearestWater h' q = nearestWater (floodStep s h) q
           \<and> wdist h' q = wdist (floodStep s h) q"
      using less.IH [OF st(2) st(1) cl] by blast
    have "flood s h = Some h'" using False h'(1) by (subst flood.simps) simp
    moreover have "nearestWater h q \<noteq> - 1 \<longrightarrow>
        nearestWater h' q = nearestWater h q \<and> wdist h' q = wdist h q" for q
      using st(3) [where q = q] h'(5) by metis
    ultimately show ?thesis using h'(2,3,4) by blast
  qed
qed

lemma interval_walk:
  fixes P :: "int \<Rightarrow> bool"
  assumes x0: "a \<le> x0" "x0 < b" "P x0"
    and up: "\<And>x. a \<le> x \<Longrightarrow> x + 1 < b \<Longrightarrow> P x \<Longrightarrow> P (x + 1)"
    and down: "\<And>x. a \<le> x - 1 \<Longrightarrow> x < b \<Longrightarrow> P x \<Longrightarrow> P (x - 1)"
  shows "a \<le> x \<Longrightarrow> x < b \<Longrightarrow> P x"
proof (cases "x0 \<le> x")
  case True
  then show "x < b \<Longrightarrow> P x"
  proof (induction x rule: int_ge_induct)
    case base
    then show ?case using x0 by simp
  next
    case (step i)
    then show ?case using up [of i] x0 by simp
  qed
next
  case False
  then have "x \<le> x0" by simp
  then show "a \<le> x \<Longrightarrow> P x"
  proof (induction x rule: int_le_induct)
    case base
    then show ?case using x0 by simp
  next
    case (step i)
    then show ?case using down [of i] x0 by simp
  qed
qed

lemma flood_reaches_all:
  assumes cl: "flood_closed s h {}" and q: "queue h = []"
    and t0: "0 \<le> x0" "x0 < gridW s" "0 \<le> y0" "y0 < gridH s" "nearestWater h (idx s x0 y0) \<noteq> - 1"
    and t: "0 \<le> x" "x < gridW s" "0 \<le> y" "y < gridH s"
  shows "nearestWater h (idx s x y) \<noteq> - 1"
proof -
  have mv: "nearestWater h (idx s (u + dx) (v + dy)) \<noteq> - 1"
    if "0 \<le> u" "u < gridW s" "0 \<le> v" "v < gridH s" "nearestWater h (idx s u v) \<noteq> - 1"
      "(dx, dy) \<in> set N8" "0 \<le> u + dx" "u + dx < gridW s" "0 \<le> v + dy" "v + dy < gridH s"
    for u v dx dy
    using cl that unfolding flood_closed_def q by (metis empty_iff empty_set fst_conv snd_conv)
  have row: "nearestWater h (idx s u y0) \<noteq> - 1" if "0 \<le> u" "u < gridW s" for u
  proof (rule interval_walk [where P = "\<lambda>u. nearestWater h (idx s u y0) \<noteq> - 1"
        and a = 0 and b = "gridW s" and ?x0.0 = x0])
    show "nearestWater h (idx s (u + 1) y0) \<noteq> - 1"
      if "0 \<le> u" "u + 1 < gridW s" "nearestWater h (idx s u y0) \<noteq> - 1" for u
      using mv [of u y0 1 0] that t0 by (simp add: N8_def)
    show "nearestWater h (idx s (u - 1) y0) \<noteq> - 1"
      if "0 \<le> u - 1" "u < gridW s" "nearestWater h (idx s u y0) \<noteq> - 1" for u
      using mv [of u y0 "- 1" 0] that t0 by (simp add: N8_def)
  qed (use t0 that in simp_all)
  show ?thesis
  proof (rule interval_walk [where P = "\<lambda>v. nearestWater h (idx s x v) \<noteq> - 1"
        and a = 0 and b = "gridH s" and ?x0.0 = y0])
    show "nearestWater h (idx s x (v + 1)) \<noteq> - 1"
      if "0 \<le> v" "v + 1 < gridH s" "nearestWater h (idx s x v) \<noteq> - 1" for v
      using mv [of x v 0 1] that t by (simp add: N8_def)
    show "nearestWater h (idx s x (v - 1)) \<noteq> - 1"
      if "0 \<le> v - 1" "v < gridH s" "nearestWater h (idx s x v) \<noteq> - 1" for v
      using mv [of x v 0 "- 1"] that t by (simp add: N8_def)
  qed (use t0 t row in simp_all)
qed

lemma waterTiles_set:
  assumes "0 < gridW s"
  shows "set (waterTiles s) = {p. 0 \<le> p \<and> p < gridW s * gridH s \<and> waterMap s p = Some True}"
  by (auto simp: waterTiles_def scanTiles_set [OF assms])

lemma hydroFinish_maps:
  assumes "0 \<le> p" "p < gridW s * gridH s"
  shows "waterDistanceMap (hydroFinish s h) p =
           (case wdist h p of
              None \<Rightarrow> fround (hypot (real_of_int (gridW s)) (real_of_int (gridH s)))
            | Some d \<Rightarrow> d)"
    and "moistureMap (hydroFinish s h) p =
           fround (clamp01 (1 - waterDistanceMap (hydroFinish s h) p / 40))"
  using assms by (simp_all add: hydroFinish_def Let_def)

lemma precomputeHydrology_result:
  assumes w: "0 < gridW s" "gridW s * gridH s < 2147483648"
  obtains h where "precomputeHydrology s = Some (hydroFinish s h)" "hydro_inv s h" "queue h = []"
    "flood_closed s h {}"
    "\<And>q. nearestWater (hydroStart s) q \<noteq> - 1 \<Longrightarrow>
         nearestWater h q = nearestWater (hydroStart s) q \<and> wdist h q = wdist (hydroStart s) q"
    "flood s (hydroStart s) = Some h"
proof -
  obtain h where h: "flood s (hydroStart s) = Some h" "hydro_inv s h" "queue h = []"
    "flood_closed s h {}"
    "\<forall>q. nearestWater (hydroStart s) q \<noteq> - 1 \<longrightarrow>
         nearestWater h q = nearestWater (hydroStart s) q \<and> wdist h q = wdist (hydroStart s) q"
    using flood_total [OF w hydroStart_inv [OF w(1)] hydroStart_closed] by blast
  show thesis
    by (rule that [of h]) (use h in \<open>simp_all add: precomputeHydrology_def\<close>)
qed

lemma tile_split:
  assumes "0 < gridW s" "0 \<le> p" "p < gridW s * gridH s"
  shows "0 \<le> p mod gridW s" "p mod gridW s < gridW s" "0 \<le> p div gridW s"
    "p div gridW s < gridH s" "idx s (p mod gridW s) (p div gridW s) = p"
proof -
  show "0 \<le> p mod gridW s" "p mod gridW s < gridW s" using assms by simp_all
  show "0 \<le> p div gridW s" using assms by (simp add: pos_imp_zdiv_nonneg_iff)
  show "p div gridW s < gridH s"
  proof (rule ccontr)
    assume "\<not> p div gridW s < gridH s"
    then have "gridW s * gridH s \<le> gridW s * (p div gridW s)"
      using assms by (intro mult_left_mono) simp_all
    moreover have "gridW s * (p div gridW s) \<le> p"
      using mult_div_mod_eq [of "gridW s" p] pos_mod_sign [OF assms(1), of p] by linarith
    ultimately show False using assms by linarith
  qed
  show "idx s (p mod gridW s) (p div gridW s) = p" by (simp add: idx_def)
qed

lemma stored_distance:
  assumes w: "0 < gridW s" and inv: "hydro_inv s h" and cl: "flood_closed s h {}"
    and q: "queue h = []" and p: "0 \<le> p" "p < gridW s * gridH s"
  shows "waterMap s p = Some True \<longrightarrow> waterDistanceMap (hydroFinish s h) p = 0"
    and "waterTiles s = [] \<longrightarrow>
           waterDistanceMap (hydroFinish s h) p
             = fround (hypot (real_of_int (gridW s)) (real_of_int (gridH s)))"
    and "waterTiles s \<noteq> [] \<longrightarrow>
           nearestWater h p \<in> set (waterTiles s)
           \<and> waterDistanceMap (hydroFinish s h) p = fround (tileDist s p (nearestWater h p))"
proof -
  have lab: "nearestWater h p \<noteq> - 1 \<Longrightarrow> nearestWater h p \<in> set (waterTiles s)
      \<and> waterDistanceMap (hydroFinish s h) p = fround (tileDist s p (nearestWater h p))"
  proof -
    assume "nearestWater h p \<noteq> - 1"
    then have l: "0 \<le> nearestWater h p" "nearestWater h p < gridW s * gridH s"
      "waterMap s (nearestWater h p) = Some True"
      "wdist h p = Some (fround (tileDist s p (nearestWater h p)))"
      using inv p unfolding hydro_inv_def by (metis (no_types, lifting))+
    then show ?thesis using p by (simp add: waterTiles_set [OF w] hydroFinish_maps)
  qed
  show "waterMap s p = Some True \<longrightarrow> waterDistanceMap (hydroFinish s h) p = 0"
  proof
    assume wp: "waterMap s p = Some True"
    then have "nearestWater h p = p" using inv p unfolding hydro_inv_def by blast
    moreover from this have "nearestWater h p \<noteq> - 1" using p by simp
    ultimately show "waterDistanceMap (hydroFinish s h) p = 0" using lab by simp
  qed
  show "waterTiles s = [] \<longrightarrow>
           waterDistanceMap (hydroFinish s h) p
             = fround (hypot (real_of_int (gridW s)) (real_of_int (gridH s)))"
  proof
    assume e: "waterTiles s = []"
    then have "nearestWater h p = - 1" using lab by force
    then have "wdist h p = None" using inv p unfolding hydro_inv_def by force
    then show "waterDistanceMap (hydroFinish s h) p
        = fround (hypot (real_of_int (gridW s)) (real_of_int (gridH s)))"
      using p by (simp add: hydroFinish_maps)
  qed
  show "waterTiles s \<noteq> [] \<longrightarrow>
           nearestWater h p \<in> set (waterTiles s)
           \<and> waterDistanceMap (hydroFinish s h) p = fround (tileDist s p (nearestWater h p))"
  proof
    assume "waterTiles s \<noteq> []"
    then obtain w0 where "w0 \<in> set (waterTiles s)" by (cases "waterTiles s") auto
    then have w0: "0 \<le> w0" "w0 < gridW s * gridH s" "waterMap s w0 = Some True"
      by (simp_all add: waterTiles_set [OF w])
    then have "nearestWater h w0 = w0" using inv unfolding hydro_inv_def by blast
    then have l0: "nearestWater h (idx s (w0 mod gridW s) (w0 div gridW s)) \<noteq> - 1"
      using w0(1) tile_split(5) [OF w w0(1,2)] by simp
    have "nearestWater h (idx s (p mod gridW s) (p div gridW s)) \<noteq> - 1"
      by (rule flood_reaches_all [OF cl q tile_split(1-4) [OF w w0(1,2)] l0 tile_split(1-4) [OF w p]])
    then have "nearestWater h p \<noteq> - 1" using tile_split(5) [OF w p] by simp
    then show "nearestWater h p \<in> set (waterTiles s)
        \<and> waterDistanceMap (hydroFinish s h) p = fround (tileDist s p (nearestWater h p))"
      using lab by simp
  qed
qed

text \<open>
  What the flood computes. On a grid of positive width with fewer than \<open>2^31\<close> tiles the
  flood ends. Afterwards, for every tile of the grid: a water tile has distance 0; when the
  world has no water tile the stored distance is \<open>hypot(W, H)\<close>; when it has one, the stored
  distance is the Euclidean distance from the tile to some water tile, the source that the
  flood brought to it; and the moisture is \<open>clamp01(1 - stored distance / 40)\<close>. The stored
  numbers are in single precision.
\<close>

lemma flood_result:
  assumes "0 < gridW s" "gridW s * gridH s < 2147483648"
  shows "\<exists>s'. precomputeHydrology s = Some s'
     \<and> (\<forall>p. 0 \<le> p \<and> p < gridW s * gridH s \<longrightarrow>
          (waterMap s p = Some True \<longrightarrow> waterDistanceMap s' p = 0)
          \<and> (waterTiles s = [] \<longrightarrow>
               waterDistanceMap s' p = fround (hypot (real_of_int (gridW s)) (real_of_int (gridH s))))
          \<and> (waterTiles s \<noteq> [] \<longrightarrow>
               (\<exists>src \<in> set (waterTiles s). waterDistanceMap s' p = fround (tileDist s p src)))
          \<and> moistureMap s' p = fround (clamp01 (1 - waterDistanceMap s' p / 40)))"
proof -
  obtain h where h: "precomputeHydrology s = Some (hydroFinish s h)" "hydro_inv s h"
    "queue h = []" "flood_closed s h {}"
    using precomputeHydrology_result [OF assms] by metis
  show ?thesis
    using h(1) stored_distance [OF assms(1) h(2) h(4) h(3)] hydroFinish_maps(2) [of _ s h]
    by auto
qed

lemma twoLakes_simps:
  "gridW twoLakes = 120" "gridH twoLakes = 120"
  "waterMap twoLakes p = Some True \<longleftrightarrow> p = 0 \<or> p = 122"
  by (auto simp: twoLakes_def emptyWorld_simps ta_new_def)

lemma twoLakes_water: "set (waterTiles twoLakes) = {0, 122}"
  by (auto simp: waterTiles_set twoLakes_simps)

lemma twoLakes_start:
  "nearestWater (hydroStart twoLakes) p = (if p = 0 \<or> p = 122 then p else - 1)"
  "\<exists>rest. queue (hydroStart twoLakes) = 0 # rest"
proof -
  show "nearestWater (hydroStart twoLakes) p = (if p = 0 \<or> p = 122 then p else - 1)"
    by (auto simp: hydroStart_def scanTiles_set twoLakes_simps)
  have "[0..119::int] = 0 # [1..119]" using upto_rec1 [of 0 119] by simp
  then have "\<exists>xs. scanTiles twoLakes = 0 # xs"
    by (simp add: scanTiles_def twoLakes_simps idx_def)
  then show "\<exists>rest. queue (hydroStart twoLakes) = 0 # rest"
    by (auto simp: hydroStart_def twoLakes_simps)
qed

lemma hypot_values: "hypot 1 1 = sqrt 2" "hypot (- 1) 0 = 1"
  by (simp_all add: hypot_def)

subsection \<open>Single-precision values\<close>

lemma round_even_between:
  assumes "real_of_int n \<le> r" "r < real_of_int n + 1 / 2"
  shows "round_even r = n"
proof -
  have "\<lfloor>r\<rfloor> = n" using assms by (intro floor_unique) simp_all
  then show ?thesis using assms by (simp add: round_even_def Let_def)
qed

lemma round_even_above:
  assumes "real_of_int n + 1 / 2 < r" "r < real_of_int n + 1"
  shows "round_even r = n + 1"
proof -
  have "\<lfloor>r\<rfloor> = n" using assms by (intro floor_unique) simp_all
  then show ?thesis using assms by (simp add: round_even_def Let_def)
qed

lemma fround_binade:
  assumes "2 powr real_of_int e \<le> x" "x < 2 powr (real_of_int e + 1)" "- 126 \<le> e"
  shows "fround x = real_of_int (round_even (x / 2 powr (real_of_int e - 23)))
                     * 2 powr (real_of_int e - 23)"
proof -
  have pos: "0 < x" using assms(1) powr_gt_zero [of 2 "real_of_int e"] by linarith
  have "\<lfloor>log 2 x\<rfloor> = e"
    using assms(1,2) pos by (simp add: floor_log_eq_powr_iff)
  then show ?thesis using pos assms(3) by (simp add: fround_def Let_def)
qed

lemma fround_one: "fround 1 = 1"
proof -
  have "fround 1 = real_of_int (round_even (1 / 2 powr (real_of_int 0 - 23)))
                     * 2 powr (real_of_int 0 - 23)"
    by (rule fround_binade) simp_all
  moreover have "round_even 8388608 = 8388608"
    using round_even_between [of 8388608 8388608] by simp
  ultimately show ?thesis by (simp add: powr_neg_numeral)
qed

lemma fround_sqrt2: "fround (sqrt 2) = 11863283 / 8388608"
proof -
  have lo: "11863283 / 8388608 \<le> sqrt 2" by (rule real_le_rsqrt) (simp add: power2_eq_square)
  have hi: "sqrt 2 < 23726567 / 16777216"
    by (rule real_less_lsqrt) (simp_all add: power2_eq_square)
  have "sqrt 2 < 2" using hi by simp
  then have b: "2 powr real_of_int 0 \<le> sqrt 2" "sqrt 2 < 2 powr (real_of_int 0 + 1)"
    using lo by simp_all
  have f: "fround (sqrt 2) = real_of_int (round_even (sqrt 2 / 2 powr (real_of_int 0 - 23)))
                     * 2 powr (real_of_int 0 - 23)"
    using b by (rule fround_binade) simp
  have "round_even (sqrt 2 * 8388608) = 11863283"
    using lo hi by (intro round_even_between) simp_all
  then show ?thesis unfolding f by (simp add: powr_neg_numeral)
qed

lemma fround_moisture:
  "fround (clamp01 (1 - (11863283 / 8388608) / 40)) = 4046013 / 4194304"
proof -
  let ?x = "323681037 / 335544320 :: real"
  have c: "clamp01 (1 - (11863283 / 8388608) / 40) = ?x" by (simp add: clamp01_def)
  have f: "fround ?x = real_of_int (round_even (?x / 2 powr (real_of_int (- 1) - 23)))
                     * 2 powr (real_of_int (- 1) - 23)"
    by (rule fround_binade) (simp_all add: powr_neg_numeral)
  have "round_even (?x * 16777216) = 16184051 + 1"
    by (intro round_even_above) simp_all
  then show ?thesis unfolding c f by (simp add: powr_neg_numeral)
qed

lemma visit_label_source:
  "nearestWater (visit s px py source h d) q = nearestWater h q
   \<or> nearestWater (visit s px py source h d) q = source"
  by (simp add: visit_def Let_def)

lemma visits_label_source:
  "nearestWater (foldl (visit s px py source) h ds) q = nearestWater h q
   \<or> nearestWater (foldl (visit s px py source) h ds) q = source"
proof (induction ds arbitrary: h)
  case (Cons d ds)
  show ?case
    using Cons [of "visit s px py source h d"] visit_label_source [of s px py source h d q]
    by auto
qed simp

lemma twoLakes_first_step:
  "nearestWater (floodStep twoLakes (hydroStart twoLakes)) 121 = 0"
  "wdist (floodStep twoLakes (hydroStart twoLakes)) 121 = Some (11863283 / 8388608)"
proof -
  let ?h0 = "hydroStart twoLakes"
  obtain rest where q: "queue ?h0 = 0 # rest" using twoLakes_start(2) by blast
  have c: "js_rem 0 120 = 0" "js_or0 0 = 0" by (simp_all add: js_rem_def js_or0_def)
  have e: "floodStep twoLakes ?h0 = foldl (visit twoLakes 0 0 0) (?h0\<lparr>queue := rest\<rparr>) N8"
    by (simp add: floodStep_def Let_def q twoLakes_simps twoLakes_start(1) c)
  have "((1, 1) :: int \<times> int) \<in> set N8" by (simp add: N8_def)
  then have l: "nearestWater (floodStep twoLakes ?h0) 121 \<noteq> - 1"
    unfolding e
    using visits_target [where source = 0 and d = "(1, 1)" and ds = N8 and px = 0 and py = 0
        and s = twoLakes and h = "?h0\<lparr>queue := rest\<rparr>"]
    by (simp add: idx_def twoLakes_simps)
  have "nearestWater (?h0\<lparr>queue := rest\<rparr>) 121 = - 1" by (simp add: twoLakes_start(1))
  then show n: "nearestWater (floodStep twoLakes ?h0) 121 = 0"
    using l visits_label_source [of twoLakes 0 0 0 "?h0\<lparr>queue := rest\<rparr>" N8 121]
    unfolding e by auto
  have w: "0 < gridW twoLakes" "gridW twoLakes * gridH twoLakes < 2147483648"
    by (simp_all add: twoLakes_simps)
  have ne: "queue ?h0 \<noteq> []" using q by simp
  have "hydro_inv twoLakes (floodStep twoLakes ?h0)"
    by (rule floodStep_step(1) [OF w hydroStart_inv [OF w(1)] ne])
  then have "wdist (floodStep twoLakes ?h0) 121 = Some (fround (tileDist twoLakes 121 0))"
    using n unfolding hydro_inv_def by (auto simp: twoLakes_simps)
  then show "wdist (floodStep twoLakes ?h0) 121 = Some (11863283 / 8388608)"
    by (simp add: tileDist_def twoLakes_simps hypot_values fround_sqrt2)
qed

lemma twoLakes_nearest: "nearestWaterDistance twoLakes 121 = 1"
proof -
  have "tileDist twoLakes 121 0 = sqrt 2" "tileDist twoLakes 121 122 = 1"
    by (simp_all add: tileDist_def twoLakes_simps hypot_values)
  then have "set (map (tileDist twoLakes 121) (waterTiles twoLakes)) = {sqrt 2, 1}"
    by (simp add: twoLakes_water)
  then show ?thesis by (simp add: nearestWaterDistance_def)
qed

text \<open>
  Claim C8 fails on \<open>twoLakes\<close>, the world of 120 by 120 tiles whose water tiles are (0, 0)
  and (2, 1). The flood ends, and the tile (1, 1) is reached first from the water tile
  (0, 0): the distance stored for it is the single-precision value of \<open>sqrt 2\<close>,
  \<open>11863283 / 8388608 = 1.4142135381698608\<close>, while the nearest water tile, (2, 1), is at
  distance 1, a number that single precision holds exactly. The moisture stored for the
  tile is computed from the stored distance: it is \<open>4046013 / 4194304\<close>, the
  single-precision value of \<open>1 - 1.4142135381698608 / 40\<close>, and not that of \<open>1 - 1 / 40\<close>.
\<close>

theorem flood_distance_not_nearest:
  "\<exists>s'. precomputeHydrology twoLakes = Some s'
     \<and> waterDistanceMap s' (idx twoLakes 1 1) = 11863283 / 8388608
     \<and> nearestWaterDistance twoLakes (idx twoLakes 1 1) = 1
     \<and> fround (nearestWaterDistance twoLakes (idx twoLakes 1 1)) = 1
     \<and> waterDistanceMap s' (idx twoLakes 1 1)
         \<noteq> fround (nearestWaterDistance twoLakes (idx twoLakes 1 1))
     \<and> moistureMap s' (idx twoLakes 1 1) = 4046013 / 4194304
     \<and> moistureMap s' (idx twoLakes 1 1)
         \<noteq> fround (clamp01 (1 - nearestWaterDistance twoLakes (idx twoLakes 1 1) / 40))"
proof -
  let ?h0 = "hydroStart twoLakes"
  let ?h1 = "floodStep twoLakes ?h0"
  have w: "0 < gridW twoLakes" "gridW twoLakes * gridH twoLakes < 2147483648"
    by (simp_all add: twoLakes_simps)
  have ne: "queue ?h0 \<noteq> []" using twoLakes_start(2) by auto
  note i0 = hydroStart_inv [OF w(1)]
  note i1 = floodStep_step(1) [OF w i0 ne]
  note c1 = floodStep_closed [OF w i0 ne hydroStart_closed]
  obtain h where h: "flood twoLakes ?h1 = Some h"
    "\<forall>q. nearestWater ?h1 q \<noteq> - 1 \<longrightarrow> nearestWater h q = nearestWater ?h1 q \<and> wdist h q = wdist ?h1 q"
    using flood_total [OF w i1 c1] by blast
  have f: "flood twoLakes ?h0 = Some h" using ne h(1) by (subst flood.simps) simp
  have d: "wdist h 121 = Some (11863283 / 8388608)" using h(2) twoLakes_first_step by simp
  have p: "precomputeHydrology twoLakes = Some (hydroFinish twoLakes h)"
    by (simp add: precomputeHydrology_def f)
  have i: "idx twoLakes 1 1 = 121" by (simp add: idx_def twoLakes_simps)
  have v1: "waterDistanceMap (hydroFinish twoLakes h) 121 = 11863283 / 8388608"
    using hydroFinish_maps(1) [of 121 twoLakes h] d by (simp add: twoLakes_simps)
  have "moistureMap (hydroFinish twoLakes h) 121
       = fround (clamp01 (1 - waterDistanceMap (hydroFinish twoLakes h) 121 / 40))"
    by (rule hydroFinish_maps(2)) (simp_all add: twoLakes_simps)
  then have v2: "moistureMap (hydroFinish twoLakes h) 121 = 4046013 / 4194304"
    unfolding v1 by (simp only: fround_moisture)
  note v = v1 v2
  have m: "fround (clamp01 (1 - 1 / 40)) \<noteq> 4046013 / 4194304"
  proof -
    have c: "clamp01 (1 - 1 / 40) = (39 / 40 :: real)" by (simp add: clamp01_def)
    have g: "fround (39 / 40) = real_of_int (round_even ((39 / 40) / 2 powr (real_of_int (- 1) - 23)))
                     * 2 powr (real_of_int (- 1) - 23)"
      by (rule fround_binade) (simp_all add: powr_neg_numeral)
    have "round_even ((39 / 40) * 16777216) = 16357785 + 1"
      by (intro round_even_above) simp_all
    then show ?thesis unfolding c g by (simp add: powr_neg_numeral)
  qed
  show ?thesis
    unfolding i p using v m by (simp add: twoLakes_nearest fround_one fround_moisture)
qed

subsection \<open>Outcomes\<close>

lemma sat_simps [simp]:
  "sat pj Q (Done x) = Q (pj x)" "sat pj Q (Thrown t) = Q t" "sat pj Q Unfinished"
  by (simp_all add: sat_def)

lemma finished_simps [simp]:
  "finished (Done x)" "finished (Thrown t)" "\<not> finished Unfinished"
  by (simp_all add: finished_def)

lemma sat_andThen:
  assumes "sat pj Q r" "\<And>x. r = Done x \<Longrightarrow> Q (pj x) \<Longrightarrow> sat pj' Q (f x)"
  shows "sat pj' Q (andThen r f)"
  using assms by (cases r) (simp_all add: andThen_def)

lemma finished_andThen:
  assumes "finished r" "\<And>x. r = Done x \<Longrightarrow> finished (f x)"
  shows "finished (andThen r f)"
  using assms by (cases r) (simp_all add: andThen_def)

lemma sat_mono:
  assumes "sat pj Q r" "\<And>t. Q t \<Longrightarrow> Q' t"
  shows "sat pj Q' r"
  using assms by (cases r) simp_all

lemma sat_conj: "sat pj (\<lambda>t. Q t \<and> Q' t) r = (sat pj Q r \<and> sat pj Q' r)"
  by (cases r) simp_all

lemma slots_grow_refl [simp]: "slots_grow s s"
  by (simp add: slots_grow_def)

lemma slots_grow_trans: "slots_grow s t \<Longrightarrow> slots_grow t u \<Longrightarrow> slots_grow s u"
  by (auto simp: slots_grow_def)

lemma slots_grow_same: "count t = count s \<Longrightarrow> slots_grow s t"
  by (simp add: slots_grow_def)

subsection \<open>What a stage of the tick keeps\<close>

lemma tick_rel_refl [simp]: "tick_rel s s"
  by (simp add: tick_rel_def)

lemma tick_rel_trans: "tick_rel s t \<Longrightarrow> tick_rel t u \<Longrightarrow> tick_rel s u"
  unfolding tick_rel_def slots_grow_def by auto

lemma tick_rel_core: "core u = core t \<Longrightarrow> tick_rel s u = tick_rel s t"
  by (simp add: core_def tick_rel_def slots_grow_def diet_inv_def vitals_inv_def)

lemma tick_rel_post:
  assumes "tick_rel s0 t" "count u = count t" "behaviorTuning u = behaviorTuning t"
    "diet_inv t \<Longrightarrow> diet_inv u" "vitals_inv t \<Longrightarrow> vitals_inv u"
  shows "tick_rel s0 u"
  using assms unfolding tick_rel_def slots_grow_def by auto

lemma core_simps [simp]:
  "core (s\<lparr>RNG_S := a1\<rparr>) = core s"
  "core (s\<lparr>tick := a2\<rparr>) = core s"
  "core (s\<lparr>occ := a3\<rparr>) = core s"
  "core (s\<lparr>fireTTLMap := a4\<rparr>) = core s"
  "core (s\<lparr>activeFires := a5\<rparr>) = core s"
  "core (s\<lparr>activeFireCount := a6\<rparr>) = core s"
  "core (s\<lparr>lastLightningTick := a7\<rparr>) = core s"
  "core (s\<lparr>rainCoverageNow := a8\<rparr>) = core s"
  "core (s\<lparr>MUTATION_LOG := a9\<rparr>) = core s"
  "core (s\<lparr>currentDayStats := b1\<rparr>) = core s"
  "core (s\<lparr>lastDayStats := b2\<rparr>) = core s"
  "core (s\<lparr>total := b3\<rparr>) = core s"
  "core (s\<lparr>animals := b4\<rparr>) = core s"
  "core (s\<lparr>plants := b5\<rparr>) = core s"
  "core (snd (rngS s)) = core s"
  by (simp_all add: core_def)

lemma core_day [simp]:
  "core (startNextDayIfNeeded s) = core s" "core (recordDeath i s) = core s"
  by (simp_all add: startNextDayIfNeeded_def recordDeath_def Let_def split: option.splits)

lemma core_addFireAt [simp]: "core (addFireAt p ttl s) = core s"
  by (simp add: addFireAt_def Let_def)

lemma core_lightningTries [simp]: "core (lightningTries n cell cells s) = core s"
  by (induction n arbitrary: s) (simp_all add: Let_def split_beta)

lemma spawnLightning_core [simp]:
  "core s = c \<Longrightarrow> sat id (\<lambda>t. core t = c) (spawnLightning cells s)"
  by (simp add: spawnLightning_def Let_def split_beta)

lemma fireSpreadRoll_core [simp]:
  "core (fsim fl) = c \<Longrightarrow> sat fsim (\<lambda>t. core t = c) (fireSpreadRoll x y rain fl)"
  by (simp add: fireSpreadRoll_def Let_def split_beta)

lemma fireSpreadRolls_core [simp]:
  "core (fsim fl) = c \<Longrightarrow> sat fsim (\<lambda>t. core t = c) (fireSpreadRolls n x y rain fl)"
  by (induction n arbitrary: fl) (auto intro!: sat_andThen [where pj = fsim])

lemma fireTile_core [simp]:
  "core (fsim fl) = c \<Longrightarrow> sat fsim (\<lambda>t. core t = c) (fireTile cells p fl)"
  by (simp add: fireTile_def Let_def del: fireSpreadRolls.simps)

lemma fireTiles_core [simp]:
  "core (fsim fl) = c \<Longrightarrow> sat fsim (\<lambda>t. core t = c) (fireTiles cells ps fl)"
  by (induction ps arbitrary: fl) (auto intro!: sat_andThen [where pj = fsim])

lemma updateFires_core [simp]:
  "core s = c \<Longrightarrow> sat id (\<lambda>t. core t = c) (updateFires cells s)"
  by (auto simp: updateFires_def intro!: sat_andThen [where pj = fsim])

lemma core_sensors [simp]:
  "core (snd (findBestNeighborByScore s i radius pred scoreFn)) = core s"
  "core (snd (getIncubationTime c s)) = core s"
  "core (snd (getCooldownTime c s)) = core s"
  by (simp_all add: findBestNeighborByScore_def getIncubationTime_def getCooldownTime_def
        Let_def split_beta split: option.splits)

lemma weightedRandomSelect_core [simp]:
  "core s = c \<Longrightarrow> sat snd (\<lambda>t. core t = c) (weightedRandomSelect cands s)"
  by (simp add: weightedRandomSelect_def Let_def split_beta split: option.splits)

lemma findBestMate_core [simp]:
  "core s = c \<Longrightarrow> sat snd (\<lambda>t. core t = c) (findBestMate s i)"
  by (simp add: findBestMate_def Let_def)

subsection \<open>Rows written by a creation, for a property of rows\<close>

lemma rows_step:
  assumes "\<forall>i. P (ent s i)" "\<And>j. j \<noteq> k \<Longrightarrow> ent t j = ent s j" "t = s \<or> P (ent t k)"
  shows "\<forall>i. P (ent t i)"
  using assms by metis

lemma rows_birth:
  assumes "\<And>e x y. P (e\<lparr>xA := x, yA := y\<rparr>) = P e"
    "\<And>e v. P (e\<lparr>speciesA := v\<rparr>) = P e" "\<And>e v. P (e\<lparr>glowUntil := v\<rparr>) = P e"
    "\<And>e v. P (e\<lparr>dietShiftPenaltyA := v\<rparr>) = P e"
    and "P (ent (snd (birth_row p1 p2 s)) (count s))" and "\<forall>i. P (ent s i)"
  shows "\<forall>i. P (ent (birth p1 p2 x y s) i)"
proof (rule rows_step [where k = "count s", OF assms(6)])
  show "birth p1 p2 x y s = s \<or> P (ent (birth p1 p2 x y s) (count s))"
    using birth_keeps [of P s p1 p2 x y "count s", OF assms(1-4)] assms(5)
    by (cases "count s < MAX_ENTITIES") (simp_all add: birth_def)
qed (simp add: birth_other)

lemma rows_hatchEgg:
  assumes "\<And>e x y. P (e\<lparr>xA := x, yA := y\<rparr>) = P e"
    "\<And>e v. P (e\<lparr>speciesA := v\<rparr>) = P e" "\<And>e v. P (e\<lparr>glowUntil := v\<rparr>) = P e"
    "\<And>e v. P (e\<lparr>dietShiftPenaltyA := v\<rparr>) = P e"
    and "P (ent (hatchEgg_row egg s) (count s))" and "\<forall>i. P (ent s i)"
  shows "\<forall>i. P (ent (hatchEgg egg s) i)"
proof (rule rows_step [where k = "count s", OF assms(6)])
  show "hatchEgg egg s = s \<or> P (ent (hatchEgg egg s) (count s))"
    using hatchEgg_keeps [of P s egg "count s", OF assms(1-4)] assms(5)
    by (cases "count s < MAX_ENTITIES") (simp_all add: hatchEgg_def)
qed (simp add: hatchEgg_other)

lemma diet_stable:
  "diet_ok (e\<lparr>xA := x, yA := y\<rparr>) = diet_ok e"
  "diet_ok (e\<lparr>speciesA := v\<rparr>) = diet_ok e"
  "diet_ok (e\<lparr>glowUntil := w\<rparr>) = diet_ok e"
  "diet_ok (e\<lparr>dietShiftPenaltyA := w\<rparr>) = diet_ok e"
  by (simp_all add: diet_ok_def)

lemma vit_stable:
  "vit_ok (e\<lparr>xA := x, yA := y\<rparr>) = vit_ok e"
  "vit_ok (e\<lparr>speciesA := v\<rparr>) = vit_ok e"
  "vit_ok (e\<lparr>glowUntil := w\<rparr>) = vit_ok e"
  "vit_ok (e\<lparr>dietShiftPenaltyA := w\<rparr>) = vit_ok e"
  by (simp_all add: vit_ok_def)

lemma diet_aPFG:
  "diet_ok (ent (applyPhenotypeFromGenes i s) i) =
     ((lifeTypeA (ent s i) = Plant \<longrightarrow> dietA (ent s i) = Photosynthesis)
      \<and> (lifeTypeA (ent s i) = Animal \<longrightarrow> dietA (ent s i) \<noteq> Photosynthesis))"
  by (cases "lifeTypeA (ent s i)") (simp_all add: diet_ok_def aPFG_pheno)

lemma diet_applyGenome: "diet_ok (ent (applyGenome i g s) i)"
  by (cases "lifeType g") (simp_all add: applyGenome_def Let_def split_beta diet_aPFG normalizeDiet_def)

lemma diet_row:
  "diet_ok (ent (snd (birth_row p1 p2 s)) (count s))"
  "diet_ok (ent (hatchEgg_row egg s) (count s))"
proof -
  have a: "diet_ok (e\<lparr>idA := a1, energyA := a2, hydrationA := a3, ageA := a4, aliveA := a5,
                      adultA := a6\<rparr>) = diet_ok e" for e a1 a2 a3 a4 a5 a6
    by (simp add: diet_ok_def)
  have b: "diet_ok (e\<lparr>idA := a1, energyA := a2, hydrationA := a3, ageA := a4, aliveA := a5,
                      adultA := a6, reproStateA := a7, reproTimerA := a8,
                      lastReproTickA := a9\<rparr>) = diet_ok e" for e a1 a2 a3 a4 a5 a6 a7 a8 a9
    by (simp add: diet_ok_def)
  have c: "diet_ok (ent (applyPhenotypeFromGenes k (setTraitAlleles k ge (applyGenome k g t))) k)"
    for k ge g t
    by (cases "lifeType g") (simp_all add: diet_aPFG applyGenome_kind normalizeDiet_def)
  show "diet_ok (ent (snd (birth_row p1 p2 s)) (count s))"
    by (simp add: birth_row_def Let_def split_beta a c)
  show "diet_ok (ent (hatchEgg_row egg s) (count s))"
    by (simp add: hatchEgg_row_def Let_def b c)
qed

lemma vit_row:
  "vit_ok (ent (snd (birth_row p1 p2 s)) (count s))"
  "egg_ok egg \<Longrightarrow> vit_ok (ent (hatchEgg_row egg s) (count s))"
proof -
  show "vit_ok (ent (snd (birth_row p1 p2 s)) (count s))"
    by (simp add: birth_row_def Let_def split_beta vit_ok_def CHILD_ENERGY_START_def)
  assume "egg_ok egg"
  then have "0 \<le> viability egg" "viability egg \<le> 1" by (simp_all add: egg_ok_def)
  then show "vit_ok (ent (hatchEgg_row egg s) (count s))"
    by (simp add: vit_ok_def CHILD_ENERGY_START_def)
qed

lemma birth_tuning [simp]:
  "behaviorTuning (birth p1 p2 x y s) = behaviorTuning s" "eggs (birth p1 p2 x y s) = eggs s"
  by (simp_all add: birth_def split_beta birth_spawn_frame birth_log_def Let_def
        reassignSpecies_def)

lemma hatchEgg_tuning [simp]: "behaviorTuning (hatchEgg egg s) = behaviorTuning s"
  by (simp add: hatchEgg_def split_beta hatchEgg_spawn_frame hatchEgg_log_def Let_def
        reassignSpecies_def)

lemma birth_slots: "slots_grow s (birth p1 p2 x y s)"
  using birth_cases [of p1 p2 x y s]
  by (auto simp: slots_grow_def birth_spawn_frame)

lemma hatchEgg_slots: "slots_grow s (hatchEgg egg s)"
  using hatchEgg_cases [of egg s]
  by (auto simp: slots_grow_def hatchEgg_spawn_frame)

lemma birth_rel: "tick_rel s0 t \<Longrightarrow> tick_rel s0 (birth p1 p2 x y t)"
proof (erule tick_rel_trans)
  show "tick_rel t (birth p1 p2 x y t)"
    unfolding tick_rel_def diet_inv_def vitals_inv_def
    using rows_birth [of diet_ok p1 p2 t x y, OF diet_stable diet_row(1)]
      rows_birth [of vit_ok p1 p2 t x y, OF vit_stable vit_row(1)]
    by (simp add: birth_slots)
qed

lemma hatchEgg_rel: "tick_rel s0 t \<Longrightarrow> egg_ok egg \<Longrightarrow> tick_rel s0 (hatchEgg egg t)"
proof (erule tick_rel_trans)
  assume e: "egg_ok egg"
  show "tick_rel t (hatchEgg egg t)"
    unfolding tick_rel_def diet_inv_def vitals_inv_def
    using rows_hatchEgg [of diet_ok egg t, OF diet_stable diet_row(2)]
      rows_hatchEgg [of vit_ok egg t, OF vit_stable vit_row(2) [OF e]]
    by (simp add: hatchEgg_slots)
qed

lemma hatchTile_free: "hatchTileFree egg s = (hatchTile egg s \<noteq> None)"
  by (simp add: hatchTileFree_def hatchTile_def)

lemma hatchTile_cong:
  "occ t = occ s \<Longrightarrow> waterMap t = waterMap s \<Longrightarrow> gridW t = gridW s \<Longrightarrow> gridH t = gridH s
   \<Longrightarrow> eggX f = eggX e \<Longrightarrow> eggY f = eggY e \<Longrightarrow> eggGenome f = eggGenome e
   \<Longrightarrow> hatchTile f t = hatchTile e s"
  by (simp add: hatchTile_def findNearbyWater_cong [of t s] idx_def)

lemma hatchEgg_spawn_tile:
  assumes "hatchTile egg s = Some (x, y)"
  shows "hatchEgg_spawn egg s = placeAt (count s) x y (hatchEgg_row egg s)"
    and "occ s (idx s x y) = Some (- 1)"
proof -
  let ?s3 = "hatchEgg_row egg s"
  have fw: "\<And>x y r. findNearbyWater ?s3 x y r = findNearbyWater s x y r"
    by (rule findNearbyWater_cong) simp_all
  show o: "occ s (idx s x y) = Some (- 1)"
    using assms findNearbyWater_free [of s "eggX egg" "eggY egg" 2 x y]
    by (auto simp: hatchTile_def split: if_splits)
  show "hatchEgg_spawn egg s = placeAt (count s) x y (hatchEgg_row egg s)"
    using assms o
    by (auto simp: hatchTile_def hatchEgg_spawn_def Let_def hatchEgg_row_kind fw
          normalizeSpeciesClass_def split: if_splits)
qed

lemma hatchEgg_log_frame [simp]:
  "occ (hatchEgg_log egg k s) = occ s"
  "total (hatchEgg_log egg k s) = total s + 1"
  "animals (hatchEgg_log egg k s) = animals s + (if lifeTypeA (ent s k) = Animal then 1 else 0)"
  "plants (hatchEgg_log egg k s) = plants s + (if lifeTypeA (ent s k) = Animal then 0 else 1)"
  by (simp_all add: hatchEgg_log_def Let_def reassignSpecies_def split_beta countLife_def)

lemma hatchEgg_log_field:
  assumes "\<And>e v. P (e\<lparr>speciesA := v\<rparr>) = P e" "\<And>e v. P (e\<lparr>glowUntil := v\<rparr>) = P e"
    "\<And>e v. P (e\<lparr>dietShiftPenaltyA := v\<rparr>) = P e"
  shows "P (ent (hatchEgg_log egg k s) j) = P (ent s j)"
  using assms by (simp add: hatchEgg_log_def Let_def reassignSpecies_def split_beta)

lemma hatchEgg_log_other: "j \<noteq> k \<Longrightarrow> ent (hatchEgg_log egg k s) j = ent s j"
  by (simp add: hatchEgg_log_def Let_def reassignSpecies_def split_beta)

lemma hatchEgg_row_child:
  "\<not> adultA (ent (hatchEgg_row egg s) (count s))"
  by (simp add: hatchEgg_row_def Let_def)

lemma hatchEgg_hatched:
  assumes c: "count s < MAX_ENTITIES" and f: "hatchTileFree egg s"
  shows "hatched egg s (hatchEgg egg s)"
proof -
  let ?k = "count s"
  let ?s3 = "hatchEgg_row egg s"
  obtain x y where t: "hatchTile egg s = Some (x, y)"
    using f by (auto simp: hatchTile_free)
  have o: "occ s (idx s x y) = Some (- 1)" using t by (rule hatchEgg_spawn_tile(2))
  have o3: "occ ?s3 (idx ?s3 x y) = Some (- 1)" using o by simp
  let ?s4 = "(upd ?k (\<lambda>e. e\<lparr>xA := x, yA := y\<rparr>) ?s3)\<lparr>occ := ta_set (occ ?s3) (idx ?s3 x y) ?k\<rparr>"
  have sp: "hatchEgg_spawn egg s = (True, ?s4)"
    using hatchEgg_spawn_tile(1) [OF t] placeAt_free [OF o3, of ?k] by simp
  have h: "hatchEgg egg s = hatchEgg_log egg ?k ?s4"
    using c by (simp add: hatchEgg_def sp)
  have row: "ent ?s4 ?k = (ent ?s3 ?k)\<lparr>xA := x, yA := y\<rparr>" by simp
  have k4: "lifeTypeA (ent ?s4 ?k) = lifeType (eggGenome egg)"
    by (simp add: hatchEgg_row_kind)
  have pos: "xA (ent (hatchEgg egg s) ?k) = x" "yA (ent (hatchEgg egg s) ?k) = y"
    unfolding h by (simp_all add: hatchEgg_log_field [of xA] hatchEgg_log_field [of yA])
  have fields:
    "aliveA (ent (hatchEgg egg s) ?k)" "idA (ent (hatchEgg egg s) ?k) = ?k + 1"
    "ageA (ent (hatchEgg egg s) ?k) = 0" "\<not> adultA (ent (hatchEgg egg s) ?k)"
    "lifeTypeA (ent (hatchEgg egg s) ?k) = lifeType (eggGenome egg)"
    "classA (ent (hatchEgg egg s) ?k) =
       normalizeSpeciesClass (lifeType (eggGenome egg)) (speciesClass (eggGenome egg))"
    "dietA (ent (hatchEgg egg s) ?k) =
       normalizeDiet (lifeType (eggGenome egg)) (diet (eggGenome egg))"
    unfolding h
    by (simp_all add: hatchEgg_log_field [of aliveA] hatchEgg_log_field [of idA]
          hatchEgg_log_field [of ageA] hatchEgg_log_field [of adultA]
          hatchEgg_log_field [of lifeTypeA] hatchEgg_log_field [of classA]
          hatchEgg_log_field [of dietA] hatchEgg_row_kind hatchEgg_row_child)
  have cnt: "count (hatchEgg egg s) = ?k + 1" "total (hatchEgg egg s) = total s + 1"
    "animals (hatchEgg egg s) = animals s + (if lifeType (eggGenome egg) = Animal then 1 else 0)"
    "plants (hatchEgg egg s) = plants s + (if lifeType (eggGenome egg) = Animal then 0 else 1)"
    "occ (hatchEgg egg s) = ta_set (occ s) (idx s x y) ?k"
    unfolding h by (simp_all add: hatchEgg_row_kind)
  have oth: "\<forall>j. j \<noteq> ?k \<longrightarrow> ent (hatchEgg egg s) j = ent s j"
    by (simp add: hatchEgg_other)
  show ?thesis
    unfolding hatched_def Let_def pos using fields cnt oth t o by simp
qed

lemma hatchEgg_unhatched:
  assumes "\<not> (count s < MAX_ENTITIES \<and> hatchTileFree egg s)"
  shows "unhatched s (hatchEgg egg s)"
proof (cases "count s < MAX_ENTITIES")
  case True
  then have f: "\<not> fst (hatchEgg_spawn egg s)" using assms by (simp add: hatchEgg_spawn_fst)
  have h: "hatchEgg egg s = (snd (hatchEgg_spawn egg s))\<lparr>count := count s\<rparr>"
    using True f by (simp add: hatchEgg_def split_beta hatchEgg_spawn_frame)
  have sp: "snd (hatchEgg_spawn egg s) = hatchEgg_row egg s"
    using f by (auto simp: hatchEgg_spawn_def Let_def placeAt_def split: if_splits option.splits)
  show ?thesis unfolding h sp by (simp add: unhatched_def)
next
  case False
  then show ?thesis by (simp add: hatchEgg_def unhatched_def)
qed

lemma hatched_cong:
  assumes "hatched egg s' t'"
    and "count s' = count s" "total s' = total s" "animals s' = animals s" "plants s' = plants s"
    "occ s' = occ s" "ent s' = ent s" "gridW s' = gridW s" "gridH s' = gridH s"
    "waterMap s' = waterMap s"
    and "count t = count t'" "total t = total t'" "animals t = animals t'" "plants t = plants t'"
    "occ t = occ t'" "ent t = ent t'"
  shows "hatched egg s t"
proof -
  have "hatchTile egg s' = hatchTile egg s"
    by (rule hatchTile_cong) (simp_all add: assms)
  moreover have "idx s' = idx s" by (simp add: idx_def fun_eq_iff assms)
  ultimately show ?thesis
    using assms(1) unfolding hatched_def Let_def by (simp add: assms(2-))
qed

lemma unhatched_cong:
  assumes "unhatched s' t'"
    and "count s' = count s" "total s' = total s" "animals s' = animals s" "plants s' = plants s"
    "occ s' = occ s" "ent s' = ent s"
    and "count t = count t'" "total t = total t'" "animals t = animals t'" "plants t = plants t'"
    "occ t = occ t'" "ent t = ent t'"
  shows "unhatched s t"
  using assms(1) unfolding unhatched_def by (simp add: assms(2-))

subsection \<open>C6: what a hatching creates\<close>

lemma updateEgg_at_term:
  assumes atterm: "maxIncubationTime (eggs s ! e) \<le> incubationTime (eggs s ! e) + 1"
  shows "(if viability (stressEgg s (eggs s ! e)) > 3 / 10
             \<and> \<not> predationRoll s < predatorRisk s (eggs s ! e)
             \<and> hatchRoll s < viability (stressEgg s (eggs s ! e))
             \<and> count s < MAX_ENTITIES
             \<and> hatchTileFree (eggs s ! e) s
          then hatched (stressEgg s (eggs s ! e)) s (updateEgg e s)
          else unhatched s (updateEgg e s))"
proof -
  let ?egg = "stressEgg s (eggs s ! e)"
  let ?s1 = "s\<lparr>eggs := (eggs s)[e := ?egg]\<rparr>"
  let ?s2 = "snd (rngS ?s1)"
  let ?s2' = "snd (rngS ?s2)"
  have r1: "fst (rngS ?s1) = predationRoll s" by (simp add: predationRoll_def)
  have r2: "fst (rngS ?s2) = hatchRoll s" by (simp add: hatchRoll_def)
  have htf: "hatchTileFree ?egg ?s2' = hatchTileFree (eggs s ! e) s"
    by (rule hatchTileFree_cong) simp_all
  have ue: "updateEgg e s =
     (if predationRoll s < predatorRisk s (eggs s ! e) then ?s2\<lparr>eggs := remove_nth e (eggs ?s2)\<rparr>
      else (let s3 = (if viability ?egg > 3 / 10
                      then (if hatchRoll s < viability ?egg then hatchEgg ?egg ?s2' else ?s2')
                      else ?s2)
            in s3\<lparr>eggs := remove_nth e (eggs s3)\<rparr>))"
    using atterm
    by (simp add: updateEgg_def Let_def split_beta predatorRisk_def r1 r2 del: rngS_frame)
  have same: "unhatched s (t\<lparr>eggs := es\<rparr>)"
    if "count t = count s" "total t = total s" "animals t = animals s" "plants t = plants s"
      "occ t = occ s" "ent t = ent s" for t es
    using that by (simp add: unhatched_def)
  consider (pred) "predationRoll s < predatorRisk s (eggs s ! e)"
    | (weak) "\<not> predationRoll s < predatorRisk s (eggs s ! e)" "\<not> viability ?egg > 3 / 10"
    | (roll) "\<not> predationRoll s < predatorRisk s (eggs s ! e)" "viability ?egg > 3 / 10"
        "\<not> hatchRoll s < viability ?egg"
    | (call) "\<not> predationRoll s < predatorRisk s (eggs s ! e)" "viability ?egg > 3 / 10"
        "hatchRoll s < viability ?egg"
    by blast
  then show ?thesis
  proof cases
    case pred
    then show ?thesis unfolding ue by (simp add: same)
  next
    case weak
    then show ?thesis unfolding ue by (simp add: same Let_def)
  next
    case roll
    then show ?thesis unfolding ue by (simp add: same Let_def)
  next
    case call
    let ?t' = "hatchEgg ?egg ?s2'"
    have u: "updateEgg e s = ?t'\<lparr>eggs := remove_nth e (eggs ?t')\<rparr>"
      unfolding ue using call by (simp add: Let_def)
    show ?thesis
    proof (cases "count s < MAX_ENTITIES \<and> hatchTileFree (eggs s ! e) s")
      case True
      then have "hatched ?egg ?s2' ?t'"
        using hatchEgg_hatched [of ?s2' ?egg] htf by simp
      then have "hatched ?egg s (updateEgg e s)"
        unfolding u by (rule hatched_cong) simp_all
      then show ?thesis using call True by simp
    next
      case False
      then have "unhatched ?s2' ?t'"
        using hatchEgg_unhatched [of ?s2' ?egg] htf by simp
      then have "unhatched s (updateEgg e s)"
        unfolding u by (rule unhatched_cong) simp_all
      then show ?thesis using False by auto
    qed
  qed
qed

text \<open>
  Claim C6, as the code has it. Let the egg at index \<open>e\<close> reach its maximum incubation
  time in this iteration of \<open>updateEggs\<close>. Then the egg is removed from the list. An
  entity is created from it (\<open>hatched\<close>: a new live juvenile with the next id and the life
  type, class and diet of the egg's genome stands on the hatching tile, which was free, and
  the slot counter and the population counters grew by one) exactly when the viability left
  after this tick's stress is above 0.3, the predation draw is not below the predation risk,
  the hatching draw is below the viability, the slot counter is below \<open>MAX_ENTITIES\<close> and
  the hatching tile is free; otherwise no entity is created (\<open>unhatched\<close>: the counters,
  the occupancy grid and the rows in use are as before). With a viability of at most 0.3 the
  only changes of the state are the one draw of the generator and the removal of the egg.
\<close>

theorem egg_at_term:
  assumes "maxIncubationTime (eggs s ! e) \<le> incubationTime (eggs s ! e) + 1"
  shows "eggs (updateEgg e s) = remove_nth e (eggs s)
     \<and> (if viability (stressEgg s (eggs s ! e)) > 3 / 10
             \<and> \<not> predationRoll s < predatorRisk s (eggs s ! e)
             \<and> hatchRoll s < viability (stressEgg s (eggs s ! e))
             \<and> count s < MAX_ENTITIES
             \<and> hatchTileFree (eggs s ! e) s
         then hatched (stressEgg s (eggs s ! e)) s (updateEgg e s)
         else unhatched s (updateEgg e s))
     \<and> (viability (stressEgg s (eggs s ! e)) \<le> 3 / 10 \<longrightarrow>
          updateEgg e s = s\<lparr>RNG_S := snd (rng (RNG_S s)), eggs := remove_nth e (eggs s)\<rparr>)"
  using updateEgg_term(1,3) [OF assms] updateEgg_at_term [OF assms] by blast

text \<open>
  The claim as the specification words it fails on \<open>eggWorld\<close>: the egg has viability 1
  before and after the stress of the tick, it is at term, no predator is next to it, and yet
  for every state of the generator no entity is created, because the tile of the egg is
  taken. The egg is removed all the same.
\<close>

theorem sure_egg_on_taken_tile:
  "\<forall>g. viability (eggs eggWorld ! 0) = 1
     \<and> viability (stressEgg (eggWorld\<lparr>RNG_S := g\<rparr>) (eggs eggWorld ! 0)) = 1
     \<and> maxIncubationTime (eggs eggWorld ! 0) = incubationTime (eggs eggWorld ! 0) + 1
     \<and> predatorRisk (eggWorld\<lparr>RNG_S := g\<rparr>) (eggs eggWorld ! 0) = 0
     \<and> count (updateEgg 0 (eggWorld\<lparr>RNG_S := g\<rparr>)) = count eggWorld
     \<and> unhatched eggWorld (updateEgg 0 (eggWorld\<lparr>RNG_S := g\<rparr>))
     \<and> eggs (updateEgg 0 (eggWorld\<lparr>RNG_S := g\<rparr>)) = []"
proof
  fix g
  let ?s = "eggWorld\<lparr>RNG_S := g\<rparr>"
  have e: "eggs ?s ! 0 = sampleEgg" "eggs eggWorld ! 0 = sampleEgg" by (simp_all add: eggWorld_simps)
  have at: "maxIncubationTime (eggs ?s ! 0) \<le> incubationTime (eggs ?s ! 0) + 1"
    by (simp add: e sampleEgg_simps)
  have v: "viability (stressEgg ?s sampleEgg) = 1"
    by (rule stress_sample) (simp_all add: eggWorld_simps)
  have r: "predatorRisk ?s sampleEgg = 0"
    by (simp add: predatorRisk_def sampleEgg_simps no_predators eggWorld_simps)
  have h: "\<not> hatchTileFree sampleEgg ?s"
    by (simp add: hatchTileFree_def sampleEgg_simps eggWorld_simps idx_def ta_set_def)
  have c: "count (updateEgg 0 ?s) = count eggWorld"
    using updateEgg_term(2) [OF at] h by (simp add: e)
  have "unhatched ?s (updateEgg 0 ?s)"
    using updateEgg_at_term [OF at] h by (simp add: e)
  then have u: "unhatched eggWorld (updateEgg 0 ?s)"
    by (simp add: unhatched_def)
  have g: "eggs (updateEgg 0 ?s) = []"
    using updateEgg_term(1) [OF at] by (simp add: eggWorld_simps remove_nth_def)
  show "viability (eggs eggWorld ! 0) = 1
     \<and> viability (stressEgg ?s (eggs eggWorld ! 0)) = 1
     \<and> maxIncubationTime (eggs eggWorld ! 0) = incubationTime (eggs eggWorld ! 0) + 1
     \<and> predatorRisk ?s (eggs eggWorld ! 0) = 0
     \<and> count (updateEgg 0 ?s) = count eggWorld
     \<and> unhatched eggWorld (updateEgg 0 ?s)
     \<and> eggs (updateEgg 0 ?s) = []"
    using v r c g u by (simp add: e sampleEgg_simps)
qed

lemma hatchWorld_tile: "hatchTile (stressEgg hatchWorld sampleEgg) hatchWorld = Some (5, 5)"
  by (simp add: hatchTile_def sampleEgg_simps hatchWorld_simps idx_def ta_new_def)

theorem egg_at_term_witness:
  "maxIncubationTime (eggs hatchWorld ! 0) \<le> incubationTime (eggs hatchWorld ! 0) + 1
   \<and> eggs (updateEgg 0 hatchWorld) = []
   \<and> count (updateEgg 0 hatchWorld) = 2
   \<and> total (updateEgg 0 hatchWorld) = total hatchWorld + 1
   \<and> aliveA (ent (updateEgg 0 hatchWorld) 1)
   \<and> idA (ent (updateEgg 0 hatchWorld) 1) = 2
   \<and> lifeTypeA (ent (updateEgg 0 hatchWorld) 1) = Animal
   \<and> xA (ent (updateEgg 0 hatchWorld) 1) = 5 \<and> yA (ent (updateEgg 0 hatchWorld) 1) = 5
   \<and> occ (updateEgg 0 hatchWorld) 605 = Some 1"
proof -
  have h: "hatched (stressEgg hatchWorld sampleEgg) hatchWorld (updateEgg 0 hatchWorld)"
    and g: "eggs (updateEgg 0 hatchWorld) = []"
    using egg_at_term [of hatchWorld 0]
    by (simp_all add: hatchWorld_simps hatchWorld_egg sampleEgg_simps MAX_ENTITIES_def
          remove_nth_def)
  have p: "xA (ent (updateEgg 0 hatchWorld) 1) = 5" "yA (ent (updateEgg 0 hatchWorld) 1) = 5"
    using h by (simp_all add: hatched_def Let_def hatchWorld_tile hatchWorld_simps)
  show ?thesis
    using h g p
    by (simp add: hatched_def Let_def hatchWorld_simps sampleEgg_simps idx_def ta_set_def
          ta_new_def)
qed

subsection \<open>Writes to one row\<close>

lemma clamp01_range [simp]: "0 \<le> clamp01 v" "clamp01 v \<le> 1"
  by (simp_all add: clamp01_def)

lemma tick_rel_upd:
  assumes "tick_rel s0 t"
    and "\<And>e. lifeTypeA (g e) = lifeTypeA e" "\<And>e. dietA (g e) = dietA e"
    and "\<And>e. speedA (g e) = speedA e" "\<And>e. visionA (g e) = visionA e"
    and "\<And>e. vit_ok e \<Longrightarrow> vit_ok (g e)"
  shows "tick_rel s0 (upd i g t)"
proof (rule tick_rel_post [OF assms(1)])
  have d: "diet_ok (g e) = diet_ok e" for e
    by (simp add: diet_ok_def assms(2-5))
  show "diet_inv t \<Longrightarrow> diet_inv (upd i g t)"
    by (simp add: diet_inv_def d)
  show "vitals_inv t \<Longrightarrow> vitals_inv (upd i g t)"
    by (simp add: vitals_inv_def assms(6))
qed simp_all

lemma tick_rel_fields [simp]:
  "tick_rel s0 (t\<lparr>RNG_S := a1\<rparr>) = tick_rel s0 t"
  "tick_rel s0 (t\<lparr>tick := a2\<rparr>) = tick_rel s0 t"
  "tick_rel s0 (t\<lparr>occ := a3\<rparr>) = tick_rel s0 t"
  "tick_rel s0 (t\<lparr>currentDayStats := b1\<rparr>) = tick_rel s0 t"
  "tick_rel s0 (t\<lparr>total := b3\<rparr>) = tick_rel s0 t"
  "tick_rel s0 (t\<lparr>animals := b4\<rparr>) = tick_rel s0 t"
  "tick_rel s0 (t\<lparr>plants := b5\<rparr>) = tick_rel s0 t"
  "tick_rel s0 (t\<lparr>rainCoverageNow := b6\<rparr>) = tick_rel s0 t"
  "tick_rel s0 (snd (rngS t)) = tick_rel s0 t"
  "tick_rel s0 (recordDeath i t) = tick_rel s0 t"
  "tick_rel s0 (startNextDayIfNeeded t) = tick_rel s0 t"
  "tick_rel s0 (snd (findBestNeighborByScore t i radius pred scoreFn)) = tick_rel s0 t"
  "tick_rel s0 (snd (getIncubationTime c t)) = tick_rel s0 t"
  "tick_rel s0 (snd (getCooldownTime c t)) = tick_rel s0 t"
  by (rule tick_rel_core, simp)+

lemma sat_core:
  assumes "sat pj (\<lambda>u. core u = core t) r" "tick_rel s0 t"
  shows "sat pj (tick_rel s0) r"
  using assms(1)
proof (rule sat_mono)
  fix u assume "core u = core t"
  then have "tick_rel s0 u = tick_rel s0 t" by (rule tick_rel_core)
  then show "tick_rel s0 u" using assms(2) by simp
qed

lemma removeAt_rel: "tick_rel s0 t \<Longrightarrow> tick_rel s0 (removeAt i t)"
  by (auto simp: removeAt_def Let_def vit_ok_def intro!: tick_rel_upd)

lemma moveEntity_rel: "tick_rel s0 t \<Longrightarrow> tick_rel s0 (snd (moveEntity i nx ny t))"
  by (auto simp: moveEntity_def Let_def vit_ok_def intro!: tick_rel_upd)

subsection \<open>Eggs\<close>

lemma stressEgg_ok [simp]: "egg_ok (stressEgg s egg)"
  by (simp add: stressEgg_def Let_def egg_ok_def)

lemma tick_rel_eggs:
  assumes "tick_rel s0 t" "list_all egg_ok (eggs t) \<Longrightarrow> list_all egg_ok es"
  shows "tick_rel s0 (t\<lparr>eggs := es\<rparr>)"
  by (rule tick_rel_post [OF assms(1)]) (simp_all add: diet_inv_def vitals_inv_def assms(2))

lemma list_all_update: "list_all P xs \<Longrightarrow> P v \<Longrightarrow> list_all P (xs[e := v])"
  by (induction xs arbitrary: e) (auto split: nat.splits)

lemma list_all_remove_nth: "list_all P xs \<Longrightarrow> list_all P (remove_nth e xs)"
proof -
  assume a: "list_all P xs"
  have "set (remove_nth e xs) \<subseteq> set xs"
    unfolding remove_nth_def using set_take_subset [of e xs] set_drop_subset [of "Suc e" xs]
    by auto
  then show ?thesis using a by (auto simp: list_all_iff)
qed

lemma tick_rel_remove:
  "tick_rel s0 t \<Longrightarrow> tick_rel s0 (t\<lparr>eggs := remove_nth e (eggs t)\<rparr>)"
  by (rule tick_rel_eggs) (simp_all add: list_all_remove_nth)

lemma updateEgg_rel:
  assumes "tick_rel s0 t"
  shows "tick_rel s0 (updateEgg e t)"
proof -
  let ?egg = "stressEgg t (eggs t ! e)"
  let ?s1 = "t\<lparr>eggs := (eggs t)[e := ?egg]\<rparr>"
  let ?s2 = "snd (rngS ?s1)"
  let ?s2' = "snd (rngS ?s2)"
  have r1: "tick_rel s0 ?s1"
    using assms by (rule tick_rel_eggs) (simp add: list_all_update)
  then have r2: "tick_rel s0 ?s2" by simp
  then have r3: "tick_rel s0 ?s2'" by simp
  have r4: "tick_rel s0 (hatchEgg ?egg ?s2')"
    using r3 by (rule hatchEgg_rel) simp
  have "updateEgg e t = ?s2 \<or> updateEgg e t = ?s2\<lparr>eggs := remove_nth e (eggs ?s2)\<rparr>
      \<or> updateEgg e t = ?s2'\<lparr>eggs := remove_nth e (eggs ?s2')\<rparr>
      \<or> updateEgg e t = (hatchEgg ?egg ?s2')\<lparr>eggs := remove_nth e (eggs (hatchEgg ?egg ?s2'))\<rparr>"
    by (simp add: updateEgg_def Let_def split_beta del: rngS_frame hatchEgg_eggs)
  then show ?thesis
    using r2 tick_rel_remove [OF r2] tick_rel_remove [OF r3] tick_rel_remove [OF r4] by metis
qed

lemma updateEggs_from_rel: "tick_rel s0 t \<Longrightarrow> tick_rel s0 (updateEggs_from e t)"
  by (induction e arbitrary: t) (simp_all add: updateEgg_rel)

lemma updateEggs_rel: "tick_rel s0 t \<Longrightarrow> tick_rel s0 (updateEggs t)"
  by (simp add: updateEggs_def updateEggs_from_rel)

subsection \<open>Rules that take a stage of the tick apart\<close>

lemma lift_if: "P a \<Longrightarrow> P b \<Longrightarrow> P (if c then a else b)"
  by simp

lemma lift_option: "P a \<Longrightarrow> (\<And>x. P (f x)) \<Longrightarrow> P (case v of None \<Rightarrow> a | Some x \<Rightarrow> f x)"
  by (cases v) simp_all

lemma sat_Done: "Q (pj x) \<Longrightarrow> sat pj Q (Done x)"
  by simp

lemma sat_Thrown: "Q t \<Longrightarrow> sat pj Q (Thrown t)"
  by simp

lemma tick_rel_wrap:
  "tick_rel s0 t \<Longrightarrow> tick_rel s0 (t\<lparr>RNG_S := a1\<rparr>)"
  "tick_rel s0 t \<Longrightarrow> tick_rel s0 (t\<lparr>occ := a3\<rparr>)"
  "tick_rel s0 t \<Longrightarrow> tick_rel s0 (t\<lparr>total := b3\<rparr>)"
  "tick_rel s0 t \<Longrightarrow> tick_rel s0 (t\<lparr>animals := b4\<rparr>)"
  "tick_rel s0 t \<Longrightarrow> tick_rel s0 (t\<lparr>plants := b5\<rparr>)"
  "tick_rel s0 t \<Longrightarrow> tick_rel s0 (snd (rngS t))"
  "tick_rel s0 t \<Longrightarrow> tick_rel s0 (recordDeath i t)"
  "tick_rel s0 t \<Longrightarrow> tick_rel s0 (snd (findBestNeighborByScore t i radius pred scoreFn))"
  "tick_rel s0 t \<Longrightarrow> tick_rel s0 (snd (getIncubationTime c t))"
  "tick_rel s0 t \<Longrightarrow> tick_rel s0 (snd (getCooldownTime c t))"
  "tick_rel s0 t \<Longrightarrow> tick_rel s0 (removeAt i t)"
  "tick_rel s0 t \<Longrightarrow> tick_rel s0 (snd (moveEntity i nx ny t))"
  by (simp_all add: removeAt_rel moveEntity_rel)

text \<open>
  The writes of the tick to a row: a field that is neither a vital sign nor one of the
  fields of the diet rule, a clamped vital sign, and the energy scaled by a factor in
  \<open>[0, 1]\<close>.
\<close>

lemma tick_upd_other:
  assumes "tick_rel s0 t"
    and "\<And>e. lifeTypeA (g e) = lifeTypeA e" "\<And>e. dietA (g e) = dietA e"
    and "\<And>e. speedA (g e) = speedA e" "\<And>e. visionA (g e) = visionA e"
    and "\<And>e. energyA (g e) = energyA e" "\<And>e. hydrationA (g e) = hydrationA e"
  shows "tick_rel s0 (upd i g t)"
  using assms(1-5) by (rule tick_rel_upd) (simp add: vit_ok_def assms(6,7))

lemma tick_upd_energy:
  "tick_rel s0 t \<Longrightarrow> tick_rel s0 (upd i (\<lambda>e. e\<lparr>energyA := clamp01 (v e)\<rparr>) t)"
  by (rule tick_rel_upd) (simp_all add: vit_ok_def)

lemma tick_upd_hydration:
  "tick_rel s0 t \<Longrightarrow> tick_rel s0 (upd i (\<lambda>e. e\<lparr>hydrationA := clamp01 (v e)\<rparr>) t)"
  by (rule tick_rel_upd) (simp_all add: vit_ok_def)

lemma tick_upd_scale:
  assumes "tick_rel s0 t" "0 \<le> c" "c \<le> 1"
  shows "tick_rel s0 (upd i (\<lambda>e. e\<lparr>energyA := energyA e * c\<rparr>) t)"
proof (rule tick_rel_upd [OF assms(1)])
  fix e assume "vit_ok e"
  then show "vit_ok (e\<lparr>energyA := energyA e * c\<rparr>)"
    using assms(2,3) by (simp add: vit_ok_def mult_le_one)
qed simp_all

subsection \<open>Reproduction keeps the relation\<close>

lemma startMammalGestation_rel:
  "tick_rel s0 t \<Longrightarrow> tick_rel s0 (startMammalGestation i t)"
  unfolding startMammalGestation_def
  by (rule tick_upd_other) (simp_all add: Let_def)

lemma enterCooldown_rel: "tick_rel s0 t \<Longrightarrow> tick_rel s0 (enterCooldown i c t)"
  unfolding enterCooldown_def Let_def split_beta
  by (intro tick_upd_other tick_rel_wrap; (assumption | simp))

lemma layEgg_rel:
  assumes "tick_rel s0 t"
  shows "tick_rel s0 (layEgg p m c inc t)"
  unfolding layEgg_def Let_def split_beta
  by (intro lift_option [of "tick_rel s0"] lift_if [of "tick_rel s0"] tick_rel_wrap
        tick_rel_eggs assms)
    (simp add: egg_ok_def)

lemma layEggs_loop_rel: "tick_rel s0 t \<Longrightarrow> tick_rel s0 (layEggs_loop n p m c inc t)"
  by (induction n arbitrary: t) (simp_all add: layEgg_rel)

lemma layEggs_rel:
  assumes "tick_rel s0 t"
  shows "tick_rel s0 (layEggs p m t)"
  unfolding layEggs_def Let_def split_beta
  by (intro lift_option [of "tick_rel s0"] enterCooldown_rel layEggs_loop_rel tick_rel_wrap assms)

lemma plantSeed_rel:
  assumes "tick_rel s0 t"
  shows "tick_rel s0 (plantSeed i t)"
  unfolding plantSeed_def Let_def split_beta
  by (intro lift_if [of "tick_rel s0"] tick_upd_other birth_rel tick_rel_wrap assms
        tick_rel_upd [where g = "\<lambda>e. e\<lparr>energyA := energyA e * (68 / 100), reproStateA := Cooldown\<rparr>"];
      simp add: vit_ok_def)

lemma mateAndReproduce_rel:
  assumes "tick_rel s0 t"
  shows "sat id (tick_rel s0) (mateAndReproduce i t)"
  unfolding mateAndReproduce_def split_beta Let_def
proof (rule sat_andThen [where pj = snd])
  show "sat snd (tick_rel s0) (findBestMate t i)"
    by (rule sat_core [OF _ assms]) simp
next
  fix x :: "int \<times> sim"
  assume a: "tick_rel s0 (snd x)"
  show "sat id (tick_rel s0)
          (if fst x = - 1 then Done (snd x)
           else if reproStateA (ent (snd x) (fst x)) \<noteq> Ready \<or> \<not> adultA (ent (snd x) (fst x))
                then Done (snd x)
                else if clamp01 (12 / 100 + fertilityA (ent (snd (rngS (snd x))) i)
                                          * fertilityA (ent (snd (rngS (snd x))) (fst x)))
                        < fst (rngS (snd x))
                     then Done (snd (rngS (snd x)))
                     else if classA (ent (snd (rngS (snd x))) i) = Mammal
                          then Done (upd (fst x) (\<lambda>e. e\<lparr>energyA := energyA e * (72 / 100)\<rparr>)
                                      (upd i (\<lambda>e. e\<lparr>energyA := energyA e * (82 / 100)\<rparr>)
                                        (startMammalGestation i (snd (rngS (snd x))))))
                          else Done (upd (fst x) (\<lambda>e. e\<lparr>energyA := energyA e * (74 / 100)\<rparr>)
                                      (upd i (\<lambda>e. e\<lparr>energyA := energyA e * (82 / 100)\<rparr>)
                                        (layEggs i (Some (fst x)) (snd (rngS (snd x)))))))"
    by (intro lift_if [of "sat id (tick_rel s0)"] sat_Done; simp only: id_apply;
        intro tick_upd_scale startMammalGestation_rel layEggs_rel tick_rel_wrap a; simp)
qed

lemma tryReproduce_rel:
  assumes "tick_rel s0 t"
  shows "sat id (tick_rel s0) (tryReproduce i t)"
  unfolding tryReproduce_def Let_def
  by (intro lift_if [of "sat id (tick_rel s0)"] sat_Done mateAndReproduce_rel;
      (simp only: id_apply)?;
      intro tick_upd_scale tick_upd_other startMammalGestation_rel layEggs_rel plantSeed_rel assms;
      simp)

lemma litterLoop_rel:
  "tick_rel s0 t \<Longrightarrow> sat id (tick_rel s0) (litterLoop n p spots t)"
proof (induction n arbitrary: t)
  case (Suc n)
  show ?case
    unfolding litterLoop.simps Let_def split_beta
    by (intro lift_if [of "sat id (tick_rel s0)"] sat_Done sat_Thrown Suc.IH;
        (simp only: id_apply)?; intro lift_if [of "tick_rel s0"] birth_rel tick_rel_wrap Suc.prems)
qed simp

lemma giveBirth_rel:
  assumes "tick_rel s0 t"
  shows "sat id (tick_rel s0) (giveBirth p t)"
  unfolding giveBirth_def Let_def split_beta
proof (intro lift_if [of "sat id (tick_rel s0)"] sat_Done sat_andThen [where pj = id])
  show "tick_rel s0
     (id (upd p (\<lambda>e. e\<lparr>reproTimerA :=
                          js_or0 (real_of_int (fst (getCooldownTime (classA (ent t p))
                            (upd p (\<lambda>e. e\<lparr>reproStateA := Cooldown\<rparr>) t))) * (15 / 10)),
                       energyA := energyA e * (8 / 10)\<rparr>)
        (snd (getCooldownTime (classA (ent t p)) (upd p (\<lambda>e. e\<lparr>reproStateA := Cooldown\<rparr>) t)))))"
    unfolding id_apply
    by (rule tick_rel_upd; (simp add: vit_ok_def)?)
      (intro tick_rel_wrap tick_upd_other assms; simp)
  show "sat id (tick_rel s0)
     (litterLoop (nat (max 1 \<lfloor>sizeA (ent (snd (rngS t)) p) * (25 / 10) + fst (rngS t)\<rfloor>)) p
        (filter (\<lambda>s. (fst s \<ge> 0 \<and> snd s \<ge> 0 \<and> fst s < gridW t \<and> snd s < gridH t
                        \<and> occ t (idx t (fst s) (snd s)) = Some (- 1)))
           (map (\<lambda>s. (xA (ent t p) + fst s, yA (ent t p) + snd s)) N8))
        (snd (rngS t)))"
    by (intro litterLoop_rel tick_rel_wrap assms)
  fix x
  assume "tick_rel s0 (id x)"
  then show "tick_rel s0 (id (enterCooldown p (classA (ent x p)) x))"
    by (simp add: enterCooldown_rel)
qed

lemma updateGestation_rel:
  assumes "tick_rel s0 t"
  shows "sat id (tick_rel s0) (updateGestation i t)"
  unfolding updateGestation_def Let_def
  by (intro lift_if [of "sat id (tick_rel s0)"] sat_Done giveBirth_rel; (simp only: id_apply)?;
      intro tick_upd_other tick_upd_energy tick_upd_hydration assms; simp)

lemma careFor_rel: "tick_rel s0 t \<Longrightarrow> tick_rel s0 (careFor t c)"
  unfolding careFor_def by (intro tick_upd_energy tick_upd_hydration)

lemma careFor_fold: "tick_rel s0 t \<Longrightarrow> tick_rel s0 (foldl careFor t cs)"
  by (induction cs arbitrary: t) (simp_all add: careFor_rel)

lemma updateParentalCare_rel:
  assumes "tick_rel s0 t"
  shows "tick_rel s0 (updateParentalCare i t)"
  unfolding updateParentalCare_def Let_def
  by (intro lift_if [of "tick_rel s0"] careFor_fold tick_upd_energy assms)

lemma reproStateStep_rel:
  assumes "tick_rel s0 t"
  shows "sat id (tick_rel s0) (reproStateStep i t)"
  unfolding reproStateStep_def Let_def
  by (intro lift_if [of "sat id (tick_rel s0)"] sat_Done updateGestation_rel;
      (simp only: id_apply)?; intro tick_upd_other assms; simp)

lemma reproStateLoop_rel:
  "tick_rel s0 t \<Longrightarrow> sat id (tick_rel s0) (reproStateLoop k i t)"
proof (induction k arbitrary: i t)
  case (Suc k)
  show ?case
    unfolding reproStateLoop.simps
    by (intro lift_if [of "sat id (tick_rel s0)"] sat_Done sat_andThen [where pj = id]
          reproStateStep_rel; (simp only: id_apply)?; (rule Suc.prems | rule Suc.IH); simp)
qed simp

lemma updateReproductionStates_rel:
  "tick_rel s0 t \<Longrightarrow> sat id (tick_rel s0) (updateReproductionStates t)"
  unfolding updateReproductionStates_def by (rule reproStateLoop_rel)

subsection \<open>The tick of one entity keeps the relation\<close>

lemma ageStep_rel:
  assumes "tick_rel s0 t"
  shows "tick_rel s0 (ageStep i t)"
  unfolding ageStep_def Let_def
  by (intro tick_upd_other assms; simp)

lemma hydrationStep_rel:
  assumes "tick_rel s0 t"
  shows "tick_rel s0 (hydrationStep i b w r t)"
  unfolding hydrationStep_def Let_def
  by (intro lift_if [of "tick_rel s0"] tick_upd_hydration assms
        tick_upd_other [where g = "\<lambda>e. e\<lparr>starvationStressA := clamp01 (starvationStressA e + 16 / 1000)\<rparr>"];
      simp)

lemma photosynthesis_rel:
  assumes "tick_rel s0 t"
  shows "tick_rel s0 (photosynthesis i b night rain sf t)"
  unfolding photosynthesis_def Let_def
  by (intro tick_upd_energy assms)

lemma plantTrap_rel:
  assumes "tick_rel s0 t"
  shows "tick_rel s0 (plantTrap i t)"
  unfolding plantTrap_def Let_def split_beta
  by (intro lift_if [of "tick_rel s0"] tick_upd_energy tick_rel_wrap assms
        tick_upd_other [where g = "\<lambda>e. e\<lparr>plantTrapCooldownA := SUPPLEMENTAL_PLANT_TRAP_COOLDOWN\<rparr>"];
      simp)

lemma animalMetabolism_rel:
  assumes "tick_rel s0 t"
  shows "tick_rel s0 (animalMetabolism i sf t)"
  unfolding animalMetabolism_def Let_def
  by (intro lift_if [of "tick_rel s0"] tick_upd_energy tick_upd_hydration assms)

lemma metabolism_rel:
  assumes "tick_rel s0 t"
  shows "tick_rel s0 (metabolism i b night rain sf t)"
  unfolding metabolism_def
  by (intro lift_if [of "tick_rel s0"] plantTrap_rel photosynthesis_rel animalMetabolism_rel assms)

lemma readinessStep_rel:
  assumes "tick_rel s0 t"
  shows "tick_rel s0 (readinessStep i t)"
  unfolding readinessStep_def
  by (intro lift_if [of "tick_rel s0"] tick_upd_other assms; simp)

lemma findFood_rel:
  assumes "tick_rel s0 t"
  shows "tick_rel s0 (snd (findFood i h t))"
  unfolding findFood_def Let_def split_beta
  by (simp only: if_distrib [of snd] snd_conv)
    (intro lift_if [of "tick_rel s0"] tick_rel_wrap assms)

lemma findThreat_rel:
  assumes "tick_rel s0 t"
  shows "tick_rel s0 (snd (findThreat i f t))"
  unfolding findThreat_def
  by (simp only: if_distrib [of snd] snd_conv)
    (intro lift_if [of "tick_rel s0"] tick_rel_wrap assms)

lemma findTargets_rel:
  assumes "tick_rel s0 t"
  shows "sat snd (tick_rel s0) (findTargets i dr t)"
  unfolding findTargets_def Let_def split_beta
proof (rule sat_andThen [where pj = snd])
  show "sat snd (tick_rel s0)
          (if 32 / 100 < mateDrive dr then findBestMate (snd (findFood i (hungerDrive dr) t)) i
           else Done (- 1, snd (findFood i (hungerDrive dr) t)))"
    by (intro lift_if [of "sat snd (tick_rel s0)"] sat_Done sat_core [OF findBestMate_core]
          ; (simp only: snd_conv)?; (rule refl | rule findFood_rel [OF assms]))
next
  fix x :: "int \<times> sim"
  assume "tick_rel s0 (snd x)"
  then show "sat snd (tick_rel s0)
          (Done (\<lparr>waterTarget =
                    if 6 / 100 < thirstDrive dr \<and> canUseWater (classA (ent t i))
                    then findNearestWater t (xA (ent t i)) (yA (ent t i)) (maxVis t i) else None,
                  foodTarget = fst (findFood i (hungerDrive dr) t), mateTarget = fst x,
                  threatTarget = fst (findThreat i (fearDrive dr) (snd x))\<rparr>,
                 snd (findThreat i (fearDrive dr) (snd x))))"
    by (simp add: findThreat_rel)
qed

lemma chooseDirection_rel:
  assumes "tick_rel s0 t"
  shows "tick_rel s0 (snd (chooseDirection i dr tg t))"
  unfolding chooseDirection_def Let_def split_beta
  by (simp only: if_distrib [of snd] option.case_distrib [of snd] snd_conv)
    (intro lift_if [of "tick_rel s0"] lift_option [of "tick_rel s0"] tick_rel_wrap assms)

lemma moveStep_rel:
  assumes "tick_rel s0 t"
  shows "tick_rel s0 (moveStep i b dr tg t)"
  unfolding moveStep_def Let_def split_beta
  by (intro lift_if [of "tick_rel s0"] tick_upd_energy tick_rel_wrap chooseDirection_rel assms)

lemma clamp01_keeps:
  assumes "0 \<le> tk" "tk \<le> en" "en \<le> 1" "0 \<le> d"
  shows "tk \<le> clamp01 (en + tk * d)"
proof -
  define m where "m = tk * d"
  have "0 \<le> m" unfolding m_def using assms by simp
  then have "tk \<le> clamp01 (en + m)" using assms(1-3) by (auto simp: clamp01_def)
  then show ?thesis by (simp add: m_def)
qed

lemma bite_rows:
  assumes v: "\<forall>j. vit_ok (ent t j)" and tk: "0 \<le> tk" "tk \<le> energyA (ent t p)" and d: "0 \<le> d"
  shows "vit_ok (ent (upd p (\<lambda>e. e\<lparr>energyA := energyA e - tk\<rparr>)
                    (upd i (\<lambda>e. e\<lparr>plantFeedHistoryA := h e\<rparr>)
                       (upd i (\<lambda>e. e\<lparr>energyA := clamp01 (energyA e + tk * d)\<rparr>) t))) j)"
proof -
  have e: "0 \<le> energyA (ent t j)" "energyA (ent t j) \<le> 1" "0 \<le> hydrationA (ent t j)"
    "hydrationA (ent t j) \<le> 1" for j
    using v by (simp_all add: vit_ok_def)
  have k: "tk \<le> clamp01 (energyA (ent t p) + tk * d)"
    using tk e(2) [of p] d by (rule clamp01_keeps)
  have "clamp01 (energyA (ent t p) + tk * d) \<le> 1" by simp
  then have c: "clamp01 (energyA (ent t p) + tk * d) - tk \<le> 1" using tk(1) by linarith
  show ?thesis
    using e [of j] e [of p] e [of i] tk k c by (simp add: vit_ok_def)
qed

lemma bite_rel:
  assumes "tick_rel s0 t" and tk: "vitals_inv t \<Longrightarrow> 0 \<le> tk \<and> tk \<le> energyA (ent t p)"
    and d: "0 \<le> d"
  shows "tick_rel s0 (upd p (\<lambda>e. e\<lparr>energyA := energyA e - tk\<rparr>)
                       (upd i (\<lambda>e. e\<lparr>plantFeedHistoryA := h e\<rparr>)
                          (upd i (\<lambda>e. e\<lparr>energyA := clamp01 (energyA e + tk * d)\<rparr>) t)))"
    (is "tick_rel s0 ?s3")
proof (rule tick_rel_post [OF assms(1)])
  show "diet_inv t \<Longrightarrow> diet_inv ?s3"
    by (simp add: diet_inv_def diet_ok_def)
  assume v: "vitals_inv t"
  then have rows: "\<forall>j. vit_ok (ent t j)" by (simp add: vitals_inv_def)
  have "vit_ok (ent ?s3 j)" for j
    using rows tk [OF v, THEN conjunct1] tk [OF v, THEN conjunct2] d by (rule bite_rows)
  then show "vitals_inv ?s3"
    using v unfolding vitals_inv_def by simp
qed simp_all

lemma eatPlant_rel:
  assumes "tick_rel s0 t"
  shows "tick_rel s0 (eatPlant i p t)"
proof -
  have d: "0 \<le> (if c then PLANT_DIGESTION_EFFICIENCY_HERB else PLANT_DIGESTION_EFFICIENCY_OMNI)"
    for c
    by (simp add: PLANT_DIGESTION_EFFICIENCY_HERB_def PLANT_DIGESTION_EFFICIENCY_OMNI_def)
  have tk: "0 \<le> min (plantBiteAmount (behaviorTuning t)) (energyA (ent t p))
      \<and> min (plantBiteAmount (behaviorTuning t)) (energyA (ent t p)) \<le> energyA (ent t p)"
    if "vitals_inv t"
  proof -
    have "vit_ok (ent t p)" "0 \<le> plantBiteAmount (behaviorTuning t)"
      using that by (simp_all add: vitals_inv_def)
    then show ?thesis by (simp add: vit_ok_def)
  qed
  show ?thesis
    unfolding eatPlant_def Let_def
    by (intro lift_if [of "tick_rel s0"] tick_rel_wrap bite_rel assms d tk)
qed

lemma attackPrey_rel:
  assumes "tick_rel s0 t"
  shows "tick_rel s0 (attackPrey i p t)"
  unfolding attackPrey_def Let_def split_beta
  by (intro lift_if [of "tick_rel s0"] tick_upd_energy tick_rel_wrap assms
        tick_upd_other [where g = "\<lambda>e. e\<lparr>preyFeedHistoryA := clamp01 (preyFeedHistoryA e + 24 / 100)\<rparr>"];
      simp)

lemma feedStep_rel:
  assumes "tick_rel s0 t"
  shows "tick_rel s0 (feedStep i h t)"
  unfolding feedStep_def Let_def split_beta
  by (simp only: if_distrib [of snd] snd_conv)
    (intro lift_if [of "tick_rel s0"] eatPlant_rel attackPrey_rel tick_rel_wrap assms)

lemma socialStep_rel:
  assumes "tick_rel s0 t"
  shows "tick_rel s0 (socialStep i t)"
  unfolding socialStep_def Let_def split_beta
  by (intro lift_if [of "tick_rel s0"] tick_upd_energy tick_rel_wrap assms)

lemma behave_rel:
  assumes "tick_rel s0 t"
  shows "sat id (tick_rel s0) (behave i b ts t)"
  unfolding behave_def Let_def split_beta
proof (rule sat_andThen [where pj = snd])
  show "sat snd (tick_rel s0)
          (findTargets i (computeDrives i b ts (readinessStep i t)) (readinessStep i t))"
    by (intro findTargets_rel readinessStep_rel assms)
next
  fix x :: "targets \<times> sim"
  assume a: "tick_rel s0 (snd x)"
  show "sat id (tick_rel s0)
          (Done (updateParentalCare i
                   (socialStep i
                     (feedStep i (hungerDrive (computeDrives i b ts (readinessStep i t)))
                       (moveStep i b (computeDrives i b ts (readinessStep i t)) (fst x) (snd x))))))"
    by (rule sat_Done, simp only: id_apply)
      (intro updateParentalCare_rel socialStep_rel feedStep_rel moveStep_rel a)
qed

lemma fireStep_rel:
  assumes "tick_rel s0 t"
  shows "tick_rel s0 (snd (fireStep i t))"
  unfolding fireStep_def Let_def split_beta
  by (simp only: if_distrib [of snd] snd_conv)
    (intro lift_if [of "tick_rel s0"] lift_option [of "tick_rel s0"] tick_upd_energy
       tick_upd_hydration tick_rel_wrap assms)

lemma deathStep_rel:
  assumes "tick_rel s0 t"
  shows "tick_rel s0 (snd (deathStep i b t))"
  unfolding deathStep_def Let_def
  by (simp only: if_distrib [of snd] snd_conv)
    (intro lift_if [of "tick_rel s0"] tick_upd_energy tick_rel_wrap assms)

lemma entityTick_rel:
  assumes "tick_rel s0 (ssim st)"
  shows "sat ssim (tick_rel s0) (entityTick night cells i st)"
  unfolding entityTick_def Let_def split_beta
proof (rule sat_andThen [where pj = id], goal_cases)
  case 1
  show ?case
    by (intro lift_if [of "sat id (tick_rel s0)"] sat_Done behave_rel; (simp only: id_apply)?;
        intro metabolism_rel hydrationStep_rel ageStep_rel assms)
next
  case (2 s4)
  then have a: "tick_rel s0 s4" by simp
  have f: "tick_rel s0 (snd (fireStep i s4))" using a by (rule fireStep_rel)
  show ?case
  proof (intro lift_if [of "sat ssim (tick_rel s0)"] sat_Done sat_andThen [where pj = id],
      goal_cases)
    case 1
    show ?case using f by simp
  next
    case 2
    show ?case
      by (intro lift_if [of "sat id (tick_rel s0)"] sat_Done tryReproduce_rel;
          (simp only: id_apply)?; rule f)
  next
    case (3 s6)
    then show ?case by (simp add: deathStep_rel)
  next
    case (4 s6)
    then show ?case by (simp add: deathStep_rel)
  next
    case (5 s6)
    then show ?case by (simp add: deathStep_rel)
  qed
qed

lemma sweepStep_rel:
  assumes "tick_rel s0 (ssim st)"
  shows "sat ssim (tick_rel s0) (sweepStep night cells start n st)"
  unfolding sweepStep_def Let_def
  by (intro lift_if [of "sat ssim (tick_rel s0)"] sat_Done entityTick_rel assms)

lemma sweep_rel:
  "tick_rel s0 (ssim st) \<Longrightarrow> sat ssim (tick_rel s0) (sweep k night cells start n st)"
proof (induction k arbitrary: n st)
  case (Suc k)
  show ?case
    unfolding sweep.simps
    by (intro lift_if [of "sat ssim (tick_rel s0)"] sat_Done sat_andThen [where pj = ssim]
          sweepStep_rel Suc.prems Suc.IH)
qed simp

lemma stepOnce_rel: "sat id (tick_rel s) (stepOnce s)"
  unfolding stepOnce_def Let_def
proof (rule sat_andThen [where pj = id], goal_cases)
  case 1
  show ?case by (rule sat_core [OF spawnLightning_core [OF refl]]) simp
next
  case (2 s3)
  then have a: "tick_rel s s3" by simp
  show ?case
  proof (rule sat_andThen [where pj = id], goal_cases)
    case 1
    show ?case by (rule sat_core [OF updateFires_core [OF refl] a])
  next
    case (2 s4)
    then have b: "tick_rel s s4" by simp
    show ?case
    proof (rule sat_andThen [where pj = ssim], goal_cases)
      case 1
      show ?case by (rule sweep_rel) (simp add: b)
    next
      case (2 st)
      show ?case
      proof (rule sat_andThen [where pj = id], goal_cases)
        case 1
        show ?case by (rule updateReproductionStates_rel) (simp add: 2)
      next
        case (2 s6)
        then show ?case by (simp add: updateEggs_rel)
      qed
    qed
  qed
qed

subsection \<open>The tick ends\<close>

lemma spawnLightning_finished: "finished (spawnLightning cells s)"
  unfolding spawnLightning_def Let_def split_beta
  by (intro lift_if [of finished] finished_simps)

lemma fireSpreadRoll_finished: "finished (fireSpreadRoll x y rain fl)"
  unfolding fireSpreadRoll_def Let_def split_beta
  by (intro lift_if [of finished] finished_simps)

lemma fireSpreadRolls_finished: "finished (fireSpreadRolls n x y rain fl)"
  by (induction n arbitrary: fl)
    (auto intro!: finished_andThen fireSpreadRoll_finished)

lemma fireTile_finished: "finished (fireTile cells p fl)"
  unfolding fireTile_def Let_def
  by (intro lift_if [of finished] finished_simps fireSpreadRolls_finished)

lemma fireTiles_finished: "finished (fireTiles cells ps fl)"
  by (induction ps arbitrary: fl) (auto intro!: finished_andThen fireTile_finished)

lemma updateFires_finished: "finished (updateFires cells s)"
  unfolding updateFires_def
  by (intro lift_if [of finished] finished_simps finished_andThen fireTiles_finished)

lemma weightedRandomSelect_finished: "finished (weightedRandomSelect cands s)"
  unfolding weightedRandomSelect_def Let_def split_beta
  by (intro lift_if [of finished] lift_option [of finished] finished_simps)

lemma findBestMate_finished: "finished (findBestMate s i)"
  unfolding findBestMate_def Let_def
  by (intro lift_if [of finished] finished_simps weightedRandomSelect_finished)

lemma mateAndReproduce_finished: "finished (mateAndReproduce i s)"
  unfolding mateAndReproduce_def Let_def split_beta
  by (intro finished_andThen findBestMate_finished lift_if [of finished] finished_simps)

lemma tryReproduce_finished: "finished (tryReproduce i s)"
  unfolding tryReproduce_def Let_def
  by (intro lift_if [of finished] finished_simps mateAndReproduce_finished)

lemma litterLoop_finished: "finished (litterLoop n p spots s)"
proof (induction n arbitrary: s)
  case (Suc n)
  show ?case
    unfolding litterLoop.simps Let_def split_beta
    by (intro lift_if [of finished] finished_simps Suc)
qed simp

lemma giveBirth_finished: "finished (giveBirth p s)"
  unfolding giveBirth_def Let_def split_beta
  by (intro lift_if [of finished] finished_simps finished_andThen litterLoop_finished)

lemma updateGestation_finished: "finished (updateGestation i s)"
  unfolding updateGestation_def Let_def
  by (intro lift_if [of finished] finished_simps giveBirth_finished)

lemma reproStateStep_finished: "finished (reproStateStep i s)"
  unfolding reproStateStep_def Let_def
  by (intro lift_if [of finished] finished_simps updateGestation_finished)

lemma findTargets_finished: "finished (findTargets i dr s)"
  unfolding findTargets_def Let_def split_beta
  by (intro finished_andThen lift_if [of finished] finished_simps findBestMate_finished)

lemma behave_finished: "finished (behave i b ts s)"
  unfolding behave_def Let_def split_beta
  by (intro finished_andThen findTargets_finished finished_simps)

lemma entityTick_finished: "finished (entityTick night cells i st)"
  unfolding entityTick_def Let_def split_beta
  by (intro finished_andThen lift_if [of finished] finished_simps behave_finished
        tryReproduce_finished)

lemma sweepStep_finished: "finished (sweepStep night cells start n st)"
  unfolding sweepStep_def Let_def
  by (intro lift_if [of finished] finished_simps entityTick_finished)

lemma tick_rel_count: "tick_rel s0 t \<Longrightarrow> count t \<le> max (count s0) MAX_ENTITIES"
  by (simp add: tick_rel_def slots_grow_def)

lemma sweep_finished:
  "tick_rel s0 (ssim st) \<Longrightarrow> max (count s0) MAX_ENTITIES \<le> n + int k
   \<Longrightarrow> finished (sweep k night cells start n st)"
proof (induction k arbitrary: n st)
  case 0
  then have "count (ssim st) \<le> n" using tick_rel_count [of s0 "ssim st"] by linarith
  then show ?case by simp
next
  case (Suc k)
  show ?case
    unfolding sweep.simps
  proof (intro lift_if [of finished] finished_simps finished_andThen sweepStep_finished)
    fix x
    assume d: "sweepStep night cells start n st = Done x"
    have "sat ssim (tick_rel s0) (sweepStep night cells start n st)"
      using Suc.prems(1) by (rule sweepStep_rel)
    then have "tick_rel s0 (ssim x)" unfolding d by simp
    then show "finished (sweep k night cells start (n + 1) x)"
      using Suc.prems(2) by (intro Suc.IH) simp_all
  qed
qed

lemma reproStateLoop_finished:
  "tick_rel s0 t \<Longrightarrow> max (count s0) MAX_ENTITIES \<le> i + int k
   \<Longrightarrow> finished (reproStateLoop k i t)"
proof (induction k arbitrary: i t)
  case 0
  then have "count t \<le> i" using tick_rel_count [of s0 t] by linarith
  then show ?case by simp
next
  case (Suc k)
  show ?case
    unfolding reproStateLoop.simps
  proof (intro lift_if [of finished] finished_simps finished_andThen reproStateStep_finished)
    fix x
    assume d: "reproStateStep i t = Done x"
    have "sat id (tick_rel s0) (reproStateStep i t)"
      using Suc.prems(1) by (rule reproStateStep_rel)
    then have "tick_rel s0 x" unfolding d by simp
    then show "finished (reproStateLoop k (i + 1) x)"
      using Suc.prems(2) by (intro Suc.IH) simp_all
  qed
qed

lemma stepOnce_finished: "finished (stepOnce s)"
  unfolding stepOnce_def Let_def
proof (intro finished_andThen spawnLightning_finished updateFires_finished finished_simps,
    goal_cases)
  case (1 s3 s4)
  show ?case by (rule sweep_finished [of s4]) (simp_all add: MAX_ENTITIES_def)
next
  case (2 s3 s4 st)
  show ?case
    unfolding updateReproductionStates_def
    by (rule reproStateLoop_finished [OF tick_rel_refl]) (simp add: MAX_ENTITIES_def)
qed

subsection \<open>The creating commands keep the relation\<close>

lemma place_done:
  assumes "fst (place x y g en s)"
  shows "count (snd (place x y g en s)) = count s + 1" "count s < MAX_ENTITIES"
    "behaviorTuning (snd (place x y g en s)) = behaviorTuning s"
    "eggs (snd (place x y g en s)) = eggs s"
  using assms by (simp_all add: place_def Let_def split_beta split: if_splits)

lemma place_rel: "tick_rel s0 t \<Longrightarrow> tick_rel s0 (snd (place x y g en t))"
proof (erule tick_rel_trans)
  let ?p = "place x y g en t"
  show "tick_rel t (snd ?p)"
  proof (cases "fst ?p")
    case False
    then show ?thesis by (simp add: place_fail)
  next
    case True
    note d = place_done [OF True]
    have a: "diet_ok (e\<lparr>idA := a1, energyA := a2, hydrationA := a3, ageA := a4, aliveA := a5,
                      adultA := a6\<rparr>) = diet_ok e" for e a1 a2 a3 a4 a5 a6
      by (simp add: diet_ok_def)
    have dk: "diet_ok (ent (snd ?p) (count t))"
      using True by (simp add: place_keeps [of diet_ok] diet_stable a diet_applyGenome)
    have vk: "vit_ok (ent (snd ?p) (count t))"
      using True by (simp add: place_keeps [of vit_ok] vit_stable) (simp add: vit_ok_def)
    have o: "j \<noteq> count t \<Longrightarrow> ent (snd ?p) j = ent t j" for j by (rule place_other)
    have "diet_inv t \<Longrightarrow> diet_inv (snd ?p)"
      unfolding diet_inv_def using dk o by metis
    moreover have "\<forall>i. vit_ok (ent t i) \<Longrightarrow> \<forall>i. vit_ok (ent (snd ?p) i)"
      using vk o by metis
    ultimately show ?thesis
      unfolding tick_rel_def vitals_inv_def slots_grow_def using d by simp
  qed
qed

lemma addEntity_frame [simp]:
  "behaviorTuning (addEntity g en ag s) = behaviorTuning s" "eggs (addEntity g en ag s) = eggs s"
proof -
  have "behaviorTuning (addEntity_place n i t) = behaviorTuning t
      \<and> eggs (addEntity_place n i t) = eggs t" for n i t
    by (induction n arbitrary: t) (simp_all add: Let_def split_beta)
  then show "behaviorTuning (addEntity g en ag s) = behaviorTuning s"
    "eggs (addEntity g en ag s) = eggs s"
    by (simp_all add: addEntity_def Let_def)
qed

lemma addEntity_rel:
  assumes "tick_rel s0 t" "0 \<le> en" "en \<le> 1"
  shows "tick_rel s0 (addEntity g en ag t)"
proof (rule tick_rel_trans [OF assms(1)])
  let ?a = "addEntity g en ag t"
  show "tick_rel t ?a"
  proof (cases "count t < MAX_ENTITIES")
    case False
    then show ?thesis by (simp add: addEntity_def)
  next
    case True
    have a: "diet_ok (e\<lparr>aliveA := a1, adultA := a2, energyA := a3, hydrationA := a4,
                      ageA := a5\<rparr>) = diet_ok e" for e a1 a2 a3 a4 a5
      by (simp add: diet_ok_def)
    have dk: "diet_ok (ent ?a (count t))"
      using True by (simp add: addEntity_keeps [of diet_ok] diet_stable a diet_applyGenome)
    have vk: "vit_ok (ent ?a (count t))"
      using True assms(2,3)
      by (simp add: addEntity_keeps [of vit_ok] vit_stable) (simp add: vit_ok_def)
    have o: "j \<noteq> count t \<Longrightarrow> ent ?a j = ent t j" for j by (rule addEntity_other)
    have "diet_inv t \<Longrightarrow> diet_inv ?a"
      unfolding diet_inv_def using dk o by metis
    moreover have "\<forall>i. vit_ok (ent t i) \<Longrightarrow> \<forall>i. vit_ok (ent ?a i)"
      using vk o by metis
    ultimately show ?thesis
      unfolding tick_rel_def vitals_inv_def slots_grow_def using True
      by (simp add: addEntity_count)
  qed
qed

lemma seedOne_rel: "tick_rel s0 t \<Longrightarrow> tick_rel s0 (seedOne life t)"
proof -
  assume a: "tick_rel s0 t"
  have r: "0 \<le> fst (rng g)" "fst (rng g) \<le> 1" for g using rng_range [of g] by simp_all
  have e: "0 \<le> 62 / 100 + fst (rng g) * (28 / 100)" "62 / 100 + fst (rng g) * (28 / 100) \<le> 1"
    "0 \<le> 58 / 100 + fst (rng g) * (32 / 100)" "58 / 100 + fst (rng g) * (32 / 100) \<le> 1" for g
    using r [of g] by simp_all
  show ?thesis
    unfolding seedOne_def Let_def split_beta
    by (intro lift_if [of "tick_rel s0"] addEntity_rel tick_rel_wrap a e)
qed

lemma seedLoop_rel: "tick_rel s0 t \<Longrightarrow> tick_rel s0 (seedLoop life n t)"
  by (induction n arbitrary: t) (simp_all add: seedOne_rel)

lemma seedWorld_rel: "tick_rel s0 t \<Longrightarrow> tick_rel s0 (seedWorld pc ac t)"
  by (simp add: seedWorld_def seedLoop_rel)

lemma zero_rows: "diet_ok zeroEntity" "vit_ok zeroEntity"
  by (simp_all add: diet_ok_def vit_ok_def zeroEntity_def)

lemma init_invs:
  "diet_inv (init eb seed pc ac w h s)" "diet_inv (reseed eb seed pc ac w h s)"
  "list_all egg_ok (eggs s) \<Longrightarrow> 0 \<le> plantBiteAmount (behaviorTuning s)
   \<Longrightarrow> vitals_inv (init eb seed pc ac w h s)"
  "0 \<le> plantBiteAmount (behaviorTuning s) \<Longrightarrow> vitals_inv (reseed eb seed pc ac w h s)"
proof -
  have b: "diet_inv (resetPopulationDiagnostics t) = diet_inv t"
    "vitals_inv (resetPopulationDiagnostics t) = vitals_inv t" for t
    by (simp_all add: diet_inv_def vitals_inv_def resetPopulationDiagnostics_def)
  have sw: "diet_inv t \<Longrightarrow> diet_inv (seedWorld pc ac t)"
    "vitals_inv t \<Longrightarrow> vitals_inv (seedWorld pc ac t)" for t
    using seedWorld_rel [of t t pc ac, OF tick_rel_refl]
    by (simp_all add: tick_rel_def)
  have d: "diet_inv (buildEnv eb seed (alloc t))" for t
    by (simp add: diet_inv_def zero_rows)
  have v: "list_all egg_ok (eggs t) \<Longrightarrow> 0 \<le> plantBiteAmount (behaviorTuning t)
      \<Longrightarrow> vitals_inv (buildEnv eb seed (alloc t))" for t
    by (simp add: vitals_inv_def zero_rows buildEnv_def split_beta alloc_def)
  show "diet_inv (init eb seed pc ac w h s)" "diet_inv (reseed eb seed pc ac w h s)"
    by (simp_all add: init_def reseed_def Let_def b sw d)
  show "list_all egg_ok (eggs s) \<Longrightarrow> 0 \<le> plantBiteAmount (behaviorTuning s)
     \<Longrightarrow> vitals_inv (init eb seed pc ac w h s)"
    unfolding init_def Let_def b
    by (intro sw v) (simp_all add: setWorldSize_def)
  show "0 \<le> plantBiteAmount (behaviorTuning s) \<Longrightarrow> vitals_inv (reseed eb seed pc ac w h s)"
    unfolding reseed_def Let_def b
    by (intro sw v) (simp_all add: setWorldSize_def)
qed


lemma after_tick_iff: "after_tick Q s = (finished (stepOnce s) \<and> sat id Q (stepOnce s))"
  by (cases "stepOnce s") (simp_all add: after_tick_def)

lemma after_tick_rel: "after_tick (tick_rel s) s"
  by (simp add: after_tick_iff stepOnce_finished stepOnce_rel)

lemma after_tick_mono:
  assumes "after_tick Q s" "\<And>t. Q t \<Longrightarrow> Q' t"
  shows "after_tick Q' s"
  using assms by (cases "stepOnce s") (simp_all add: after_tick_def)

subsection \<open>C9: the slot counter\<close>

lemma full_refused:
  assumes "MAX_ENTITIES \<le> count s"
  shows "birth p1 p2 x y s = s" "hatchEgg egg s = s" "place x y g en s = (False, s)"
    "addEntity g en ag s = s"
  using assms by (simp_all add: birth_def hatchEgg_def place_def addEntity_def)


lemma removeAt_slot:
  "count (removeAt i s) = count s"
  "\<not> aliveA (ent (removeAt i s) i)"
  "aliveA (ent s i) \<Longrightarrow> occ s (idx s (xA (ent s i)) (yA (ent s i))) = Some i
   \<Longrightarrow> occ (removeAt i s) (idx s (xA (ent s i)) (yA (ent s i))) = Some (- 1)"
  by (simp_all add: removeAt_def Let_def ta_set_def)


lemma oneAnimal_row:
  "aliveA (ent oneAnimal 0)" "xA (ent oneAnimal 0) = 5" "yA (ent oneAnimal 0) = 5"
  "occ oneAnimal = ta_set (ta_new 14400 (- 1)) 605 0" "gridW oneAnimal = 120"
  by (simp_all add: oneAnimal_def place_def Let_def placeAt_def emptyWorld_simps idx_def
        ta_new_def ta_set_def MAX_ENTITIES_def)

lemma fullWorld_simps:
  "count fullWorld = 120000" "MAX_ENTITIES = 120000"
  "aliveA (ent fullWorld 0)" "xA (ent fullWorld 0) = 5" "yA (ent fullWorld 0) = 5"
  "occ fullWorld 605 = Some 0" "idx fullWorld 5 5 = 605"
  by (simp_all add: fullWorld_def MAX_ENTITIES_def oneAnimal_row idx_def ta_set_def ta_new_def)


text \<open>
  After the death of its only animal the full world has no live entity and a free tile,
  and \<open>place\<close> on that tile is refused all the same.
\<close>

lemma full_after_death:
  "count (removeAt 0 fullWorld) = 120000
   \<and> occ (removeAt 0 fullWorld) (idx (removeAt 0 fullWorld) 5 5) = Some (- 1)
   \<and> place 5 5 sampleGenome (8 / 10) (removeAt 0 fullWorld) = (False, removeAt 0 fullWorld)"
proof -
  have c: "count (removeAt 0 fullWorld) = 120000"
    by (simp add: removeAt_slot(1) fullWorld_simps)
  have "occ (removeAt 0 fullWorld) (idx fullWorld (xA (ent fullWorld 0)) (yA (ent fullWorld 0)))
      = Some (- 1)"
    by (rule removeAt_slot(3)) (simp_all add: fullWorld_simps)
  moreover have "idx (removeAt 0 fullWorld) 5 5 = 605"
    by (simp add: idx_def removeAt_def Let_def fullWorld_def oneAnimal_row)
  ultimately show ?thesis
    using c full_refused(3) [of "removeAt 0 fullWorld" 5 5 sampleGenome "8 / 10"]
    by (simp add: fullWorld_simps)
qed

subsection \<open>C3: plants and animals keep the diet rule\<close>

lemma diet_inv_addEntity: "diet_inv s \<Longrightarrow> diet_inv (addEntity g en ag s)"
proof (cases "count s < MAX_ENTITIES")
  case False
  then show "diet_inv s \<Longrightarrow> diet_inv (addEntity g en ag s)" by (simp add: addEntity_def)
next
  case True
  have a: "diet_ok (e\<lparr>aliveA := a1, adultA := a2, energyA := a3, hydrationA := a4,
                    ageA := a5\<rparr>) = diet_ok e" for e a1 a2 a3 a4 a5
    by (simp add: diet_ok_def)
  have dk: "diet_ok (ent (addEntity g en ag s) (count s))"
    using True by (simp add: addEntity_keeps [of diet_ok] diet_stable a diet_applyGenome)
  have o: "j \<noteq> count s \<Longrightarrow> ent (addEntity g en ag s) j = ent s j" for j
    by (rule addEntity_other)
  show "diet_inv s \<Longrightarrow> diet_inv (addEntity g en ag s)"
    unfolding diet_inv_def using dk o by metis
qed

lemma diet_drift:
  "d \<noteq> Photosynthesis
   \<Longrightarrow> fst (fst (maybeMutateAnimalDiet s p d mr cls sz vi ho rg)) \<noteq> Photosynthesis"
  by (cases d) (simp_all add: maybeMutateAnimalDiet_def Let_def split_beta)

lemma rel_diet: "tick_rel s t \<Longrightarrow> diet_inv s \<Longrightarrow> diet_inv t"
  by (simp add: tick_rel_def)

lemma rel_vitals: "tick_rel s t \<Longrightarrow> vitals_inv s \<Longrightarrow> vitals_inv t"
  by (simp add: tick_rel_def)

text \<open>
  Claim C3. \<open>diet_ok\<close> is the rule for one row: a plant has speed 0, vision 0 and the diet
  photosynthesis, and an animal has a diet other than photosynthesis; \<open>diet_inv\<close> is the
  rule for every row. The rule holds after \<open>init\<close> and \<open>reseed\<close> (world seeding), whatever
  the state before; the row that \<open>applyGenome\<close> writes for an arbitrary genome satisfies
  it; a diet drift never turns a diet other than photosynthesis into photosynthesis; and
  the rule is kept by seeding one entity (\<open>addEntity\<close>), by \<open>place\<close> with an arbitrary
  genome, by \<open>birth\<close>, by \<open>hatchEgg\<close> with an arbitrary egg, and by a whole tick, which
  ends.
\<close>

theorem diet_rule_kept:
  "diet_inv (init eb seed pc ac w h s0) \<and> diet_inv (reseed eb seed pc ac w h s0)
   \<and> diet_ok (ent (applyGenome i g s) i)
   \<and> (d \<noteq> Photosynthesis
        \<longrightarrow> fst (fst (maybeMutateAnimalDiet s p d mr cls sz vi ho rg)) \<noteq> Photosynthesis)
   \<and> (diet_inv s \<longrightarrow>
         diet_inv (addEntity g en ag s) \<and> diet_inv (snd (place x y g en s))
         \<and> diet_inv (birth p1 p2 x y s) \<and> diet_inv (hatchEgg egg s)
         \<and> after_tick diet_inv s)"
proof -
  have t: "after_tick diet_inv s" if "diet_inv s"
    by (rule after_tick_mono [OF after_tick_rel]) (use that in \<open>simp add: tick_rel_def\<close>)
  have h: "diet_inv (hatchEgg egg s)" if "diet_inv s"
    using that rows_hatchEgg [of diet_ok egg s, OF diet_stable diet_row(2)]
    by (simp add: diet_inv_def)
  show ?thesis
    using t h rel_diet [OF place_rel [of s s x y g en, OF tick_rel_refl]]
      rel_diet [OF birth_rel [of s s p1 p2 x y, OF tick_rel_refl]]
    by (simp add: init_invs diet_applyGenome diet_drift diet_inv_addEntity)
qed

lemma oneAnimal_invs: "diet_inv oneAnimal" "vitals_inv oneAnimal"
proof -
  have e: "diet_inv emptyWorld" "vitals_inv emptyWorld"
    unfolding emptyWorld_def
    by (simp_all add: init_invs moduleStart_def DEFAULT_BEHAVIOR_TUNING_def)
  show "diet_inv oneAnimal" "vitals_inv oneAnimal"
    unfolding oneAnimal_def
    using e rel_diet [OF place_rel [of emptyWorld emptyWorld 5 5 sampleGenome "8 / 10", OF tick_rel_refl]]
      rel_vitals [OF place_rel [of emptyWorld emptyWorld 5 5 sampleGenome "8 / 10", OF tick_rel_refl]]
    by simp_all
qed

theorem diet_rule_kept_witness:
  "Herbivore \<noteq> Photosynthesis \<and> diet_inv oneAnimal
   \<and> fst (fst (maybeMutateAnimalDiet oneAnimal 0 Herbivore 1 Mammal 1 1 1 0)) \<noteq> Photosynthesis
   \<and> diet_inv (birth 0 None 7 7 oneAnimal)
   \<and> diet_inv (hatchEgg sampleEgg oneAnimal)
   \<and> diet_inv (snd (place 7 7 sampleGenome (8 / 10) oneAnimal))
   \<and> after_tick diet_inv oneAnimal"
  using diet_rule_kept [of plainEnv 42 0 0 120 120 moduleStart 0 sampleGenome oneAnimal
      Herbivore 0 1 Mammal 1 1 1 0 "8 / 10" 0 7 7 0 None sampleEgg]
  by (simp add: oneAnimal_invs)

subsection \<open>C4: energy and hydration stay in range\<close>



end
